(* ===== verification/Prelude.thy ===== *)
theory Prelude
  imports Complex_Main "HOL-Library.Word"
begin

text \<open>
  Shared vocabulary of the development: the fixed-width integer types of the C++ sources,
  the selection functions of the C++ standard library (\<open>std::min\<close>, \<open>std::max\<close>,
  \<open>std::clamp\<close>) over any ordered type, conversions between numbers and integers, and the
  list and word lemmas that several components use. Lemmas that the component proofs
  rewrite with are collected in \<open>frame_simps\<close> (bytes of a frame), \<open>word_facts\<close>
  (words read as numbers) and \<open>handler_defs\<close> (definitions unfolded to step a handler).
\<close>

unbundle bit_operations_syntax

named_theorems frame_simps
named_theorems word_facts
named_theorems handler_defs

type_synonym u8 = "8 word"
type_synonym u16 = "16 word"
type_synonym u32 = "32 word"
type_synonym u64 = "64 word"
type_synonym bytes = "u8 list"

section \<open>Selection functions of the C++ standard library\<close>

text \<open>
  The definitions follow the standard's wording, which matters for arguments that are not
  ordered (a NaN): \<open>std::min(a, b)\<close> is \<open>b < a ? b : a\<close>, \<open>std::max(a, b)\<close> is
  \<open>a < b ? b : a\<close> and \<open>std::clamp(v, lo, hi)\<close> is
  \<open>v < lo ? lo : hi < v ? hi : v\<close>.
\<close>

definition std_min :: "'a::ord \<Rightarrow> 'a \<Rightarrow> 'a" where
  "std_min a b = (if b < a then b else a)"

definition std_max :: "'a::ord \<Rightarrow> 'a \<Rightarrow> 'a" where
  "std_max a b = (if a < b then b else a)"

definition std_clamp :: "'a::ord \<Rightarrow> 'a \<Rightarrow> 'a \<Rightarrow> 'a" where
  "std_clamp v lo hi = (if v < lo then lo else if hi < v then hi else v)"

lemma std_min_linorder [simp]: "std_min a b = min a (b :: 'a :: linorder)"
  by (auto simp: std_min_def min_def)

lemma std_max_linorder [simp]: "std_max a b = max a (b :: 'a :: linorder)"
  by (auto simp: std_max_def max_def)

section \<open>Numbers to integers\<close>

text \<open>Conversion of a finite number to an integer type discards the fraction.\<close>

definition trunc_rat :: "rat \<Rightarrow> int" where
  "trunc_rat x = (if 0 \<le> x then \<lfloor>x\<rfloor> else \<lceil>x\<rceil>)"

text \<open>\<open>std::lround\<close>: to the nearest integer, halfway cases away from zero.\<close>

definition lround_rat :: "rat \<Rightarrow> int" where
  "lround_rat x = (if 0 \<le> x then \<lfloor>x + 1 / 2\<rfloor> else \<lceil>x - 1 / 2\<rceil>)"

lemma trunc_rat_of_int [simp]: "trunc_rat (of_int n) = n"
  by (simp add: trunc_rat_def)

lemma trunc_rat_bounds:
  "of_int lo \<le> x \<Longrightarrow> x < of_int hi + 1 \<Longrightarrow> 0 \<le> lo \<Longrightarrow> lo \<le> trunc_rat x \<and> trunc_rat x \<le> hi"
  by (auto simp: trunc_rat_def floor_le_iff le_floor_iff)

lemma trunc_rat_mono: "x \<le> y \<Longrightarrow> trunc_rat x \<le> trunc_rat y"
proof -
  assume le: "x \<le> y"
  consider "0 \<le> x" | "x < 0" "0 \<le> y" | "y < 0" by linarith
  then show ?thesis
  proof cases
    case 1
    with le floor_mono [OF le] show ?thesis by (simp add: trunc_rat_def)
  next
    case 2
    then have "\<lceil>x\<rceil> \<le> 0" "0 \<le> \<lfloor>y\<rfloor>" by simp_all
    then have "\<lceil>x\<rceil> \<le> \<lfloor>y\<rfloor>" by linarith
    with 2 show ?thesis by (simp add: trunc_rat_def)
  next
    case 3
    with le ceiling_mono [OF le] show ?thesis by (simp add: trunc_rat_def)
  qed
qed

lemma trunc_rat_error: "0 \<le> x \<Longrightarrow> of_int (trunc_rat x) \<le> x \<and> x < of_int (trunc_rat x) + 1"
  using floor_correct [of x] by (simp add: trunc_rat_def)

lemma lround_rat_error: "\<bar>of_int (lround_rat x) - x\<bar> \<le> 1 / 2"
proof (cases "0 \<le> x")
  case True
  have "of_int \<lfloor>x + 1 / 2\<rfloor> \<le> x + 1 / 2" "x + 1 / 2 < of_int \<lfloor>x + 1 / 2\<rfloor> + 1"
    using floor_correct [of "x + 1 / 2"] by simp_all
  moreover have "lround_rat x = \<lfloor>x + 1 / 2\<rfloor>" using True by (simp add: lround_rat_def)
  ultimately show ?thesis by linarith
next
  case False
  have "of_int \<lceil>x - 1 / 2\<rceil> - 1 < x - 1 / 2" "x - 1 / 2 \<le> of_int \<lceil>x - 1 / 2\<rceil>"
    using ceiling_correct [of "x - 1 / 2"] by simp_all
  moreover have "lround_rat x = \<lceil>x - 1 / 2\<rceil>" using False by (simp add: lround_rat_def)
  ultimately show ?thesis by linarith
qed

lemma lround_rat_unique: "\<bar>of_int m - x\<bar> < 1 / 2 \<Longrightarrow> lround_rat x = m"
proof -
  assume a: "\<bar>of_int m - x\<bar> < 1 / 2"
  have "\<bar>of_int (lround_rat x) - of_int m\<bar> < (1 :: rat)"
    using lround_rat_error [of x] a by linarith
  then have "\<bar>lround_rat x - m\<bar> < 1"
    by (metis of_int_1_less_iff of_int_abs of_int_diff of_int_less_1_iff)
  then show ?thesis by simp
qed

lemma lround_rat_of_int [simp]: "lround_rat (of_int n) = n"
  by (rule lround_rat_unique) simp

lemma lround_rat_0 [simp]: "lround_rat 0 = 0"
  using lround_rat_of_int [of 0] by (simp del: lround_rat_of_int)

section \<open>Words\<close>

lemma mask_word_unat_le [word_facts]: "unat (w AND mask n :: 'a::len word) < 2 ^ n"
  by (simp add: take_bit_eq_mask [symmetric] unsigned_take_bit_eq)

lemma ucast_and_byte [simp]: "ucast (w AND 255) = (ucast w :: u8)" for w :: "'a::len word"
proof -
  have eq: "w AND 255 = take_bit 8 w" by (simp add: take_bit_eq_mask mask_numeral)
  show ?thesis unfolding eq by (rule bit_word_eqI) (auto simp: bit_simps)
qed

lemma xor_eq_0_conv: "a XOR b = 0 \<longleftrightarrow> a = b" for a b :: "'a::len word"
proof
  assume "a XOR b = 0"
  then have "(a XOR b) XOR b = 0 XOR b" by (rule arg_cong)
  then show "a = b" by (simp add: xor.assoc)
qed simp

lemma xor_eq_self_conv: "a XOR d = a \<longleftrightarrow> d = 0" for a d :: "'a::len word"
proof
  assume "a XOR d = a"
  then have "a XOR (a XOR d) = a XOR a" by (rule arg_cong)
  then show "d = 0" by (simp add: xor.assoc [symmetric])
qed simp

lemma sint_i16_range: "- 32768 \<le> sint (w :: 16 word) \<and> sint w \<le> 32767"
  using sint_range_size [of w] by (simp add: word_size)

lemma sint_i16_range_rat:
  "- 32768 \<le> (of_int (sint w) :: rat)" "of_int (sint w) \<le> (32767 :: rat)" for w :: "16 word"
proof -
  have "of_int (- 32768) \<le> (of_int (sint w) :: rat)" "of_int (sint w) \<le> (of_int 32767 :: rat)"
    using sint_i16_range [of w] by (simp_all only: of_int_le_iff)
  then show "- 32768 \<le> (of_int (sint w) :: rat)" "of_int (sint w) \<le> (32767 :: rat)"
    by simp_all
qed

lemma sint_i32_range: "- 2147483648 \<le> sint (w :: 32 word) \<and> sint w \<le> 2147483647"
  using sint_range_size [of w] by (simp add: word_size)

section \<open>Lists\<close>

lemma dropWhile_eq_Nil_or_hd: "dropWhile P xs = [] \<or> \<not> P (hd (dropWhile P xs))"
  using hd_dropWhile [of P xs] by blast

lemma dropWhile_append_nonempty:
  "dropWhile P xs \<noteq> [] \<Longrightarrow> dropWhile P (xs @ ys) = dropWhile P xs @ ys"
  by (induction xs) auto

lemma dropWhile_append_empty:
  "dropWhile P xs = [] \<Longrightarrow> dropWhile P (xs @ ys) = dropWhile P ys"
  by (induction xs) (auto split: if_splits)

lemma takeWhile_length_dropWhile: "length (takeWhile P xs) + length (dropWhile P xs) = length xs"
  by (metis length_append takeWhile_dropWhile_id)

lemma length_eq_8_conv:
  "length xs = 8 \<longleftrightarrow> (\<exists>a b c d e f g h. xs = [a, b, c, d, e, f, g, h])"
  by (auto simp: eval_nat_numeral length_Suc_conv)

end
