(* ===== verification/Binary_Float.thy ===== *)
theory Binary_Float
  imports Prelude "HOL-Library.Log_Nat"
begin

text \<open>
  IEEE 754 binary floating point, as much of it as the C++ sources use: \<open>double\<close>
  (binary64) and \<open>float\<close> (binary32) values with infinities and NaN, rounding to nearest
  with ties to even, the arithmetic operators, comparisons, and the conversions to and from
  integers. A finite value is carried as the rational number it denotes, and every
  arithmetic operator rounds its exact rational result. The sign of zero is not kept: no
  modelled expression divides by a computed zero or tests a sign bit. Every expression is
  evaluated operator by operator, without contraction to fused operations.

  The first part states what rounding guarantees (exactness on representable values,
  monotonicity, absolute and relative error); the component proofs use only these laws.
\<close>

section \<open>Rounding a rational to a binary format\<close>

text \<open>Nearest integer, ties to even.\<close>

definition rne :: "rat \<Rightarrow> int" where
  "rne x =
     (let f = \<lfloor>x\<rfloor>; d = x - of_int f
      in if d < 1 / 2 then f
         else if 1 / 2 < d then f + 1
         else if even f then f else f + 1)"

text \<open>The exponent of the binade of a positive number: \<open>2 powi flog2 x \<le> x < 2 powi (flog2 x + 1)\<close>.\<close>

definition flog2 :: "rat \<Rightarrow> int" where
  "flog2 x =
     (let (p, q) = quotient_of x; k = bitlen p - bitlen q
      in if 2 powi k \<le> x then k else k - 1)"

text \<open>
  The exponent of the last place kept for \<open>x\<close> in a format with \<open>p\<close> significant bits
  whose smallest positive value is \<open>2 powi emin\<close>.
\<close>

definition ulp_exp :: "nat \<Rightarrow> int \<Rightarrow> rat \<Rightarrow> int" where
  "ulp_exp p emin x = max emin (flog2 \<bar>x\<bar> - int p + 1)"

definition round_fmt :: "nat \<Rightarrow> int \<Rightarrow> rat \<Rightarrow> rat" where
  "round_fmt p emin x =
     (if x = 0 then 0
      else of_int (rne (x / 2 powi ulp_exp p emin x)) * 2 powi ulp_exp p emin x)"

subsection \<open>Laws of rounding\<close>

lemma rne_error: "\<bar>of_int (rne x) - x\<bar> \<le> 1 / 2"
proof -
  have "of_int \<lfloor>x\<rfloor> \<le> x" "x < of_int \<lfloor>x\<rfloor> + 1"
    using floor_correct [of x] by simp_all
  then show ?thesis
    unfolding rne_def Let_def abs_if by (simp split: if_split) linarith
qed

lemma rne_of_int [simp]: "rne (of_int n) = n"
  by (simp add: rne_def)

lemma rne_0 [simp]: "rne 0 = 0"
  using rne_of_int [of 0] by (simp del: rne_of_int)

lemma rne_unique: "\<bar>of_int m - x\<bar> < 1 / 2 \<Longrightarrow> rne x = m"
proof -
  assume a: "\<bar>of_int m - x\<bar> < 1 / 2"
  have "\<bar>of_int (rne x) - of_int m\<bar> < (1 :: rat)"
    using rne_error [of x] a by linarith
  then have "\<bar>rne x - m\<bar> < 1"
    by (metis of_int_1_less_iff of_int_abs of_int_diff of_int_less_1_iff)
  then show ?thesis by simp
qed

lemma rne_mono: "x \<le> y \<Longrightarrow> rne x \<le> rne y"
proof -
  assume le: "x \<le> y"
  have fl: "\<lfloor>x\<rfloor> \<le> \<lfloor>y\<rfloor>" using le by (rule floor_mono)
  have up: "rne x \<le> \<lfloor>x\<rfloor> + 1" and lo: "\<lfloor>y\<rfloor> \<le> rne y"
    by (auto simp: rne_def Let_def)
  show ?thesis
  proof (cases "\<lfloor>x\<rfloor> = \<lfloor>y\<rfloor>")
    case True
    with le show ?thesis by (auto simp: rne_def Let_def)
  next
    case False
    with fl up lo show ?thesis by linarith
  qed
qed

lemma rne_minus: "rne (- x) = - rne x"
proof (cases "of_int \<lfloor>x\<rfloor> = x")
  case True
  then have "rne x = \<lfloor>x\<rfloor>" and "rne (- x) = - \<lfloor>x\<rfloor>"
    by (metis rne_of_int, metis of_int_minus rne_of_int)
  then show ?thesis by simp
next
  case False
  then have "of_int \<lfloor>x\<rfloor> < x" using of_int_floor_le [of x] by linarith
  moreover have "x < of_int \<lfloor>x\<rfloor> + 1" by linarith
  ultimately have "\<lfloor>- x\<rfloor> = - \<lfloor>x\<rfloor> - 1"
    by (intro floor_unique) auto
  then show ?thesis
    by (auto simp: rne_def Let_def)
qed

lemma flog2_bounds:
  assumes "0 < x"
  shows "2 powi flog2 x \<le> x \<and> x < 2 powi (flog2 x + 1)"
proof -
  obtain p q where pq: "quotient_of x = (p, q)" by (cases "quotient_of x")
  have q: "0 < q" using quotient_of_denom_pos [OF pq] .
  have x: "x = of_int p / of_int q" using quotient_of_div [OF pq] .
  have p: "0 < p" using assms q by (simp add: x zero_less_divide_iff)
  define k where "k = bitlen p - bitlen q"
  have bp: "2 powi (bitlen p - 1) \<le> (of_int p :: rat) \<and> of_int p < (2 :: rat) powi bitlen p"
    and bq: "2 powi (bitlen q - 1) \<le> (of_int q :: rat) \<and> of_int q < (2 :: rat) powi bitlen q"
  proof -
    have g: "2 powi (bitlen n - 1) \<le> (of_int n :: rat) \<and> of_int n < (2 :: rat) powi bitlen n"
      if n: "0 < n" for n :: int
    proof -
      have b: "2 ^ nat (bitlen n - 1) \<le> n" "n < 2 ^ nat (bitlen n)"
        using bitlen_bounds [OF n] by auto
      have "1 \<le> bitlen n"
        using n bitlen_eq_zero_iff [of n] bitlen_nonneg [of n] by linarith
      then have "(2 :: rat) powi (bitlen n - 1) = of_int (2 ^ nat (bitlen n - 1))"
        "(2 :: rat) powi bitlen n = of_int (2 ^ nat (bitlen n))"
        by (simp_all add: power_int_def)
      with b show ?thesis by (simp only: of_int_le_iff of_int_less_iff)
    qed
    show "2 powi (bitlen p - 1) \<le> (of_int p :: rat) \<and> of_int p < (2 :: rat) powi bitlen p"
      using g [OF p] .
    show "2 powi (bitlen q - 1) \<le> (of_int q :: rat) \<and> of_int q < (2 :: rat) powi bitlen q"
      using g [OF q] .
  qed
  have q0: "(0 :: rat) < of_int q" using q by simp
  have s: "(2 :: rat) powi (i + j) = 2 powi i * 2 powi j" for i j
    by (simp add: power_int_add)
  have up: "x < 2 powi (k + 1)"
  proof -
    have "of_int p < (2 :: rat) powi bitlen p" using bp by simp
    also have "\<dots> = 2 powi (k + 1) * 2 powi (bitlen q - 1)"
      by (simp add: k_def flip: power_int_add)
    also have "\<dots> \<le> 2 powi (k + 1) * of_int q"
      using bq by (intro mult_left_mono) auto
    finally show ?thesis using q0 by (simp add: x divide_less_eq)
  qed
  have lo: "2 powi (k - 1) \<le> x"
  proof -
    have "2 powi (k - 1) * of_int q \<le> 2 powi (k - 1) * (2 :: rat) powi bitlen q"
      using bq by (intro mult_left_mono) auto
    also have "\<dots> = 2 powi (bitlen p - 1)"
      by (simp add: k_def flip: power_int_add)
    also have "\<dots> \<le> of_int p" using bp by simp
    finally show ?thesis using q0 by (simp add: x le_divide_eq)
  qed
  show ?thesis
    using up lo by (auto simp: flog2_def pq k_def [symmetric])
qed

lemma flog2_unique:
  assumes "2 powi k \<le> x" "x < 2 powi (k + 1)"
  shows "flog2 x = k"
proof -
  have x: "0 < x" using assms(1) zero_less_power_int [of "2 :: rat" k] by linarith
  note b = flog2_bounds [OF x]
  have mono: "m \<le> n" if "(2 :: rat) powi m < 2 powi (n + 1)" for m n
  proof (rule ccontr)
    assume "\<not> m \<le> n"
    then have "(2 :: rat) powi (n + 1) \<le> 2 powi m" by (intro power_int_increasing) auto
    with that show False by simp
  qed
  have "k \<le> flog2 x" using assms(1) b by (intro mono) linarith
  moreover have "flog2 x \<le> k" using assms(2) b by (intro mono) linarith
  ultimately show ?thesis by simp
qed

lemma flog2_mono: "0 < x \<Longrightarrow> x \<le> y \<Longrightarrow> flog2 x \<le> flog2 y"
proof (rule ccontr)
  assume a: "0 < x" "x \<le> y" "\<not> flog2 x \<le> flog2 y"
  then have "(2 :: rat) powi (flog2 y + 1) \<le> 2 powi flog2 x"
    by (intro power_int_increasing) auto
  moreover have "2 powi flog2 x \<le> x" "y < 2 powi (flog2 y + 1)"
    using flog2_bounds [of x] flog2_bounds [of y] a by auto
  ultimately show False using a by linarith
qed


lemma round_fmt_0 [simp]: "round_fmt p emin 0 = 0"
  by (simp add: round_fmt_def)

lemma round_fmt_minus: "round_fmt p emin (- x) = - round_fmt p emin x"
  by (simp add: round_fmt_def ulp_exp_def rne_minus)

lemma round_fmt_error:
  "\<bar>round_fmt p emin x - x\<bar> \<le> 2 powi (ulp_exp p emin x - 1)"
proof (cases "x = 0")
  case False
  let ?u = "2 powi ulp_exp p emin x :: rat"
  have "of_int (rne (x / ?u)) * ?u - x = (of_int (rne (x / ?u)) - x / ?u) * ?u"
    by (simp add: left_diff_distrib)
  then have "\<bar>of_int (rne (x / ?u)) * ?u - x\<bar> = \<bar>of_int (rne (x / ?u)) - x / ?u\<bar> * ?u"
    by (simp add: abs_mult)
  also have "\<dots> \<le> 1 / 2 * ?u"
    using rne_error by (intro mult_right_mono) auto
  also have "\<dots> = 2 powi (ulp_exp p emin x - 1)"
    by (simp add: power_int_diff)
  finally show ?thesis using False by (simp add: round_fmt_def)
qed simp

text \<open>Exactness: every value with a \<open>p\<close>-bit significand is kept.\<close>

lemma round_fmt_exact:
  assumes "\<bar>m\<bar> \<le> 2 ^ p" "emin \<le> e" "1 \<le> p"
  shows "round_fmt p emin (of_int m * 2 powi e) = of_int m * 2 powi e"
proof (cases "m = 0")
  case False
  let ?x = "of_int m * 2 powi e :: rat"
  let ?u = "ulp_exp p emin ?x"
  have x0: "0 < \<bar>?x\<bar>" using False by simp
  have ax: "\<bar>?x\<bar> = of_int \<bar>m\<bar> * 2 powi e" by (simp add: abs_mult)
  have "\<exists>n. ?x / 2 powi ?u = of_int n"
  proof (cases "?u \<le> e")
    case True
    have "?x / 2 powi ?u = of_int m * 2 powi (e - ?u)"
      by (simp add: power_int_diff)
    also have "\<dots> = of_int (m * 2 ^ nat (e - ?u))"
      using True by (simp add: power_int_def)
    finally show ?thesis ..
  next
    case False
    have eu: "?u = flog2 \<bar>?x\<bar> - int p + 1" and ue: "e + 1 \<le> ?u"
      using False assms(2) by (auto simp: ulp_exp_def)
    have "\<bar>?x\<bar> \<le> 2 ^ p * 2 powi e"
      unfolding ax using assms(1) [THEN of_int_le_iff [where 'a = rat, THEN iffD2]]
      by (intro mult_right_mono) auto
    also have "\<dots> = 2 powi (e + int p)" by (simp add: power_int_add)
    finally have le: "\<bar>?x\<bar> \<le> 2 powi (e + int p)" .
    have ge: "2 powi (e + int p) \<le> \<bar>?x\<bar>"
      using flog2_bounds [OF x0] eu ue power_int_increasing [of "e + int p" "flog2 \<bar>?x\<bar>" "2 :: rat"]
      by linarith
    have "(2 :: rat) powi (e + int p) < 2 powi (e + int p + 1)"
      by (intro power_int_strict_increasing) auto
    with le ge have "flog2 \<bar>?x\<bar> = e + int p"
      by (intro flog2_unique) auto
    with eu have u: "?u = e + 1" by simp
    have "\<bar>?x\<bar> = 2 powi (e + int p)" using le ge by (rule antisym)
    then have "of_int \<bar>m\<bar> * 2 powi e = (2 ^ p) * (2 powi e :: rat)"
      by (simp only: ax) (simp add: power_int_add)
    then have m: "\<bar>m\<bar> = 2 ^ p"
      by (metis mult_cancel_right of_int_eq_iff of_int_numeral of_int_power power_int_not_zero zero_neq_numeral)
    have "m = 2 * (sgn m * 2 ^ (p - 1))"
      using m assms(3) by (cases p) (auto simp: abs_if sgn_if split: if_splits)
    then have "(of_int m :: rat) = of_int (2 * (sgn m * 2 ^ (p - 1)))"
      by (rule arg_cong)
    then have "of_int m / 2 = (of_int (sgn m * 2 ^ (p - 1)) :: rat)" by simp
    moreover have "?x / 2 powi ?u = of_int m / 2"
      unfolding u by (simp add: power_int_add)
    ultimately show ?thesis by metis
  qed
  then obtain n where n: "?x / 2 powi ?u = of_int n" ..
  then have "?x = of_int n * 2 powi ?u" by (simp add: divide_eq_eq)
  with n False show ?thesis by (simp add: round_fmt_def)
qed simp


lemma round_fmt_nonneg: "0 \<le> x \<Longrightarrow> 0 \<le> round_fmt p emin x"
proof -
  assume "0 \<le> x"
  then have "rne (of_int 0) \<le> rne (x / 2 powi ulp_exp p emin x)"
    by (intro rne_mono) simp
  then show ?thesis by (simp add: round_fmt_def)
qed

lemma rne_power: "e \<le> k \<Longrightarrow> of_int (rne (2 powi k / 2 powi e)) * 2 powi e = (2 powi k :: rat)"
proof -
  assume le: "e \<le> k"
  have "(2 :: rat) powi k / 2 powi e = 2 powi (k - e)"
    by (simp add: power_int_diff)
  also have "\<dots> = of_int (2 ^ nat (k - e))"
    using le by (simp add: power_int_def)
  finally have eq: "(2 :: rat) powi k / 2 powi e = of_int (2 ^ nat (k - e))" .
  have "of_int (rne (2 powi k / 2 powi e)) = (2 :: rat) powi k / 2 powi e"
    by (simp only: eq rne_of_int)
  then show ?thesis by simp
qed

lemma round_fmt_mono_pos:
  assumes "0 < x" "x \<le> y" "1 \<le> p"
  shows "round_fmt p emin x \<le> round_fmt p emin y"
proof -
  let ?ex = "ulp_exp p emin x" and ?ey = "ulp_exp p emin y"
  have y0: "0 < y" using assms by simp
  have fl: "flog2 x \<le> flog2 y" using assms by (intro flog2_mono)
  show ?thesis
  proof (cases "?ex = ?ey")
    case True
    have "rne (x / 2 powi ?ey) \<le> rne (y / 2 powi ?ey)"
      using assms by (intro rne_mono divide_right_mono) auto
    with True assms y0 show ?thesis by (simp add: round_fmt_def)
  next
    case False
    let ?B = "2 powi flog2 y :: rat"
    have ey: "?ey = flog2 y - int p + 1" and lt: "flog2 x + 1 \<le> flog2 y" and le: "?ex \<le> flog2 y"
      using False fl assms(1,3) y0 by (auto simp: ulp_exp_def)
    have "x \<le> ?B"
      using flog2_bounds [OF assms(1)] power_int_increasing [OF lt, of "2 :: rat"] by simp
    then have "rne (x / 2 powi ?ex) \<le> rne (?B / 2 powi ?ex)"
      by (intro rne_mono divide_right_mono) auto
    then have "round_fmt p emin x \<le> of_int (rne (?B / 2 powi ?ex)) * 2 powi ?ex"
      using assms by (simp add: round_fmt_def)
    also have "\<dots> = ?B" using le by (rule rne_power)
    also have "\<dots> = of_int (rne (?B / 2 powi ?ey)) * 2 powi ?ey"
      using ey assms(3) by (intro rne_power [symmetric]) auto
    also have "\<dots> \<le> round_fmt p emin y"
    proof -
      have "rne (?B / 2 powi ?ey) \<le> rne (y / 2 powi ?ey)"
        using flog2_bounds [OF y0] by (intro rne_mono divide_right_mono) auto
      then show ?thesis using y0 by (simp add: round_fmt_def)
    qed
    finally show ?thesis .
  qed
qed

lemma round_fmt_mono:
  assumes "x \<le> y" "1 \<le> p"
  shows "round_fmt p emin x \<le> round_fmt p emin y"
proof -
  consider "0 < x" | "y < 0" | "x \<le> 0" "0 \<le> y" by linarith
  then show ?thesis
  proof cases
    case 2
    then have "round_fmt p emin (- y) \<le> round_fmt p emin (- x)"
      using assms by (intro round_fmt_mono_pos) auto
    then show ?thesis by (simp add: round_fmt_minus)
  next
    case 3
    have "0 \<le> round_fmt p emin (- x)" "0 \<le> round_fmt p emin y"
      using 3 by (auto intro: round_fmt_nonneg)
    then show ?thesis by (simp add: round_fmt_minus)
  qed (use assms round_fmt_mono_pos in auto)
qed

lemma ulp_exp_normal:
  assumes "2 powi (e + int p - 1) \<le> \<bar>x\<bar>" "\<bar>x\<bar> < 2 powi (e + int p)" "emin \<le> e"
  shows "ulp_exp p emin x = e"
  using flog2_unique [of "e + int p - 1" "\<bar>x\<bar>"] assms by (simp add: ulp_exp_def)

lemma round_fmt_eqI:
  assumes "2 powi (e + int p - 1) \<le> \<bar>x\<bar>" "\<bar>x\<bar> < 2 powi (e + int p)" "emin \<le> e"
    and "\<bar>of_int m - x / 2 powi e\<bar> < 1 / 2"
  shows "round_fmt p emin x = of_int m * 2 powi e"
proof -
  have "0 < \<bar>x\<bar>"
    using assms(1) zero_less_power_int [of "2 :: rat" "e + int p - 1"] by linarith
  then have "x \<noteq> 0" by simp
  then show ?thesis
    using ulp_exp_normal [OF assms(1-3)] rne_unique [OF assms(4)] by (simp add: round_fmt_def)
qed

lemma round_fmt_relative_error:
  assumes "2 powi (emin + int p - 1) \<le> \<bar>x\<bar>"
  shows "\<bar>round_fmt p emin x - x\<bar> \<le> \<bar>x\<bar> * 2 powi (- int p)"
proof -
  have x0: "0 < \<bar>x\<bar>"
    using assms zero_less_power_int [of "2 :: rat" "emin + int p - 1"] by linarith
  note fb = flog2_bounds [OF x0]
  have "emin + int p - 1 \<le> flog2 \<bar>x\<bar>"
  proof (rule ccontr)
    assume "\<not> ?thesis"
    then have "(2 :: rat) powi (flog2 \<bar>x\<bar> + 1) \<le> 2 powi (emin + int p - 1)"
      by (intro power_int_increasing) auto
    with fb assms show False by linarith
  qed
  then have u: "ulp_exp p emin x - 1 = flog2 \<bar>x\<bar> + - int p"
    by (auto simp: ulp_exp_def)
  have "\<bar>round_fmt p emin x - x\<bar> \<le> 2 powi (flog2 \<bar>x\<bar> + - int p)"
    using round_fmt_error [of p emin x] u by simp
  also have "\<dots> = 2 powi flog2 \<bar>x\<bar> * 2 powi (- int p)"
    by (rule power_int_add) simp
  also have "\<dots> \<le> \<bar>x\<bar> * 2 powi (- int p)"
    using fb by (intro mult_right_mono) auto
  finally show ?thesis .
qed


lemma round_fmt_total_error:
  "\<bar>round_fmt p emin x - x\<bar> \<le> \<bar>x\<bar> * 2 powi (- int p) + 2 powi (emin - 1)"
proof (cases "x = 0")
  case False
  then have fb: "2 powi flog2 \<bar>x\<bar> \<le> \<bar>x\<bar>" using flog2_bounds [of "\<bar>x\<bar>"] by simp
  have eq: "(2 :: rat) powi (flog2 \<bar>x\<bar> - int p) = 2 powi flog2 \<bar>x\<bar> * 2 powi (- int p)"
    by (simp add: power_int_diff power_int_minus divide_inverse)
  have "2 powi (ulp_exp p emin x - 1) \<le> 2 powi (flog2 \<bar>x\<bar> - int p) + (2 powi (emin - 1) :: rat)"
    by (auto simp: ulp_exp_def max_def)
  also have "\<dots> \<le> \<bar>x\<bar> * 2 powi (- int p) + 2 powi (emin - 1)"
    unfolding eq using fb by (intro add_right_mono mult_right_mono) auto
  finally show ?thesis using round_fmt_error [of p emin x] by linarith
qed simp

section \<open>Values and operators\<close>

datatype fp = Fin rat | PInf | NInf | NaN

definition overflow_to :: "rat \<Rightarrow> rat \<Rightarrow> fp" where
  "overflow_to fmax r = (if fmax < r then PInf else if r < - fmax then NInf else Fin r)"

definition d64_max :: rat where
  "d64_max = (2 ^ 53 - 1) * 2 ^ 971"

definition f32_max :: rat where
  "f32_max = (2 ^ 24 - 1) * 2 ^ 104"

text \<open>The \<open>double\<close> and the \<open>float\<close> nearest to a rational.\<close>

definition d64 :: "rat \<Rightarrow> fp" where
  "d64 x = overflow_to d64_max (round_fmt 53 (- 1074) x)"

definition f32 :: "rat \<Rightarrow> fp" where
  "f32 x = overflow_to f32_max (round_fmt 24 (- 149) x)"

definition d64_of_int :: "int \<Rightarrow> fp" where
  "d64_of_int n = d64 (of_int n)"

fun isfinite :: "fp \<Rightarrow> bool" where
  "isfinite (Fin x) = True"
| "isfinite _ = False"

text \<open>Equality \<open>==\<close>: NaN differs from everything, itself included.\<close>

definition fp_eq :: "fp \<Rightarrow> fp \<Rightarrow> bool" where
  "fp_eq a b \<longleftrightarrow> a \<noteq> NaN \<and> a = b"

fun fp_abs :: "fp \<Rightarrow> fp" where
  "fp_abs (Fin x) = Fin \<bar>x\<bar>"
| "fp_abs NInf = PInf"
| "fp_abs a = a"

instantiation fp :: ord
begin

fun less_fp :: "fp \<Rightarrow> fp \<Rightarrow> bool" where
  "less_fp (Fin x) (Fin y) = (x < y)"
| "less_fp NInf (Fin y) = True"
| "less_fp NInf PInf = True"
| "less_fp (Fin x) PInf = True"
| "less_fp _ _ = False"

definition less_eq_fp :: "fp \<Rightarrow> fp \<Rightarrow> bool" where
  "less_eq_fp a b \<longleftrightarrow> a < b \<or> fp_eq a b"

instance ..

end

instantiation fp :: "{plus, minus, times, uminus, inverse}"
begin

fun uminus_fp :: "fp \<Rightarrow> fp" where
  "uminus_fp (Fin x) = Fin (- x)"
| "uminus_fp PInf = NInf"
| "uminus_fp NInf = PInf"
| "uminus_fp NaN = NaN"

fun plus_fp :: "fp \<Rightarrow> fp \<Rightarrow> fp" where
  "plus_fp (Fin x) (Fin y) = d64 (x + y)"
| "plus_fp NaN _ = NaN"
| "plus_fp _ NaN = NaN"
| "plus_fp PInf NInf = NaN"
| "plus_fp NInf PInf = NaN"
| "plus_fp (Fin x) b = b"
| "plus_fp a _ = a"

definition minus_fp :: "fp \<Rightarrow> fp \<Rightarrow> fp" where
  "minus_fp a b = a + - b"

fun inf_of_sign :: "rat \<Rightarrow> fp" where
  "inf_of_sign x = (if x = 0 then NaN else if 0 < x then PInf else NInf)"

fun times_fp :: "fp \<Rightarrow> fp \<Rightarrow> fp" where
  "times_fp (Fin x) (Fin y) = d64 (x * y)"
| "times_fp NaN _ = NaN"
| "times_fp _ NaN = NaN"
| "times_fp PInf (Fin y) = inf_of_sign y"
| "times_fp (Fin x) PInf = inf_of_sign x"
| "times_fp NInf (Fin y) = inf_of_sign (- y)"
| "times_fp (Fin x) NInf = inf_of_sign (- x)"
| "times_fp PInf b = b"
| "times_fp NInf b = - b"

text \<open>Division; every divisor of the modelled code is a non-zero literal.\<close>

fun divide_fp :: "fp \<Rightarrow> fp \<Rightarrow> fp" where
  "divide_fp (Fin x) (Fin y) = (if y = 0 then inf_of_sign x else d64 (x / y))"
| "divide_fp NaN _ = NaN"
| "divide_fp _ NaN = NaN"
| "divide_fp PInf (Fin y) = (if y < 0 then NInf else PInf)"
| "divide_fp NInf (Fin y) = (if y < 0 then PInf else NInf)"
| "divide_fp (Fin x) _ = Fin 0"
| "divide_fp _ _ = NaN"

definition inverse_fp :: "fp \<Rightarrow> fp" where
  "inverse_fp a = Fin 1 div a"

instance ..

end

text \<open>
  Conversion to \<open>int\<close> truncates; outside the range of a 32-bit \<open>int\<close>, and for
  infinities and NaN, the C++ program has no defined behaviour, which is \<open>None\<close> here.
\<close>

definition fits_i32 :: "int \<Rightarrow> bool" where
  "fits_i32 n \<longleftrightarrow> - 2147483648 \<le> n \<and> n \<le> 2147483647"

fun fp_to_i32 :: "fp \<Rightarrow> int option" where
  "fp_to_i32 (Fin x) = (if fits_i32 (trunc_rat x) then Some (trunc_rat x) else None)"
| "fp_to_i32 _ = None"

text \<open>\<open>static_cast<float>\<close> of a \<open>double\<close>.\<close>

fun to_float :: "fp \<Rightarrow> fp" where
  "to_float (Fin x) = f32 x"
| "to_float a = a"

subsection \<open>Laws of the values\<close>

lemma d64_0 [simp]: "d64 0 = Fin 0"
  by (simp add: d64_def overflow_to_def d64_max_def)

lemma f32_0 [simp]: "f32 0 = Fin 0"
  by (simp add: f32_def overflow_to_def f32_max_def)

lemma d64_exact:
  assumes "\<bar>m\<bar> \<le> 2 ^ 53" "- 1074 \<le> e" "\<bar>of_int m * 2 powi e\<bar> \<le> d64_max"
  shows "d64 (of_int m * 2 powi e) = Fin (of_int m * 2 powi e)"
  using assms(3) round_fmt_exact [OF assms(1,2)] by (auto simp: d64_def overflow_to_def abs_le_iff)

lemma d64_max_ge: "\<bar>x\<bar> \<le> 2 ^ 200 \<Longrightarrow> \<bar>x\<bar> \<le> d64_max"
proof -
  assume "\<bar>x\<bar> \<le> 2 ^ 200"
  also have "(2 :: rat) ^ 200 \<le> (2 ^ 53 - 1) * 2 ^ 971"
    by (rule order_trans [of _ "1 * 2 ^ 971"]) (auto intro!: mult_right_mono power_increasing)
  finally show ?thesis by (simp only: d64_max_def)
qed

lemma d64_int: "\<bar>n\<bar> \<le> 2 ^ 53 \<Longrightarrow> d64 (of_int n) = Fin (of_int n)"
proof -
  assume n: "\<bar>n\<bar> \<le> 2 ^ 53"
  then have "of_int \<bar>n\<bar> \<le> (of_int (2 ^ 53) :: rat)" by (simp only: of_int_le_iff)
  also have "(of_int (2 ^ 53) :: rat) \<le> 2 ^ 200" by simp
  finally have "\<bar>of_int n :: rat\<bar> \<le> d64_max" by (intro d64_max_ge) simp
  then show ?thesis using d64_exact [OF n, of 0] by simp
qed

lemma d64_numeral: "numeral k \<le> (2 ^ 53 :: int) \<Longrightarrow> d64 (numeral k) = Fin (numeral k)"
  using d64_int [of "numeral k"] by simp

lemma d64_of_int_eq: "\<bar>n\<bar> \<le> 2 ^ 53 \<Longrightarrow> d64_of_int n = Fin (of_int n)"
  by (simp add: d64_of_int_def d64_int)

text \<open>Between two representable bounds rounding stays between them.\<close>

lemma d64_between:
  assumes "d64 lo = Fin lo" "d64 hi = Fin hi" "lo \<le> x" "x \<le> hi"
  obtains r where "d64 x = Fin r" "lo \<le> r" "r \<le> hi"
proof -
  have fin: "round_fmt 53 (- 1074) z = z \<and> - d64_max \<le> z \<and> z \<le> d64_max" if "d64 z = Fin z" for z
    using that by (auto simp: d64_def overflow_to_def split: if_splits)
  have "round_fmt 53 (- 1074) lo \<le> round_fmt 53 (- 1074) x"
    and "round_fmt 53 (- 1074) x \<le> round_fmt 53 (- 1074) hi"
    using assms by (auto intro: round_fmt_mono)
  with fin [OF assms(1)] fin [OF assms(2)] show ?thesis
    by (intro that [of "round_fmt 53 (- 1074) x"]) (auto simp: d64_def overflow_to_def)
qed

lemma d64_abs_error:
  assumes "\<bar>x\<bar> \<le> 2 ^ 100"
  obtains r where "d64 x = Fin r" "\<bar>r - x\<bar> \<le> \<bar>x\<bar> / 2 ^ 53 + 1 / 2 ^ 100"
proof -
  let ?r = "round_fmt 53 (- 1074) x"
  have p: "(2 :: rat) powi (- 53) = 1 / 2 ^ 53" and q: "(2 :: rat) powi (- 100) = 1 / 2 ^ 100"
    by (simp_all only: power_int_minus power_int_numeral divide_inverse mult_1)
  have "(2 :: rat) powi (- 1074 - 1) \<le> 2 powi (- 100)"
    by (rule power_int_increasing) auto
  then have e: "\<bar>?r - x\<bar> \<le> \<bar>x\<bar> / 2 ^ 53 + 1 / 2 ^ 100"
    using round_fmt_total_error [of 53 "- 1074" x] p q
    by (simp only: of_nat_numeral times_divide_eq_right mult_1_right)
  have "\<bar>x\<bar> / 2 ^ 53 \<le> \<bar>x\<bar>" by (simp add: divide_le_eq)
  then have "\<bar>?r\<bar> \<le> \<bar>x\<bar> + \<bar>x\<bar> + 1 / 2 ^ 100"
    using e by linarith
  also have "\<dots> \<le> 2 ^ 100 + 2 ^ 100 + 1 / 2 ^ 100"
    using assms by linarith
  also have "\<dots> \<le> 2 ^ 200" by simp
  finally have "\<bar>?r\<bar> \<le> d64_max" by (rule d64_max_ge)
  then show ?thesis
    using e by (intro that [of ?r]) (auto simp: d64_def overflow_to_def abs_le_iff)
qed

text \<open>Evaluation: the significand is the nearest integer to the scaled argument.\<close>

lemma d64_dyadic:
  assumes "\<bar>m\<bar> \<le> 2 ^ 53" "k \<le> 1074"
  shows "d64 (of_int m / 2 ^ k) = Fin (of_int m / 2 ^ k)"
proof -
  have eq: "of_int m / 2 ^ k = (of_int m * 2 powi (- int k) :: rat)"
    by (simp add: power_int_minus divide_inverse)
  have "\<bar>of_int m / 2 ^ k :: rat\<bar> \<le> \<bar>of_int m\<bar>"
    using mult_left_mono [of "1 :: rat" "2 ^ k" "\<bar>of_int m\<bar>"] by (simp add: divide_le_eq)
  also have "\<dots> = of_int \<bar>m\<bar>" by simp
  also have "\<dots> \<le> of_int (2 ^ 53)" using assms(1) by (simp only: of_int_le_iff)
  also have "\<dots> \<le> 2 ^ 200" by simp
  finally have "\<bar>of_int m * 2 powi (- int k) :: rat\<bar> \<le> d64_max"
    unfolding eq by (rule d64_max_ge)
  then show ?thesis unfolding eq using assms by (intro d64_exact) auto
qed

lemma d64_eval:
  assumes "2 ^ 52 \<le> \<bar>x\<bar> * 2 ^ k" "\<bar>x\<bar> * 2 ^ k < 2 ^ 53" "k \<le> 1074"
    and "\<bar>of_int m - x * 2 ^ k\<bar> < 1 / 2"
  shows "d64 x = Fin (of_int m / 2 ^ k)"
proof -
  have s: "(2 :: rat) powi (- int k) = 1 / 2 ^ k"
    by (simp add: power_int_minus divide_inverse)
  have p: "(2 :: rat) powi (- int k + int 53 - 1) = 2 ^ 52 / 2 ^ k"
    "(2 :: rat) powi (- int k + int 53) = 2 ^ 53 / 2 ^ k"
    by (simp_all add: s power_int_add power_int_diff)
  have r: "round_fmt 53 (- 1074) x = of_int m * 2 powi (- int k)"
  proof (rule round_fmt_eqI)
    show "2 powi (- int k + int 53 - 1) \<le> \<bar>x\<bar>"
      using assms(1) unfolding p by (simp add: divide_le_eq)
    show "\<bar>x\<bar> < 2 powi (- int k + int 53)"
      using assms(2) unfolding p by (simp add: less_divide_eq)
    show "- 1074 \<le> - int k" using assms(3) by simp
    show "\<bar>of_int m - x / 2 powi (- int k)\<bar> < 1 / 2"
      using assms(4) unfolding s by simp
  qed
  have "\<bar>of_int m :: rat\<bar> \<le> \<bar>x\<bar> * 2 ^ k + 1 / 2"
  proof -
    have "\<bar>x\<bar> * 2 ^ k = \<bar>x * 2 ^ k\<bar>" by (simp add: abs_mult)
    with assms(4) show ?thesis by linarith
  qed
  then have "(of_int \<bar>m\<bar> :: rat) < of_int (2 ^ 53 + 1)" using assms(2) by simp
  then have "\<bar>m\<bar> < 2 ^ 53 + 1" by (simp only: of_int_less_iff)
  then have "\<bar>m\<bar> \<le> 2 ^ 53" by simp
  then have "d64 (of_int m / 2 ^ k) = Fin (of_int m / 2 ^ k)"
    using assms(3) by (rule d64_dyadic)
  moreover have "d64 x = overflow_to d64_max (of_int m / 2 ^ k)"
    by (simp add: d64_def r s)
  moreover have "d64 (of_int m / 2 ^ k) = overflow_to d64_max (of_int m / 2 ^ k)"
    using calculation(1) by (auto simp: d64_def overflow_to_def split: if_splits)
  ultimately show ?thesis by simp
qed

text \<open>Rounding is monotone, overflow included.\<close>

lemma overflow_to_mono: "0 < fmax \<Longrightarrow> x \<le> y \<Longrightarrow> overflow_to fmax x \<le> overflow_to fmax y"
  by (auto simp: overflow_to_def less_eq_fp_def fp_eq_def)

lemma d64_max_pos: "0 < d64_max"
  by (simp add: d64_max_def)

lemma d64_mono: "x \<le> y \<Longrightarrow> d64 x \<le> d64 y"
  by (simp add: d64_def overflow_to_mono d64_max_pos round_fmt_mono)

lemma d64_not_NaN [simp]: "d64 x \<noteq> NaN"
  by (simp add: d64_def overflow_to_def)

lemma fp_to_i32_Fin: "fits_i32 (trunc_rat x) \<Longrightarrow> fp_to_i32 (Fin x) = Some (trunc_rat x)"
  by simp

lemma isfinite_conv: "isfinite a \<longleftrightarrow> (\<exists>x. a = Fin x)"
  by (cases a) auto

lemma fp_eq_Fin [simp]: "fp_eq (Fin x) (Fin y) \<longleftrightarrow> x = y"
  by (simp add: fp_eq_def)

lemma less_eq_fp_Fin [simp]: "Fin x \<le> Fin y \<longleftrightarrow> x \<le> y"
  by (auto simp: less_eq_fp_def)

lemma less_eq_fp_refl_Fin: "Fin x \<le> a \<longleftrightarrow> a = PInf \<or> (\<exists>y. a = Fin y \<and> x \<le> y)"
  by (cases a) (auto simp: less_eq_fp_def fp_eq_def)

lemma less_eq_fp_below_Fin: "a \<le> Fin x \<longleftrightarrow> a = NInf \<or> (\<exists>y. a = Fin y \<and> y \<le> x)"
  by (cases a) (auto simp: less_eq_fp_def fp_eq_def)

lemma fp_less_le_trans: "(a :: fp) < b \<Longrightarrow> b \<le> c \<Longrightarrow> a < c"
  by (cases a; cases b; cases c; auto simp: less_eq_fp_def fp_eq_def)

lemma fp_le_less_trans: "(a :: fp) \<le> b \<Longrightarrow> b < c \<Longrightarrow> a < c"
  by (cases a; cases b; cases c; auto simp: less_eq_fp_def fp_eq_def)

lemma fp_less_NaN [simp]: "\<not> NaN < a" "\<not> a < NaN"
  by (cases a; simp)+

lemma fp_less_irrefl [simp]: "\<not> (a :: fp) < a"
  by (cases a) simp_all

lemma std_clamp_Fin:
  "lo \<le> hi \<Longrightarrow> std_clamp (Fin x) (Fin lo) (Fin hi) = Fin (max lo (min hi x))"
  by (auto simp: std_clamp_def max_def min_def)

end
