(* ===== verification/Rc_Serial_Protocol.thy ===== *)
theory Rc_Serial_Protocol
  imports Binary_Float
begin

text \<open>
  The wire protocol of the RC chassis (\<open>rc_serial_protocol.hpp/.cpp\<close>): the command frame
  of 11 bytes, the telemetry frame of 24 bytes, and the decoder that recovers telemetry
  frames from the byte stream of the serial port and resynchronises after errors.
\<close>

section \<open>Constants\<close>

definition kRcFrameHead :: u8 where [code_unfold]: "kRcFrameHead = 0x7B"
definition kRcFrameTail :: u8 where [code_unfold]: "kRcFrameTail = 0x7D"
definition kRcAckermannCommandId :: u8 where "kRcAckermannCommandId = 0x01"
definition kRcCommandFlagEnable :: u8 where "kRcCommandFlagEnable = 0x01"
definition kRcCommandFlagClearFault :: u8 where "kRcCommandFlagClearFault = 0x04"
definition kRcCommandFlagSoftwareStop :: u8 where "kRcCommandFlagSoftwareStop = 0x80"
definition kRcTelemetryProtocolId :: u8 where "kRcTelemetryProtocolId = 0xA1"
definition kRcCommandFrameSize :: nat where "kRcCommandFrameSize = 11"
definition kRcFeedbackFrameSize :: nat where "kRcFeedbackFrameSize = 24"

definition kRcStatusFaultLatched :: u32 where "kRcStatusFaultLatched = 0x1"
definition kRcStatusCommandTimeout :: u32 where "kRcStatusCommandTimeout = 0x2"
definition kRcStatusRcOverrideActive :: u32 where "kRcStatusRcOverrideActive = 0x4"
definition kRcStatusStopOverrideActive :: u32 where "kRcStatusStopOverrideActive = 0x8"
definition kRcStatusAutoEnabled :: u32 where "kRcStatusAutoEnabled = 0x20"
definition kRcStatusHallFeedbackValid :: u32 where "kRcStatusHallFeedbackValid = 0x40"
definition kRcStatusHallFault :: u32 where "kRcStatusHallFault = 0x80"
definition kRcStatusSteeringEstimateValid :: u32 where "kRcStatusSteeringEstimateValid = 0x100"
definition kRcStatusSteeringIsMeasured :: u32 where "kRcStatusSteeringIsMeasured = 0x200"
definition kRcStatusRcInputFault :: u32 where "kRcStatusRcInputFault = 0x400"
definition kRcStatusHallStandstillConfirmed :: u32 where "kRcStatusHallStandstillConfirmed = 0x1000"
definition kRcStatusFrameErrorSeen :: u32 where "kRcStatusFrameErrorSeen = 0x40000"

lemmas frame_consts [frame_simps] =
  kRcFrameHead_def kRcFrameTail_def kRcAckermannCommandId_def kRcCommandFlagEnable_def
  kRcCommandFlagClearFault_def kRcCommandFlagSoftwareStop_def kRcTelemetryProtocolId_def
  kRcCommandFrameSize_def kRcFeedbackFrameSize_def

lemmas status_consts =
  kRcStatusFaultLatched_def kRcStatusCommandTimeout_def kRcStatusRcOverrideActive_def
  kRcStatusStopOverrideActive_def kRcStatusAutoEnabled_def kRcStatusHallFeedbackValid_def
  kRcStatusHallFault_def kRcStatusSteeringEstimateValid_def kRcStatusSteeringIsMeasured_def
  kRcStatusRcInputFault_def kRcStatusHallStandstillConfirmed_def kRcStatusFrameErrorSeen_def

section \<open>Data\<close>

record ChassisCommand =
  cmd_speed_mps :: fp
  cmd_steering_tire_angle_rad :: fp
  cmd_enable :: bool
  cmd_software_stop :: bool
  cmd_clear_fault :: bool

definition ChassisCommand_init :: ChassisCommand where
  "ChassisCommand_init =
     \<lparr>cmd_speed_mps = Fin 0, cmd_steering_tire_angle_rad = Fin 0, cmd_enable = True,
      cmd_software_stop = False, cmd_clear_fault = False\<rparr>"

record ChassisFeedback =
  status_flags :: u8
  sequence_nr :: u8
  hall_delta_count_command_signed :: int
  hall_speed_command_signed_mps :: fp
  steering_angle_estimate_rad :: fp
  yaw_rate_estimate_rad_s :: fp
  battery_mv :: u16
  dt_ms :: u16
  status_bits :: u32
  protocol_id :: u8

definition ChassisFeedback_init :: ChassisFeedback where
  "ChassisFeedback_init =
     \<lparr>status_flags = 0, sequence_nr = 0, hall_delta_count_command_signed = 0,
      hall_speed_command_signed_mps = Fin 0, steering_angle_estimate_rad = Fin 0,
      yaw_rate_estimate_rad_s = Fin 0, battery_mv = 0, dt_ms = 0, status_bits = 0,
      protocol_id = 0\<rparr>"

record FeedbackDecoderStats =
  valid_frames :: u64
  bcc_errors :: u64
  tail_errors :: u64
  protocol_errors :: u64
  discarded_bytes :: u64

definition FeedbackDecoderStats_init :: FeedbackDecoderStats where
  "FeedbackDecoderStats_init =
     \<lparr>valid_frames = 0, bcc_errors = 0, tail_errors = 0, protocol_errors = 0,
      discarded_bytes = 0\<rparr>"

text \<open>The exceptions thrown by the encoder, with their messages.\<close>

datatype serial_error = invalid_argument string | out_of_range string

section \<open>Quantisation and byte order\<close>

text \<open>
  \<open>std::lround\<close> of a \<open>double\<close>; its result on infinities and NaN is unspecified and
  the range check in front of the only call excludes them (\<open>quantize_milli_cases\<close>).
\<close>

fun fp_lround :: "fp \<Rightarrow> int" where
  "fp_lround (Fin x) = lround_rat x"
| "fp_lround _ = 0"

definition quantize_milli :: "fp \<Rightarrow> string \<Rightarrow> serial_error + 16 word" where
  "quantize_milli value field_name =
     (if \<not> isfinite value then Inl (invalid_argument (field_name @ '' must be finite''))
      else
        let scaled = value * Fin 1000;
            kMinimum = Fin (- 32768);
            kMaximum = Fin 32767;
            kFloatingPointTolerance = d64 (1 / 10 ^ 9)
        in if scaled < kMinimum - kFloatingPointTolerance \<or>
              kMaximum + kFloatingPointTolerance < scaled
           then Inl (out_of_range (field_name @ '' exceeds the signed 16-bit wire range''))
           else Inr (word_of_int (fp_lround scaled)))"

definition encode_i16_be :: "16 word \<Rightarrow> u8 \<times> u8" where
  "encode_i16_be raw = (ucast (drop_bit 8 raw AND 0xFF), ucast (raw AND 0xFF))"

definition decode_i16_be :: "u8 \<Rightarrow> u8 \<Rightarrow> 16 word" where
  "decode_i16_be high_byte low_byte =
     (let raw = push_bit 8 (ucast high_byte) OR ucast low_byte :: u16;
          signed_value = (if 0x8000 \<le> raw then uint raw - 0x10000 else uint raw)
      in word_of_int signed_value)"

definition decode_u32_be :: "bytes \<Rightarrow> nat \<Rightarrow> u32" where
  "decode_u32_be frame i =
     push_bit 24 (ucast (frame ! i)) OR push_bit 16 (ucast (frame ! (i + 1))) OR
     push_bit 8 (ucast (frame ! (i + 2))) OR ucast (frame ! (i + 3))"

definition decode_i32_be :: "bytes \<Rightarrow> nat \<Rightarrow> int" where
  "decode_i32_be frame i =
     (let raw = push_bit 24 (ucast (frame ! i)) OR push_bit 16 (ucast (frame ! (i + 1))) OR
                push_bit 8 (ucast (frame ! (i + 2))) OR ucast (frame ! (i + 3)) :: u32
      in if 0x80000000 \<le> raw then uint raw - 0x100000000 else uint raw)"

definition decode_u16_be :: "bytes \<Rightarrow> nat \<Rightarrow> u16" where
  "decode_u16_be frame i = push_bit 8 (ucast (frame ! i)) OR ucast (frame ! (i + 1))"

text \<open>The loop \<open>for (index = 0; index < size; ++index) bcc ^= data[index]\<close>.\<close>

definition calculate_bcc :: "bytes \<Rightarrow> nat \<Rightarrow> u8" where
  "calculate_bcc data len = foldl (\<lambda>bcc index. bcc XOR data ! index) 0 [0..<len]"

section \<open>Frames\<close>

definition encode_command_frame :: "ChassisCommand \<Rightarrow> serial_error + bytes" where
  "encode_command_frame command =
     (if cmd_clear_fault command \<and>
         (cmd_enable command \<or> cmd_software_stop command \<or>
          \<not> fp_eq (cmd_speed_mps command) (Fin 0) \<or>
          \<not> fp_eq (cmd_steering_tire_angle_rad command) (Fin 0))
      then Inl (invalid_argument ''clear-fault must be a disabled standalone zero command'')
      else
        let (speed_mps, steering_tire_angle_rad) =
              (if \<not> cmd_enable command \<or> cmd_software_stop command then (Fin 0, Fin 0)
               else (cmd_speed_mps command, cmd_steering_tire_angle_rad command))
        in case quantize_milli speed_mps ''speed'' of
             Inl e \<Rightarrow> Inl e
           | Inr speed_raw \<Rightarrow>
               (case quantize_milli steering_tire_angle_rad ''steering'' of
                  Inl e \<Rightarrow> Inl e
                | Inr steering_raw \<Rightarrow>
                    let frame = (replicate kRcCommandFrameSize 0)
                                  [0 := kRcFrameHead, 1 := kRcAckermannCommandId];
                        frame = (if cmd_enable command
                                 then frame[2 := frame ! 2 OR kRcCommandFlagEnable] else frame);
                        frame = (if cmd_software_stop command
                                 then frame[2 := frame ! 2 OR kRcCommandFlagSoftwareStop] else frame);
                        frame = (if cmd_clear_fault command
                                 then frame[2 := frame ! 2 OR kRcCommandFlagClearFault] else frame);
                        (speed_hi, speed_lo) = encode_i16_be speed_raw;
                        frame = frame[3 := speed_hi, 4 := speed_lo];
                        (steering_hi, steering_lo) = encode_i16_be steering_raw;
                        frame = frame[5 := steering_hi, 6 := steering_lo];
                        frame = frame[7 := 0, 8 := 0];
                        frame = frame[9 := calculate_bcc frame 9];
                        frame = frame[10 := kRcFrameTail]
                    in Inr frame))"

text \<open>A wire value in thousandths: \<open>static_cast<double>(raw) / 1000.0\<close>.\<close>

definition milli_to_double :: "16 word \<Rightarrow> fp" where
  "milli_to_double raw = d64_of_int (sint raw) div Fin 1000"

definition decode_feedback_frame :: "bytes \<Rightarrow> ChassisFeedback option" where
  "decode_feedback_frame frame =
     (if frame ! 0 \<noteq> kRcFrameHead \<or> frame ! (kRcFeedbackFrameSize - 1) \<noteq> kRcFrameTail \<or>
         frame ! 22 \<noteq> calculate_bcc frame 22 \<or> frame ! 21 \<noteq> kRcTelemetryProtocolId
      then None
      else Some
        \<lparr>status_flags = frame ! 1,
         sequence_nr = frame ! 2,
         hall_delta_count_command_signed = decode_i32_be frame 3,
         hall_speed_command_signed_mps = milli_to_double (decode_i16_be (frame ! 7) (frame ! 8)),
         steering_angle_estimate_rad = milli_to_double (decode_i16_be (frame ! 9) (frame ! 10)),
         yaw_rate_estimate_rad_s = milli_to_double (decode_i16_be (frame ! 11) (frame ! 12)),
         battery_mv = decode_u16_be frame 13,
         dt_ms = decode_u16_be frame 15,
         status_bits = decode_u32_be frame 17,
         protocol_id = frame ! 21\<rparr>)"

section \<open>The stream decoder\<close>

record FeedbackStreamDecoder =
  decoder_buffer :: bytes
  decoder_stats :: FeedbackDecoderStats

definition FeedbackStreamDecoder_init :: FeedbackStreamDecoder where
  "FeedbackStreamDecoder_init = \<lparr>decoder_buffer = [], decoder_stats = FeedbackDecoderStats_init\<rparr>"

text \<open>
  The loop of \<open>append\<close>: bytes before a frame head are discarded, an incomplete frame is
  kept for the next call, a bad tail or checksum discards one byte and searches again, a
  frame of another protocol is discarded whole.
\<close>

function decode_loop ::
  "bytes \<Rightarrow> FeedbackDecoderStats \<Rightarrow> ChassisFeedback list \<Rightarrow>
   bytes \<times> FeedbackDecoderStats \<times> ChassisFeedback list" where
  "decode_loop buf st decoded =
     (let discarded = length (takeWhile (\<lambda>b. b \<noteq> kRcFrameHead) buf);
          rest = drop discarded buf
      in if rest = []
         then ([], st\<lparr>discarded_bytes := discarded_bytes st + of_nat (length buf)\<rparr>, decoded)
         else
           let st = (if discarded \<noteq> 0
                     then st\<lparr>discarded_bytes := discarded_bytes st + of_nat discarded\<rparr> else st)
           in if length rest < kRcFeedbackFrameSize then (rest, st, decoded)
              else if rest ! (kRcFeedbackFrameSize - 1) \<noteq> kRcFrameTail
              then decode_loop (drop 1 rest)
                     (st\<lparr>tail_errors := tail_errors st + 1,
                         discarded_bytes := discarded_bytes st + 1\<rparr>) decoded
              else if rest ! 22 \<noteq> calculate_bcc rest 22
              then decode_loop (drop 1 rest)
                     (st\<lparr>bcc_errors := bcc_errors st + 1,
                         discarded_bytes := discarded_bytes st + 1\<rparr>) decoded
              else if rest ! 21 \<noteq> kRcTelemetryProtocolId
              then decode_loop (drop kRcFeedbackFrameSize rest)
                     (st\<lparr>protocol_errors := protocol_errors st + 1,
                         discarded_bytes := discarded_bytes st + of_nat kRcFeedbackFrameSize\<rparr>)
                     decoded
              else case decode_feedback_frame (take kRcFeedbackFrameSize rest) of
                     Some feedback \<Rightarrow>
                       decode_loop (drop kRcFeedbackFrameSize rest)
                         (st\<lparr>valid_frames := valid_frames st + 1\<rparr>) (decoded @ [feedback])
                   | None \<Rightarrow> decode_loop (drop kRcFeedbackFrameSize rest) st decoded)"
  by pat_completeness auto
termination
  by (relation "measure (\<lambda>(buf, st, decoded). length buf)")
    (auto simp: kRcFeedbackFrameSize_def)

declare decode_loop.simps [simp del]

definition decoder_append ::
  "FeedbackStreamDecoder \<Rightarrow> bytes \<Rightarrow> FeedbackStreamDecoder \<times> ChassisFeedback list" where
  "decoder_append d data =
     (let (buf, st, decoded) = decode_loop (decoder_buffer d @ data) (decoder_stats d) []
      in (\<lparr>decoder_buffer = buf, decoder_stats = st\<rparr>, decoded))"

definition discard_buffer :: "FeedbackStreamDecoder \<Rightarrow> FeedbackStreamDecoder" where
  "discard_buffer d =
     d\<lparr>decoder_stats := (decoder_stats d)\<lparr>discarded_bytes :=
                    discarded_bytes (decoder_stats d) + of_nat (length (decoder_buffer d))\<rparr>,
       decoder_buffer := []\<rparr>"

section \<open>Quantisation: range, accuracy and round trip\<close>

lemma milli_limits:
  obtains lo hi where
    "Fin (- 32768) - d64 (1 / 10 ^ 9) = Fin lo" "Fin 32767 + d64 (1 / 10 ^ 9) = Fin hi"
    "\<bar>lo + 32768 + 1 / 10 ^ 9\<bar> \<le> 1 / 10 ^ 10" "\<bar>hi - 32767 - 1 / 10 ^ 9\<bar> \<le> 1 / 10 ^ 10"
proof -
  obtain t where t: "d64 (1 / 10 ^ 9) = Fin t" "\<bar>t - 1 / 10 ^ 9\<bar> \<le> \<bar>1 / 10 ^ 9\<bar> / 2 ^ 53 + 1 / 2 ^ 100"
    by (rule d64_abs_error [of "1 / 10 ^ 9"]) simp
  have t': "\<bar>t - 1 / 10 ^ 9\<bar> \<le> 1 / 10 ^ 20" using t(2) by simp
  then have tb: "0 \<le> t" "t \<le> 1" unfolding abs_le_iff by simp_all
  obtain lo where lo: "d64 (- 32768 - t) = Fin lo"
    "\<bar>lo - (- 32768 - t)\<bar> \<le> \<bar>- 32768 - t\<bar> / 2 ^ 53 + 1 / 2 ^ 100"
    by (rule d64_abs_error [of "- 32768 - t"]) (use tb in simp)
  obtain hi where hi: "d64 (32767 + t) = Fin hi"
    "\<bar>hi - (32767 + t)\<bar> \<le> \<bar>32767 + t\<bar> / 2 ^ 53 + 1 / 2 ^ 100"
    by (rule d64_abs_error [of "32767 + t"]) (use tb in simp)
  have "\<bar>- 32768 - t\<bar> \<le> 32769" "\<bar>32767 + t\<bar> \<le> 32768"
    using tb by (simp_all add: abs_le_iff)
  then have "\<bar>- 32768 - t\<bar> / 2 ^ 53 \<le> 32769 / 2 ^ 53" "\<bar>32767 + t\<bar> / 2 ^ 53 \<le> 32768 / 2 ^ 53"
    by (simp_all only: divide_right_mono zero_le_power zero_le_numeral)
  moreover have "32769 / 2 ^ 53 + 1 / 2 ^ 100 \<le> (1 / 10 ^ 11 :: rat)"
    "32768 / 2 ^ 53 + 1 / 2 ^ 100 \<le> (1 / 10 ^ 11 :: rat)" by simp_all
  ultimately have "\<bar>- 32768 - t\<bar> / 2 ^ 53 + 1 / 2 ^ 100 \<le> 1 / 10 ^ 11"
    "\<bar>32767 + t\<bar> / 2 ^ 53 + 1 / 2 ^ 100 \<le> 1 / 10 ^ 11"
    by linarith+
  then have "\<bar>lo - (- 32768 - t)\<bar> \<le> 1 / 10 ^ 11" "\<bar>hi - (32767 + t)\<bar> \<le> 1 / 10 ^ 11"
    using lo(2) hi(2) by (blast intro: order_trans)+
  then have "\<bar>lo + 32768 + 1 / 10 ^ 9\<bar> \<le> 1 / 10 ^ 10" "\<bar>hi - 32767 - 1 / 10 ^ 9\<bar> \<le> 1 / 10 ^ 10"
    using t' unfolding abs_le_iff by simp_all
  then show ?thesis
    using t(1) lo(1) hi(1) by (intro that [of lo hi]) (simp_all add: minus_fp_def)
qed

lemma quantize_milli_Fin:
  assumes "d64 (x * 1000) = Fin s"
  shows "- 32768 - 5 / 10 ^ 10 \<le> s \<and> s \<le> 32767 + 5 / 10 ^ 10 \<Longrightarrow>
           quantize_milli (Fin x) f = Inr (word_of_int (lround_rat s))" (is "?in \<Longrightarrow> ?acc")
    and "quantize_milli (Fin x) f = Inr w \<Longrightarrow>
           w = word_of_int (lround_rat s) \<and> - 32768 - 2 / 10 ^ 9 \<le> s \<and> s \<le> 32767 + 2 / 10 ^ 9"
proof -
  obtain lo hi where l: "Fin (- 32768) - d64 (1 / 10 ^ 9) = Fin lo"
    "Fin 32767 + d64 (1 / 10 ^ 9) = Fin hi"
    "\<bar>lo + 32768 + 1 / 10 ^ 9\<bar> \<le> 1 / 10 ^ 10" "\<bar>hi - 32767 - 1 / 10 ^ 9\<bar> \<le> 1 / 10 ^ 10"
    by (rule milli_limits)
  have q: "quantize_milli (Fin x) f =
      (if s < lo \<or> hi < s then Inl (out_of_range (f @ '' exceeds the signed 16-bit wire range''))
       else Inr (word_of_int (lround_rat s)))"
    using l(1,2) assms by (simp only: quantize_milli_def Let_def isfinite.simps times_fp.simps
        less_fp.simps fp_lround.simps if_False simp_thms)
  have lo: "lo \<le> - 32768 - 5 / 10 ^ 10" "- 32768 - 2 / 10 ^ 9 \<le> lo"
    and hi: "32767 + 5 / 10 ^ 10 \<le> hi" "hi \<le> 32767 + 2 / 10 ^ 9"
    using l(3,4) unfolding abs_le_iff by simp_all
  show ?acc if ?in
  proof -
    from that lo(1) hi(1) have "\<not> (s < lo \<or> hi < s)" by linarith
    then show ?thesis unfolding q by (rule if_not_P)
  qed
  show "w = word_of_int (lround_rat s) \<and> - 32768 - 2 / 10 ^ 9 \<le> s \<and> s \<le> 32767 + 2 / 10 ^ 9"
    if "quantize_milli (Fin x) f = Inr w"
  proof -
    have "lo \<le> s" "s \<le> hi" "w = word_of_int (lround_rat s)"
      using that unfolding q by (auto simp only: sum.inject sum.distinct not_less split: if_splits)
    with lo(2) hi(2) show ?thesis by linarith
  qed
qed

lemma lround_in_wire_range:
  assumes "- 32768 - 2 / 10 ^ 9 \<le> s" "s \<le> 32767 + 2 / 10 ^ 9"
  shows "sint (word_of_int (lround_rat s) :: 16 word) = lround_rat s"
proof -
  have "of_int (lround_rat s) < (32768 :: rat)" "- 32769 < (of_int (lround_rat s) :: rat)"
    using lround_rat_error [of s] assms unfolding abs_le_iff by simp_all
  then have "of_int (lround_rat s) < (of_int 32768 :: rat)" "of_int (- 32769) < (of_int (lround_rat s) :: rat)"
    by simp_all
  then have "lround_rat s < 32768" "- 32769 < lround_rat s" by (simp_all only: of_int_less_iff)
  then show ?thesis by (simp add: sint_sbintrunc' signed_take_bit_int_eq_self)
qed

lemma d64_wire_error:
  assumes "\<bar>y\<bar> \<le> 2 ^ 17"
  obtains s where "d64 y = Fin s" "\<bar>s - y\<bar> \<le> 1 / 10 ^ 10"
proof -
  have y: "\<bar>y\<bar> \<le> 2 ^ 100" using assms by (rule order_trans) simp
  obtain s where s: "d64 y = Fin s" "\<bar>s - y\<bar> \<le> \<bar>y\<bar> / 2 ^ 53 + 1 / 2 ^ 100"
    by (rule d64_abs_error [OF y])
  have "\<bar>y\<bar> / 2 ^ 53 \<le> 2 ^ 17 / 2 ^ 53" using assms by (intro divide_right_mono) simp_all
  moreover have "2 ^ 17 / 2 ^ 53 + 1 / 2 ^ 100 \<le> (1 / 10 ^ 10 :: rat)" by simp
  ultimately have "\<bar>y\<bar> / 2 ^ 53 + 1 / 2 ^ 100 \<le> 1 / 10 ^ 10" by linarith
  with s show ?thesis by (intro that) (auto intro: order_trans)
qed

lemma d64_in_wire_range:
  assumes "d64 y = Fin s" "\<bar>s\<bar> \<le> 2 ^ 16"
  shows "\<bar>y\<bar> \<le> 2 ^ 17"
proof (rule ccontr)
  have b: "d64 (2 ^ 17) = Fin (2 ^ 17)" "d64 (- (2 ^ 17)) = Fin (- (2 ^ 17))"
    using d64_int [of "2 ^ 17"] d64_int [of "- (2 ^ 17)"] by simp_all
  assume "\<not> \<bar>y\<bar> \<le> 2 ^ 17"
  then consider "2 ^ 17 \<le> y" | "y \<le> - (2 ^ 17)" by (auto simp: abs_le_iff)
  then have "2 ^ 17 \<le> s \<or> s \<le> - (2 ^ 17)"
    by cases (use d64_mono [of "2 ^ 17" y] d64_mono [of y "- (2 ^ 17)"] assms(1) in
        \<open>auto simp only: b less_eq_fp_Fin\<close>)
  with assms(2) show False by (auto simp: abs_le_iff)
qed

lemma quantize_milli_infinite:
  "d64 (x * 1000) = PInf \<or> d64 (x * 1000) = NInf \<Longrightarrow> quantize_milli (Fin x) f \<noteq> Inr w"
proof -
  assume a: "d64 (x * 1000) = PInf \<or> d64 (x * 1000) = NInf"
  obtain lo hi where "Fin (- 32768) - d64 (1 / 10 ^ 9) = Fin lo" "Fin 32767 + d64 (1 / 10 ^ 9) = Fin hi"
    by (rule milli_limits)
  with a show ?thesis
    by (auto simp only: quantize_milli_def Let_def isfinite.simps times_fp.simps less_fp.simps
        simp_thms if_True if_False sum.distinct)
qed

text \<open>
  Whatever \<open>quantize_milli\<close> puts on the wire is within half a thousandth (up to the
  accepted floating point tolerance) of the finite value it was given: NaN, infinities and
  values outside the signed 16-bit range never wrap into a plausible wire value.
\<close>

theorem quantize_milli_sound:
  assumes "quantize_milli v field_name = Inr w"
  shows "\<exists>x. v = Fin x \<and> \<bar>of_int (sint w) - 1000 * x\<bar> \<le> 1 / 2 + 1 / 10 ^ 9"
proof -
  from assms have "isfinite v" by (auto simp: quantize_milli_def split: if_splits)
  then obtain x where v: "v = Fin x" by (auto simp: isfinite_conv)
  from assms quantize_milli_infinite [of x field_name w] have "d64 (x * 1000) \<noteq> PInf \<and> d64 (x * 1000) \<noteq> NInf"
    by (auto simp: v)
  then obtain r where r: "d64 (x * 1000) = Fin r" by (cases "d64 (x * 1000)") auto
  note q = quantize_milli_Fin(2) [OF r assms [unfolded v]]
  then have "\<bar>r\<bar> \<le> 2 ^ 16" unfolding abs_le_iff by simp
  then obtain r' where r': "d64 (x * 1000) = Fin r'" "\<bar>r' - x * 1000\<bar> \<le> 1 / 10 ^ 10"
    using d64_wire_error [OF d64_in_wire_range [OF r]] by metis
  have "sint w = lround_rat r" using q lround_in_wire_range by metis
  then have "\<bar>of_int (sint w) - r\<bar> \<le> 1 / 2" using lround_rat_error [of r] by simp
  moreover have "\<bar>r - 1000 * x\<bar> \<le> 1 / 10 ^ 9" using r r' unfolding abs_le_iff by simp
  ultimately have "\<bar>of_int (sint w) - 1000 * x\<bar> \<le> 1 / 2 + 1 / 10 ^ 9" by linarith
  then show ?thesis using v by blast
qed

theorem quantize_milli_sound_witness:
  "quantize_milli (Fin 1) ''speed'' = Inr 1000 \<and>
   (\<exists>x. Fin 1 = Fin x \<and> \<bar>of_int (sint (1000 :: 16 word)) - 1000 * x\<bar> \<le> 1 / 2 + 1 / 10 ^ 9)"
proof -
  have "d64 (1 * 1000) = Fin 1000" using d64_int [of 1000] by simp
  from quantize_milli_Fin(1) [OF this, of "''speed''"] have "quantize_milli (Fin 1) ''speed'' = Inr 1000"
    using lround_rat_of_int [of 1000] by simp
  with quantize_milli_sound [OF this] show ?thesis by blast
qed

lemma quantize_milli_accepts:
  assumes "- 32768 - 1 / 10 ^ 10 \<le> 1000 * x" "1000 * x \<le> 32767 + 1 / 10 ^ 10"
  obtains w where "quantize_milli (Fin x) f = Inr w"
    "\<bar>of_int (sint w) - 1000 * x\<bar> \<le> 1 / 2 + 1 / 10 ^ 10"
proof -
  have "\<bar>x * 1000\<bar> \<le> 2 ^ 17" using assms by (simp add: abs_le_iff)
  then obtain r where r: "d64 (x * 1000) = Fin r" "\<bar>r - x * 1000\<bar> \<le> 1 / 10 ^ 10"
    by (rule d64_wire_error)
  have b: "- 32768 - 5 / 10 ^ 10 \<le> r \<and> r \<le> 32767 + 5 / 10 ^ 10"
    using r(2) assms unfolding abs_le_iff by simp
  have "sint (word_of_int (lround_rat r) :: 16 word) = lround_rat r"
    using b by (intro lround_in_wire_range) simp_all
  then have "\<bar>of_int (sint (word_of_int (lround_rat r) :: 16 word)) - 1000 * x\<bar> \<le> 1 / 2 + 1 / 10 ^ 10"
    using lround_rat_error [of r] r(2) unfolding abs_le_iff by simp
  then show ?thesis using quantize_milli_Fin(1) [OF r(1) b] that by blast
qed

lemma milli_to_double_error:
  obtains r where "milli_to_double w = Fin r" "\<bar>1000 * r - of_int (sint w)\<bar> \<le> 1 / 10 ^ 10"
proof -
  let ?k = "of_int (sint w) :: rat"
  have k: "\<bar>?k\<bar> \<le> 32768" using sint_i16_range_rat [of w] by (simp add: abs_le_iff)
  have w: "\<bar>sint w\<bar> \<le> 2 ^ 53" "\<bar>?k / 1000\<bar> \<le> 33"
    using sint_i16_range [of w] k by (simp_all add: abs_le_iff)
  from w(2) have "\<bar>?k / 1000\<bar> \<le> 2 ^ 100" by (rule order_trans) simp
  then obtain r where r: "d64 (?k / 1000) = Fin r" "\<bar>r - ?k / 1000\<bar> \<le> \<bar>?k / 1000\<bar> / 2 ^ 53 + 1 / 2 ^ 100"
    by (rule d64_abs_error)
  have "\<bar>?k / 1000\<bar> / 2 ^ 53 \<le> 33 / 2 ^ 53" using w(2) by (rule divide_right_mono) simp
  moreover have "33 / 2 ^ 53 + 1 / 2 ^ 100 \<le> (1 / 10 ^ 13 :: rat)" by simp
  ultimately have "\<bar>r - ?k / 1000\<bar> \<le> 1 / 10 ^ 13" using r(2) by linarith
  then have "\<bar>1000 * r - ?k\<bar> \<le> 1 / 10 ^ 10" unfolding abs_le_iff by simp
  moreover have "milli_to_double w = Fin r"
    using r(1) by (simp add: milli_to_double_def d64_of_int_eq [OF w(1)])
  ultimately show ?thesis by (intro that)
qed

lemma quantize_milli_stable: "quantize_milli (milli_to_double w) field_name = Inr w"
proof -
  obtain r where r: "milli_to_double w = Fin r" "\<bar>1000 * r - of_int (sint w)\<bar> \<le> 1 / 10 ^ 10"
    by (rule milli_to_double_error)
  note k = sint_i16_range_rat [of w]
  obtain v where v: "quantize_milli (Fin r) field_name = Inr v"
    "\<bar>of_int (sint v) - 1000 * r\<bar> \<le> 1 / 2 + 1 / 10 ^ 10"
  proof (rule quantize_milli_accepts)
    show "- 32768 - 1 / 10 ^ 10 \<le> 1000 * r" "1000 * r \<le> 32767 + 1 / 10 ^ 10"
      using r(2) k unfolding abs_le_iff by simp_all
  qed
  have "(1 / 2 + 1 / 10 ^ 10) + 1 / 10 ^ 10 < (1 :: rat)" by simp
  then have "\<bar>of_int (sint v) - of_int (sint w)\<bar> < (1 :: rat)" using v(2) r(2) by linarith
  then have "\<bar>of_int (sint v - sint w)\<bar> < (of_int 1 :: rat)" by simp
  then have "\<bar>sint v - sint w\<bar> < 1" by (simp only: of_int_less_iff of_int_abs [symmetric])
  then have "v = w" by (simp add: signed_word_eqI)
  with v(1) r(1) show ?thesis by simp
qed

text \<open>
  Reading a wire value back (\<open>milli_to_double\<close>, the decoder's conversion) and quantising
  it again gives the same wire value, for all 65536 of them and in spite of the two
  roundings in between: the wire representation is stable.
\<close>

theorem quantize_milli_roundtrip: "quantize_milli (milli_to_double w) field_name = Inr w"
  by (rule quantize_milli_stable)

section \<open>Check byte and byte order\<close>

lemma calculate_bcc_0 [simp]: "calculate_bcc d 0 = 0"
  by (simp add: calculate_bcc_def)

lemma calculate_bcc_Suc: "calculate_bcc d (Suc n) = calculate_bcc d n XOR d ! n"
  by (simp add: calculate_bcc_def)

lemma calculate_bcc_cong: "(\<And>i. i < n \<Longrightarrow> d ! i = e ! i) \<Longrightarrow> calculate_bcc d n = calculate_bcc e n"
  by (induction n) (simp_all add: calculate_bcc_Suc)

lemma calculate_bcc_take: "n \<le> m \<Longrightarrow> calculate_bcc (take m d) n = calculate_bcc d n"
  by (rule calculate_bcc_cong) simp

lemma calculate_bcc_append: "n \<le> length d \<Longrightarrow> calculate_bcc (d @ e) n = calculate_bcc d n"
  by (rule calculate_bcc_cong) (simp add: nth_append)

lemma calculate_bcc_update_outside:
  "n \<le> i \<Longrightarrow> calculate_bcc (d[i := b]) n = calculate_bcc d n"
  by (rule calculate_bcc_cong) simp

lemma calculate_bcc_update:
  "i < n \<Longrightarrow> n \<le> length d \<Longrightarrow> calculate_bcc (d[i := b]) n = calculate_bcc d n XOR (d ! i XOR b)"
proof (induction n)
  case (Suc n)
  show ?case
  proof (cases "i = n")
    case True
    with Suc.prems show ?thesis
      by (simp add: calculate_bcc_Suc calculate_bcc_update_outside xor.assoc)
  next
    case False
    with Suc show ?thesis by (simp add: calculate_bcc_Suc ac_simps)
  qed
qed simp

lemma decode_encode_i16: "case encode_i16_be w of (hi, lo) \<Rightarrow> decode_i16_be hi lo = w"
proof -
  have raw: "push_bit 8 (ucast (ucast (drop_bit 8 w) :: u8)) OR ucast (ucast w :: u8) = w"
    by (rule bit_word_eqI) (auto simp: bit_simps)
  show ?thesis
    by (simp add: encode_i16_be_def decode_i16_be_def raw)
qed

lemma bytes_of_u16: "push_bit 8 (ucast (ucast (drop_bit 8 w) :: u8)) OR ucast (ucast w :: u8) = (w :: u16)"
  by (rule bit_word_eqI) (auto simp: bit_simps)

lemma bytes_of_u32:
  "push_bit 24 (ucast (ucast (drop_bit 24 w) :: u8)) OR push_bit 16 (ucast (ucast (drop_bit 16 w) :: u8)) OR
   push_bit 8 (ucast (ucast (drop_bit 8 w) :: u8)) OR ucast (ucast w :: u8) = (w :: u32)"
proof (rule bit_word_eqI)
  fix n assume "n < LENGTH(32)"
  then consider "n < 8" | "8 \<le> n" "n < 16" | "16 \<le> n" "n < 24" | "24 \<le> n" "n < 32"
    by fastforce
  then show "bit (push_bit 24 (ucast (ucast (drop_bit 24 w) :: u8)) OR
       push_bit 16 (ucast (ucast (drop_bit 16 w) :: u8)) OR
       push_bit 8 (ucast (ucast (drop_bit 8 w) :: u8)) OR ucast (ucast w :: u8) :: u32) n = bit w n"
    by cases (auto simp: bit_simps)
qed

section \<open>Command frames\<close>

text \<open>What the command asks of the chassis: nothing is applied while disabled or stopping.\<close>

definition inhibited :: "ChassisCommand \<Rightarrow> bool" where
  "inhibited c \<longleftrightarrow> \<not> cmd_enable c \<or> cmd_software_stop c"

definition applied_speed :: "ChassisCommand \<Rightarrow> fp" where
  "applied_speed c = (if inhibited c then Fin 0 else cmd_speed_mps c)"

definition applied_steering :: "ChassisCommand \<Rightarrow> fp" where
  "applied_steering c = (if inhibited c then Fin 0 else cmd_steering_tire_angle_rad c)"

definition standalone_zero :: "ChassisCommand \<Rightarrow> bool" where
  "standalone_zero c \<longleftrightarrow> \<not> cmd_enable c \<and> \<not> cmd_software_stop c \<and>
     cmd_speed_mps c = Fin 0 \<and> cmd_steering_tire_angle_rad c = Fin 0"

definition command_flags :: "ChassisCommand \<Rightarrow> u8" where
  "command_flags c =
     (if cmd_enable c then 0x01 else 0) OR (if cmd_software_stop c then 0x80 else 0) OR
     (if cmd_clear_fault c then 0x04 else 0)"

definition frame_body :: "u8 \<Rightarrow> 16 word \<Rightarrow> 16 word \<Rightarrow> bytes" where
  "frame_body flags sp st =
     [0x7B, 0x01, flags, ucast (drop_bit 8 sp), ucast sp, ucast (drop_bit 8 st), ucast st, 0, 0]"

lemma clear_fault_guard:
  "(cmd_enable c \<or> cmd_software_stop c \<or> \<not> fp_eq (cmd_speed_mps c) (Fin 0) \<or>
    \<not> fp_eq (cmd_steering_tire_angle_rad c) (Fin 0)) \<longleftrightarrow> \<not> standalone_zero c"
  by (auto simp: standalone_zero_def fp_eq_def)

lemma frame_body_bcc: "calculate_bcc (frame_body fl sp st @ xs) 9 = calculate_bcc (frame_body fl sp st) 9"
  by (rule calculate_bcc_append) (simp add: frame_body_def)

lemma encode_command_frame_eq:
  "encode_command_frame c =
     (if cmd_clear_fault c \<and> \<not> standalone_zero c
      then Inl (invalid_argument ''clear-fault must be a disabled standalone zero command'')
      else case quantize_milli (applied_speed c) ''speed'' of
             Inl e \<Rightarrow> Inl e
           | Inr sp \<Rightarrow>
               (case quantize_milli (applied_steering c) ''steering'' of
                  Inl e \<Rightarrow> Inl e
                | Inr st \<Rightarrow>
                    Inr (frame_body (command_flags c) sp st @
                         [calculate_bcc (frame_body (command_flags c) sp st) 9, 0x7D])))"
proof -
  have build: "(let frame = (replicate kRcCommandFrameSize 0)[0 := kRcFrameHead, 1 := kRcAckermannCommandId];
             frame = (if cmd_enable c then frame[2 := frame ! 2 OR kRcCommandFlagEnable] else frame);
             frame = (if cmd_software_stop c
                      then frame[2 := frame ! 2 OR kRcCommandFlagSoftwareStop] else frame);
             frame = (if cmd_clear_fault c
                      then frame[2 := frame ! 2 OR kRcCommandFlagClearFault] else frame);
             (speed_hi, speed_lo) = encode_i16_be sp;
             frame = frame[3 := speed_hi, 4 := speed_lo];
             (steering_hi, steering_lo) = encode_i16_be st;
             frame = frame[5 := steering_hi, 6 := steering_lo];
             frame = frame[7 := 0, 8 := 0];
             frame = frame[9 := calculate_bcc frame 9];
             frame = frame[10 := kRcFrameTail]
         in Inr frame :: serial_error + bytes) =
        Inr (frame_body (command_flags c) sp st @
             [calculate_bcc (frame_body (command_flags c) sp st) 9, 0x7D])" for sp st
    using frame_body_bcc [where sp = sp and st = st and xs = "[0, 0]"]
    by (simp add: Let_def encode_i16_be_def frame_simps numeral_eq_Suc command_flags_def frame_body_def)
  show ?thesis
    unfolding encode_command_frame_def clear_fault_guard build
    by (simp add: applied_speed_def applied_steering_def inhibited_def split: sum.split)
qed

text \<open>
  The receiving side of the wire contract: a chassis that accepts a frame by its length,
  head, tail, command id, reserved bytes and check byte reads these three values.
\<close>

definition parse_command_frame :: "bytes \<Rightarrow> (u8 \<times> 16 word \<times> 16 word) option" where
  "parse_command_frame f =
     (if length f = 11 \<and> f ! 0 = 0x7B \<and> f ! 1 = 0x01 \<and> f ! 10 = 0x7D \<and>
         f ! 7 = 0 \<and> f ! 8 = 0 \<and> f ! 9 = calculate_bcc f 9
      then Some (f ! 2, decode_i16_be (f ! 3) (f ! 4), decode_i16_be (f ! 5) (f ! 6))
      else None)"

lemma parse_frame_body:
  "parse_command_frame (frame_body fl sp st @ [calculate_bcc (frame_body fl sp st) 9, 0x7D]) =
     Some (fl, sp, st)"
  using decode_encode_i16 [of sp] decode_encode_i16 [of st]
    frame_body_bcc [of fl sp st "[calculate_bcc (frame_body fl sp st) 9, 0x7D]"]
  by (simp add: parse_command_frame_def frame_body_def encode_i16_be_def)

lemma quantize_milli_zero: "quantize_milli (Fin 0) f = Inr 0"
  using quantize_milli_stable [of 0 f] by (simp add: milli_to_double_def d64_of_int_def)

lemma inhibited_applied: "inhibited c \<Longrightarrow> applied_speed c = Fin 0 \<and> applied_steering c = Fin 0"
  by (simp add: applied_speed_def applied_steering_def)

text \<open>
  C33: Every frame the encoder emits is well formed and carries exactly the command: the
  receiver accepts it and reads back the enable, stop and clear-fault flags and the
  quantised speed and steering that the command applies.
\<close>

theorem encode_command_frame_parses:
  assumes "encode_command_frame c = Inr f"
  shows "\<exists>sp st. quantize_milli (applied_speed c) ''speed'' = Inr sp \<and>
           quantize_milli (applied_steering c) ''steering'' = Inr st \<and>
           parse_command_frame f = Some (command_flags c, sp, st)"
  using assms
  by (auto simp: encode_command_frame_eq parse_frame_body split: if_splits sum.splits)

lemma encode_stop_frame:
  "encode_command_frame (ChassisCommand_init\<lparr>cmd_software_stop := True\<rparr>) =
     Inr (frame_body 129 0 0 @ [calculate_bcc (frame_body 129 0 0) 9, 0x7D])"
  by (simp add: encode_command_frame_eq ChassisCommand_init_def applied_speed_def applied_steering_def
      inhibited_def quantize_milli_zero command_flags_def)

theorem encode_command_frame_parses_witness:
  "parse_command_frame (frame_body 129 0 0 @ [calculate_bcc (frame_body 129 0 0) 9, 0x7D]) = Some (129, 0, 0)"
  using encode_command_frame_parses [OF encode_stop_frame]
  by (auto simp: ChassisCommand_init_def applied_speed_def applied_steering_def inhibited_def
      quantize_milli_zero command_flags_def)

text \<open>
  A disabled or software-stop command can always be put on the wire, whatever numbers it
  carries (NaN included), and the frame commands zero speed and zero steering; a clear-fault
  command is encodable exactly when it is a disabled standalone zero command.
\<close>

theorem encode_inhibited_command:
  "if cmd_clear_fault c
   then (\<exists>f. encode_command_frame c = Inr f) = standalone_zero c
   else inhibited c \<longrightarrow>
     (\<exists>f. encode_command_frame c = Inr f \<and> parse_command_frame f = Some (command_flags c, 0, 0))"
proof (cases "cmd_clear_fault c")
  case True
  have "standalone_zero c \<Longrightarrow> inhibited c" by (simp add: standalone_zero_def inhibited_def)
  with True show ?thesis
    using inhibited_applied [of c] by (auto simp: encode_command_frame_eq quantize_milli_zero)
next
  case False
  with inhibited_applied [of c] show ?thesis
    by (auto simp: encode_command_frame_eq quantize_milli_zero parse_frame_body)
qed

theorem encode_inhibited_command_witness:
  "\<exists>f. encode_command_frame (ChassisCommand_init\<lparr>cmd_speed_mps := NaN, cmd_software_stop := True\<rparr>) = Inr f \<and>
     parse_command_frame f = Some (129, 0, 0)"
  using encode_inhibited_command [of "ChassisCommand_init\<lparr>cmd_speed_mps := NaN, cmd_software_stop := True\<rparr>"]
  by (simp add: ChassisCommand_init_def inhibited_def command_flags_def)

section \<open>Telemetry frames\<close>

text \<open>The telemetry frame of the chassis, as the decoder's contract describes it.\<close>

record Telemetry =
  tm_flags :: u8
  tm_sequence :: u8
  tm_hall_delta :: u32
  tm_speed :: "16 word"
  tm_steering :: "16 word"
  tm_yaw_rate :: "16 word"
  tm_battery :: u16
  tm_dt :: u16
  tm_status :: u32

definition be16 :: "16 word \<Rightarrow> bytes" where
  "be16 w = [ucast (drop_bit 8 w), ucast w]"

definition be32 :: "u32 \<Rightarrow> bytes" where
  "be32 w = [ucast (drop_bit 24 w), ucast (drop_bit 16 w), ucast (drop_bit 8 w), ucast w]"

definition telemetry_body :: "Telemetry \<Rightarrow> bytes" where
  "telemetry_body t =
     [0x7B, tm_flags t, tm_sequence t] @ be32 (tm_hall_delta t) @ be16 (tm_speed t) @
     be16 (tm_steering t) @ be16 (tm_yaw_rate t) @ be16 (tm_battery t) @ be16 (tm_dt t) @
     be32 (tm_status t) @ [0xA1]"

definition telemetry_frame :: "Telemetry \<Rightarrow> bytes" where
  "telemetry_frame t = telemetry_body t @ [calculate_bcc (telemetry_body t) 22, 0x7D]"

definition telemetry_value :: "Telemetry \<Rightarrow> ChassisFeedback" where
  "telemetry_value t =
     \<lparr>status_flags = tm_flags t, sequence_nr = tm_sequence t,
      hall_delta_count_command_signed = sint (tm_hall_delta t),
      hall_speed_command_signed_mps = milli_to_double (tm_speed t),
      steering_angle_estimate_rad = milli_to_double (tm_steering t),
      yaw_rate_estimate_rad_s = milli_to_double (tm_yaw_rate t),
      battery_mv = tm_battery t, dt_ms = tm_dt t, status_bits = tm_status t,
      protocol_id = 0xA1\<rparr>"

lemma sint_by_range: "(if 0x80000000 \<le> w then uint w - 0x100000000 else uint w) = sint (w :: u32)"
proof -
  have b: "0 \<le> uint w" "uint w < 4294967296" using uint_bounded [of w] by simp_all
  have "sint w = take_bit 32 (uint w + 2147483648) - 2147483648"
    by (simp add: sint_uint signed_take_bit_eq_take_bit_shift)
  also have "take_bit 32 (uint w + 2147483648) = (uint w + 2147483648) mod 4294967296"
    by (simp add: take_bit_eq_mod)
  finally have s: "sint w = (uint w + 2147483648) mod 4294967296 - 2147483648" .
  have le: "(0x80000000 \<le> w) = (2147483648 \<le> uint w)" by (simp add: word_le_def)
  have "(uint w + 2147483648) mod 4294967296 =
      (if 2147483648 \<le> uint w then uint w - 2147483648 else uint w + 2147483648)"
  proof (cases "2147483648 \<le> uint w")
    case True
    have "(uint w - 2147483648 + 4294967296) mod 4294967296 = (uint w - 2147483648) mod 4294967296"
      by (rule mod_add_self2)
    also have "\<dots> = uint w - 2147483648" using True b by (intro mod_pos_pos_trivial) simp_all
    finally show ?thesis using True by (simp add: add.commute)
  next
    case False
    with b show ?thesis by (simp add: mod_pos_pos_trivial)
  qed
  then show ?thesis unfolding s le by simp
qed

lemma decode_be16: "decode_i16_be (ucast (drop_bit 8 w)) (ucast w) = w"
  using decode_encode_i16 [of w] by (simp add: encode_i16_be_def)

lemma decode_telemetry_frame: "decode_feedback_frame (telemetry_frame t) = Some (telemetry_value t)"
proof -
  have "calculate_bcc (telemetry_frame t) 22 = calculate_bcc (telemetry_body t) 22"
    unfolding telemetry_frame_def
    by (rule calculate_bcc_append) (simp add: telemetry_body_def be16_def be32_def)
  then show ?thesis
    unfolding decode_feedback_frame_def
    by (simp add: telemetry_frame_def telemetry_body_def telemetry_value_def be16_def be32_def
        frame_simps decode_i32_be_def decode_u16_be_def decode_u32_be_def bytes_of_u16 bytes_of_u32
        sint_by_range decode_be16 Let_def)
qed

lemma decode_feedback_frame_conv:
  "(\<exists>fb. decode_feedback_frame f = Some fb) \<longleftrightarrow>
     f ! 0 = kRcFrameHead \<and> f ! 23 = kRcFrameTail \<and> f ! 22 = calculate_bcc f 22 \<and>
     f ! 21 = kRcTelemetryProtocolId"
  by (auto simp: decode_feedback_frame_def kRcFeedbackFrameSize_def)

text \<open>
  C32: Telemetry round trip and damage detection: every telemetry frame decodes to exactly the
  values the chassis put in it (signed fields sign-extended, speeds and angles in thousandths,
  big-endian), and after any change of one single byte the frame is refused.
\<close>

theorem telemetry_frame_roundtrip:
  "decode_feedback_frame (telemetry_frame t) = Some (telemetry_value t) \<and>
   (\<forall>i \<in> {..<24}. \<forall>b. b \<noteq> telemetry_frame t ! i \<longrightarrow>
      decode_feedback_frame ((telemetry_frame t)[i := b]) = None)"
proof (intro conjI ballI allI impI)
  show "decode_feedback_frame (telemetry_frame t) = Some (telemetry_value t)"
    by (rule decode_telemetry_frame)
next
  fix i b
  let ?f = "telemetry_frame t"
  assume i: "i \<in> {..<24}" and b: "b \<noteq> ?f ! i"
  have len: "length ?f = 24"
    by (simp add: telemetry_frame_def telemetry_body_def be16_def be32_def)
  have ok: "?f ! 0 = kRcFrameHead \<and> ?f ! 23 = kRcFrameTail \<and> ?f ! 22 = calculate_bcc ?f 22 \<and>
      ?f ! 21 = kRcTelemetryProtocolId"
    using decode_telemetry_frame decode_feedback_frame_conv by blast
  have "\<not> (\<exists>fb. decode_feedback_frame (?f[i := b]) = Some fb)"
  proof (cases "i < 22")
    case True
    then have "calculate_bcc (?f[i := b]) 22 = calculate_bcc ?f 22 XOR (?f ! i XOR b)"
      using len by (intro calculate_bcc_update) simp_all
    moreover have "?f ! i XOR b \<noteq> 0" using b by (simp only: xor_eq_0_conv not_False_eq_True)
    ultimately have "calculate_bcc (?f[i := b]) 22 \<noteq> ?f ! 22"
      using ok by (simp only: xor_eq_self_conv not_False_eq_True)
    with True show ?thesis by (simp add: decode_feedback_frame_conv)
  next
    case False
    with i have "i = 22 \<or> i = 23" by auto
    with ok b len show ?thesis
      by (auto simp: decode_feedback_frame_conv calculate_bcc_update_outside)
  qed
  then show "decode_feedback_frame (?f[i := b]) = None" by simp
qed

theorem telemetry_frame_roundtrip_witness:
  "decode_feedback_frame
     ((telemetry_frame \<lparr>tm_flags = 0, tm_sequence = 7, tm_hall_delta = 0xFFFFFFFE, tm_speed = 0x03E8,
         tm_steering = 0, tm_yaw_rate = 0, tm_battery = 12000, tm_dt = 20, tm_status = 0x40\<rparr>)
      [3 := 0]) = None"
  by (rule telemetry_frame_roundtrip [THEN conjunct2, THEN bspec, THEN spec, THEN mp])
    (simp_all add: telemetry_frame_def telemetry_body_def be32_def)

section \<open>The decoder on a byte stream\<close>

text \<open>
  One iteration of the loop on a buffer that starts with a frame head and holds a whole
  frame: how many bytes it consumes, what it counts, what it delivers.
\<close>

definition is_error_frame :: "bytes \<Rightarrow> bool" where
  "is_error_frame b \<longleftrightarrow> b ! 23 \<noteq> kRcFrameTail \<or> b ! 22 \<noteq> calculate_bcc b 22"

definition step_len :: "bytes \<Rightarrow> nat" where
  "step_len b = (if is_error_frame b then 1 else 24)"

definition step_out :: "bytes \<Rightarrow> ChassisFeedback list" where
  "step_out b = (case decode_feedback_frame (take 24 b) of None \<Rightarrow> [] | Some fb \<Rightarrow> [fb])"

definition step_stats :: "bytes \<Rightarrow> FeedbackDecoderStats \<Rightarrow> FeedbackDecoderStats" where
  "step_stats b st =
     (if b ! 23 \<noteq> kRcFrameTail
      then st\<lparr>tail_errors := tail_errors st + 1, discarded_bytes := discarded_bytes st + 1\<rparr>
      else if b ! 22 \<noteq> calculate_bcc b 22
      then st\<lparr>bcc_errors := bcc_errors st + 1, discarded_bytes := discarded_bytes st + 1\<rparr>
      else if b ! 21 \<noteq> kRcTelemetryProtocolId
      then st\<lparr>protocol_errors := protocol_errors st + 1, discarded_bytes := discarded_bytes st + 24\<rparr>
      else st\<lparr>valid_frames := valid_frames st + 1\<rparr>)"

definition starts_frame :: "bytes \<Rightarrow> bool" where
  "starts_frame b \<longleftrightarrow> b \<noteq> [] \<and> hd b = kRcFrameHead"

lemma decode_take_24:
  assumes "starts_frame b" "24 \<le> length b"
  shows "decode_feedback_frame (take 24 b) = None \<longleftrightarrow>
     is_error_frame b \<or> b ! 21 \<noteq> kRcTelemetryProtocolId"
proof -
  have "b ! 0 = kRcFrameHead" using assms(1) hd_conv_nth [of b] by (auto simp: starts_frame_def)
  moreover have "calculate_bcc (take 24 b) 22 = calculate_bcc b 22" by (rule calculate_bcc_take) simp
  ultimately show ?thesis using assms(2)
    by (auto simp: decode_feedback_frame_def is_error_frame_def kRcFeedbackFrameSize_def)
qed

lemma decode_loop_Nil [simp]: "decode_loop [] st dec = ([], st, dec)"
  by (simp add: decode_loop.simps [of "[]"])

lemma decode_loop_short:
  "starts_frame b \<Longrightarrow> length b < 24 \<Longrightarrow> decode_loop b st dec = (b, st, dec)"
  by (cases b) (simp_all add: starts_frame_def decode_loop.simps [of "_ # _"] kRcFeedbackFrameSize_def)

lemma decode_loop_skip:
  assumes "x \<noteq> kRcFrameHead"
  shows "decode_loop (x # b) st dec =
     decode_loop b (st\<lparr>discarded_bytes := discarded_bytes st + 1\<rparr>) dec"
proof -
  have eq: "(if n \<noteq> 0 then st\<lparr>discarded_bytes := discarded_bytes st + of_nat n\<rparr> else st) =
      st\<lparr>discarded_bytes := discarded_bytes st + of_nat n\<rparr>" for n and st :: FeedbackDecoderStats
    by simp
  show ?thesis
    unfolding decode_loop.simps [of "x # b"] decode_loop.simps [of b] Let_def eq
    using assms by (simp add: add.assoc split: option.split)
qed

lemma decode_loop_step:
  assumes "starts_frame b" "24 \<le> length b"
  shows "decode_loop b st dec = decode_loop (drop (step_len b) b) (step_stats b st) (dec @ step_out b)"
proof -
  have d: "length (takeWhile (\<lambda>b. b \<noteq> kRcFrameHead) b) = 0" and ne: "b \<noteq> []"
    using assms(1) by (cases b; simp add: starts_frame_def)+
  have len: "\<not> length b < 24" using assms(2) by simp
  have l: "24 - 1 = (23 :: nat)" by simp
  note unfolded = decode_loop.simps [of b st dec, unfolded Let_def d drop_0 kRcFeedbackFrameSize_def l
      if_not_P [OF ne] if_not_P [OF len] not_not]
  have "decode_loop b st dec =
     (if b ! 23 \<noteq> kRcFrameTail \<or> b ! 22 \<noteq> calculate_bcc b 22
      then decode_loop (drop 1 b) (step_stats b st) dec
      else if b ! 21 \<noteq> kRcTelemetryProtocolId then decode_loop (drop 24 b) (step_stats b st) dec
      else case decode_feedback_frame (take 24 b) of
             Some feedback \<Rightarrow> decode_loop (drop 24 b) (step_stats b st) (dec @ [feedback])
           | None \<Rightarrow> decode_loop (drop 24 b) st dec)"
    using ne len by (simp add: unfolded step_stats_def cong: option.case_cong)
  then show ?thesis
    using decode_take_24 [OF assms]
    by (cases "decode_feedback_frame (take 24 b)")
      (simp_all add: step_len_def step_out_def is_error_frame_def)
qed

lemma scan_induct [case_names Nil Skip Short Step]:
  assumes "P []"
    and "\<And>x b. x \<noteq> kRcFrameHead \<Longrightarrow> P b \<Longrightarrow> P (x # b)"
    and "\<And>b. starts_frame b \<Longrightarrow> length b < 24 \<Longrightarrow> P b"
    and "\<And>b. starts_frame b \<Longrightarrow> 24 \<le> length b \<Longrightarrow> P (drop (step_len b) b) \<Longrightarrow> P b"
  shows "P b"
proof (induction b rule: length_induct)
  case (1 b)
  show ?case
  proof (cases b)
    case Nil
    with assms(1) show ?thesis by simp
  next
    case (Cons x xs)
    show ?thesis
    proof (cases "x = kRcFrameHead")
      case False
      with 1 Cons assms(2) show ?thesis by simp
    next
      case True
      then have st: "starts_frame b" using Cons by (simp add: starts_frame_def)
      have "length (drop (step_len b) b) < length b" using Cons by (simp add: step_len_def)
      with 1 have "P (drop (step_len b) b)" by blast
      with st assms(3,4) show ?thesis by (cases "length b < 24") auto
    qed
  qed
qed

lemma calculate_bcc_22_append: "24 \<le> length b \<Longrightarrow> calculate_bcc (b @ ys) 22 = calculate_bcc b 22"
  by (rule calculate_bcc_append) simp

lemma step_append:
  assumes "24 \<le> length b"
  shows "step_len (b @ ys) = step_len b" "step_stats (b @ ys) = step_stats b"
    "step_out (b @ ys) = step_out b" "drop (step_len b) (b @ ys) = drop (step_len b) b @ ys"
  using assms
  by (auto simp: step_len_def step_stats_def step_out_def is_error_frame_def nth_append
      calculate_bcc_22_append fun_eq_iff)

lemma starts_frame_append: "starts_frame b \<Longrightarrow> starts_frame (b @ ys)"
  by (auto simp: starts_frame_def)

lemma decode_loop_append:
  "decode_loop (b @ ys) st dec =
     (case decode_loop b st dec of (r, st', dec') \<Rightarrow> decode_loop (r @ ys) st' dec')"
proof (induction b arbitrary: st dec rule: scan_induct)
  case (Step b)
  then have "starts_frame (b @ ys)" "24 \<le> length (b @ ys)"
    by (simp_all add: starts_frame_append)
  from decode_loop_step [OF this] Step show ?case
    by (simp add: decode_loop_step step_append del: drop_append)
qed (simp_all add: decode_loop_skip decode_loop_short)

lemma decode_loop_acc:
  "decode_loop b st dec = (case decode_loop b st [] of (r, st', out) \<Rightarrow> (r, st', dec @ out))"
proof (induction b arbitrary: st dec rule: scan_induct)
  case (Step b)
  from Step.IH [of "step_stats b st" "dec @ step_out b"] Step.IH [of "step_stats b st" "step_out b"]
  show ?case
    using Step.hyps by (auto simp: decode_loop_step split: prod.splits)
next
  case (Skip x b)
  show ?case unfolding decode_loop_skip [OF Skip.hyps] by (rule Skip.IH)
qed (simp_all add: decode_loop_short)

definition resting :: "bytes \<Rightarrow> bool" where
  "resting b \<longleftrightarrow> length b < 24 \<and> (b = [] \<or> starts_frame b)"

lemma decode_loop_resting:
  "decode_loop b st dec = (r, st', dec') \<Longrightarrow> resting r"
  by (induction b arbitrary: st dec rule: scan_induct)
    (auto simp: decode_loop_skip decode_loop_short decode_loop_step resting_def)

lemma decode_loop_of_resting: "resting b \<Longrightarrow> decode_loop b st dec = (b, st, dec)"
  by (auto simp: resting_def decode_loop_short)

lemma step_stats_counts:
  assumes "starts_frame b" "24 \<le> length b"
  shows "valid_frames (step_stats b st) = valid_frames st + of_nat (length (step_out b))"
    and "discarded_bytes (step_stats b st) + 24 * of_nat (length (step_out b)) =
           discarded_bytes st + of_nat (step_len b)"
  using decode_take_24 [OF assms]
  by (cases "decode_feedback_frame (take 24 b)";
      auto simp: step_stats_def step_out_def step_len_def is_error_frame_def)+

lemma byte_balance:
  fixes a a' a1 b o1 o' r s :: "'a :: ab_group_add"
  assumes "a' + o' + r = a1 + b" "a1 + o1 = a + s"
  shows "a' + (o1 + o') + r = a + (b + s)"
proof -
  have "a' + (o1 + o') + r = (a' + o' + r) + o1" by (simp add: ac_simps)
  also have "\<dots> = (a1 + o1) + b" unfolding assms(1) by (simp add: ac_simps)
  also have "\<dots> = a + (b + s)" unfolding assms(2) by (simp add: ac_simps)
  finally show ?thesis .
qed

lemma decode_loop_counts:
  "decode_loop b st dec = (r, st', dec @ out) \<Longrightarrow>
     valid_frames st' = valid_frames st + of_nat (length out) \<and>
     discarded_bytes st' + 24 * of_nat (length out) + of_nat (length r) =
       discarded_bytes st + of_nat (length b)"
proof (induction b arbitrary: st dec out rule: scan_induct)
  case (Step b)
  obtain out' where out: "out = step_out b @ out'"
    using Step.prems decode_loop_acc [of "drop (step_len b) b" "step_stats b st" "dec @ step_out b"]
    by (auto simp: decode_loop_step Step.hyps split: prod.splits)
  have ih: "valid_frames st' = valid_frames (step_stats b st) + of_nat (length out') \<and>
     discarded_bytes st' + 24 * of_nat (length out') + of_nat (length r) =
       discarded_bytes (step_stats b st) + of_nat (length (drop (step_len b) b))"
    using Step.prems by (intro Step.IH [where dec = "dec @ step_out b"]) (simp add: decode_loop_step Step.hyps out)
  have len: "(of_nat (length b) :: u64) = of_nat (length (drop (step_len b) b)) + of_nat (step_len b)"
    using Step.hyps by (simp add: step_len_def of_nat_diff)
  show ?case
    using ih step_stats_counts [OF Step.hyps, of st]
      byte_balance [OF ih [THEN conjunct2] step_stats_counts(2) [OF Step.hyps, of st]]
    by (simp add: out len distrib_left add.assoc)
next
  case (Skip x b)
  from Skip.prems have "decode_loop b (st\<lparr>discarded_bytes := discarded_bytes st + 1\<rparr>) dec = (r, st', dec @ out)"
    by (simp add: decode_loop_skip Skip.hyps)
  from Skip.IH [OF this] show ?case by simp
qed (simp_all add: decode_loop_short)

section \<open>Stream interface of the decoder\<close>

text \<open>
  What the reader of the serial port needs from a decoder: it can be fed the stream in
  pieces. The laws are about one piece; the lemmas extend them to any way of cutting.
\<close>

fun feed_all :: "('s \<Rightarrow> 'i list \<Rightarrow> 's \<times> 'o list) \<Rightarrow> 's \<Rightarrow> 'i list list \<Rightarrow> 's \<times> 'o list" where
  "feed_all feed s [] = (s, [])"
| "feed_all feed s (c # cs) =
     (case feed s c of (s', out) \<Rightarrow> case feed_all feed s' cs of (s'', out') \<Rightarrow> (s'', out @ out'))"

locale stream_decoder =
  fixes feed :: "'s \<Rightarrow> 'i list \<Rightarrow> 's \<times> 'o list"
    and ok :: "'s \<Rightarrow> bool"
  assumes feed_ok: "ok s \<Longrightarrow> feed s xs = (s', out) \<Longrightarrow> ok s'"
    and feed_nothing: "ok s \<Longrightarrow> feed s [] = (s, [])"
    and feed_append: "ok s \<Longrightarrow> feed s (xs @ ys) =
      (case feed s xs of (s', out) \<Rightarrow> case feed s' ys of (s'', out') \<Rightarrow> (s'', out @ out'))"
begin

lemma feed_all_concat: "ok s \<Longrightarrow> feed_all feed s cs = feed s (concat cs)"
  by (induction cs arbitrary: s) (auto simp: feed_nothing feed_append feed_ok split: prod.split)

lemma feed_all_ok: "ok s \<Longrightarrow> feed_all feed s cs = (s', out) \<Longrightarrow> ok s'"
  by (simp add: feed_all_concat feed_ok)

lemma chunking_irrelevant:
  "ok s \<Longrightarrow> concat cs = concat ds \<Longrightarrow> feed_all feed s cs = feed_all feed s ds"
  by (simp add: feed_all_concat)

end

definition decoder_ok :: "FeedbackStreamDecoder \<Rightarrow> bool" where
  "decoder_ok d \<longleftrightarrow> resting (decoder_buffer d)"

lemma decoder_ok_init [simp]: "decoder_ok FeedbackStreamDecoder_init"
  by (simp add: decoder_ok_def FeedbackStreamDecoder_init_def resting_def)

lemma decoder_append_Nil: "decoder_ok d \<Longrightarrow> decoder_append d [] = (d, [])"
  by (simp add: decoder_append_def decoder_ok_def decode_loop_of_resting)

lemma decoder_append_ok: "decoder_append d xs = (d', out) \<Longrightarrow> decoder_ok d'"
  by (auto simp: decoder_append_def decoder_ok_def split: prod.splits dest: decode_loop_resting)

lemma decoder_append_append:
  "decoder_append d (xs @ ys) =
     (case decoder_append d xs of (d', out) \<Rightarrow>
      case decoder_append d' ys of (d'', out') \<Rightarrow> (d'', out @ out'))"
proof -
  obtain r st out where e: "decode_loop (decoder_buffer d @ xs) (decoder_stats d) [] = (r, st, out)"
    by (cases "decode_loop (decoder_buffer d @ xs) (decoder_stats d) []")
  show ?thesis
    using decode_loop_append [of "decoder_buffer d @ xs" ys "decoder_stats d" "[]"]
      decode_loop_acc [of "r @ ys" st out]
    by (simp add: decoder_append_def e split: prod.splits)
qed

interpretation rc: stream_decoder decoder_append decoder_ok
  by unfold_locales (auto simp: decoder_append_Nil decoder_append_append intro: decoder_append_ok)

text \<open>
  C15: How the serial port cuts the byte stream into reads does not matter: however the same
  bytes arrive in pieces, the decoder delivers the same messages in the same order and ends
  in the same state, counters included, as if they had arrived in one piece.
\<close>

theorem decoder_chunk_invariance:
  assumes "decoder_ok d"
  shows "feed_all decoder_append d chunks = decoder_append d (concat chunks)"
  using assms by (rule rc.feed_all_concat)

theorem decoder_chunk_invariance_witness:
  "feed_all decoder_append FeedbackStreamDecoder_init [[0x7B], [], [0x00, 0x7D]] =
   decoder_append FeedbackStreamDecoder_init [0x7B, 0x00, 0x7D]"
  using decoder_chunk_invariance [OF decoder_ok_init, of "[[0x7B], [], [0x00, 0x7D]]"] by simp

text \<open>
  Every byte is accounted for. After any call the bytes held back are an incomplete frame
  (fewer than 24 bytes, starting with a frame head), and the 64-bit counters satisfy: bytes
  discarded, plus 24 for each message delivered, plus bytes held, grew by exactly the bytes
  received; the count of valid frames grew by the messages delivered.
\<close>

theorem decoder_byte_accounting:
  "case decoder_append d data of (d', out) \<Rightarrow>
     resting (decoder_buffer d') \<and>
     valid_frames (decoder_stats d') = valid_frames (decoder_stats d) + of_nat (length out) \<and>
     discarded_bytes (decoder_stats d') + 24 * of_nat (length out) + of_nat (length (decoder_buffer d')) =
       discarded_bytes (decoder_stats d) + of_nat (length (decoder_buffer d)) + of_nat (length data)"
proof -
  obtain r st' out where e: "decode_loop (decoder_buffer d @ data) (decoder_stats d) [] = (r, st', out)"
    by (cases "decode_loop (decoder_buffer d @ data) (decoder_stats d) []")
  from decode_loop_counts [of _ _ "[]", simplified, OF e] decode_loop_resting [OF e]
  show ?thesis by (simp add: decoder_append_def e)
qed

text \<open>The messages a byte stream may yield: each from its own 24 bytes, in stream order.\<close>

inductive segmented :: "bytes \<Rightarrow> ChassisFeedback list \<Rightarrow> bytes \<Rightarrow> bool" where
  held: "segmented r [] r"
| dropped: "segmented b out r \<Longrightarrow> segmented (x # b) out r"
| frame: "length f = 24 \<Longrightarrow> decode_feedback_frame f = Some fb \<Longrightarrow> segmented b out r \<Longrightarrow>
    segmented (f @ b) (fb # out) r"

lemma segmented_dropped_many: "segmented b out r \<Longrightarrow> segmented (xs @ b) out r"
  by (induction xs) (auto intro: segmented.dropped)

lemma decode_loop_segmented:
  "decode_loop b st dec = (r, st', dec @ out) \<Longrightarrow> segmented b out r"
proof (induction b arbitrary: st dec out rule: scan_induct)
  case (Step b)
  obtain out' where out: "out = step_out b @ out'"
    using Step.prems decode_loop_acc [of "drop (step_len b) b" "step_stats b st" "dec @ step_out b"]
    by (auto simp: decode_loop_step Step.hyps split: prod.splits)
  have ih: "segmented (drop (step_len b) b) out' r"
    using Step.prems
    by (intro Step.IH [where dec = "dec @ step_out b"]) (simp add: decode_loop_step Step.hyps out)
  show ?case
  proof (cases "decode_feedback_frame (take 24 b)")
    case None
    have "segmented (take (step_len b) b @ drop (step_len b) b) out' r"
      using ih by (rule segmented_dropped_many)
    with None show ?thesis by (simp add: out step_out_def)
  next
    case (Some fb)
    then have "step_len b = 24" "step_out b = [fb]"
      using decode_take_24 [OF Step.hyps] by (auto simp: step_len_def step_out_def)
    with ih segmented.frame [OF _ Some, of "drop 24 b" out' r] Step.hyps show ?thesis
      by (simp add: out)
  qed
next
  case (Skip x b)
  then show ?case by (auto simp: decode_loop_skip intro: segmented.dropped)
qed (auto simp: decode_loop_short intro: segmented.held)

text \<open>
  Soundness of the decoder: every message it delivers was decoded from 24 consecutive
  bytes of the stream that pass the head, tail, checksum and protocol checks; the messages
  come in stream order, no byte serves two of them, and the bytes held back are the stream's
  end.
\<close>

theorem decoder_append_sound:
  "case decoder_append d data of (d', out) \<Rightarrow>
     segmented (decoder_buffer d @ data) out (decoder_buffer d')"
  using decode_loop_segmented [of "decoder_buffer d @ data" "decoder_stats d" "[]"]
  by (auto simp: decoder_append_def split: prod.split)

lemma decode_loop_gap:
  "kRcFrameHead \<notin> set g \<Longrightarrow>
     decode_loop (g @ b) st dec =
       decode_loop b (st\<lparr>discarded_bytes := discarded_bytes st + of_nat (length g)\<rparr>) dec"
  by (induction g arbitrary: st) (auto simp: decode_loop_skip add.assoc)

lemma telemetry_frame_facts:
  "length (telemetry_frame t) = 24" "starts_frame (telemetry_frame t @ b)"
  by (simp_all add: telemetry_frame_def telemetry_body_def be16_def be32_def starts_frame_def
      kRcFrameHead_def)

lemma decode_loop_telemetry:
  "decode_loop (telemetry_frame t @ b) st dec =
     decode_loop b (st\<lparr>valid_frames := valid_frames st + 1\<rparr>) (dec @ [telemetry_value t])"
proof -
  let ?b = "telemetry_frame t @ b"
  have b: "starts_frame ?b" "24 \<le> length ?b" by (simp_all add: telemetry_frame_facts)
  have t24: "take 24 ?b = telemetry_frame t" by (simp add: telemetry_frame_facts)
  have d: "decode_feedback_frame (take 24 ?b) = Some (telemetry_value t)"
    unfolding t24 by (rule decode_telemetry_frame)
  with decode_take_24 [OF b] have "\<not> is_error_frame ?b" "?b ! 21 = kRcTelemetryProtocolId" by auto
  then have "step_len ?b = 24" "step_stats ?b st = st\<lparr>valid_frames := valid_frames st + 1\<rparr>"
    by (auto simp: step_len_def step_stats_def is_error_frame_def)
  moreover have "step_out ?b = [telemetry_value t]" unfolding step_out_def d by simp
  ultimately show ?thesis
    using decode_loop_step [OF b, of st dec] by (simp add: telemetry_frame_facts)
qed

text \<open>
  C10: Completeness of the decoder: when the chassis sends telemetry frames, with any noise
  between them that contains no frame head byte, every frame is delivered, in order, with the
  values the chassis sent, whatever bytes the frames themselves contain; only the noise is
  discarded and no error is counted.
\<close>

theorem decoder_complete:
  assumes "decoder_buffer d = []" and "\<forall>(gap, t) \<in> set sent. kRcFrameHead \<notin> set gap"
  shows "decoder_append d (concat (map (\<lambda>(gap, t). gap @ telemetry_frame t) sent)) =
     (\<lparr>decoder_buffer = [],
       decoder_stats = (decoder_stats d)
         \<lparr>valid_frames := valid_frames (decoder_stats d) + of_nat (length sent),
          discarded_bytes := discarded_bytes (decoder_stats d) +
            of_nat (sum_list (map (length \<circ> fst) sent))\<rparr>\<rparr>,
      map (telemetry_value \<circ> snd) sent)"
proof -
  have "decode_loop (concat (map (\<lambda>(gap, t). gap @ telemetry_frame t) sent)) st dec =
     ([], st\<lparr>valid_frames := valid_frames st + of_nat (length sent),
             discarded_bytes := discarded_bytes st + of_nat (sum_list (map (length \<circ> fst) sent))\<rparr>,
      dec @ map (telemetry_value \<circ> snd) sent)" for st dec
    using assms(2)
    by (induction sent arbitrary: st dec)
      (auto simp: decode_loop_gap decode_loop_telemetry ac_simps)
  then show ?thesis using assms(1) by (simp add: decoder_append_def)
qed

definition sample_telemetry :: Telemetry where
  "sample_telemetry =
     \<lparr>tm_flags = 1, tm_sequence = 0x7B, tm_hall_delta = 0xFFFFFFFF, tm_speed = 0x7B7B,
      tm_steering = 0, tm_yaw_rate = 0, tm_battery = 12000, tm_dt = 20, tm_status = 0x40\<rparr>"

theorem decoder_complete_witness:
  "snd (decoder_append FeedbackStreamDecoder_init
          (concat (map (\<lambda>(gap, t). gap @ telemetry_frame t)
             [([0, 0x7D], sample_telemetry), ([], sample_telemetry)]))) =
   [telemetry_value sample_telemetry, telemetry_value sample_telemetry]"
  by (subst decoder_complete)
    (simp_all add: FeedbackStreamDecoder_init_def kRcFrameHead_def)

lemma discard_buffer_ok [simp]: "decoder_ok (discard_buffer d)"
  by (simp add: discard_buffer_def decoder_ok_def resting_def)

lemma discard_buffer_buffer [simp]: "decoder_buffer (discard_buffer d) = []"
  by (simp add: discard_buffer_def)

end
