(* ===== verification/Rc_Vehicle_State.thy ===== *)
theory Rc_Vehicle_State
  imports Rc_Serial_Protocol
begin

text \<open>
  Interpretation of the chassis telemetry and the two time monitors of the RC adapter
  (\<open>rc_vehicle_state.hpp/.cpp\<close>): predicates on the status bits of a feedback message, the
  direction contract of the logical gear, the freshness monitor of the emergency status and
  the monitor that expects wheel feedback while motion is commanded. Times are readings of a
  monotonic clock in milliseconds; they are non-negative and far from the 64-bit limits, so
  their differences are taken in the integers.
\<close>

section \<open>Status bits\<close>

datatype LogicalGear = kPark | kNeutral | kDrive | kReverse

datatype ReportedControlMode = kNoCommand | kAutonomous | kManual

definition status_has :: "ChassisFeedback \<Rightarrow> u32 \<Rightarrow> bool" where
  "status_has feedback mask_bits \<longleftrightarrow> status_bits feedback AND mask_bits \<noteq> 0"

definition has_latched_chassis_fault :: "ChassisFeedback \<Rightarrow> bool" where
  "has_latched_chassis_fault feedback = status_has feedback kRcStatusFaultLatched"

definition has_live_chassis_fault :: "ChassisFeedback \<Rightarrow> bool" where
  "has_live_chassis_fault feedback =
     (let kLiveFaultMask = kRcStatusRcInputFault in status_has feedback kLiveFaultMask)"

definition fault_clear_is_permitted :: "ChassisFeedback \<Rightarrow> bool" where
  "fault_clear_is_permitted feedback =
     (let kClearBlocked = kRcStatusCommandTimeout OR kRcStatusRcOverrideActive OR
                          kRcStatusStopOverrideActive
      in has_latched_chassis_fault feedback \<and> \<not> has_live_chassis_fault feedback \<and>
         status_has feedback kRcStatusAutoEnabled \<and> \<not> status_has feedback kClearBlocked)"

definition reported_control_mode :: "ChassisFeedback \<Rightarrow> ReportedControlMode" where
  "reported_control_mode feedback =
     (if status_has feedback kRcStatusRcOverrideActive then kManual
      else
        let kAutomaticCommandBlocked =
              kRcStatusCommandTimeout OR kRcStatusStopOverrideActive OR kRcStatusFaultLatched OR
              kRcStatusHallFault OR kRcStatusRcInputFault OR kRcStatusFrameErrorSeen
        in if status_has feedback kRcStatusAutoEnabled \<and>
              \<not> status_has feedback kAutomaticCommandBlocked
           then kAutonomous else kNoCommand)"

definition steering_estimate_is_valid :: "ChassisFeedback \<Rightarrow> bool" where
  "steering_estimate_is_valid feedback = status_has feedback kRcStatusSteeringEstimateValid"

datatype HallFeedbackDecision = kNotRequired | kAcquiring | kValid | kFault

datatype VelocityFeedbackState = kUnavailable | kMeasuredMotion | kConfirmedStandstill | kInconsistent

definition velocity_feedback_state :: "ChassisFeedback \<Rightarrow> VelocityFeedbackState" where
  "velocity_feedback_state feedback =
     (let measured_motion = status_has feedback kRcStatusHallFeedbackValid;
          confirmed_standstill = status_has feedback kRcStatusHallStandstillConfirmed;
          wire_speed_is_zero = fp_eq (hall_speed_command_signed_mps feedback) (Fin 0)
      in if measured_motion \<and> \<not> confirmed_standstill \<and> \<not> wire_speed_is_zero
         then kMeasuredMotion
         else if \<not> measured_motion \<and> confirmed_standstill \<and> wire_speed_is_zero
         then kConfirmedStandstill
         else if \<not> measured_motion \<and> \<not> confirmed_standstill \<and> wire_speed_is_zero
         then kUnavailable
         else kInconsistent)"

definition velocity_report_is_publishable ::
  "ChassisFeedback \<Rightarrow> HallFeedbackDecision \<Rightarrow> bool" where
  "velocity_report_is_publishable feedback hall_decision =
     (case velocity_feedback_state feedback of
        kMeasuredMotion \<Rightarrow> True
      | kConfirmedStandstill \<Rightarrow> hall_decision = kNotRequired
      | kUnavailable \<Rightarrow> False
      | kInconsistent \<Rightarrow> False)"

fun logical_gear_allows_speed :: "LogicalGear \<Rightarrow> fp \<Rightarrow> bool" where
  "logical_gear_allows_speed kDrive speed_mps = (Fin 0 \<le> speed_mps)"
| "logical_gear_allows_speed kReverse speed_mps = (speed_mps \<le> Fin 0)"
| "logical_gear_allows_speed kPark speed_mps = fp_eq speed_mps (Fin 0)"
| "logical_gear_allows_speed kNeutral speed_mps = fp_eq speed_mps (Fin 0)"

definition manual_stop_is_required :: "bool \<Rightarrow> bool \<Rightarrow> bool \<Rightarrow> bool" where
  "manual_stop_is_required autonomous_requested has_transmitted_command stop_already_sent \<longleftrightarrow>
     \<not> stop_already_sent \<and> (autonomous_requested \<or> has_transmitted_command)"

section \<open>Emergency status monitor\<close>

record EmergencyStatusMonitor =
  em_timeout_ms :: int
  em_last_observation_ms :: int
  em_received :: bool
  em_active :: bool

definition EmergencyStatusMonitor_new :: "int \<Rightarrow> serial_error + EmergencyStatusMonitor" where
  "EmergencyStatusMonitor_new timeout_ms =
     (if timeout_ms \<le> 0
      then Inl (invalid_argument ''emergency status timeout must be positive'')
      else Inr \<lparr>em_timeout_ms = timeout_ms, em_last_observation_ms = 0, em_received = False,
                em_active = False\<rparr>)"

definition em_observe :: "bool \<Rightarrow> int \<Rightarrow> EmergencyStatusMonitor \<Rightarrow> EmergencyStatusMonitor" where
  "em_observe active monotonic_ms m =
     m\<lparr>em_last_observation_ms := monotonic_ms, em_received := True, em_active := active\<rparr>"

definition fresh_and_clear :: "EmergencyStatusMonitor \<Rightarrow> int \<Rightarrow> bool" where
  "fresh_and_clear m monotonic_ms =
     (if \<not> em_received m \<or> em_active m \<or> monotonic_ms < em_last_observation_ms m then False
      else monotonic_ms - em_last_observation_ms m \<le> em_timeout_ms m)"

section \<open>Hall feedback monitor\<close>

record HallFeedbackMonitor =
  acquisition_timeout_ms :: int
  loss_timeout_ms :: int
  motion_started_ms :: int
  loss_started_ms :: int
  command_direction :: int
  motion_expected :: bool
  feedback_acquired :: bool
  loss_active :: bool

definition HallFeedbackMonitor_new :: "int \<Rightarrow> int \<Rightarrow> serial_error + HallFeedbackMonitor" where
  "HallFeedbackMonitor_new acq loss =
     (if acq \<le> 0 \<or> loss \<le> 0
      then Inl (invalid_argument ''Hall feedback acquisition and loss timeouts must be positive'')
      else Inr \<lparr>acquisition_timeout_ms = acq, loss_timeout_ms = loss, motion_started_ms = 0,
                loss_started_ms = 0, command_direction = 0, motion_expected = False,
                feedback_acquired = False, loss_active = False\<rparr>)"

definition hall_reset :: "HallFeedbackMonitor \<Rightarrow> HallFeedbackMonitor" where
  "hall_reset m =
     m\<lparr>motion_started_ms := 0, command_direction := 0, motion_expected := False,
       feedback_acquired := False, loss_started_ms := 0, loss_active := False\<rparr>"

definition direction_of :: "fp \<Rightarrow> int" where
  "direction_of speed_mps = (if Fin 0 < speed_mps then 1 else if speed_mps < Fin 0 then - 1 else 0)"

definition note_effective_command :: "fp \<Rightarrow> int \<Rightarrow> HallFeedbackMonitor \<Rightarrow> HallFeedbackMonitor" where
  "note_effective_command speed_mps monotonic_ms m =
     (let direction = direction_of speed_mps
      in if direction = 0 then hall_reset m
         else if \<not> motion_expected m \<or> direction \<noteq> command_direction m
         then m\<lparr>motion_started_ms := monotonic_ms, command_direction := direction,
                motion_expected := True, feedback_acquired := False, loss_active := False\<rparr>
         else m)"

definition hall_observe ::
  "bool \<Rightarrow> int \<Rightarrow> HallFeedbackMonitor \<Rightarrow> HallFeedbackDecision \<times> HallFeedbackMonitor" where
  "hall_observe feedback_valid monotonic_ms m =
     (if \<not> motion_expected m then (kNotRequired, m)
      else if feedback_valid
      then (kValid, m\<lparr>feedback_acquired := True, loss_active := False\<rparr>)
      else if monotonic_ms < motion_started_ms m then (kFault, m)
      else if \<not> feedback_acquired m
      then (if monotonic_ms - motion_started_ms m \<ge> acquisition_timeout_ms m
            then kFault else kAcquiring, m)
      else if \<not> loss_active m
      then (kAcquiring, m\<lparr>loss_started_ms := monotonic_ms, loss_active := True\<rparr>)
      else if monotonic_ms < loss_started_ms m \<or>
              monotonic_ms - loss_started_ms m \<ge> loss_timeout_ms m
      then (kFault, m)
      else (kAcquiring, m))"

section \<open>What the status predicates decide\<close>

lemma status_has_or: "status_has f (a OR b) \<longleftrightarrow> status_has f a \<or> status_has f b"
  by (simp add: status_has_def bit.conj_disj_distrib or_eq_0_iff)

lemma status_has_bit: "status_has f (push_bit n 1) \<longleftrightarrow> bit (status_bits f) n"
  by (simp add: status_has_def bit_iff_and_push_bit_not_eq_0)

lemma status_has_masks:
  "status_has f kRcStatusFaultLatched \<longleftrightarrow> bit (status_bits f) 0"
  "status_has f kRcStatusCommandTimeout \<longleftrightarrow> bit (status_bits f) 1"
  "status_has f kRcStatusRcOverrideActive \<longleftrightarrow> bit (status_bits f) 2"
  "status_has f kRcStatusStopOverrideActive \<longleftrightarrow> bit (status_bits f) 3"
  "status_has f kRcStatusAutoEnabled \<longleftrightarrow> bit (status_bits f) 5"
  "status_has f kRcStatusHallFeedbackValid \<longleftrightarrow> bit (status_bits f) 6"
  "status_has f kRcStatusHallFault \<longleftrightarrow> bit (status_bits f) 7"
  "status_has f kRcStatusSteeringEstimateValid \<longleftrightarrow> bit (status_bits f) 8"
  "status_has f kRcStatusRcInputFault \<longleftrightarrow> bit (status_bits f) 10"
  "status_has f kRcStatusHallStandstillConfirmed \<longleftrightarrow> bit (status_bits f) 12"
  "status_has f kRcStatusFrameErrorSeen \<longleftrightarrow> bit (status_bits f) 18"
  unfolding status_has_bit [symmetric] by (simp_all add: status_consts)

lemmas status_tests = status_has_or status_has_masks Let_def

text \<open>
  The two decisions taken from the status word, bit by bit: automatic mode is reported
  exactly when AUTO_ENABLED is set and none of the timeout, override, stop, fault, Hall fault,
  RC input and frame error bits is; a fault may be cleared exactly when a latched fault is
  visible on an enabled, otherwise unblocked automatic path. So the two never hold together.
\<close>

theorem status_decisions:
  "(reported_control_mode fb = kAutonomous \<longleftrightarrow>
      bit (status_bits fb) 5 \<and> \<not> bit (status_bits fb) 0 \<and> \<not> bit (status_bits fb) 1 \<and>
      \<not> bit (status_bits fb) 2 \<and> \<not> bit (status_bits fb) 3 \<and> \<not> bit (status_bits fb) 7 \<and>
      \<not> bit (status_bits fb) 10 \<and> \<not> bit (status_bits fb) 18) \<and>
   (fault_clear_is_permitted fb \<longleftrightarrow>
      bit (status_bits fb) 0 \<and> bit (status_bits fb) 5 \<and>
      \<not> bit (status_bits fb) 1 \<and> \<not> bit (status_bits fb) 2 \<and> \<not> bit (status_bits fb) 3 \<and>
      \<not> bit (status_bits fb) 10)"
  by (auto simp: reported_control_mode_def fault_clear_is_permitted_def has_latched_chassis_fault_def
      has_live_chassis_fault_def status_tests)

lemma no_clear_in_autonomous:
  "fault_clear_is_permitted fb \<Longrightarrow> reported_control_mode fb \<noteq> kAutonomous"
  by (auto simp: reported_control_mode_def fault_clear_is_permitted_def has_latched_chassis_fault_def
      status_tests)

lemma velocity_report_sources:
  "velocity_report_is_publishable fb d \<Longrightarrow>
     bit (status_bits fb) 6 \<and> \<not> bit (status_bits fb) 12 \<and>
       \<not> fp_eq (hall_speed_command_signed_mps fb) (Fin 0) \<or>
     \<not> bit (status_bits fb) 6 \<and> bit (status_bits fb) 12 \<and> d = kNotRequired \<and>
       hall_speed_command_signed_mps fb = Fin 0"
  by (auto simp: velocity_report_is_publishable_def velocity_feedback_state_def status_tests
      fp_eq_def split: if_splits VelocityFeedbackState.splits)

section \<open>Emergency status: freshness over a history\<close>

text \<open>A monitor after a history of observations \<open>(active, time)\<close>, oldest first.\<close>

definition em_after :: "EmergencyStatusMonitor \<Rightarrow> (bool \<times> int) list \<Rightarrow> EmergencyStatusMonitor" where
  "em_after m h = foldl (\<lambda>m (a, t). em_observe a t m) m h"

lemma em_after_state:
  "em_timeout_ms (em_after m h) = em_timeout_ms m \<and>
   (h \<noteq> [] \<longrightarrow> em_received (em_after m h) \<and> em_active (em_after m h) = fst (last h) \<and>
      em_last_observation_ms (em_after m h) = snd (last h))"
  by (induction h rule: rev_induct) (auto simp: em_after_def em_observe_def)

text \<open>
  The emergency status counts as fresh and clear only on positive evidence: for a monitor
  built by the constructor and any history of observations, the answer is yes exactly when
  there is an observation, the latest one is inactive, and its age lies between zero and the
  (positive) timeout. No observation, a clock that ran backwards or an old observation mean no.
\<close>

theorem fresh_and_clear_history:
  assumes "EmergencyStatusMonitor_new timeout = Inr m"
  shows "0 < timeout \<and>
     (fresh_and_clear (em_after m h) now \<longleftrightarrow>
        h \<noteq> [] \<and> \<not> fst (last h) \<and> 0 \<le> now - snd (last h) \<and> now - snd (last h) \<le> timeout)"
proof (cases "h = []")
  case True
  with assms show ?thesis
    by (auto simp: EmergencyStatusMonitor_new_def fresh_and_clear_def em_after_def split: if_splits)
next
  case False
  with assms em_after_state [of m h] show ?thesis
    by (auto simp: EmergencyStatusMonitor_new_def fresh_and_clear_def split: if_splits)
qed

theorem fresh_and_clear_history_witness:
  "\<exists>m. EmergencyStatusMonitor_new 500 = Inr m \<and>
       fresh_and_clear (em_after m [(True, 100), (False, 300)]) 800 \<and>
       \<not> fresh_and_clear (em_after m [(True, 100), (False, 300)]) 801"
proof -
  have e: "EmergencyStatusMonitor_new 500 =
      Inr \<lparr>em_timeout_ms = 500, em_last_observation_ms = 0, em_received = False, em_active = False\<rparr>"
    by (simp add: EmergencyStatusMonitor_new_def)
  show ?thesis
    using fresh_and_clear_history [OF e, of "[(True, 100), (False, 300)]" 800]
      fresh_and_clear_history [OF e, of "[(True, 100), (False, 300)]" 801] e by auto
qed

section \<open>Hall feedback: phases of an episode\<close>

text \<open>
  The contract of the monitor as a small state machine. Motion in a direction is expected
  from the command that starts it (\<open>Awaiting\<close>, with the starting time), confirmed by the first
  valid feedback (\<open>Moving\<close>) and doubted from the first invalid one after that (\<open>Losing\<close>).
\<close>

datatype hall_phase = Idle | Awaiting int int | Moving int int | Losing int int int

definition hall_phase_of :: "HallFeedbackMonitor \<Rightarrow> hall_phase" where
  "hall_phase_of m =
     (if \<not> motion_expected m then Idle
      else if \<not> feedback_acquired m then Awaiting (command_direction m) (motion_started_ms m)
      else if \<not> loss_active m then Moving (command_direction m) (motion_started_ms m)
      else Losing (command_direction m) (motion_started_ms m) (loss_started_ms m))"

fun phase_direction :: "hall_phase \<Rightarrow> int" where
  "phase_direction Idle = 0"
| "phase_direction (Awaiting d t0) = d"
| "phase_direction (Moving d t0) = d"
| "phase_direction (Losing d t0 t1) = d"

definition phase_note :: "int \<Rightarrow> int \<Rightarrow> hall_phase \<Rightarrow> hall_phase" where
  "phase_note d t p = (if d = 0 then Idle else if d = phase_direction p then p else Awaiting d t)"

fun phase_observe :: "int \<Rightarrow> int \<Rightarrow> bool \<Rightarrow> int \<Rightarrow> hall_phase \<Rightarrow> HallFeedbackDecision \<times> hall_phase" where
  "phase_observe acq loss v t Idle = (kNotRequired, Idle)"
| "phase_observe acq loss v t (Awaiting d t0) =
     (if v then (kValid, Moving d t0)
      else (if t < t0 \<or> acq \<le> t - t0 then kFault else kAcquiring, Awaiting d t0))"
| "phase_observe acq loss v t (Moving d t0) =
     (if v then (kValid, Moving d t0)
      else if t < t0 then (kFault, Moving d t0) else (kAcquiring, Losing d t0 t))"
| "phase_observe acq loss v t (Losing d t0 t1) =
     (if v then (kValid, Moving d t0)
      else (if t < t0 \<or> t < t1 \<or> loss \<le> t - t1 then kFault else kAcquiring, Losing d t0 t1))"

definition hall_inv :: "HallFeedbackMonitor \<Rightarrow> bool" where
  "hall_inv m \<longleftrightarrow>
     0 < acquisition_timeout_ms m \<and> 0 < loss_timeout_ms m \<and>
     (motion_expected m \<longleftrightarrow> command_direction m \<noteq> 0) \<and>
     (feedback_acquired m \<longrightarrow> motion_expected m) \<and> (loss_active m \<longrightarrow> feedback_acquired m)"

lemma hall_inv_new: "HallFeedbackMonitor_new acq loss = Inr m \<Longrightarrow> hall_inv m"
  by (auto simp: HallFeedbackMonitor_new_def hall_inv_def split: if_splits)

lemma hall_inv_note: "hall_inv m \<Longrightarrow> hall_inv (note_effective_command v t m)"
  by (auto simp: hall_inv_def note_effective_command_def hall_reset_def Let_def)

lemma hall_inv_observe: "hall_inv m \<Longrightarrow> hall_inv (snd (hall_observe v t m))"
  by (auto simp: hall_inv_def hall_observe_def)

lemma hall_inv_reset: "hall_inv m \<Longrightarrow> hall_inv (hall_reset m)"
  by (auto simp: hall_inv_def hall_reset_def)

lemma hall_phase_note:
  "hall_inv m \<Longrightarrow>
     hall_phase_of (note_effective_command v t m) = phase_note (direction_of v) t (hall_phase_of m)"
  by (auto simp: hall_inv_def hall_phase_of_def note_effective_command_def phase_note_def hall_reset_def
      Let_def)

lemma hall_phase_observe:
  "hall_inv m \<Longrightarrow>
     (case hall_observe v t m of (d, m') \<Rightarrow> (d, hall_phase_of m')) =
     phase_observe (acquisition_timeout_ms m) (loss_timeout_ms m) v t (hall_phase_of m)"
  by (auto simp: hall_inv_def hall_phase_of_def hall_observe_def)

text \<open>Traces of calls on a monitor; the decisions of the observations are collected.\<close>

datatype hall_event = Note fp int | Observe bool int | Reset

fun hall_run :: "HallFeedbackMonitor \<Rightarrow> hall_event list \<Rightarrow> HallFeedbackDecision list \<times> HallFeedbackMonitor" where
  "hall_run m [] = ([], m)"
| "hall_run m (Note v t # es) = hall_run (note_effective_command v t m) es"
| "hall_run m (Reset # es) = hall_run (hall_reset m) es"
| "hall_run m (Observe v t # es) =
     (case hall_observe v t m of (d, m') \<Rightarrow> case hall_run m' es of (ds, m'') \<Rightarrow> (d # ds, m''))"

fun phase_run :: "int \<Rightarrow> int \<Rightarrow> hall_phase \<Rightarrow> hall_event list \<Rightarrow> HallFeedbackDecision list \<times> hall_phase" where
  "phase_run acq loss p [] = ([], p)"
| "phase_run acq loss p (Note v t # es) = phase_run acq loss (phase_note (direction_of v) t p) es"
| "phase_run acq loss p (Reset # es) = phase_run acq loss Idle es"
| "phase_run acq loss p (Observe v t # es) =
     (case phase_observe acq loss v t p of (d, p') \<Rightarrow>
      case phase_run acq loss p' es of (ds, p'') \<Rightarrow> (d # ds, p''))"

lemma hall_timeouts [simp]:
  "acquisition_timeout_ms (note_effective_command v t m) = acquisition_timeout_ms m"
  "loss_timeout_ms (note_effective_command v t m) = loss_timeout_ms m"
  "acquisition_timeout_ms (snd (hall_observe f t m)) = acquisition_timeout_ms m"
  "loss_timeout_ms (snd (hall_observe f t m)) = loss_timeout_ms m"
  "acquisition_timeout_ms (hall_reset m) = acquisition_timeout_ms m"
  "loss_timeout_ms (hall_reset m) = loss_timeout_ms m"
  by (simp_all add: note_effective_command_def hall_observe_def hall_reset_def Let_def)

lemma hall_phase_reset [simp]: "hall_phase_of (hall_reset m) = Idle"
  by (simp add: hall_phase_of_def hall_reset_def)

lemma hall_run_refines:
  "hall_inv m \<Longrightarrow>
     (case hall_run m es of (ds, m') \<Rightarrow> (ds, hall_phase_of m')) =
     phase_run (acquisition_timeout_ms m) (loss_timeout_ms m) (hall_phase_of m) es \<and>
     hall_inv (snd (hall_run m es))"
proof (induction m es rule: hall_run.induct)
  case (4 m v t es)
  obtain d m' where o: "hall_observe v t m = (d, m')" by (cases "hall_observe v t m")
  have "hall_inv m'" "acquisition_timeout_ms m' = acquisition_timeout_ms m"
    "loss_timeout_ms m' = loss_timeout_ms m"
    using hall_inv_observe [OF 4(2), of v t] hall_timeouts(3,4) [of v t m] by (simp_all add: o)
  with 4 hall_phase_observe [OF 4(2), of v t] o show ?case
    by (auto split: prod.splits)
qed (simp_all add: hall_inv_note hall_phase_note hall_inv_reset)

lemma hall_run_append:
  "hall_run m (es @ fs) =
     (case hall_run m es of (ds, m') \<Rightarrow> case hall_run m' fs of (ds', m'') \<Rightarrow> (ds @ ds', m''))"
  by (induction m es rule: hall_run.induct) (auto split: prod.splits)

lemma hall_run_inv: "hall_inv m \<Longrightarrow> hall_inv (snd (hall_run m es))"
  using hall_run_refines [of m es] by simp

lemma hall_run_phase:
  "hall_inv m \<Longrightarrow> hall_phase_of (snd (hall_run m es)) =
     snd (phase_run (acquisition_timeout_ms m) (loss_timeout_ms m) (hall_phase_of m) es)"
  using hall_run_refines [of m es] by (cases "hall_run m es") (simp, metis snd_conv)

lemma hall_run_timeouts:
  "acquisition_timeout_ms (snd (hall_run m es)) = acquisition_timeout_ms m \<and>
   loss_timeout_ms (snd (hall_run m es)) = loss_timeout_ms m"
proof (induction m es rule: hall_run.induct)
  case (4 m v t es)
  then show ?case
    using hall_timeouts(3,4) [of v t m] by (cases "hall_observe v t m") (auto split: prod.splits)
qed simp_all

text \<open>
  C19: Refinement of the Hall monitor: for every monitor the constructor accepts and every
  sequence of commands, observations and resets, its decisions are those of the episode
  machine (idle, awaiting, moving, losing), and the monitor's flags stay consistent.
\<close>

theorem hall_monitor_refines:
  assumes "HallFeedbackMonitor_new acq loss = Inr m"
  shows "(case hall_run m es of (ds, m') \<Rightarrow> (ds, hall_phase_of m')) = phase_run acq loss Idle es \<and>
     hall_inv (snd (hall_run m es))"
proof -
  have "hall_phase_of m = Idle" "acquisition_timeout_ms m = acq" "loss_timeout_ms m = loss"
    using assms by (auto simp: HallFeedbackMonitor_new_def hall_phase_of_def split: if_splits)
  with hall_run_refines [OF hall_inv_new [OF assms], of es] show ?thesis by simp
qed

definition sample_hall :: HallFeedbackMonitor where
  "sample_hall =
     \<lparr>acquisition_timeout_ms = 500, loss_timeout_ms = 300, motion_started_ms = 0, loss_started_ms = 0,
      command_direction = 0, motion_expected = False, feedback_acquired = False, loss_active = False\<rparr>"

lemma sample_hall_new: "HallFeedbackMonitor_new 500 300 = Inr sample_hall"
  by (simp add: HallFeedbackMonitor_new_def sample_hall_def)

theorem hall_monitor_refines_witness:
  "fst (hall_run sample_hall [Note (Fin 1) 10, Observe False 20, Observe True 30, Note (Fin (- 1)) 40]) =
     [kAcquiring, kValid]"
  using hall_monitor_refines [OF sample_hall_new,
      of "[Note (Fin 1) 10, Observe False 20, Observe True 30, Note (Fin (- 1)) 40]"]
  by (simp add: phase_note_def direction_of_def split: prod.splits)

text \<open>Events that neither change the commanded direction nor show valid feedback.\<close>

fun silent :: "int \<Rightarrow> hall_event \<Rightarrow> bool" where
  "silent d (Note v t) = (direction_of v = d)"
| "silent d (Observe v t) = (\<not> v)"
| "silent d Reset = False"

lemma phase_run_awaiting:
  "d \<noteq> 0 \<Longrightarrow> list_all (silent d) es \<Longrightarrow> snd (phase_run acq loss (Awaiting d t0) es) = Awaiting d t0"
proof (induction es)
  case (Cons e es)
  then show ?case by (cases e) (auto simp: phase_note_def split: prod.splits)
qed simp

lemma phase_run_losing:
  "d \<noteq> 0 \<Longrightarrow> list_all (silent d) es \<Longrightarrow> snd (phase_run acq loss (Losing d t0 t1) es) = Losing d t0 t1"
proof (induction es)
  case (Cons e es)
  then show ?case by (cases e) (auto simp: phase_note_def split: prod.splits)
qed simp

lemma hall_observe_phase:
  assumes "hall_inv m"
  shows "fst (hall_observe v t m) =
     fst (phase_observe (acquisition_timeout_ms m) (loss_timeout_ms m) v t (hall_phase_of m))"
  using hall_phase_observe [OF assms, of v t] by (auto split: prod.splits dest: arg_cong [where f = fst])

lemma phase_direction_of: "hall_inv m \<Longrightarrow> phase_direction (hall_phase_of m) = command_direction m"
  by (auto simp: hall_phase_of_def hall_inv_def)

text \<open>
  Acquisition deadline: once a motion command in a new direction is in effect at time
  \<open>t0\<close>, then as long as the direction is kept and no valid feedback arrives, repeated
  commands never restart the clock: an invalid observation at time \<open>t\<close> is a fault exactly
  when the acquisition timeout has passed since \<open>t0\<close> (or the clock ran backwards).
\<close>

theorem hall_acquisition_deadline:
  assumes "HallFeedbackMonitor_new acq loss = Inr m"
    and "direction_of v \<noteq> 0" "command_direction (snd (hall_run m pre)) \<noteq> direction_of v"
    and "list_all (silent (direction_of v)) mid"
  shows "fst (hall_observe False t (snd (hall_run m (pre @ Note v t0 # mid)))) =
     (if t < t0 \<or> acq \<le> t - t0 then kFault else kAcquiring)"
proof -
  let ?m1 = "snd (hall_run m pre)" and ?m2 = "snd (hall_run m (pre @ Note v t0 # mid))"
  have acq: "acquisition_timeout_ms m = acq"
    using assms(1) by (auto simp: HallFeedbackMonitor_new_def split: if_splits)
  note inv = hall_inv_new [OF assms(1)]
  have i1: "hall_inv ?m1" and i2: "hall_inv ?m2" using hall_run_inv [OF inv] by blast+
  have "?m2 = snd (hall_run (note_effective_command v t0 ?m1) mid)"
    by (simp add: hall_run_append split: prod.splits)
  then have "hall_phase_of ?m2 =
      snd (phase_run (acquisition_timeout_ms ?m1) (loss_timeout_ms ?m1) (Awaiting (direction_of v) t0) mid)"
    using hall_run_phase [OF hall_inv_note [OF i1]] assms(2,3) hall_phase_note [OF i1, of v t0]
    by (simp add: phase_note_def phase_direction_of [OF i1])
  also have "\<dots> = Awaiting (direction_of v) t0"
    using assms(2,4) by (rule phase_run_awaiting)
  finally have "hall_phase_of ?m2 = Awaiting (direction_of v) t0" .
  with hall_observe_phase [OF i2, of False t] hall_run_timeouts [of m] acq show ?thesis
    by simp
qed

theorem hall_acquisition_deadline_witness:
  "fst (hall_observe False 509 (snd (hall_run sample_hall ([] @ Note (Fin 1) 10 # [Note (Fin 2) 400])))) = kAcquiring \<and>
   fst (hall_observe False 510 (snd (hall_run sample_hall ([] @ Note (Fin 1) 10 # [Note (Fin 2) 400])))) = kFault"
  by (subst (1 2) hall_acquisition_deadline [OF sample_hall_new])
    (simp_all add: direction_of_def sample_hall_def)

text \<open>
  Loss deadline: after valid feedback in an episode, the first invalid observation (at
  \<open>t1\<close>, not before the episode began) opens a grace period; as long as the direction is kept
  and nothing valid arrives, an invalid observation at a time \<open>t\<close> not before \<open>t1\<close> is a fault
  exactly when the loss timeout has passed since \<open>t1\<close>.
\<close>

theorem hall_loss_deadline:
  assumes "hall_inv m" "motion_expected m"
    and "motion_started_ms m \<le> t1" "t1 \<le> t" "list_all (silent (command_direction m)) mid"
  shows "fst (hall_observe False t (snd (hall_run m (Observe True tv # Observe False t1 # mid)))) =
     (if loss_timeout_ms m \<le> t - t1 then kFault else kAcquiring)"
proof -
  let ?d = "command_direction m" and ?t0 = "motion_started_ms m"
  let ?m2 = "snd (hall_run m (Observe True tv # Observe False t1 # mid))"
  have d: "?d \<noteq> 0" using assms(1,2) by (simp add: hall_inv_def)
  have i2: "hall_inv ?m2" using hall_run_inv [OF assms(1)] by blast
  have "hall_phase_of ?m2 = snd (phase_run (acquisition_timeout_ms m) (loss_timeout_ms m)
      (hall_phase_of m) (Observe True tv # Observe False t1 # mid))"
    by (rule hall_run_phase [OF assms(1)])
  also have "\<dots> = snd (phase_run (acquisition_timeout_ms m) (loss_timeout_ms m) (Losing ?d ?t0 t1) mid)"
    using assms(2,3) by (auto simp: hall_phase_of_def split: prod.splits)
  also have "\<dots> = Losing ?d ?t0 t1" using d assms(5) by (rule phase_run_losing)
  finally have phase: "hall_phase_of ?m2 = Losing ?d ?t0 t1" .
  note timeouts = hall_run_timeouts [of m "Observe True tv # Observe False t1 # mid"]
  show ?thesis
    unfolding hall_observe_phase [OF i2] phase timeouts [THEN conjunct1] timeouts [THEN conjunct2]
    using assms(3,4) by simp
qed

definition moving_hall :: HallFeedbackMonitor where
  "moving_hall = note_effective_command (Fin 1) 10 sample_hall"

theorem hall_loss_deadline_witness:
  "fst (hall_observe False 339 (snd (hall_run moving_hall [Observe True 30, Observe False 40]))) = kAcquiring \<and>
   fst (hall_observe False 340 (snd (hall_run moving_hall [Observe True 30, Observe False 40]))) = kFault"
  by (subst (1 2) hall_loss_deadline)
    (simp_all add: moving_hall_def sample_hall_def note_effective_command_def direction_of_def hall_inv_def)

end
