(* ===== verification/Rc_Kinematics.thy ===== *)
theory Rc_Kinematics
  imports Rc_Vehicle_State
begin

text \<open>
  The map from a Control message to what the chassis is asked to do
  (\<open>rc_vehicle_kinematics.hpp/.cpp\<close>): validation of the inputs and limits, saturation to
  the limits, and the dead band below the smallest speed the chassis can hold.
\<close>

record VehicleCommandLimits =
  maximum_command_speed_mps :: fp
  minimum_command_speed_mps :: fp
  max_steering_tire_angle_rad :: fp

record ChassisMotionSetpoint =
  sp_speed_mps :: fp
  sp_steering_tire_angle_rad :: fp
  sp_speed_saturated :: bool
  sp_steering_saturated :: bool
  sp_speed_below_minimum :: bool

definition control_to_chassis_motion ::
  "fp \<Rightarrow> fp \<Rightarrow> VehicleCommandLimits \<Rightarrow> serial_error + ChassisMotionSetpoint" where
  "control_to_chassis_motion longitudinal_velocity_mps steering_tire_angle_rad limits =
     (if \<not> isfinite longitudinal_velocity_mps \<or> \<not> isfinite steering_tire_angle_rad
      then Inl (invalid_argument ''control velocity and steering angle must be finite'')
      else if \<not> isfinite (maximum_command_speed_mps limits) \<or>
              maximum_command_speed_mps limits \<le> Fin 0 \<or>
              \<not> isfinite (minimum_command_speed_mps limits) \<or>
              minimum_command_speed_mps limits < Fin 0 \<or>
              maximum_command_speed_mps limits < minimum_command_speed_mps limits \<or>
              \<not> isfinite (max_steering_tire_angle_rad limits) \<or>
              max_steering_tire_angle_rad limits \<le> Fin 0
      then Inl (invalid_argument ''vehicle command limits are invalid'')
      else
        let speed_mps = std_clamp longitudinal_velocity_mps
              (- maximum_command_speed_mps limits) (maximum_command_speed_mps limits);
            steering = std_clamp steering_tire_angle_rad
              (- max_steering_tire_angle_rad limits) (max_steering_tire_angle_rad limits);
            setpoint =
              \<lparr>sp_speed_mps = speed_mps,
               sp_steering_tire_angle_rad = steering,
               sp_speed_saturated = (\<not> fp_eq speed_mps longitudinal_velocity_mps),
               sp_steering_saturated = (\<not> fp_eq steering steering_tire_angle_rad),
               sp_speed_below_minimum = False\<rparr>
        in if \<not> fp_eq (sp_speed_mps setpoint) (Fin 0) \<and>
              fp_abs (sp_speed_mps setpoint) < minimum_command_speed_mps limits
           then Inr (setpoint\<lparr>sp_speed_mps := Fin 0, sp_speed_below_minimum := True\<rparr>)
           else Inr setpoint)"

section \<open>What the chassis is asked to do\<close>

definition limits_ok :: "VehicleCommandLimits \<Rightarrow> bool" where
  "limits_ok l \<longleftrightarrow>
     (\<exists>vmax vmin smax. maximum_command_speed_mps l = Fin vmax \<and> minimum_command_speed_mps l = Fin vmin \<and>
        max_steering_tire_angle_rad l = Fin smax \<and> 0 < vmax \<and> 0 \<le> vmin \<and> vmin \<le> vmax \<and> 0 < smax)"

text \<open>The reference in exact numbers.\<close>

definition saturate :: "rat \<Rightarrow> rat \<Rightarrow> rat" where
  "saturate bound x = max (- bound) (min bound x)"

definition dead_band :: "rat \<Rightarrow> rat \<Rightarrow> rat" where
  "dead_band vmin x = (if \<bar>x\<bar> < vmin then 0 else x)"

lemma saturate_bounds: "0 \<le> b \<Longrightarrow> \<bar>saturate b x\<bar> \<le> b"
  by (auto simp: saturate_def abs_le_iff)

lemma saturate_id: "\<bar>x\<bar> \<le> b \<Longrightarrow> saturate b x = x"
  by (auto simp: saturate_def abs_le_iff)

lemma limits_guard:
  "limits_ok l \<longleftrightarrow>
     \<not> (\<not> isfinite (maximum_command_speed_mps l) \<or> maximum_command_speed_mps l \<le> Fin 0 \<or>
        \<not> isfinite (minimum_command_speed_mps l) \<or> minimum_command_speed_mps l < Fin 0 \<or>
        maximum_command_speed_mps l < minimum_command_speed_mps l \<or>
        \<not> isfinite (max_steering_tire_angle_rad l) \<or> max_steering_tire_angle_rad l \<le> Fin 0)"
  by (cases "maximum_command_speed_mps l"; cases "minimum_command_speed_mps l";
      cases "max_steering_tire_angle_rad l") (auto simp: limits_ok_def)

lemma control_to_chassis_motion_Fin:
  assumes "maximum_command_speed_mps l = Fin vmax" "minimum_command_speed_mps l = Fin vmin"
    "max_steering_tire_angle_rad l = Fin smax" "0 < vmax" "0 \<le> vmin" "vmin \<le> vmax" "0 < smax"
  shows "control_to_chassis_motion (Fin v) (Fin s) l =
     Inr \<lparr>sp_speed_mps = Fin (dead_band vmin (saturate vmax v)),
          sp_steering_tire_angle_rad = Fin (saturate smax s),
          sp_speed_saturated = (saturate vmax v \<noteq> v),
          sp_steering_saturated = (saturate smax s \<noteq> s),
          sp_speed_below_minimum = (saturate vmax v \<noteq> 0 \<and> \<bar>saturate vmax v\<bar> < vmin)\<rparr>"
  using assms
  by (auto simp: control_to_chassis_motion_def Let_def std_clamp_Fin saturate_def [symmetric]
      dead_band_def)

lemma control_to_chassis_motion_Inl:
  "\<not> (isfinite v \<and> isfinite s \<and> limits_ok l) \<Longrightarrow>
     control_to_chassis_motion v s l = Inl (invalid_argument
       (if \<not> isfinite v \<or> \<not> isfinite s then ''control velocity and steering angle must be finite''
        else ''vehicle command limits are invalid''))"
  unfolding limits_guard
  by (simp only: control_to_chassis_motion_def if_True if_False split: if_split) blast

lemma setpoint_bounds:
  assumes "control_to_chassis_motion v s l = Inr sp"
  obtains x y vmax smax where "sp_speed_mps sp = Fin x" "sp_steering_tire_angle_rad sp = Fin y"
    "maximum_command_speed_mps l = Fin vmax" "max_steering_tire_angle_rad l = Fin smax"
    "\<bar>x\<bar> \<le> vmax" "\<bar>y\<bar> \<le> smax"
proof -
  have "isfinite v \<and> isfinite s \<and> limits_ok l"
    using assms control_to_chassis_motion_Inl [of v s l] by fastforce
  then obtain a b vmax vmin smax where f: "v = Fin a" "s = Fin b"
    "maximum_command_speed_mps l = Fin vmax" "minimum_command_speed_mps l = Fin vmin"
    "max_steering_tire_angle_rad l = Fin smax" "0 < vmax" "0 \<le> vmin" "vmin \<le> vmax" "0 < smax"
    by (auto simp: isfinite_conv limits_ok_def)
  have "sp_speed_mps sp = Fin (dead_band vmin (saturate vmax a))"
    "sp_steering_tire_angle_rad sp = Fin (saturate smax b)"
    using assms control_to_chassis_motion_Fin [OF f(3-9), of a b] f(1,2) by auto
  moreover have "\<bar>dead_band vmin (saturate vmax a)\<bar> \<le> vmax" "\<bar>saturate smax b\<bar> \<le> smax"
    using saturate_bounds [of vmax a] saturate_bounds [of smax b] f(6,9) by (auto simp: dead_band_def)
  ultimately show ?thesis using that f(3,5) by blast
qed

text \<open>
  C38: The chassis set point. The conversion fails exactly when an input is not finite or the
  limits are unusable; otherwise the speed is the input saturated to the maximum, with
  everything below the minimum speed mapped to zero, the steering angle is the input
  saturated to its maximum, and the three flags say exactly what was changed.
\<close>

theorem control_to_chassis_motion_spec:
  "case control_to_chassis_motion v s l of
     Inl e \<Rightarrow> \<not> (isfinite v \<and> isfinite s \<and> limits_ok l)
   | Inr sp \<Rightarrow>
       (\<exists>x y vmax vmin smax. v = Fin x \<and> s = Fin y \<and>
          maximum_command_speed_mps l = Fin vmax \<and> minimum_command_speed_mps l = Fin vmin \<and>
          max_steering_tire_angle_rad l = Fin smax \<and> limits_ok l \<and>
          sp_speed_mps sp = Fin (dead_band vmin (saturate vmax x)) \<and>
          sp_steering_tire_angle_rad sp = Fin (saturate smax y) \<and>
          sp_speed_saturated sp = (vmax < \<bar>x\<bar>) \<and> sp_steering_saturated sp = (smax < \<bar>y\<bar>) \<and>
          sp_speed_below_minimum sp = (x \<noteq> 0 \<and> \<bar>x\<bar> < vmin))"
proof (cases "isfinite v \<and> isfinite s \<and> limits_ok l")
  case False
  with control_to_chassis_motion_Inl [OF False] show ?thesis by simp
next
  case True
  then obtain x y vmax vmin smax where f: "v = Fin x" "s = Fin y"
    "maximum_command_speed_mps l = Fin vmax" "minimum_command_speed_mps l = Fin vmin"
    "max_steering_tire_angle_rad l = Fin smax" "0 < vmax" "0 \<le> vmin" "vmin \<le> vmax" "0 < smax"
    by (auto simp: isfinite_conv limits_ok_def)
  have "(saturate vmax x \<noteq> x) = (vmax < \<bar>x\<bar>)" "(saturate smax y \<noteq> y) = (smax < \<bar>y\<bar>)"
    "(saturate vmax x \<noteq> 0 \<and> \<bar>saturate vmax x\<bar> < vmin) = (x \<noteq> 0 \<and> \<bar>x\<bar> < vmin)"
    using f(6-9) by (auto simp: saturate_def abs_if min_def max_def)
  with True f show ?thesis
    by (simp add: control_to_chassis_motion_Fin [OF f(3-9)])
qed

end
