(* ===== verification/Rc_Node.thy ===== *)
theory Rc_Node
  imports Rc_Kinematics "HOL-Library.Monad_Syntax"
begin

text \<open>
  The ROS node of the RC adapter (\<open>rc_vehicle_interface_node.cpp\<close>): its members, every
  handler, and the step relation of the single-threaded executor that calls them.

  What the node asks of the operating system and of the ROS clock is the parameter
  \<open>World\<close>: the answer to each call is a function of the call's number, that of a \<open>read\<close> of the number
  of reads before it, so a world is any sequence of answers. A handler returns \<open>None\<close> when one of its two loops (writing a frame,
  reading the port) never ends in that world. Effects visible outside are recorded, newest
  first, in \<open>outputs\<close>. Log messages are left out.
\<close>

section \<open>The world outside the node\<close>

datatype errno = EINTR | EAGAIN | EOTHER

text \<open>Result of \<open>write\<close>: the number of bytes taken, or \<open>-1\<close> with an error number.\<close>

datatype write_result = WrCount nat | WrErr errno

text \<open>Result of \<open>read\<close>: the bytes delivered (none at the end of file), or an error number.\<close>

datatype read_result = RdBytes bytes | RdErr errno

record poll_events =
  ev_in :: bool
  ev_out :: bool
  ev_bad :: bool

datatype poll_result = PollReady poll_events | PollTimeout | PollErr errno

datatype tty_call = Tcflow_off | Tcgetattr | Cfsetispeed | Cfsetospeed | Tcsetattr | Tcflush_out

record World =
  steady_ns :: "nat \<Rightarrow> int"
  ros_ns :: "nat \<Rightarrow> int"
  kernel_open :: "nat \<Rightarrow> int"
  tty_ok :: "nat \<Rightarrow> tty_call \<Rightarrow> bool"
  kernel_write :: "nat \<Rightarrow> nat \<Rightarrow> write_result"
  kernel_read :: "nat \<Rightarrow> nat \<Rightarrow> read_result"
  kernel_poll :: "nat \<Rightarrow> int \<Rightarrow> poll_result"

text \<open>The ROS messages, with their constants kept symbolic.\<close>

datatype gear_command = GC_PARK | GC_NEUTRAL | GC_DRIVE | GC_REVERSE | GC_unsupported u8

datatype gear_report = GR_PARK | GR_NEUTRAL | GR_DRIVE | GR_REVERSE

datatype mode_request = MR_AUTONOMOUS | MR_MANUAL | MR_NO_COMMAND | MR_unsupported u8

record Control =
  ctl_stamp_ns :: int
  ctl_velocity :: fp
  ctl_steering_tire_angle :: fp

datatype effect =
  Opened | Written bytes | Closed
| Velocity fp fp fp | Steering fp | Gear gear_report | Mode ReportedControlMode

section \<open>The node\<close>

record NodeParams =
  serial_port :: string
  base_frame_id :: string
  baud_rate :: int
  command_limits :: VehicleCommandLimits
  firmware_command_timeout_ms :: int
  emergency_status_timeout_ms :: int
  hall_feedback_acquisition_timeout_ms :: int
  hall_feedback_loss_timeout_ms :: int
  serial_poll_period_ms :: int
  reconnect_period_ms :: int
  telemetry_only :: bool

record LastFeedback =
  last_battery_mv :: u16
  last_feedback_dt_ms :: u16
  last_status_flags :: u8
  last_sequence :: u8
  last_hall_delta_count_command_signed :: int
  last_status_bits :: u32
  last_hall_speed_command_signed_mps :: fp
  last_steering_estimate_rad :: fp
  last_yaw_rate_estimate_rad_s :: fp

record NodeCounters =
  transmitted_frame_count :: u64
  blocked_transmit_count :: u64
  read_error_count :: u64
  write_error_count :: u64
  connection_count :: u64
  disconnect_count :: u64
  fault_clear_frame_count :: u64
  hall_feedback_invalid_count :: u64
  hall_feedback_contract_error_count :: u64
  hall_feedback_fault_count :: u64
  steering_estimate_invalid_count :: u64
  unexpected_measured_steering_count :: u64

record RcNode =
  params :: NodeParams
  serial_fd :: int
  telemetry_open_attempted :: bool
  feedback_decoder :: FeedbackStreamDecoder
  emergency_status_monitor :: EmergencyStatusMonitor
  hall_feedback_monitor :: HallFeedbackMonitor
  autonomous_requested :: bool
  has_transmitted_command :: bool
  safety_stop_latched :: bool
  safety_stop_sent :: bool
  rc_override_active :: bool
  has_received_feedback :: bool
  fault_clear_pending :: bool
  fault_clear_zero_sent :: bool
  fault_clear_sent :: bool
  logical_gear :: LogicalGear
  logical_gear_report :: gear_report
  last_transmitted_command_stamp_ns :: int
  next_reconnect_attempt_ns :: int
  last_stats_log_ns :: int
  last_feedback :: LastFeedback
  counters :: NodeCounters
  calls :: nat
  reads :: nat
  outputs :: "effect list"

definition kExpectedBaudRate :: int where "kExpectedBaudRate = 115200"
definition kExpectedFirmwareCommandTimeoutMs :: int where "kExpectedFirmwareCommandTimeoutMs = 250"
definition kFutureStampToleranceNs :: int where "kFutureStampToleranceNs = 50000000"
definition kSerialWriteTimeoutNs :: int where "kSerialWriteTimeoutNs = 20000000"
definition kStatsLogPeriodNs :: int where "kStatsLogPeriodNs = 5000000000"

abbreviation is_telemetry_only :: "RcNode \<Rightarrow> bool" where
  "is_telemetry_only s \<equiv> telemetry_only (params s)"

abbreviation count :: "(NodeCounters \<Rightarrow> NodeCounters) \<Rightarrow> RcNode \<Rightarrow> RcNode" where
  "count f s \<equiv> s\<lparr>counters := f (counters s)\<rparr>"

definition emit :: "effect \<Rightarrow> RcNode \<Rightarrow> RcNode" where
  "emit e s = s\<lparr>outputs := e # outputs s\<rparr>"

text \<open>One call to the outside: the answer, and the state with the call counted.\<close>

definition sys :: "(nat \<Rightarrow> 'a) \<Rightarrow> RcNode \<Rightarrow> 'a \<times> RcNode" where
  "sys answer s = (answer (calls s), s\<lparr>calls := Suc (calls s)\<rparr>)"

text \<open>\<open>duration_cast<milliseconds>\<close> truncates toward zero.\<close>

definition duration_ms :: "int \<Rightarrow> int" where
  "duration_ms ns = (if 0 \<le> ns then ns div 1000000 else - ((- ns) div 1000000))"

definition steady_now_ms :: "World \<Rightarrow> RcNode \<Rightarrow> int \<times> RcNode" where
  "steady_now_ms w s = sys (\<lambda>i. duration_ms (steady_ns w i)) s"

section \<open>Construction\<close>

definition baud_to_termios :: "int \<Rightarrow> serial_error + int" where
  "baud_to_termios rate =
     (if rate \<noteq> kExpectedBaudRate
      then Inl (invalid_argument ''locked firmware requires baud_rate=115200'') else Inr rate)"

definition validate_parameters :: "NodeParams \<Rightarrow> serial_error + unit" where
  "validate_parameters p =
     (if serial_port p = [] then Inl (invalid_argument ''serial_port must not be empty'')
      else case baud_to_termios (baud_rate p) of
        Inl e \<Rightarrow> Inl e
      | Inr _ \<Rightarrow>
          if firmware_command_timeout_ms p \<noteq> kExpectedFirmwareCommandTimeoutMs
          then Inl (invalid_argument ''locked firmware requires firmware_command_timeout_ms=250'')
          else if serial_poll_period_ms p \<le> 0 \<or> reconnect_period_ms p \<le> 0
          then Inl (invalid_argument ''serial poll and reconnect periods must be positive'')
          else if emergency_status_timeout_ms p \<le> 0 \<or>
                  hall_feedback_acquisition_timeout_ms p \<le> 0 \<or> hall_feedback_loss_timeout_ms p \<le> 0
          then Inl (invalid_argument ''emergency and Hall feedback timeouts must be positive'')
          else if base_frame_id p = [] then Inl (invalid_argument ''base_frame_id must not be empty'')
          else case control_to_chassis_motion (Fin 0) (Fin 0) (command_limits p) of
                 Inl e \<Rightarrow> Inl e
               | Inr _ \<Rightarrow> Inr ())"

definition LastFeedback_init :: LastFeedback where
  "LastFeedback_init =
     \<lparr>last_battery_mv = 0, last_feedback_dt_ms = 0, last_status_flags = 0, last_sequence = 0,
      last_hall_delta_count_command_signed = 0, last_status_bits = 0,
      last_hall_speed_command_signed_mps = Fin 0, last_steering_estimate_rad = Fin 0,
      last_yaw_rate_estimate_rad_s = Fin 0\<rparr>"

definition NodeCounters_init :: NodeCounters where
  "NodeCounters_init =
     \<lparr>transmitted_frame_count = 0, blocked_transmit_count = 0, read_error_count = 0,
      write_error_count = 0, connection_count = 0, disconnect_count = 0,
      fault_clear_frame_count = 0, hall_feedback_invalid_count = 0,
      hall_feedback_contract_error_count = 0, hall_feedback_fault_count = 0,
      steering_estimate_invalid_count = 0, unexpected_measured_steering_count = 0\<rparr>"

text \<open>The constructor; it reads the steady clock twice, as the first two calls.\<close>

definition RcVehicleInterfaceNode_new :: "World \<Rightarrow> NodeParams \<Rightarrow> serial_error + RcNode" where
  "RcVehicleInterfaceNode_new w p =
     (case validate_parameters p of
        Inl e \<Rightarrow> Inl e
      | Inr _ \<Rightarrow>
          (case EmergencyStatusMonitor_new (emergency_status_timeout_ms p) of
             Inl e \<Rightarrow> Inl e
           | Inr em \<Rightarrow>
               (case HallFeedbackMonitor_new (hall_feedback_acquisition_timeout_ms p)
                       (hall_feedback_loss_timeout_ms p) of
                  Inl e \<Rightarrow> Inl e
                | Inr hm \<Rightarrow>
                    Inr \<lparr>params = p, serial_fd = - 1, telemetry_open_attempted = False,
                         feedback_decoder = FeedbackStreamDecoder_init,
                         emergency_status_monitor = em, hall_feedback_monitor = hm,
                         autonomous_requested = False, has_transmitted_command = False,
                         safety_stop_latched = False, safety_stop_sent = False,
                         rc_override_active = False, has_received_feedback = False,
                         fault_clear_pending = False, fault_clear_zero_sent = False,
                         fault_clear_sent = False, logical_gear = kPark,
                         logical_gear_report = GR_PARK,
                         last_transmitted_command_stamp_ns = - (2 ^ 63),
                         next_reconnect_attempt_ns = steady_ns w 0,
                         last_stats_log_ns = steady_ns w 1,
                         last_feedback = LastFeedback_init, counters = NodeCounters_init,
                         calls = 2, reads = 0, outputs = []\<rparr>)))"

section \<open>The serial port\<close>

definition configure_serial :: "World \<Rightarrow> RcNode \<Rightarrow> bool \<times> RcNode" where
  "configure_serial w s =
     (let call = (\<lambda>c s. sys (\<lambda>i. tty_ok w i c) s);
          (suspended, s) = (if is_telemetry_only s then call Tcflow_off s else (True, s))
      in if \<not> suspended then (False, s)
      else let (got, s) = call Tcgetattr s
      in if \<not> got then (False, s)
      else let (ispeed, s) = call Cfsetispeed s
      in if \<not> ispeed then (False, s)
      else let (ospeed, s) = call Cfsetospeed s
      in if \<not> ospeed then (False, s)
      else let (set_ok, s) = call Tcsetattr s
      in if \<not> set_ok then (False, s)
      else let (flushed, s) = (if is_telemetry_only s then call Tcflush_out s else (True, s))
      in (flushed, s))"

definition try_open_serial :: "World \<Rightarrow> RcNode \<Rightarrow> RcNode" where
  "try_open_serial w s =
     (if 0 \<le> serial_fd s then s
      else let (now, s) = sys (steady_ns w) s
      in if now < next_reconnect_attempt_ns s then s
      else if is_telemetry_only s \<and> telemetry_open_attempted s then s
      else
        let s = s\<lparr>telemetry_open_attempted := is_telemetry_only s,
                 next_reconnect_attempt_ns := now + reconnect_period_ms (params s) * 1000000\<rparr>;
            (candidate, s) = sys (kernel_open w) s
        in if candidate < 0 then s
           else let (configured, s) = configure_serial w s
           in if \<not> configured then s
           else emit Opened
             (count (\<lambda>c. c\<lparr>connection_count := connection_count c + 1\<rparr>)
               (s\<lparr>feedback_decoder := discard_buffer (feedback_decoder s), serial_fd := candidate\<rparr>)))"

definition reset_fault_clear_handshake :: "RcNode \<Rightarrow> RcNode" where
  "reset_fault_clear_handshake s =
     s\<lparr>fault_clear_pending := False, fault_clear_zero_sent := False, fault_clear_sent := False\<rparr>"

definition reset_hall :: "RcNode \<Rightarrow> RcNode" where
  "reset_hall s = s\<lparr>hall_feedback_monitor := hall_reset (hall_feedback_monitor s)\<rparr>"

definition close_serial :: "World \<Rightarrow> RcNode \<Rightarrow> RcNode" where
  "close_serial w s =
     (if serial_fd s < 0 then s
      else
        let s = emit Closed s;
            s = s\<lparr>serial_fd := - 1, autonomous_requested := False, has_transmitted_command := False,
                 safety_stop_sent := False, rc_override_active := False,
                 has_received_feedback := False\<rparr>;
            s = reset_fault_clear_handshake s;
            s = reset_hall s;
            s = s\<lparr>feedback_decoder := discard_buffer (feedback_decoder s)\<rparr>;
            s = count (\<lambda>c. c\<lparr>disconnect_count := disconnect_count c + 1\<rparr>) s
        in if \<not> is_telemetry_only s
           then let (now, s) = sys (steady_ns w) s
                in s\<lparr>next_reconnect_attempt_ns := now + reconnect_period_ms (params s) * 1000000\<rparr>
           else s)"

definition write_failed :: "World \<Rightarrow> RcNode \<Rightarrow> bool \<times> RcNode" where
  "write_failed w s =
     (False, close_serial w (count (\<lambda>c. c\<lparr>write_error_count := write_error_count c + 1\<rparr>) s))"

text \<open>The loop of \<open>write_frame\<close>.\<close>

partial_function (option) write_loop ::
  "World \<Rightarrow> int \<Rightarrow> bytes \<Rightarrow> nat \<Rightarrow> RcNode \<Rightarrow> (bool \<times> RcNode) option" where
  "write_loop w deadline frame offset s =
     (if \<not> offset < length frame then Some (True, s)
      else case sys (\<lambda>i. kernel_write w i (length frame - offset)) s of (result, s) \<Rightarrow>
        (case result of
           WrCount n \<Rightarrow>
             if 0 < n
             then write_loop w deadline frame (offset + n)
                    (emit (Written (take n (drop offset frame))) s)
             else Some (write_failed w s)
         | WrErr e \<Rightarrow>
             (case e of
                EINTR \<Rightarrow> write_loop w deadline frame offset s
              | EOTHER \<Rightarrow> Some (write_failed w s)
              | EAGAIN \<Rightarrow>
                  (case sys (steady_ns w) s of (now, s) \<Rightarrow>
                     if duration_ms (deadline - now) \<le> 0 then Some (write_failed w s)
                     else
                       (case sys (\<lambda>i. kernel_poll w i (duration_ms (deadline - now))) s of
                          (answer, s) \<Rightarrow>
                            (case answer of
                               PollReady ev \<Rightarrow>
                                 if ev_out ev then write_loop w deadline frame offset s
                                 else Some (write_failed w s)
                             | PollTimeout \<Rightarrow> Some (write_failed w s)
                             | PollErr e' \<Rightarrow> Some (write_failed w s)))))))"

definition write_frame :: "World \<Rightarrow> bytes \<Rightarrow> RcNode \<Rightarrow> (bool \<times> RcNode) option" where
  "write_frame w frame s =
     (if is_telemetry_only s
      then Some (False, count (\<lambda>c. c\<lparr>blocked_transmit_count := blocked_transmit_count c + 1\<rparr>) s)
      else if serial_fd s < 0 then Some (False, s)
      else do {
        let (now, s) = sys (steady_ns w) s;
        (sent, s) \<leftarrow> write_loop w (now + kSerialWriteTimeoutNs) frame 0 s;
        Some (if sent
              then (True, count (\<lambda>c. c\<lparr>transmitted_frame_count := transmitted_frame_count c + 1\<rparr>) s)
              else (False, s))
      })"

section \<open>Stopping and clearing\<close>

definition software_stop_command :: ChassisCommand where
  "software_stop_command = ChassisCommand_init\<lparr>cmd_enable := False, cmd_software_stop := True\<rparr>"

definition transmit_software_stop :: "World \<Rightarrow> RcNode \<Rightarrow> (bool \<times> RcNode) option" where
  "transmit_software_stop w s =
     (case encode_command_frame software_stop_command of
        Inl e \<Rightarrow> Some (False, s)
      | Inr frame \<Rightarrow> do {
          (written, s) \<leftarrow> write_frame w frame s;
          Some (if \<not> written then (False, s)
                else (True, s\<lparr>has_transmitted_command := False\<rparr>))
        })"

definition clear_fault_command :: ChassisCommand where
  "clear_fault_command = ChassisCommand_init\<lparr>cmd_enable := False, cmd_clear_fault := True\<rparr>"

definition transmit_clear_fault :: "World \<Rightarrow> RcNode \<Rightarrow> (bool \<times> RcNode) option" where
  "transmit_clear_fault w s =
     (case encode_command_frame clear_fault_command of
        Inl e \<Rightarrow> Some (False, s)
      | Inr frame \<Rightarrow> do {
          (written, s) \<leftarrow> write_frame w frame s;
          Some (if \<not> written then (False, s)
                else (True, count (\<lambda>c. c\<lparr>fault_clear_frame_count := fault_clear_frame_count c + 1\<rparr>) s))
        })"

definition latch_safety_stop :: "World \<Rightarrow> RcNode \<Rightarrow> RcNode option" where
  "latch_safety_stop w s =
     (let s = s\<lparr>safety_stop_latched := True, autonomous_requested := False\<rparr>;
          s = reset_fault_clear_handshake s;
          s = reset_hall s
      in if \<not> is_telemetry_only s \<and> 0 \<le> serial_fd s \<and> \<not> safety_stop_sent s
         then do {
           (sent, s) \<leftarrow> transmit_software_stop w s;
           Some (s\<lparr>safety_stop_sent := sent\<rparr>)
         }
         else Some s)"

section \<open>Commands, gear, emergency status and mode requests\<close>

definition command_stamp_is_fresh :: "World \<Rightarrow> int \<Rightarrow> RcNode \<Rightarrow> bool \<times> RcNode" where
  "command_stamp_is_fresh w stamp_ns s =
     (let (now, s) = sys (ros_ns w) s;
          age_ns = now - stamp_ns;
          maximum_age_ns = firmware_command_timeout_ms (params s) * 1000000
      in if age_ns < - kFutureStampToleranceNs then (False, s)
         else if maximum_age_ns < age_ns then (False, s)
         else if stamp_ns < last_transmitted_command_stamp_ns s then (False, s)
         else (True, s))"

definition on_gear_command :: "gear_command \<Rightarrow> RcNode \<Rightarrow> RcNode" where
  "on_gear_command command s =
     (case command of
        GC_PARK \<Rightarrow> s\<lparr>logical_gear := kPark, logical_gear_report := GR_PARK\<rparr>
      | GC_NEUTRAL \<Rightarrow> s\<lparr>logical_gear := kNeutral, logical_gear_report := GR_NEUTRAL\<rparr>
      | GC_DRIVE \<Rightarrow> s\<lparr>logical_gear := kDrive, logical_gear_report := GR_DRIVE\<rparr>
      | GC_REVERSE \<Rightarrow> s\<lparr>logical_gear := kReverse, logical_gear_report := GR_REVERSE\<rparr>
      | GC_unsupported _ \<Rightarrow> s)"

definition on_emergency_status :: "World \<Rightarrow> bool \<Rightarrow> RcNode \<Rightarrow> RcNode option" where
  "on_emergency_status w emergency s =
     (let (now_ms, s) = steady_now_ms w s;
          s = s\<lparr>emergency_status_monitor := em_observe emergency now_ms (emergency_status_monitor s)\<rparr>
      in if emergency then latch_safety_stop w s else Some s)"

text \<open>An accepted AUTONOMOUS request.\<close>

definition accept_autonomous :: "ChassisFeedback \<Rightarrow> RcNode \<Rightarrow> RcNode" where
  "accept_autonomous latest_feedback s =
     (let s = s\<lparr>safety_stop_latched := False, safety_stop_sent := False\<rparr>;
          s = reset_hall s;
          s = s\<lparr>autonomous_requested := True\<rparr>
      in if has_latched_chassis_fault latest_feedback
         then (if \<not> fault_clear_pending s
               then s\<lparr>fault_clear_pending := True, fault_clear_zero_sent := False,
                      fault_clear_sent := False\<rparr>
               else s)
         else reset_fault_clear_handshake s)"

text \<open>The result pairs \<open>response->success\<close> with the new state.\<close>

definition on_control_mode_request ::
  "World \<Rightarrow> mode_request \<Rightarrow> RcNode \<Rightarrow> (bool \<times> RcNode) option" where
  "on_control_mode_request w mode s =
     (if mode = MR_AUTONOMOUS then
        (if serial_fd s < 0 then Some (False, s)
         else
           let (now_ms, s) = steady_now_ms w s
           in if \<not> fresh_and_clear (emergency_status_monitor s) now_ms then Some (False, s)
              else if \<not> has_received_feedback s then Some (False, s)
              else
                let latest_feedback =
                      ChassisFeedback_init\<lparr>status_bits := last_status_bits (last_feedback s)\<rparr>
                in if has_live_chassis_fault latest_feedback then Some (False, s)
                   else
                     Some (True, accept_autonomous latest_feedback s))
      else if mode = MR_MANUAL \<or> mode = MR_NO_COMMAND then
        (let stop_required = manual_stop_is_required (autonomous_requested s)
               (has_transmitted_command s) (safety_stop_sent s);
             s = s\<lparr>autonomous_requested := False\<rparr>;
             s = reset_fault_clear_handshake s;
             s = reset_hall s
         in if serial_fd s < 0 \<or> \<not> stop_required then Some (True, s)
            else do {
              (sent, s) \<leftarrow> transmit_software_stop w s;
              Some (sent, s\<lparr>safety_stop_sent := sent\<rparr>)
            })
      else Some (False, s))"

text \<open>The command the handler builds from the set point.\<close>

definition gated_command :: "RcNode \<Rightarrow> ChassisMotionSetpoint \<Rightarrow> ChassisCommand" where
  "gated_command s setpoint =
     (let command =
        (if fault_clear_pending s
         then ChassisCommand_init\<lparr>cmd_speed_mps := Fin 0, cmd_steering_tire_angle_rad := Fin 0\<rparr>
         else ChassisCommand_init
           \<lparr>cmd_speed_mps :=
              (if logical_gear_allows_speed (logical_gear s) (sp_speed_mps setpoint)
               then sp_speed_mps setpoint else Fin 0),
            cmd_steering_tire_angle_rad := sp_steering_tire_angle_rad setpoint\<rparr>)
      in command\<lparr>cmd_enable := True, cmd_software_stop := False\<rparr>)"

definition on_control_command :: "World \<Rightarrow> Control \<Rightarrow> RcNode \<Rightarrow> RcNode option" where
  "on_control_command w message s =
     (if \<not> autonomous_requested s then Some s
      else
        let (now_ms, s) = steady_now_ms w s
        in if \<not> fresh_and_clear (emergency_status_monitor s) now_ms then latch_safety_stop w s
           else if serial_fd s < 0 then Some s
           else
             let stamp_ns = ctl_stamp_ns message;
                 (fresh, s) = command_stamp_is_fresh w stamp_ns s
             in if \<not> fresh then Some s
                else
                  (case control_to_chassis_motion (ctl_velocity message)
                          (ctl_steering_tire_angle message) (command_limits (params s)) of
                     Inl e \<Rightarrow> Some s
                   | Inr setpoint \<Rightarrow>
                       let command = gated_command s setpoint
                       in (case encode_command_frame command of
                             Inl e \<Rightarrow> Some s
                           | Inr frame \<Rightarrow> do {
                               (written, s) \<leftarrow> write_frame w frame s;
                               if \<not> written then Some s
                               else
                                 let s = s\<lparr>last_transmitted_command_stamp_ns := stamp_ns,
                                          has_transmitted_command := True\<rparr>
                                 in if fault_clear_pending s
                                    then Some (reset_hall (s\<lparr>fault_clear_zero_sent := True\<rparr>))
                                    else if rc_override_active s then Some (reset_hall s)
                                    else
                                      let (now_ms, s) = steady_now_ms w s
                                      in Some (s\<lparr>hall_feedback_monitor :=
                                           note_effective_command (cmd_speed_mps command) now_ms
                                             (hall_feedback_monitor s)\<rparr>)
                             })))"

section \<open>Feedback\<close>

text \<open>The first part of \<open>publish_feedback\<close>: contract checks and counters.\<close>

definition check_feedback :: "World \<Rightarrow> ChassisFeedback \<Rightarrow> RcNode \<Rightarrow> RcNode option" where
  "check_feedback w feedback s =
     (let s = s\<lparr>has_received_feedback := True\<rparr>;
          velocity_state = velocity_feedback_state feedback;
          s = s\<lparr>rc_override_active := status_has feedback kRcStatusRcOverrideActive\<rparr>
      in do {
        s \<leftarrow> (if velocity_state = kUnavailable
              then Some (count (\<lambda>c. c\<lparr>hall_feedback_invalid_count := hall_feedback_invalid_count c + 1\<rparr>) s)
              else if velocity_state = kInconsistent
              then let s = count (\<lambda>c. c\<lparr>hall_feedback_contract_error_count :=
                                        hall_feedback_contract_error_count c + 1\<rparr>) s
                   in if autonomous_requested s \<or> has_transmitted_command s
                      then latch_safety_stop w s else Some s
              else Some s);
        let s = (if \<not> status_has feedback kRcStatusSteeringEstimateValid
                 then count (\<lambda>c. c\<lparr>steering_estimate_invalid_count :=
                                   steering_estimate_invalid_count c + 1\<rparr>) s
                 else s);
        let s = (if status_has feedback kRcStatusSteeringIsMeasured
                 then count (\<lambda>c. c\<lparr>unexpected_measured_steering_count :=
                                   unexpected_measured_steering_count c + 1\<rparr>) s
                 else s);
        Some (s\<lparr>last_feedback :=
          \<lparr>last_battery_mv = battery_mv feedback, last_feedback_dt_ms = dt_ms feedback,
           last_status_flags = status_flags feedback, last_sequence = sequence_nr feedback,
           last_hall_delta_count_command_signed = hall_delta_count_command_signed feedback,
           last_status_bits = status_bits feedback,
           last_hall_speed_command_signed_mps = hall_speed_command_signed_mps feedback,
           last_steering_estimate_rad = steering_angle_estimate_rad feedback,
           last_yaw_rate_estimate_rad_s = yaw_rate_estimate_rad_s feedback\<rparr>\<rparr>)
      })"

text \<open>The second part: live and latched faults, and the fault-clear handshake.\<close>

definition handle_faults :: "World \<Rightarrow> ChassisFeedback \<Rightarrow> RcNode \<Rightarrow> RcNode option" where
  "handle_faults w feedback s =
     (let live_chassis_fault = has_live_chassis_fault feedback;
          latched_chassis_fault = has_latched_chassis_fault feedback
      in do {
        s \<leftarrow> (if live_chassis_fault \<and> (autonomous_requested s \<or> has_transmitted_command s)
              then latch_safety_stop w s else Some s);
        if \<not> live_chassis_fault \<and> fault_clear_pending s
        then (if latched_chassis_fault
              then (if fault_clear_zero_sent s \<and> \<not> fault_clear_sent s \<and>
                       fault_clear_is_permitted feedback
                    then do {
                      (sent, s) \<leftarrow> transmit_clear_fault w s;
                      Some (s\<lparr>fault_clear_sent := sent\<rparr>)
                    }
                    else Some s)
              else if reported_control_mode feedback = kAutonomous
              then Some (reset_fault_clear_handshake s)
              else Some s)
        else if \<not> live_chassis_fault \<and> latched_chassis_fault \<and> autonomous_requested s
        then latch_safety_stop w s
        else Some s
      })"

text \<open>The third part: the Hall monitor.\<close>

definition monitor_hall ::
  "World \<Rightarrow> ChassisFeedback \<Rightarrow> RcNode \<Rightarrow> (HallFeedbackDecision \<times> RcNode) option" where
  "monitor_hall w feedback s =
     (let firmware_command_blocked =
            rc_override_active s \<or>
            status_has feedback (kRcStatusCommandTimeout OR kRcStatusStopOverrideActive) \<or>
            has_live_chassis_fault feedback \<or> has_latched_chassis_fault feedback;
          (hall_decision, s) =
            (if firmware_command_blocked then (kNotRequired, reset_hall s)
             else let (now_ms, s) = steady_now_ms w s;
                      (d, m) = hall_observe (velocity_feedback_state feedback = kMeasuredMotion) now_ms
                                 (hall_feedback_monitor s)
                  in (d, s\<lparr>hall_feedback_monitor := m\<rparr>))
      in if hall_decision = kFault
         then do {
           s \<leftarrow> latch_safety_stop w
                  (count (\<lambda>c. c\<lparr>hall_feedback_fault_count := hall_feedback_fault_count c + 1\<rparr>) s);
           Some (hall_decision, s)
         }
         else Some (hall_decision, s))"

text \<open>The last part: the reports.\<close>

definition publish_reports :: "World \<Rightarrow> ChassisFeedback \<Rightarrow> HallFeedbackDecision \<Rightarrow> RcNode \<Rightarrow> RcNode" where
  "publish_reports w feedback hall_decision s =
     (let (stamp, s) = sys (ros_ns w) s;
          s = (if velocity_report_is_publishable feedback hall_decision
               then let confirmed_standstill = (velocity_feedback_state feedback = kConfirmedStandstill)
                    in emit (Velocity
                         (if confirmed_standstill then Fin 0
                          else to_float (hall_speed_command_signed_mps feedback))
                         (Fin 0)
                         (if confirmed_standstill then Fin 0
                          else to_float (yaw_rate_estimate_rad_s feedback))) s
               else s);
          s = (if steering_estimate_is_valid feedback
               then emit (Steering (to_float (steering_angle_estimate_rad feedback))) s else s);
          s = emit (Gear (logical_gear_report s)) s
      in emit (Mode (reported_control_mode feedback)) s)"

definition publish_feedback :: "World \<Rightarrow> ChassisFeedback \<Rightarrow> RcNode \<Rightarrow> RcNode option" where
  "publish_feedback w feedback s = do {
     s \<leftarrow> check_feedback w feedback s;
     s \<leftarrow> handle_faults w feedback s;
     (hall_decision, s) \<leftarrow> monitor_hall w feedback s;
     Some (publish_reports w feedback hall_decision s)
   }"

fun publish_all :: "World \<Rightarrow> ChassisFeedback list \<Rightarrow> RcNode \<Rightarrow> RcNode option" where
  "publish_all w [] s = Some s"
| "publish_all w (feedback # rest) s = do {
     s \<leftarrow> publish_feedback w feedback s;
     publish_all w rest s
   }"

text \<open>The read loop. Reading a closed descriptor (\<open>-1\<close>) fails with \<open>EBADF\<close>.\<close>

definition sys_read :: "World \<Rightarrow> RcNode \<Rightarrow> read_result \<times> RcNode" where
  "sys_read w s = (if serial_fd s < 0 then (RdErr EOTHER, s)
     else (kernel_read w (reads s) 512, s\<lparr>calls := Suc (calls s), reads := Suc (reads s)\<rparr>))"

partial_function (option) read_serial :: "World \<Rightarrow> RcNode \<Rightarrow> RcNode option" where
  "read_serial w s =
     (case sys_read w s of (result, s) \<Rightarrow>
        (case result of
           RdBytes data \<Rightarrow>
             if data \<noteq> []
             then (case decoder_append (feedback_decoder s) data of (d, feedback_frames) \<Rightarrow>
                     Option.bind (publish_all w feedback_frames (s\<lparr>feedback_decoder := d\<rparr>))
                       (\<lambda>s. read_serial w s))
             else Some s
         | RdErr e \<Rightarrow>
             (case e of
                EINTR \<Rightarrow> read_serial w s
              | EAGAIN \<Rightarrow> Some s
              | EOTHER \<Rightarrow>
                  Some (close_serial w
                    (count (\<lambda>c. c\<lparr>read_error_count := read_error_count c + 1\<rparr>) s)))))"

definition log_stats_if_due :: "World \<Rightarrow> RcNode \<Rightarrow> RcNode" where
  "log_stats_if_due w s =
     (let (now, s) = sys (steady_ns w) s
      in if now - last_stats_log_ns s < kStatsLogPeriodNs then s else s\<lparr>last_stats_log_ns := now\<rparr>)"

definition on_serial_timer :: "World \<Rightarrow> RcNode \<Rightarrow> RcNode option" where
  "on_serial_timer w s =
     (let s = try_open_serial w s
      in do {
        s \<leftarrow> (if autonomous_requested s
              then let (now_ms, s) = steady_now_ms w s
                   in if \<not> fresh_and_clear (emergency_status_monitor s) now_ms
                      then latch_safety_stop w s else Some s
              else Some s);
        s \<leftarrow> (if 0 \<le> serial_fd s
              then let (answer, s) = sys (\<lambda>i. kernel_poll w i 0) s
                   in (case answer of
                         PollErr e \<Rightarrow>
                           if e \<noteq> EINTR
                           then Some (close_serial w
                                  (count (\<lambda>c. c\<lparr>read_error_count := read_error_count c + 1\<rparr>) s))
                           else Some s
                       | PollTimeout \<Rightarrow> Some s
                       | PollReady ev \<Rightarrow>
                           if ev_bad ev then Some (close_serial w s)
                           else if ev_in ev then read_serial w s
                           else Some s)
              else Some s);
        Some (log_stats_if_due w s)
      })"

text \<open>The destructor.\<close>

definition node_shutdown :: "World \<Rightarrow> RcNode \<Rightarrow> RcNode option" where
  "node_shutdown w s = do {
     s \<leftarrow> (if \<not> is_telemetry_only s \<and> 0 \<le> serial_fd s \<and> has_transmitted_command s
           then do {
             (_, s) \<leftarrow> transmit_software_stop w s;
             Some s
           }
           else Some s);
     Some (if 0 \<le> serial_fd s then (emit Closed s)\<lparr>serial_fd := - 1\<rparr> else s)
   }"

section \<open>The executor\<close>

text \<open>
  The events the single-threaded executor delivers. In telemetry-only mode the node has no
  command subscriptions and no mode service, so only the timer fires.
\<close>

datatype event =
  EvTimer | EvControl Control | EvGear gear_command | EvEmergency bool | EvMode mode_request

fun handle_event :: "World \<Rightarrow> event \<Rightarrow> RcNode \<Rightarrow> RcNode option" where
  "handle_event w EvTimer s = on_serial_timer w s"
| "handle_event w (EvControl m) s = on_control_command w m s"
| "handle_event w (EvGear g) s = Some (on_gear_command g s)"
| "handle_event w (EvEmergency e) s = on_emergency_status w e s"
| "handle_event w (EvMode m) s = map_option snd (on_control_mode_request w m s)"

inductive rc_step :: "World \<Rightarrow> RcNode \<Rightarrow> event \<Rightarrow> RcNode \<Rightarrow> bool" for w where
  step: "e = EvTimer \<or> \<not> is_telemetry_only s \<Longrightarrow> handle_event w e s = Some s' \<Longrightarrow> rc_step w s e s'"

inductive rc_reachable :: "World \<Rightarrow> NodeParams \<Rightarrow> RcNode \<Rightarrow> bool" for w p where
  start: "RcVehicleInterfaceNode_new w p = Inr s \<Longrightarrow> rc_reachable w p s"
| continue: "rc_reachable w p s \<Longrightarrow> rc_step w s e s' \<Longrightarrow> rc_reachable w p s'"

inductive_cases rc_step_cases: "rc_step w s e s'"

end
