(* ===== verification/Rc_Node_Safety.thy ===== *)
theory Rc_Node_Safety
  imports Rc_Node
begin

text \<open>
  Safety of the RC node over all reachable states and all worlds: what stands on the serial
  line of the current connection, and how it relates to the node's flags.
\<close>

section \<open>What was written on the current connection\<close>

text \<open>Effects are recorded newest first; a new connection starts an empty line.\<close>

fun line :: "effect list \<Rightarrow> bytes" where
  "line [] = []"
| "line (Opened # es) = []"
| "line (Written b # es) = line es @ b"
| "line (e # es) = line es"

lemma sys_simps [simp]:
  "fst (sys f s) = f (calls s)" "snd (sys f s) = s\<lparr>calls := Suc (calls s)\<rparr>"
  by (simp_all add: sys_def)

lemma steady_now_ms_snd [simp]: "snd (steady_now_ms w s) = s\<lparr>calls := Suc (calls s)\<rparr>"
  by (simp add: steady_now_ms_def)

lemma sys_eq [handler_defs]: "sys f s = (f (calls s), s\<lparr>calls := Suc (calls s)\<rparr>)"
  by (simp add: sys_def)

lemma steady_now_ms_eq [handler_defs]:
  "steady_now_ms w s = (duration_ms (steady_ns w (calls s)), s\<lparr>calls := Suc (calls s)\<rparr>)"
  by (simp add: steady_now_ms_def sys_def)

text \<open>Two states that differ only in what was called, counted and output.\<close>

definition same_ctl :: "RcNode \<Rightarrow> RcNode \<Rightarrow> bool" where
  "same_ctl s s' \<longleftrightarrow>
     s' = s\<lparr>counters := counters s', calls := calls s', outputs := outputs s'\<rparr>"

text \<open>The state after the link was given up.\<close>

definition lost :: "RcNode \<Rightarrow> RcNode \<Rightarrow> bool" where
  "lost s s' \<longleftrightarrow>
     s' = s\<lparr>serial_fd := - 1, feedback_decoder := feedback_decoder s',
        hall_feedback_monitor := hall_reset (hall_feedback_monitor s),
        autonomous_requested := False, has_transmitted_command := False,
        safety_stop_sent := False, rc_override_active := False, has_received_feedback := False,
        fault_clear_pending := False, fault_clear_zero_sent := False, fault_clear_sent := False,
        next_reconnect_attempt_ns := next_reconnect_attempt_ns s', counters := counters s',
        calls := calls s', outputs := outputs s'\<rparr>"

lemma same_ctl_step [simp]:
  "same_ctl s s" "same_ctl s (s\<lparr>counters := a\<rparr>)" "same_ctl s (s\<lparr>calls := b\<rparr>)"
  "same_ctl s (s\<lparr>outputs := c\<rparr>)" "same_ctl s (emit x s)"
  by (simp_all add: same_ctl_def emit_def)

lemma same_ctl_trans: "same_ctl s t \<Longrightarrow> same_ctl t u \<Longrightarrow> same_ctl s u"
  by (cases s; cases t; cases u) (simp add: same_ctl_def)

lemma same_ctl_upd:
  "same_ctl s s' \<Longrightarrow> same_ctl s (s'\<lparr>counters := a\<rparr>)" "same_ctl s s' \<Longrightarrow> same_ctl s (s'\<lparr>calls := b\<rparr>)"
  "same_ctl s s' \<Longrightarrow> same_ctl s (s'\<lparr>outputs := c\<rparr>)" "same_ctl s s' \<Longrightarrow> same_ctl s (emit x s')"
  by (rule same_ctl_trans, assumption, simp)+

lemma same_ctl_fields:
  "same_ctl s s' \<Longrightarrow> serial_fd s' = serial_fd s \<and> params s' = params s"
  by (cases s; cases s') (simp add: same_ctl_def)

lemma close_serial_lost: "0 \<le> serial_fd s \<Longrightarrow> lost s (close_serial w s)"
  by (simp add: lost_def close_serial_def Let_def emit_def reset_fault_clear_handshake_def
      reset_hall_def handler_defs)

lemma close_serial_closed [simp]: "serial_fd s < 0 \<Longrightarrow> close_serial w s = s"
  by (simp add: close_serial_def)

lemma lost_same_ctl: "same_ctl s s' \<Longrightarrow> lost s' s'' \<Longrightarrow> lost s s''"
  by (cases s; cases s'; cases s'') (simp add: same_ctl_def lost_def)

lemma write_failed_lost:
  "same_ctl s0 s \<Longrightarrow> 0 \<le> serial_fd s0 \<Longrightarrow> write_failed w s = (ok, s') \<Longrightarrow> \<not> ok \<and> lost s0 s'"
proof -
  assume a: "same_ctl s0 s" "0 \<le> serial_fd s0" "write_failed w s = (ok, s')"
  let ?s = "count (\<lambda>c. c\<lparr>write_error_count := write_error_count c + 1\<rparr>) s"
  have sc: "same_ctl s0 ?s" using a(1) by (rule same_ctl_upd)
  then have "0 \<le> serial_fd ?s" using a(2) same_ctl_fields [OF sc] by simp
  then have "lost ?s (close_serial w ?s)" by (rule close_serial_lost)
  with lost_same_ctl [OF sc] a(3) show ?thesis by (auto simp: write_failed_def)
qed

text \<open>A frame is written completely, or the link is given up.\<close>

lemmas write_loop_induct = write_loop.raw_induct [rotated, consumes 1, case_names step]
lemmas read_serial_induct = read_serial.raw_induct [rotated, consumes 1, case_names step]

definition frame_done :: "bytes \<Rightarrow> RcNode \<Rightarrow> bool \<times> RcNode \<Rightarrow> bool" where
  "frame_done frame s0 r \<longleftrightarrow>
     (if fst r then same_ctl s0 (snd r) \<and> line (outputs (snd r)) = line (outputs s0) @ frame
      else lost s0 (snd r))"

lemma frame_done_failed:
  "same_ctl s0 s \<Longrightarrow> 0 \<le> serial_fd s0 \<Longrightarrow> frame_done frame s0 (write_failed w s)"
  using write_failed_lost [of s0 s w] by (cases "write_failed w s") (simp add: frame_done_def)

lemma line_emit_Written [simp]: "line (outputs (emit (Written b) s)) = line (outputs s) @ b"
  by (simp add: emit_def)

lemma calls_upd_outputs [simp]: "outputs (s\<lparr>calls := b\<rparr>) = outputs s"
  by simp

lemma write_loop_result:
  "write_loop w deadline frame offset s = Some r \<Longrightarrow>
     same_ctl s0 s \<Longrightarrow> 0 \<le> serial_fd s0 \<Longrightarrow> line (outputs s) = line (outputs s0) @ take offset frame \<Longrightarrow>
     frame_done frame s0 r"
proof (induction rule: write_loop_induct)
  case (step loop w deadline frame offset s r)
  note run = step.hyps(1) and prems = step.prems
  note ih = step.IH
  have sc: "same_ctl s0 (s\<lparr>calls := n\<rparr>)" for n using prems(1) by (rule same_ctl_upd)
  show ?case
  proof (cases "offset < length frame")
    case False
    then show ?thesis using run prems by (auto simp: frame_done_def)
  next
    case True
    note [simp] = handler_defs
    show ?thesis
    proof (cases "kernel_write w (calls s) (length frame - offset)")
      case (WrCount n)
      show ?thesis
      proof (cases "0 < n")
        case n: True
        have next_run: "loop w deadline frame (offset + n)
            (emit (Written (take n (drop offset frame))) (s\<lparr>calls := Suc (calls s)\<rparr>)) = Some r"
          using run True WrCount n by simp
        show ?thesis
          by (rule ih [OF next_run]) (use prems sc in \<open>auto simp: take_add intro: same_ctl_upd\<close>)
      qed (use run True WrCount prems sc in \<open>auto intro: frame_done_failed\<close>)
    next
      case (WrErr e)
      show ?thesis
      proof (cases e)
        case EINTR
        have next_run: "loop w deadline frame offset (s\<lparr>calls := Suc (calls s)\<rparr>) = Some r"
          using run True WrErr EINTR by simp
        show ?thesis by (rule ih [OF next_run]) (use prems sc in auto)
      next
        case EAGAIN
        let ?t = "s\<lparr>calls := Suc (Suc (Suc (calls s)))\<rparr>"
        consider "\<exists>n. r = write_failed w (s\<lparr>calls := n\<rparr>)" | "loop w deadline frame offset ?t = Some r"
          using run True WrErr EAGAIN by (auto split: if_splits poll_result.splits)
        then show ?thesis
        proof cases
          case 2
          show ?thesis by (rule ih [OF 2]) (use prems sc in auto)
        qed (use prems sc in \<open>auto intro: frame_done_failed\<close>)
      qed (use run True WrErr prems sc in \<open>auto intro: frame_done_failed\<close>)
    qed
  qed
qed

lemma write_frame_result:
  assumes "write_frame w frame s = Some (ok, s')"
  shows "(ok \<and> \<not> is_telemetry_only s \<and> 0 \<le> serial_fd s \<and> same_ctl s s' \<and>
            line (outputs s') = line (outputs s) @ frame) \<or>
         (\<not> ok \<and> same_ctl s s' \<and> outputs s' = outputs s \<and> (is_telemetry_only s \<or> serial_fd s < 0)) \<or>
         (\<not> ok \<and> \<not> is_telemetry_only s \<and> 0 \<le> serial_fd s \<and> lost s s')"
proof (cases "is_telemetry_only s \<or> serial_fd s < 0")
  case True
  with assms show ?thesis by (auto simp: write_frame_def split: if_splits)
next
  case False
  then obtain r where r: "write_loop w (steady_ns w (calls s) + kSerialWriteTimeoutNs) frame 0
      (s\<lparr>calls := Suc (calls s)\<rparr>) = Some r"
    and res: "(ok, s') = (if fst r then (True, count (\<lambda>c. c\<lparr>transmitted_frame_count :=
        transmitted_frame_count c + 1\<rparr>) (snd r)) else (False, snd r))"
    using assms by (auto simp: write_frame_def handler_defs bind_eq_Some_conv split: prod.splits if_splits)
  have "frame_done frame s r"
    using False by (intro write_loop_result [OF r]) simp_all
  with res False show ?thesis
    by (auto simp: frame_done_def intro: same_ctl_upd split: if_splits)
qed

section \<open>The protocol on the line\<close>

text \<open>
  The commands the node may have sent on one connection, as a grammar: motion commands
  within the configured limits, software stops, and fault-clear commands, each of which
  directly follows an enabled zero command.
\<close>

definition encodable :: "ChassisCommand \<Rightarrow> bool" where
  "encodable c \<longleftrightarrow> (\<exists>f. encode_command_frame c = Inr f)"

definition frame_of :: "ChassisCommand \<Rightarrow> bytes" where
  "frame_of c = (case encode_command_frame c of Inl e \<Rightarrow> [] | Inr f \<Rightarrow> f)"

definition enabled_zero :: "ChassisCommand \<Rightarrow> bool" where
  "enabled_zero c \<longleftrightarrow> cmd_enable c \<and> \<not> cmd_software_stop c \<and> \<not> cmd_clear_fault c \<and>
     cmd_speed_mps c = Fin 0 \<and> cmd_steering_tire_angle_rad c = Fin 0"

definition motion_within :: "VehicleCommandLimits \<Rightarrow> ChassisCommand \<Rightarrow> bool" where
  "motion_within l c \<longleftrightarrow> cmd_enable c \<and> \<not> cmd_software_stop c \<and> \<not> cmd_clear_fault c \<and>
     fp_abs (cmd_speed_mps c) \<le> maximum_command_speed_mps l \<and>
     fp_abs (cmd_steering_tire_angle_rad c) \<le> max_steering_tire_angle_rad l"

inductive wire_log :: "VehicleCommandLimits \<Rightarrow> ChassisCommand list \<Rightarrow> bool" for l where
  empty: "wire_log l []"
| motion: "wire_log l cs \<Longrightarrow> motion_within l c \<Longrightarrow> encodable c \<Longrightarrow> wire_log l (cs @ [c])"
| stop: "wire_log l cs \<Longrightarrow> wire_log l (cs @ [software_stop_command])"
| clear: "wire_log l (cs @ [z]) \<Longrightarrow> enabled_zero z \<Longrightarrow> wire_log l (cs @ [z, clear_fault_command])"

lemma stop_encodable: "encode_command_frame software_stop_command = Inr (frame_of software_stop_command)"
  by (simp add: frame_of_def encode_command_frame_eq software_stop_command_def ChassisCommand_init_def
      applied_speed_def applied_steering_def inhibited_def quantize_milli_zero)

lemma clear_encodable: "encode_command_frame clear_fault_command = Inr (frame_of clear_fault_command)"
  by (simp add: frame_of_def encode_command_frame_eq clear_fault_command_def ChassisCommand_init_def
      applied_speed_def applied_steering_def inhibited_def quantize_milli_zero standalone_zero_def)

lemma frame_of_eq: "encode_command_frame c = Inr f \<Longrightarrow> frame_of c = f"
  by (simp add: frame_of_def)

section \<open>The invariant\<close>

text \<open>
  The flags, and the commands \<open>cs\<close> that make up the line of an open connection: unless the
  node holds a transmitted command, nothing was sent or the last command sent is a software
  stop; between the zero command and the clear command of a handshake the zero command is the
  last one.
\<close>

definition line_inv :: "VehicleCommandLimits \<Rightarrow> bool \<Rightarrow> bool \<Rightarrow> bool \<Rightarrow> bytes \<Rightarrow> bool" where
  "line_inv l tx zero clr bs \<longleftrightarrow>
     (\<exists>cs. wire_log l cs \<and> bs = concat (map frame_of cs) \<and>
        (\<not> tx \<longrightarrow> cs = [] \<or> last cs = software_stop_command) \<and>
        (zero \<and> \<not> clr \<longrightarrow> cs \<noteq> [] \<and> enabled_zero (last cs)))"

definition flags_inv :: "int \<Rightarrow> bool \<Rightarrow> bool \<Rightarrow> bool \<Rightarrow> bool \<Rightarrow> bool \<Rightarrow> bool \<Rightarrow> bool \<Rightarrow> bool \<Rightarrow> bool" where
  "flags_inv fd auto tx latched stopped recv pend zero clr \<longleftrightarrow>
     (auto \<longrightarrow> 0 \<le> fd \<and> \<not> latched \<and> \<not> stopped \<and> recv) \<and> (tx \<longrightarrow> auto) \<and> (pend \<longrightarrow> auto) \<and>
     (zero \<longrightarrow> pend \<and> tx) \<and> (clr \<longrightarrow> zero)"

definition node_inv :: "RcNode \<Rightarrow> bool" where
  "node_inv s \<longleftrightarrow>
     (is_telemetry_only s \<longrightarrow> \<not> autonomous_requested s) \<and>
     flags_inv (serial_fd s) (autonomous_requested s) (has_transmitted_command s)
       (safety_stop_latched s) (safety_stop_sent s) (has_received_feedback s)
       (fault_clear_pending s) (fault_clear_zero_sent s) (fault_clear_sent s) \<and>
     (0 \<le> serial_fd s \<longrightarrow>
        line_inv (command_limits (params s)) (has_transmitted_command s) (fault_clear_zero_sent s)
          (fault_clear_sent s) (line (outputs s)))"

lemma line_inv_empty: "line_inv l auto False clr []"
  unfolding line_inv_def by (rule exI [of _ "[]"]) (simp add: wire_log.empty)

lemma line_inv_stop:
  "line_inv l auto zero clr bs \<Longrightarrow> line_inv l auto' False clr' (bs @ frame_of software_stop_command)"
  unfolding line_inv_def
proof (elim exE conjE)
  fix cs assume cs: "wire_log l cs" "bs = concat (map frame_of cs)"
  show "\<exists>cs. wire_log l cs \<and> bs @ frame_of software_stop_command = concat (map frame_of cs) \<and>
      (\<not> auto' \<longrightarrow> cs = [] \<or> last cs = software_stop_command) \<and>
      (False \<and> \<not> clr' \<longrightarrow> cs \<noteq> [] \<and> enabled_zero (last cs))"
    by (rule exI [of _ "cs @ [software_stop_command]"]) (simp add: cs wire_log.stop)
qed

lemma line_inv_clear:
  assumes "line_inv l tx True False bs"
  shows "line_inv l True True True (bs @ frame_of clear_fault_command)"
proof -
  from assms obtain cs where cs: "wire_log l cs" "bs = concat (map frame_of cs)" "cs \<noteq> []"
    "enabled_zero (last cs)" by (auto simp: line_inv_def)
  then have "wire_log l (butlast cs @ [last cs])" by simp
  then have "wire_log l (butlast cs @ [last cs, clear_fault_command])"
    using cs(4) by (rule wire_log.clear)
  moreover have "butlast cs @ [last cs, clear_fault_command] = cs @ [clear_fault_command]"
    using cs(3) by (metis append.assoc append_butlast_last_id append_Cons append_Nil)
  ultimately have "wire_log l (cs @ [clear_fault_command])" by simp
  then show ?thesis
    unfolding line_inv_def by (intro exI [of _ "cs @ [clear_fault_command]"]) (simp add: cs)
qed

lemma line_inv_motion:
  assumes "line_inv l tx zero clr bs" "motion_within l c" "encodable c" "pend \<Longrightarrow> enabled_zero c"
  shows "line_inv l True pend clr (bs @ frame_of c)"
proof -
  from assms obtain cs where cs: "wire_log l cs" "bs = concat (map frame_of cs)"
    by (auto simp: line_inv_def)
  then have "wire_log l (cs @ [c])" using assms(2,3) by (intro wire_log.motion)
  then show ?thesis
    unfolding line_inv_def by (intro exI [of _ "cs @ [c]"]) (simp add: cs assms(4))
qed

lemma line_inv_zero_off: "line_inv l tx zero clr bs \<Longrightarrow> line_inv l tx False clr' bs"
  unfolding line_inv_def by blast

text \<open>What only the command, gear and emergency handlers change.\<close>

definition same_env :: "RcNode \<Rightarrow> RcNode \<Rightarrow> bool" where
  "same_env s s' \<longleftrightarrow>
     params s' = params s \<and> logical_gear s' = logical_gear s \<and>
     logical_gear_report s' = logical_gear_report s \<and>
     last_transmitted_command_stamp_ns s' = last_transmitted_command_stamp_ns s \<and>
     emergency_status_monitor s' = emergency_status_monitor s"

lemma same_env_refl [simp]: "same_env s s"
  by (simp add: same_env_def)

lemma same_env_trans: "same_env s t \<Longrightarrow> same_env t u \<Longrightarrow> same_env s u"
  by (simp add: same_env_def)

lemma same_ctl_env: "same_ctl s s' \<Longrightarrow> same_env s s'"
  by (cases s; cases s') (simp add: same_ctl_def same_env_def)

lemma lost_env: "lost s s' \<Longrightarrow> same_env s s'"
  by (cases s; cases s') (simp add: lost_def same_env_def)

lemma lost_inv: "lost s s' \<Longrightarrow> node_inv s' \<and> \<not> autonomous_requested s' \<and> serial_fd s' = - 1 \<and>
     \<not> safety_stop_sent s' \<and> safety_stop_latched s' = safety_stop_latched s \<and> \<not> fault_clear_sent s'"
  by (cases s; cases s') (simp add: lost_def node_inv_def flags_inv_def)

lemma stop_transition:
  assumes run: "transmit_software_stop w s = Some (sent, s')"
    and pre: "\<not> autonomous_requested s" "\<not> fault_clear_pending s" "\<not> fault_clear_zero_sent s"
      "\<not> fault_clear_sent s" "0 \<le> serial_fd s" "\<not> is_telemetry_only s"
    and line: "line_inv (command_limits (params s)) auto zero clr (line (outputs s))"
  shows "node_inv (s'\<lparr>safety_stop_sent := sent\<rparr>) \<and> \<not> autonomous_requested s' \<and> same_env s s' \<and>
     safety_stop_latched s' = safety_stop_latched s"
proof -
  obtain t written where wf: "write_frame w (frame_of software_stop_command) s = Some (written, t)"
    and t: "(sent, s') = (if \<not> written then (False, t) else (True, t\<lparr>has_transmitted_command := False\<rparr>))"
    using run by (auto simp: transmit_software_stop_def stop_encodable bind_eq_Some_conv split: prod.splits)
  consider (ok) "written" "same_ctl s t" "line (outputs t) = line (outputs s) @ frame_of software_stop_command"
    | (lost) "\<not> written" "lost s t"
    using write_frame_result [OF wf] pre by auto
  then show ?thesis
  proof cases
    case ok
    have "line_inv (command_limits (params s)) False False (fault_clear_sent s) (line (outputs t))"
      unfolding ok(3) using line by (rule line_inv_stop)
    with ok(1,2) t pre show ?thesis
      by (cases s; cases t) (auto simp: same_ctl_def same_env_def node_inv_def flags_inv_def)
  next
    case lost
    with t lost_inv [OF lost(2)] lost_env [OF lost(2)] show ?thesis
      by (auto simp: node_inv_def flags_inv_def)
  qed
qed

lemma latch_result:
  assumes inv: "node_inv s" and run: "latch_safety_stop w s = Some s'"
  shows "node_inv s' \<and> \<not> autonomous_requested s' \<and> safety_stop_latched s' \<and> same_env s s'"
proof -
  let ?t = "reset_hall (reset_fault_clear_handshake
    (s\<lparr>safety_stop_latched := True, autonomous_requested := False\<rparr>))"
  have env: "same_env s ?t" and t: "\<not> autonomous_requested ?t" "\<not> fault_clear_pending ?t"
    "\<not> fault_clear_zero_sent ?t" "\<not> fault_clear_sent ?t" "serial_fd ?t = serial_fd s"
    "params ?t = params s" "safety_stop_latched ?t"
    by (simp_all add: same_env_def reset_hall_def reset_fault_clear_handshake_def)
  show ?thesis
  proof (cases "\<not> is_telemetry_only s \<and> 0 \<le> serial_fd s \<and> \<not> safety_stop_sent s")
    case True
    then obtain sent u where u: "transmit_software_stop w ?t = Some (sent, u)" "s' = u\<lparr>safety_stop_sent := sent\<rparr>"
      using run by (auto simp: latch_safety_stop_def Let_def reset_hall_def reset_fault_clear_handshake_def
          bind_eq_Some_conv)
    have "line_inv (command_limits (params ?t)) (has_transmitted_command s) (fault_clear_zero_sent s)
        (fault_clear_sent s) (line (outputs ?t))"
      using inv True by (simp add: node_inv_def reset_hall_def reset_fault_clear_handshake_def)
    from stop_transition [OF u(1) t(1-4) _ _ this] True t(5-7) env u(2) show ?thesis
      by (auto simp: same_env_def)
  next
    case False
    then have "s' = ?t"
      using run by (auto simp: latch_safety_stop_def Let_def reset_hall_def reset_fault_clear_handshake_def)
    moreover have "node_inv ?t"
      using inv False
      by (auto simp: node_inv_def flags_inv_def reset_hall_def reset_fault_clear_handshake_def line_inv_def)
    ultimately show ?thesis using env t by simp
  qed
qed

lemma clear_transition:
  assumes inv: "node_inv s" and run: "transmit_clear_fault w s = Some (sent, s')"
    and pre: "fault_clear_zero_sent s" "\<not> fault_clear_sent s"
  shows "node_inv (s'\<lparr>fault_clear_sent := sent\<rparr>) \<and> same_env s s' \<and>
     (autonomous_requested s' \<longrightarrow> autonomous_requested s) \<and>
     safety_stop_latched s' = safety_stop_latched s"
proof -
  obtain t written where wf: "write_frame w (frame_of clear_fault_command) s = Some (written, t)"
    and t: "sent = written" "same_ctl t s'" "outputs s' = outputs t"
    using run by (auto simp: transmit_clear_fault_def clear_encodable bind_eq_Some_conv split: if_splits)
  have auto: "autonomous_requested s" "0 \<le> serial_fd s" "\<not> is_telemetry_only s" "fault_clear_pending s"
    using inv pre by (auto simp: node_inv_def flags_inv_def)
  consider (ok) "written" "same_ctl s t" "line (outputs t) = line (outputs s) @ frame_of clear_fault_command"
    | (lost) "\<not> written" "lost s t"
    using write_frame_result [OF wf] auto by auto
  then show ?thesis
  proof cases
    case ok
    have "line_inv (command_limits (params s)) True True True (line (outputs s'))"
      unfolding t(3) ok(3) using inv auto pre
      by (intro line_inv_clear [where tx = "has_transmitted_command s"]) (auto simp: node_inv_def)
    with ok(1,2) t auto pre inv show ?thesis
      by (cases s; cases t; cases s') (auto simp: same_ctl_def same_env_def node_inv_def flags_inv_def)
  next
    case lost
    have "lost s s'" using lost(2) t(2,3) by (cases s; cases t; cases s') (auto simp: same_ctl_def lost_def)
    from lost_inv [OF this] lost_env [OF this] lost(1) t(1) show ?thesis
      by (auto simp: node_inv_def flags_inv_def)
  qed
qed

section \<open>The handlers preserve the invariant\<close>

text \<open>
  A part of a handler is safe when it keeps the invariant and the command environment, never
  gains authority, never releases the safety stop and, in telemetry-only mode, writes nothing.
\<close>

fun is_written :: "effect \<Rightarrow> bool" where
  "is_written (Written b) = True"
| "is_written _ = False"

definition written :: "RcNode \<Rightarrow> effect list" where
  "written s = filter is_written (outputs s)"

definition safe :: "RcNode \<Rightarrow> RcNode \<Rightarrow> bool" where
  "safe s s' \<longleftrightarrow> (node_inv s \<longrightarrow> node_inv s') \<and> same_env s s' \<and>
     (autonomous_requested s' \<longrightarrow> autonomous_requested s) \<and>
     (safety_stop_latched s \<longrightarrow> safety_stop_latched s') \<and>
     (is_telemetry_only s \<longrightarrow> written s' = written s)"

lemma safe_refl [simp]: "safe s s"
  by (simp add: safe_def)

lemma safe_trans: "safe s t \<Longrightarrow> safe t u \<Longrightarrow> safe s u"
  by (auto simp: safe_def same_env_def)

text \<open>Updates of members that the invariant does not mention.\<close>

lemma safe_updates [simp]:
  "safe s (s\<lparr>counters := a\<rparr>)" "safe s (s\<lparr>calls := b\<rparr>)" "safe s (s\<lparr>last_feedback := c\<rparr>)"
  "safe s (s\<lparr>hall_feedback_monitor := d\<rparr>)" "safe s (s\<lparr>last_stats_log_ns := e\<rparr>)"
  "safe s (s\<lparr>rc_override_active := f\<rparr>)" "safe s (s\<lparr>feedback_decoder := g\<rparr>)"
  "safe s (s\<lparr>next_reconnect_attempt_ns := h\<rparr>)" "safe s (s\<lparr>telemetry_open_attempted := i\<rparr>)"
  "safe s (s\<lparr>has_received_feedback := True\<rparr>)" "safe s (reset_hall s)"
  "safe s (s\<lparr>calls := b, reads := n\<rparr>)"
  by (simp_all add: safe_def node_inv_def same_env_def flags_inv_def reset_hall_def written_def)

lemma safe_after:
  "safe s t \<Longrightarrow> safe s (t\<lparr>counters := a\<rparr>)" "safe s t \<Longrightarrow> safe s (t\<lparr>calls := b\<rparr>)"
  "safe s t \<Longrightarrow> safe s (t\<lparr>last_feedback := c\<rparr>)" "safe s t \<Longrightarrow> safe s (t\<lparr>hall_feedback_monitor := d\<rparr>)"
  "safe s t \<Longrightarrow> safe s (t\<lparr>last_stats_log_ns := e\<rparr>)" "safe s t \<Longrightarrow> safe s (t\<lparr>rc_override_active := f\<rparr>)"
  "safe s t \<Longrightarrow> safe s (t\<lparr>feedback_decoder := g\<rparr>)" "safe s t \<Longrightarrow> safe s (reset_hall t)"
  by (rule safe_trans, assumption, simp)+

lemma safe_latch: "latch_safety_stop w s = Some s' \<Longrightarrow> node_inv s \<Longrightarrow> safe s s'"
  using latch_result [of s w s']
  by (auto simp: safe_def latch_safety_stop_def Let_def written_def reset_hall_def
      reset_fault_clear_handshake_def)

lemma safe_handshake_end: "safe s (reset_fault_clear_handshake s)"
  by (auto simp: safe_def node_inv_def same_env_def flags_inv_def reset_fault_clear_handshake_def
      line_inv_def written_def)

lemma safe_emit [simp]:
  "safe s (emit (Velocity a b c) s)" "safe s (emit (Steering a) s)" "safe s (emit (Gear g) s)"
  "safe s (emit (Mode m) s)"
  by (simp_all add: safe_def node_inv_def same_env_def emit_def written_def)

lemma safe_close: "safe s (close_serial w s)"
proof (cases "serial_fd s < 0")
  case False
  then have "lost s (close_serial w s)" by (intro close_serial_lost) simp
  moreover have "written (close_serial w s) = written s"
    by (simp add: close_serial_def Let_def emit_def reset_fault_clear_handshake_def reset_hall_def
        handler_defs written_def)
  ultimately show ?thesis using lost_inv lost_env by (auto simp: safe_def)
qed simp

lemma inv_of_safe: "node_inv s \<Longrightarrow> safe s t \<Longrightarrow> node_inv t"
  by (simp add: safe_def)

lemma safe_check_feedback:
  assumes "check_feedback w fb s = Some s'" "node_inv s"
  shows "safe s s'"
proof -
  let ?s1 = "s\<lparr>has_received_feedback := True, rc_override_active := status_has fb kRcStatusRcOverrideActive\<rparr>"
  have s1: "safe s ?s1" by (rule safe_trans [OF safe_updates(10)]) simp
  have latch: "safe s u" if "latch_safety_stop w (count f ?s1) = Some u" for f u
    by (rule safe_trans [OF safe_after(1) [OF s1] safe_latch [OF that inv_of_safe [OF assms(2) safe_after(1) [OF s1]]]])
  show ?thesis
    using assms(1) s1 latch
    by (auto simp: check_feedback_def Let_def bind_eq_Some_conv intro!: safe_after split: if_splits)
qed

lemma safe_handle_faults:
  assumes "handle_faults w fb s = Some s'" "node_inv s"
  shows "safe s s'"
proof -
  obtain t where t: "(if has_live_chassis_fault fb \<and> (autonomous_requested s \<or> has_transmitted_command s)
        then latch_safety_stop w s else Some s) = Some t"
    using assms(1) by (auto simp: handle_faults_def Let_def bind_eq_Some_conv)
  then have st: "safe s t" using safe_latch [OF _ assms(2)] by (auto split: if_splits)
  then have it: "node_inv t" using assms(2) by (simp add: safe_def)
  have cl: "safe t (u\<lparr>fault_clear_sent := sent\<rparr>)"
    if "transmit_clear_fault w t = Some (sent, u)" "fault_clear_zero_sent t" "\<not> fault_clear_sent t" for sent u
    using clear_transition [OF it that] it that(2)
    by (auto simp: safe_def same_env_def node_inv_def flags_inv_def)
  have "safe t s'"
    using assms(1) t it cl safe_latch [OF _ it] safe_handshake_end [of t]
    by (auto simp: handle_faults_def Let_def bind_eq_Some_conv split: if_splits)
  with st show ?thesis by (rule safe_trans)
qed

lemma monitor_hall_shape:
  "\<exists>e t. safe s t \<and> monitor_hall w fb s =
     (if e = kFault
      then Option.bind (latch_safety_stop w (count (\<lambda>c. c\<lparr>hall_feedback_fault_count :=
             hall_feedback_fault_count c + 1\<rparr>) t)) (\<lambda>s. Some (e, s))
      else Some (e, t))"
proof (cases "rc_override_active s \<or>
    status_has fb (kRcStatusCommandTimeout OR kRcStatusStopOverrideActive) \<or>
    has_live_chassis_fault fb \<or> has_latched_chassis_fault fb")
  case True
  then show ?thesis
    by (intro exI [of _ kNotRequired] exI [of _ "reset_hall s"]) (simp add: monitor_hall_def)
next
  case False
  obtain e m where o: "hall_observe (velocity_feedback_state fb = kMeasuredMotion)
      (duration_ms (steady_ns w (calls s))) (hall_feedback_monitor s) = (e, m)"
    by (cases "hall_observe (velocity_feedback_state fb = kMeasuredMotion)
      (duration_ms (steady_ns w (calls s))) (hall_feedback_monitor s)")
  let ?t = "s\<lparr>calls := Suc (calls s), hall_feedback_monitor := m\<rparr>"
  have "safe s ?t" by (rule safe_after(4)) simp
  with False o show ?thesis
    by (intro exI [of _ e] exI [of _ ?t]) (simp add: monitor_hall_def Let_def handler_defs)
qed

lemma safe_monitor_hall:
  assumes "monitor_hall w fb s = Some (d, s')" "node_inv s"
  shows "safe s s'"
proof -
  obtain e t where m: "safe s t" "(if e = kFault
      then Option.bind (latch_safety_stop w (count (\<lambda>c. c\<lparr>hall_feedback_fault_count :=
             hall_feedback_fault_count c + 1\<rparr>) t)) (\<lambda>s. Some (e, s))
      else Some (e, t)) = Some (d, s')"
    using monitor_hall_shape [of s w fb] assms(1) by metis
  note it = inv_of_safe [OF assms(2) safe_after(1) [OF m(1)]]
  from m show ?thesis
    by (auto simp: bind_eq_Some_conv split: if_splits
        intro: safe_trans [OF safe_after(1) [OF m(1)] safe_latch [OF _ it]])
qed

lemma safe_publish_reports: "safe s (publish_reports w fb d s)"
proof -
  have em: "safe s t \<Longrightarrow> safe s (emit (Velocity a b c) t)" "safe s t \<Longrightarrow> safe s (emit (Steering a) t)"
    "safe s t \<Longrightarrow> safe s (emit (Gear g) t)" "safe s t \<Longrightarrow> safe s (emit (Mode m) t)" for t a b c g m
    by (rule safe_trans, assumption, simp)+
  show ?thesis
    unfolding publish_reports_def Let_def handler_defs by (auto intro!: em safe_after)
qed

lemma safe_publish_feedback:
  assumes "publish_feedback w fb s = Some s'" "node_inv s"
  shows "safe s s'"
proof -
  from assms(1) obtain t u d v where r: "check_feedback w fb s = Some t" "handle_faults w fb t = Some u"
    "monitor_hall w fb u = Some (d, v)" "s' = publish_reports w fb d v"
    by (auto simp: publish_feedback_def bind_eq_Some_conv)
  note t = safe_check_feedback [OF r(1) assms(2)]
  note u = safe_trans [OF t safe_handle_faults [OF r(2) inv_of_safe [OF assms(2) t]]]
  note v = safe_trans [OF u safe_monitor_hall [OF r(3) inv_of_safe [OF assms(2) u]]]
  show ?thesis unfolding r(4) by (rule safe_trans [OF v safe_publish_reports])
qed

lemma safe_publish_all: "publish_all w fbs s = Some s' \<Longrightarrow> node_inv s \<Longrightarrow> safe s s'"
proof (induction fbs arbitrary: s)
  case (Cons fb fbs)
  then obtain t where t: "publish_feedback w fb s = Some t" "publish_all w fbs t = Some s'"
    by (auto simp: bind_eq_Some_conv)
  note st = safe_publish_feedback [OF t(1) Cons.prems(2)]
  show ?case by (rule safe_trans [OF st Cons.IH [OF t(2) inv_of_safe [OF Cons.prems(2) st]]])
qed simp

lemma safe_read_serial: "read_serial w s = Some s' \<Longrightarrow> node_inv s \<Longrightarrow> safe s s'"
proof (induction rule: read_serial_induct)
  case (step loop w s s')
  obtain res t where rd: "sys_read w s = (res, t)" by (cases "sys_read w s")
  then have st: "safe s t" by (auto simp: sys_read_def handler_defs split: if_splits)
  note it = inv_of_safe [OF step.prems st]
  show ?case
  proof (cases res)
    case (RdBytes data)
    show ?thesis
    proof (cases "data = []")
      case False
      obtain d fbs where app: "decoder_append (feedback_decoder t) data = (d, fbs)"
        by (cases "decoder_append (feedback_decoder t) data")
      obtain u where u: "publish_all w fbs (t\<lparr>feedback_decoder := d\<rparr>) = Some u" "loop w u = Some s'"
        using step.hyps rd RdBytes False app by (auto simp: bind_eq_Some_conv)
      have td: "safe s (t\<lparr>feedback_decoder := d\<rparr>)" using st by (rule safe_after)
      note su = safe_trans [OF td safe_publish_all [OF u(1) inv_of_safe [OF step.prems td]]]
      show ?thesis by (rule safe_trans [OF su step.IH [OF u(2) inv_of_safe [OF step.prems su]]])
    qed (use step.hyps rd RdBytes st in simp)
  next
    case (RdErr e)
    show ?thesis
    proof (cases e)
      case EINTR
      then have "loop w t = Some s'" using step.hyps rd RdErr by simp
      from safe_trans [OF st step.IH [OF this it]] show ?thesis .
    next
      case EOTHER
      then show ?thesis
        using step.hyps rd RdErr safe_trans [OF safe_after(1) [OF st] safe_close] by auto
    qed (use step.hyps rd RdErr st in simp)
  qed
qed

lemma safe_configure: "configure_serial w s = (ok, t) \<Longrightarrow> safe s t \<and> same_ctl s t"
  by (auto simp: configure_serial_def Let_def handler_defs intro!: safe_after same_ctl_upd
      split: if_splits)

lemma safe_try_open:
  assumes "node_inv s"
  shows "safe s (try_open_serial w s)"
proof (cases "0 \<le> serial_fd s")
  case True
  then show ?thesis by (simp add: try_open_serial_def)
next
  case closed: False
  let ?s1 = "s\<lparr>calls := Suc (calls s), telemetry_open_attempted := is_telemetry_only s,
    next_reconnect_attempt_ns := steady_ns w (calls s) + reconnect_period_ms (params s) * 1000000\<rparr>"
  let ?s2 = "?s1\<lparr>calls := Suc (Suc (calls s))\<rparr>"
  obtain ok t where c: "configure_serial w ?s2 = (ok, t)" by (cases "configure_serial w ?s2")
  have s2: "same_env s ?s2" by (simp add: same_env_def)
  have "node_inv ?s2" using assms by (simp add: node_inv_def)
  then have s2': "safe s ?s2" using s2 by (simp add: safe_def written_def)
  have st: "safe s t" and ct: "same_ctl ?s2 t" using safe_configure [OF c] safe_trans [OF s2'] by auto
  have off: "\<not> autonomous_requested t \<and> safety_stop_latched t = safety_stop_latched s \<and> \<not> has_transmitted_command t \<and> \<not> fault_clear_pending t \<and>
      \<not> fault_clear_zero_sent t \<and> \<not> fault_clear_sent t \<and> same_env s t"
    using assms closed ct
    by (cases s; cases t) (auto simp: same_ctl_def node_inv_def flags_inv_def same_env_def)
  have opened: "safe s (emit Opened (t\<lparr>feedback_decoder := d, serial_fd := fd, counters := c\<rparr>))" for d fd c
    using off st line_inv_empty [of _ False]
    by (simp add: safe_def node_inv_def flags_inv_def same_env_def emit_def written_def)
  have s1: "safe s (s\<lparr>calls := n\<rparr>)" for n by simp
  show ?thesis
    using closed s2' st opened s1 c
    by (cases "is_telemetry_only s") (auto simp: try_open_serial_def Let_def handler_defs)
qed

lemma safe_timer:
  assumes "on_serial_timer w s = Some s'" "node_inv s"
  shows "safe s s'"
proof -
  let ?t = "try_open_serial w s"
  note st = safe_try_open [OF assms(2), of w]
  obtain u where u: "(if autonomous_requested ?t
      then let (now_ms, s) = steady_now_ms w ?t
           in if \<not> fresh_and_clear (emergency_status_monitor s) now_ms then latch_safety_stop w s else Some s
      else Some ?t) = Some u"
    using assms(1) by (auto simp: on_serial_timer_def Let_def bind_eq_Some_conv)
  have tu: "safe s u"
  proof (cases "autonomous_requested ?t")
    case True
    have t1: "safe s (?t\<lparr>calls := Suc (calls ?t)\<rparr>)" using st by (rule safe_after)
    with u True show ?thesis
      using safe_trans [OF t1 safe_latch [OF _ inv_of_safe [OF assms(2) t1]]]
      by (auto simp: handler_defs split: if_splits)
  qed (use u st in simp)
  let ?u1 = "u\<lparr>calls := Suc (calls u)\<rparr>"
  have u1: "safe s ?u1" using tu by (rule safe_after)
  note i1 = inv_of_safe [OF assms(2) u1]
  obtain v where v: "(if 0 \<le> serial_fd u
      then let (answer, s) = sys (\<lambda>i. kernel_poll w i 0) u
           in case answer of
             PollErr e \<Rightarrow> if e \<noteq> EINTR
               then Some (close_serial w (count (\<lambda>c. c\<lparr>read_error_count := read_error_count c + 1\<rparr>) s))
               else Some s
           | PollTimeout \<Rightarrow> Some s
           | PollReady ev \<Rightarrow>
               if ev_bad ev then Some (close_serial w s)
               else if ev_in ev then read_serial w s else Some s
      else Some u) = Some v" "s' = log_stats_if_due w v"
    using assms(1) u by (auto simp: on_serial_timer_def Let_def bind_eq_Some_conv)
  have sv: "safe s v"
    using v(1) tu u1 safe_trans [OF u1 safe_read_serial [OF _ i1]]
      safe_trans [OF u1 safe_close] safe_trans [OF safe_after(1) [OF u1] safe_close]
    by (auto simp: handler_defs split: if_splits poll_result.splits)
  then show ?thesis
    unfolding v(2) log_stats_if_due_def Let_def handler_defs by (auto intro: safe_after)
qed

lemma gated_command_facts:
  assumes "control_to_chassis_motion v a (command_limits (params s)) = Inr sp"
  shows "motion_within (command_limits (params s)) (gated_command s sp)"
    and "fault_clear_pending s \<Longrightarrow> enabled_zero (gated_command s sp)"
    and "logical_gear_allows_speed (logical_gear s) (cmd_speed_mps (gated_command s sp))"
proof -
  obtain x y vmax smax where sp: "sp_speed_mps sp = Fin x" "sp_steering_tire_angle_rad sp = Fin y"
    "maximum_command_speed_mps (command_limits (params s)) = Fin vmax"
    "max_steering_tire_angle_rad (command_limits (params s)) = Fin smax" "\<bar>x\<bar> \<le> vmax" "\<bar>y\<bar> \<le> smax"
    using setpoint_bounds [OF assms] by metis
  then have "0 \<le> vmax" "0 \<le> smax" by linarith+
  with sp show "motion_within (command_limits (params s)) (gated_command s sp)"
    by (auto simp: motion_within_def gated_command_def Let_def ChassisCommand_init_def)
  show "enabled_zero (gated_command s sp)" if "fault_clear_pending s"
    using that by (simp add: enabled_zero_def gated_command_def Let_def ChassisCommand_init_def)
  show "logical_gear_allows_speed (logical_gear s) (cmd_speed_mps (gated_command s sp))"
    by (cases "logical_gear s") (auto simp: gated_command_def Let_def ChassisCommand_init_def)
qed

text \<open>What a Control message has to pass before anything is written for it.\<close>

definition control_gate :: "World \<Rightarrow> Control \<Rightarrow> RcNode \<Rightarrow> bool" where
  "control_gate w m s \<longleftrightarrow>
     autonomous_requested s \<and> 0 \<le> serial_fd s \<and>
     fresh_and_clear (emergency_status_monitor s) (duration_ms (steady_ns w (calls s))) \<and>
     ctl_stamp_ns m - ros_ns w (Suc (calls s)) \<le> kFutureStampToleranceNs \<and>
     ros_ns w (Suc (calls s)) - ctl_stamp_ns m \<le> firmware_command_timeout_ms (params s) * 1000000 \<and>
     last_transmitted_command_stamp_ns s \<le> ctl_stamp_ns m"

definition sends :: "RcNode \<Rightarrow> RcNode \<Rightarrow> ChassisCommand \<Rightarrow> bool" where
  "sends s s' c \<longleftrightarrow> serial_fd s' = serial_fd s \<and> line (outputs s') = line (outputs s) @ frame_of c"

definition control_outcome :: "World \<Rightarrow> Control \<Rightarrow> RcNode \<Rightarrow> RcNode \<Rightarrow> bool" where
  "control_outcome w m s s' \<longleftrightarrow>
     (serial_fd s' = serial_fd s \<and> line (outputs s') = line (outputs s) \<and>
        last_transmitted_command_stamp_ns s' = last_transmitted_command_stamp_ns s) \<or>
     (serial_fd s' = - 1 \<and>
        last_transmitted_command_stamp_ns s' = last_transmitted_command_stamp_ns s) \<or>
     (sends s s' software_stop_command \<and> safety_stop_latched s' \<and>
        \<not> fresh_and_clear (emergency_status_monitor s) (duration_ms (steady_ns w (calls s))) \<and>
        last_transmitted_command_stamp_ns s' = last_transmitted_command_stamp_ns s) \<or>
     (control_gate w m s \<and> last_transmitted_command_stamp_ns s' = ctl_stamp_ns m \<and>
        (\<exists>sp. control_to_chassis_motion (ctl_velocity m) (ctl_steering_tire_angle m)
                (command_limits (params s)) = Inr sp \<and> sends s s' (gated_command s sp)))"

text \<open>The stop, seen from outside: nothing, the stop frame, or a lost link.\<close>

lemma stop_outcome:
  assumes "transmit_software_stop w s = Some (sent, s')"
  shows "(sent \<and> sends s s' software_stop_command) \<or>
     (\<not> sent \<and> (serial_fd s' = - 1 \<or> serial_fd s' = serial_fd s \<and> outputs s' = outputs s))"
proof -
  obtain t written where wf: "write_frame w (frame_of software_stop_command) s = Some (written, t)"
    and t: "(sent, s') = (if \<not> written then (False, t) else (True, t\<lparr>has_transmitted_command := False\<rparr>))"
    using assms by (auto simp: transmit_software_stop_def stop_encodable bind_eq_Some_conv split: prod.splits)
  have "lost s t \<Longrightarrow> serial_fd t = - 1" using lost_inv by blast
  with write_frame_result [OF wf] t same_ctl_fields [of s t] show ?thesis
    by (auto simp: sends_def split: if_splits)
qed

lemma stop_keeps_authority:
  assumes "transmit_software_stop w s = Some (sent, s')"
  shows "(autonomous_requested s' \<longrightarrow> autonomous_requested s) \<and>
     safety_stop_latched s' = safety_stop_latched s"
proof -
  obtain t written where wf: "write_frame w (frame_of software_stop_command) s = Some (written, t)"
    and t: "(sent, s') = (if \<not> written then (False, t) else (True, t\<lparr>has_transmitted_command := False\<rparr>))"
    using assms by (auto simp: transmit_software_stop_def stop_encodable bind_eq_Some_conv split: prod.splits)
  have "same_ctl s t \<Longrightarrow> autonomous_requested t = autonomous_requested s \<and>
      safety_stop_latched t = safety_stop_latched s"
    by (cases s; cases t) (simp add: same_ctl_def)
  with write_frame_result [OF wf] lost_inv [of s t] t show ?thesis
    by (auto split: if_splits)
qed

lemma latch_outcome:
  assumes "latch_safety_stop w s = Some s'"
  shows "serial_fd s' = serial_fd s \<and> outputs s' = outputs s \<or> serial_fd s' = - 1 \<or>
     sends s s' software_stop_command"
proof -
  let ?t = "reset_hall (reset_fault_clear_handshake
    (s\<lparr>safety_stop_latched := True, autonomous_requested := False\<rparr>))"
  have t: "serial_fd ?t = serial_fd s" "outputs ?t = outputs s"
    by (simp_all add: reset_hall_def reset_fault_clear_handshake_def)
  from assms consider "s' = ?t"
    | sent u where "transmit_software_stop w ?t = Some (sent, u)" "s' = u\<lparr>safety_stop_sent := sent\<rparr>"
    by (auto simp: latch_safety_stop_def Let_def bind_eq_Some_conv split: if_splits)
  then show ?thesis
    by cases (use stop_outcome t in \<open>fastforce simp: sends_def\<close>)+
qed

text \<open>The last step of the handler, after the frame was written.\<close>

definition command_sent :: "World \<Rightarrow> int \<Rightarrow> ChassisCommand \<Rightarrow> RcNode \<Rightarrow> RcNode" where
  "command_sent w stamp c t =
     (let s = t\<lparr>last_transmitted_command_stamp_ns := stamp, has_transmitted_command := True\<rparr>
      in if fault_clear_pending s then reset_hall (s\<lparr>fault_clear_zero_sent := True\<rparr>)
         else if rc_override_active s then reset_hall s
         else let (now_ms, s) = steady_now_ms w s
              in s\<lparr>hall_feedback_monitor :=
                   note_effective_command (cmd_speed_mps c) now_ms (hall_feedback_monitor s)\<rparr>)"

lemma command_sent_facts:
  "serial_fd (command_sent w st c t) = serial_fd t" "outputs (command_sent w st c t) = outputs t"
  "params (command_sent w st c t) = params t"
  "last_transmitted_command_stamp_ns (command_sent w st c t) = st"
  "autonomous_requested (command_sent w st c t) = autonomous_requested t"
  "safety_stop_latched (command_sent w st c t) = safety_stop_latched t"
  "safety_stop_sent (command_sent w st c t) = safety_stop_sent t"
  "has_received_feedback (command_sent w st c t) = has_received_feedback t"
  "has_transmitted_command (command_sent w st c t) = True"
  "fault_clear_pending (command_sent w st c t) = fault_clear_pending t"
  "fault_clear_zero_sent (command_sent w st c t) = (fault_clear_pending t \<or> fault_clear_zero_sent t)"
  "fault_clear_sent (command_sent w st c t) = fault_clear_sent t"
  by (simp_all add: command_sent_def reset_hall_def Let_def handler_defs)

lemma on_control_command_cases:
  assumes "on_control_command w m s = Some s'" "node_inv s"
  obtains (same) "same_ctl s s'" "outputs s' = outputs s"
    | (stale) "autonomous_requested s"
        "\<not> fresh_and_clear (emergency_status_monitor s) (duration_ms (steady_ns w (calls s)))"
        "latch_safety_stop w (s\<lparr>calls := Suc (calls s)\<rparr>) = Some s'"
    | (wrote) sp f written t where "control_gate w m s"
        "control_to_chassis_motion (ctl_velocity m) (ctl_steering_tire_angle m)
           (command_limits (params s)) = Inr sp"
        "encode_command_frame (gated_command s sp) = Inr f"
        "write_frame w f (s\<lparr>calls := Suc (Suc (calls s))\<rparr>) = Some (written, t)"
        "s' = (if written then command_sent w (ctl_stamp_ns m) (gated_command s sp) t else t)"
proof -
  have gc: "gated_command (s\<lparr>calls := n\<rparr>) sp = gated_command s sp" for n sp
    by (simp add: gated_command_def)
  have sc: "same_ctl s (s\<lparr>calls := n\<rparr>)" "outputs (s\<lparr>calls := n\<rparr>) = outputs s" for n by simp_all
  let ?fresh = "fresh_and_clear (emergency_status_monitor s) (duration_ms (steady_ns w (calls s)))"
  consider "\<not> autonomous_requested s" | "autonomous_requested s" "\<not> ?fresh"
    | (go) "autonomous_requested s" "?fresh" "0 \<le> serial_fd s"
    using assms(2) by (auto simp: node_inv_def flags_inv_def)
  then show ?thesis
  proof cases
    case 1
    with assms(1) same show ?thesis by (simp add: on_control_command_def)
  next
    case 2
    with assms(1) stale show ?thesis by (simp add: on_control_command_def handler_defs)
  next
    case go
    let ?s2 = "s\<lparr>calls := Suc (Suc (calls s))\<rparr>"
    show ?thesis
    proof (cases "control_gate w m s")
      case False
      with go assms(1) have "s' = ?s2"
        by (auto simp: on_control_command_def handler_defs command_stamp_is_fresh_def Let_def control_gate_def
            split: if_splits)
      with sc same show ?thesis by simp
    next
      case True
      have stamp: "command_stamp_is_fresh w (ctl_stamp_ns m) (s\<lparr>calls := Suc (calls s)\<rparr>) = (True, ?s2)"
        using True by (simp add: command_stamp_is_fresh_def Let_def handler_defs control_gate_def)
      note unfolded = assms(1) [unfolded on_control_command_def Let_def steady_now_ms_eq prod.case]
      show ?thesis
      proof (cases "control_to_chassis_motion (ctl_velocity m) (ctl_steering_tire_angle m) (command_limits (params s))")
        case (Inl e)
        then have "s' = ?s2" using unfolded go stamp by simp
        then show ?thesis using same sc by blast
      next
        case sp: (Inr sp)
        show ?thesis
        proof (cases "encode_command_frame (gated_command s sp)")
          case (Inl e)
          then have "s' = ?s2" using unfolded go stamp sp gc by simp
          then show ?thesis using same sc by blast
        next
          case f: (Inr f)
          have "write_frame w f ?s2 \<noteq> None"
          proof
            assume "write_frame w f ?s2 = None"
            with unfolded go stamp sp f gc show False by simp
          qed
          then obtain written t where wf: "write_frame w f ?s2 = Some (written, t)" by auto
          have "s' = (if written then command_sent w (ctl_stamp_ns m) (gated_command s sp) t else t)"
            using unfolded go stamp sp f gc wf
            by (cases written) (simp_all add: command_sent_def Let_def handler_defs split: if_splits)
          with wf f sp True show ?thesis by (intro wrote)
        qed
      qed
    qed
  qed
qed

lemma same_ctl_inv:
  "same_ctl s s' \<Longrightarrow> line (outputs s') = line (outputs s) \<Longrightarrow> node_inv s \<Longrightarrow> node_inv s'"
  by (cases s; cases s') (simp add: same_ctl_def node_inv_def)

lemma same_ctl_flags:
  "same_ctl s t \<Longrightarrow>
     autonomous_requested t = autonomous_requested s \<and>
     has_transmitted_command t = has_transmitted_command s \<and>
     safety_stop_latched t = safety_stop_latched s \<and> safety_stop_sent t = safety_stop_sent s \<and>
     has_received_feedback t = has_received_feedback s \<and>
     fault_clear_pending t = fault_clear_pending s \<and>
     fault_clear_zero_sent t = fault_clear_zero_sent s \<and> fault_clear_sent t = fault_clear_sent s"
  by (cases s; cases t) (simp add: same_ctl_def)

lemma control_result:
  assumes run: "on_control_command w m s = Some s'" and inv: "node_inv s"
  shows "node_inv s' \<and> params s' = params s \<and> logical_gear s' = logical_gear s \<and>
     control_outcome w m s s'"
  using run inv
proof (cases rule: on_control_command_cases)
  case same
  have "same_env s s'" using same(1) by (rule same_ctl_env)
  with same inv same_ctl_inv [OF same(1)] same_ctl_fields [OF same(1)] show ?thesis
    by (simp add: control_outcome_def same_env_def)
next
  case stale
  have "node_inv (s\<lparr>calls := Suc (calls s)\<rparr>)" using inv by (simp add: node_inv_def)
  from latch_result [OF this stale(3)] latch_outcome [OF stale(3)] stale(2) show ?thesis
    by (auto simp: control_outcome_def same_env_def sends_def)
next
  case (wrote sp f written t)
  let ?s2 = "s\<lparr>calls := Suc (Suc (calls s))\<rparr>"
  have gate: "autonomous_requested s" "0 \<le> serial_fd s" using wrote(1) by (auto simp: control_gate_def)
  have notel: "\<not> is_telemetry_only s" using inv gate by (auto simp: node_inv_def)
  consider (ok) "written" "same_ctl ?s2 t" "line (outputs t) = line (outputs s) @ f"
    | (lost) "\<not> written" "lost ?s2 t"
    using write_frame_result [OF wrote(4)] gate notel by auto
  then show ?thesis
  proof cases
    case lost
    then have "same_env s t" using lost_env [OF lost(2)] by (simp add: same_env_def)
    with lost lost_inv [OF lost(2)] wrote(5) show ?thesis
      by (simp add: control_outcome_def same_env_def)
  next
    case ok
    note facts = gated_command_facts [OF wrote(2)]
    have s': "s' = command_sent w (ctl_stamp_ns m) (gated_command s sp) t" using wrote(5) ok(1) by simp
    have fo: "frame_of (gated_command s sp) = f" using wrote(3) by (rule frame_of_eq)
    have st: "same_ctl s t" using ok(2) by (cases s; cases t) (simp add: same_ctl_def)
    have li: "line_inv (command_limits (params s)) (has_transmitted_command s) (fault_clear_zero_sent s)
        (fault_clear_sent s) (line (outputs s))" and fi: "flags_inv (serial_fd s) (autonomous_requested s)
          (has_transmitted_command s) (safety_stop_latched s) (safety_stop_sent s) (has_received_feedback s)
          (fault_clear_pending s) (fault_clear_zero_sent s) (fault_clear_sent s)"
      using inv gate by (simp_all add: node_inv_def)
    have "line_inv (command_limits (params s)) True (fault_clear_pending s) (fault_clear_sent s)
        (line (outputs s) @ frame_of (gated_command s sp))"
      using facts(1,2) wrote(3) by (intro line_inv_motion [OF li]) (auto simp: encodable_def)
    then have li': "line_inv (command_limits (params s)) True (fault_clear_pending s \<or> fault_clear_zero_sent s)
        (fault_clear_sent s) (line (outputs t))"
      using fi ok(3) fo by (auto simp: flags_inv_def)
    have "node_inv s'"
      using same_ctl_flags [OF st] same_ctl_fields [OF st] li' fi gate notel
      unfolding s' node_inv_def command_sent_facts by (auto simp: flags_inv_def)
    moreover have "control_outcome w m s s'"
      using wrote(1,2) ok(3) fo same_ctl_fields [OF st]
      by (auto simp: control_outcome_def sends_def s' command_sent_facts)
    moreover have "params s' = params s \<and> logical_gear s' = logical_gear s"
      using st unfolding s' by (cases s; cases t)
        (auto simp: same_ctl_def command_sent_def Let_def handler_defs reset_hall_def)
    ultimately show ?thesis by blast
  qed
qed

lemma accept_autonomous_safe:
  assumes "0 \<le> serial_fd s" "has_received_feedback s" "\<not> is_telemetry_only s"
  shows "(node_inv s \<longrightarrow> node_inv (accept_autonomous fb s)) \<and> same_env s (accept_autonomous fb s)"
proof (cases "node_inv s")
  case True
  let ?u = "reset_hall (s\<lparr>safety_stop_latched := False, safety_stop_sent := False\<rparr>)\<lparr>autonomous_requested := True\<rparr>"
  have li: "line_inv (command_limits (params s)) (has_transmitted_command s) (fault_clear_zero_sent s)
      (fault_clear_sent s) (line (outputs s))" using True assms(1) by (simp add: node_inv_def)
  have fi: "flags_inv (serial_fd s) (autonomous_requested s) (has_transmitted_command s)
      (safety_stop_latched s) (safety_stop_sent s) (has_received_feedback s)
      (fault_clear_pending s) (fault_clear_zero_sent s) (fault_clear_sent s)"
    using True by (simp add: node_inv_def)
  have "node_inv ?u" "node_inv (reset_fault_clear_handshake ?u)"
    "node_inv (?u\<lparr>fault_clear_pending := True, fault_clear_zero_sent := False, fault_clear_sent := False\<rparr>)"
    using li fi line_inv_zero_off [OF li] assms
    by (simp_all add: node_inv_def reset_hall_def reset_fault_clear_handshake_def flags_inv_def)
  then have "node_inv (accept_autonomous fb s)"
    by (simp add: accept_autonomous_def Let_def)
  then show ?thesis
    by (simp add: same_env_def accept_autonomous_def Let_def reset_hall_def
        reset_fault_clear_handshake_def)
qed (simp add: same_env_def accept_autonomous_def Let_def reset_hall_def
    reset_fault_clear_handshake_def)

lemma mode_result:
  assumes run: "on_control_mode_request w mode s = Some (b, s')" and inv: "node_inv s"
    and tel: "\<not> is_telemetry_only s"
  shows "node_inv s' \<and> same_env s s'"
proof -
  consider (auto) "mode = MR_AUTONOMOUS" | (manual) "mode = MR_MANUAL \<or> mode = MR_NO_COMMAND"
    | (other) "mode \<noteq> MR_AUTONOMOUS" "\<not> (mode = MR_MANUAL \<or> mode = MR_NO_COMMAND)" by blast
  then show ?thesis
  proof cases
    case auto
    let ?s1 = "s\<lparr>calls := Suc (calls s)\<rparr>"
    let ?fb = "ChassisFeedback_init\<lparr>status_bits := last_status_bits (last_feedback s)\<rparr>"
    have i1: "node_inv ?s1 \<and> same_env s ?s1" using inv by (simp add: node_inv_def same_env_def)
    have "s' = s \<or> s' = ?s1 \<or>
        0 \<le> serial_fd s \<and> has_received_feedback s \<and> s' = accept_autonomous ?fb ?s1"
      using run auto by (simp add: on_control_mode_request_def Let_def handler_defs split: if_splits)
    moreover have "node_inv (accept_autonomous ?fb ?s1) \<and> same_env ?s1 (accept_autonomous ?fb ?s1)"
      if "0 \<le> serial_fd s" "has_received_feedback s"
      using that tel accept_autonomous_safe [of ?s1 ?fb] i1 by simp
    ultimately show ?thesis using inv i1 by (auto intro: same_env_trans [of s ?s1])
  next
    case manual
    let ?t = "reset_hall (reset_fault_clear_handshake (s\<lparr>autonomous_requested := False\<rparr>))"
    let ?req = "manual_stop_is_required (autonomous_requested s) (has_transmitted_command s) (safety_stop_sent s)"
    show ?thesis
    proof (cases "serial_fd s < 0 \<or> \<not> ?req")
      case True
      with run manual have "s' = ?t"
        by (auto simp: on_control_mode_request_def Let_def reset_hall_def reset_fault_clear_handshake_def)
      with True inv show ?thesis
        by (auto simp: node_inv_def same_env_def reset_hall_def reset_fault_clear_handshake_def
            flags_inv_def line_inv_def manual_stop_is_required_def)
    next
      case False
      then obtain sent u where u: "transmit_software_stop w ?t = Some (sent, u)" "s' = u\<lparr>safety_stop_sent := sent\<rparr>"
        using run manual by (auto simp: on_control_mode_request_def Let_def reset_hall_def
            reset_fault_clear_handshake_def bind_eq_Some_conv)
      have "line_inv (command_limits (params ?t)) (has_transmitted_command s) (fault_clear_zero_sent s)
          (fault_clear_sent s) (line (outputs ?t))"
        using inv False by (simp add: node_inv_def reset_hall_def reset_fault_clear_handshake_def)
      from stop_transition [OF u(1) _ _ _ _ _ _ this] False tel u(2) show ?thesis
        by (auto simp: same_env_def reset_hall_def reset_fault_clear_handshake_def)
    qed
  next
    case other
    with run inv show ?thesis by (simp add: on_control_mode_request_def)
  qed
qed

lemma emergency_result:
  assumes "on_emergency_status w e s = Some s'" "node_inv s"
  shows "node_inv s' \<and> params s' = params s \<and>
     last_transmitted_command_stamp_ns s' = last_transmitted_command_stamp_ns s \<and>
     (autonomous_requested s' \<longrightarrow> autonomous_requested s) \<and>
     (safety_stop_latched s \<longrightarrow> safety_stop_latched s')"
proof -
  let ?t = "s\<lparr>calls := Suc (calls s), emergency_status_monitor :=
    em_observe e (duration_ms (steady_ns w (calls s))) (emergency_status_monitor s)\<rparr>"
  have "node_inv ?t" using assms(2) by (simp add: node_inv_def)
  with latch_result [OF this, of w s'] assms(1) show ?thesis
    by (auto simp: on_emergency_status_def Let_def handler_defs same_env_def split: if_splits)
qed

section \<open>Reachable states\<close>

lemma step_result:
  assumes "rc_step w s e s'" "node_inv s"
  shows "node_inv s' \<and> params s' = params s \<and>
     last_transmitted_command_stamp_ns s \<le> last_transmitted_command_stamp_ns s'"
proof -
  have run: "handle_event w e s = Some s'" and allowed: "e = EvTimer \<or> \<not> is_telemetry_only s"
    using assms(1) by (auto elim: rc_step_cases)
  show ?thesis
  proof (cases e)
    case EvTimer
    with run have "on_serial_timer w s = Some s'" by simp
    from safe_timer [OF this assms(2)] assms(2) show ?thesis by (simp add: safe_def same_env_def)
  next
    case (EvControl m)
    with run have "on_control_command w m s = Some s'" by simp
    from control_result [OF this assms(2)] show ?thesis
      by (auto simp: control_outcome_def control_gate_def)
  next
    case (EvGear g)
    with run assms(2) show ?thesis
      by (cases g) (auto simp: on_gear_command_def node_inv_def)
  next
    case (EvEmergency b)
    with run have "on_emergency_status w b s = Some s'" by simp
    from emergency_result [OF this assms(2)] show ?thesis by simp
  next
    case (EvMode m)
    with run have "map_option snd (on_control_mode_request w m s) = Some s'" by simp
    then obtain r where r: "on_control_mode_request w m s = Some r" "snd r = s'"
      using map_option_eq_Some by blast
    then have mr: "on_control_mode_request w m s = Some (fst r, s')" by (cases r) simp
    have "\<not> is_telemetry_only s" using EvMode allowed by simp
    from mode_result [OF mr assms(2) this] show ?thesis by (simp add: same_env_def)
  qed
qed

text \<open>Authority is gained, and the safety stop released, by an AUTONOMOUS request only.\<close>

definition authorised :: "World \<Rightarrow> RcNode \<Rightarrow> bool" where
  "authorised w s \<longleftrightarrow> 0 \<le> serial_fd s \<and> has_received_feedback s \<and>
     fresh_and_clear (emergency_status_monitor s) (duration_ms (steady_ns w (calls s))) \<and>
     \<not> bit (last_status_bits (last_feedback s)) 10"

lemma step_authority:
  assumes "rc_step w s e s'" "node_inv s"
    and gain: "\<not> autonomous_requested s \<and> autonomous_requested s' \<or>
      safety_stop_latched s \<and> \<not> safety_stop_latched s'"
  shows "e = EvMode MR_AUTONOMOUS \<and> authorised w s"
proof -
  have run: "handle_event w e s = Some s'" using assms(1) by (auto elim: rc_step_cases)
  show ?thesis
  proof (cases e)
    case EvTimer
    with run have "on_serial_timer w s = Some s'" by simp
    from safe_timer [OF this assms(2)] gain show ?thesis by (auto simp: safe_def)
  next
    case (EvControl m)
    with run have c: "on_control_command w m s = Some s'" by simp
    show ?thesis
    proof (cases "autonomous_requested s")
      case True
      then have "\<not> safety_stop_latched s" using assms(2) by (simp add: node_inv_def flags_inv_def)
      with True gain show ?thesis by simp
    next
      case False
      with c gain show ?thesis by (simp add: on_control_command_def)
    qed
  next
    case (EvGear g)
    with run gain show ?thesis by (cases g) (auto simp: on_gear_command_def)
  next
    case (EvEmergency b)
    with run have "on_emergency_status w b s = Some s'" by simp
    from emergency_result [OF this assms(2)] gain show ?thesis by auto
  next
    case (EvMode m)
    with run have "map_option snd (on_control_mode_request w m s) = Some s'" by simp
    then obtain r where r: "on_control_mode_request w m s = Some r" "snd r = s'"
      using map_option_eq_Some by blast
    then have mr: "on_control_mode_request w m s = Some (fst r, s')" by (cases r) simp
    show ?thesis
    proof (cases "m = MR_AUTONOMOUS")
      case True
      with mr gain EvMode show ?thesis
        by (auto simp: on_control_mode_request_def Let_def handler_defs authorised_def
            has_live_chassis_fault_def status_has_masks split: if_splits)
    next
      case False
      with mr gain have "False"
        by (auto simp: on_control_mode_request_def Let_def reset_hall_def reset_fault_clear_handshake_def
            bind_eq_Some_conv split: if_splits dest: stop_keeps_authority)
      then show ?thesis ..
    qed
  qed
qed

lemma start_inv: "RcVehicleInterfaceNode_new w p = Inr s \<Longrightarrow> node_inv s \<and> params s = p"
  by (auto simp: RcVehicleInterfaceNode_new_def node_inv_def flags_inv_def
      split: sum.splits)

lemma reachable_inv: "rc_reachable w p s \<Longrightarrow> node_inv s \<and> params s = p"
  by (induction rule: rc_reachable.induct) (use start_inv step_result in auto)

lemma reachable_line:
  assumes "rc_reachable w p s" "0 \<le> serial_fd s"
  obtains cs where "wire_log (command_limits p) cs" "line (outputs s) = concat (map frame_of cs)"
    "has_transmitted_command s \<or> cs = [] \<or> last cs = software_stop_command"
  using reachable_inv [OF assms(1)] assms(2) by (auto simp: node_inv_def line_inv_def)

lemma reachable_flags:
  "rc_reachable w p s \<Longrightarrow>
     (has_transmitted_command s \<longrightarrow> autonomous_requested s) \<and>
     (autonomous_requested s \<longrightarrow> 0 \<le> serial_fd s \<and> \<not> safety_stop_latched s \<and> has_received_feedback s) \<and>
     (fault_clear_pending s \<longrightarrow> autonomous_requested s) \<and>
     (fault_clear_sent s \<longrightarrow> fault_clear_zero_sent s) \<and>
     (is_telemetry_only s \<longrightarrow> \<not> autonomous_requested s)"
  using reachable_inv [of w p s] by (auto simp: node_inv_def flags_inv_def)

end
