(* ===== verification/Rc_Node_Run.thy ===== *)
theory Rc_Node_Run
  imports Rc_Node
begin

text \<open>
  One concrete run of the RC node, computed from the handlers' definitions: the port opens,
  a telemetry frame arrives, the emergency status is reported clear, AUTONOMOUS is accepted,
  the gear is set to DRIVE and a Control message of 1 m/s is forwarded. Its states instantiate
  the theorems about reachable states.
\<close>

definition demo_limits :: VehicleCommandLimits where
  "demo_limits = \<lparr>maximum_command_speed_mps = Fin 3, minimum_command_speed_mps = Fin (3 / 10),
     max_steering_tire_angle_rad = Fin (349 / 1000)\<rparr>"

definition demo_params :: NodeParams where
  "demo_params = \<lparr>serial_port = ''/dev/autoracer_rc_chassis'', base_frame_id = ''base_link'',
     baud_rate = 115200, command_limits = demo_limits, firmware_command_timeout_ms = 250,
     emergency_status_timeout_ms = 250, hall_feedback_acquisition_timeout_ms = 1500,
     hall_feedback_loss_timeout_ms = 250, serial_poll_period_ms = 10, reconnect_period_ms = 1000,
     telemetry_only = False\<rparr>"

definition demo_telemetry :: Telemetry where
  "demo_telemetry = \<lparr>tm_flags = 1, tm_sequence = 7, tm_hall_delta = 0, tm_speed = 0, tm_steering = 0,
     tm_yaw_rate = 0, tm_battery = 12000, tm_dt = 20, tm_status = 0x1020\<rparr>"

text \<open>A world where every call takes a millisecond and succeeds at once.\<close>

definition demo_world :: World where
  "demo_world = \<lparr>steady_ns = (\<lambda>i. 1000000000000 + int i * 1000000),
     ros_ns = (\<lambda>i. 1000000000000 + int i * 1000000), kernel_open = (\<lambda>i. 3), tty_ok = (\<lambda>i c. True),
     kernel_write = (\<lambda>i n. WrCount n),
     kernel_read = (\<lambda>i n. if i = 0 then RdBytes (telemetry_frame demo_telemetry) else RdErr EAGAIN),
     kernel_poll = (\<lambda>i t. PollReady \<lparr>ev_in = True, ev_out = True, ev_bad = False\<rparr>)\<rparr>"

definition demo0 :: RcNode where
  "demo0 =
     \<lparr>params = demo_params, serial_fd = - 1, telemetry_open_attempted = False,
      feedback_decoder = FeedbackStreamDecoder_init,
      emergency_status_monitor =
        \<lparr>em_timeout_ms = 250, em_last_observation_ms = 0, em_received = False, em_active = False\<rparr>,
      hall_feedback_monitor =
        \<lparr>acquisition_timeout_ms = 1500, loss_timeout_ms = 250, motion_started_ms = 0,
         loss_started_ms = 0, command_direction = 0, motion_expected = False,
         feedback_acquired = False, loss_active = False\<rparr>,
      autonomous_requested = False, has_transmitted_command = False,
      safety_stop_latched = False, safety_stop_sent = False, rc_override_active = False,
      has_received_feedback = False, fault_clear_pending = False, fault_clear_zero_sent = False,
      fault_clear_sent = False, logical_gear = kPark, logical_gear_report = GR_PARK,
      last_transmitted_command_stamp_ns = - 9223372036854775808,
      next_reconnect_attempt_ns = 1000000000000, last_stats_log_ns = 1000001000000,
      last_feedback = LastFeedback_init, counters = NodeCounters_init, calls = 2, reads = 0, outputs = []\<rparr>"

definition demo_open :: RcNode where
  "demo_open = demo0\<lparr>serial_fd := 3, next_reconnect_attempt_ns := 1001002000000,
     counters := NodeCounters_init\<lparr>connection_count := 1\<rparr>, calls := 8, outputs := [Opened]\<rparr>"

definition demo_decoder :: FeedbackStreamDecoder where
  "demo_decoder = \<lparr>decoder_buffer = [], decoder_stats = FeedbackDecoderStats_init\<lparr>valid_frames := 1\<rparr>\<rparr>"

definition demo_read :: RcNode where
  "demo_read = demo_open\<lparr>feedback_decoder := demo_decoder, has_received_feedback := True,
     last_feedback :=
       \<lparr>last_battery_mv = 12000, last_feedback_dt_ms = 20, last_status_flags = 1, last_sequence = 7,
        last_hall_delta_count_command_signed = 0, last_status_bits = 0x1020,
        last_hall_speed_command_signed_mps = Fin 0, last_steering_estimate_rad = Fin 0,
        last_yaw_rate_estimate_rad_s = Fin 0\<rparr>,
     counters := NodeCounters_init\<lparr>connection_count := 1, steering_estimate_invalid_count := 1\<rparr>,
     calls := 12, reads := 1,
     outputs := [Mode kAutonomous, Gear GR_PARK, Velocity (Fin 0) (Fin 0) (Fin 0), Opened]\<rparr>"

definition demo1 :: RcNode where
  "demo1 = demo_read\<lparr>calls := 14, reads := 2\<rparr>"

definition demo2 :: RcNode where
  "demo2 = demo1\<lparr>calls := 15, emergency_status_monitor :=
     \<lparr>em_timeout_ms = 250, em_last_observation_ms = 1000014, em_received = True, em_active = False\<rparr>\<rparr>"

definition demo3 :: RcNode where
  "demo3 = demo2\<lparr>calls := 16, autonomous_requested := True\<rparr>"

definition demo4 :: RcNode where
  "demo4 = demo3\<lparr>logical_gear := kDrive, logical_gear_report := GR_DRIVE\<rparr>"

definition demo_command :: ChassisCommand where
  "demo_command = ChassisCommand_init\<lparr>cmd_speed_mps := Fin 1, cmd_enable := True\<rparr>"

definition demo_frame :: bytes where
  "demo_frame = frame_body 1 1000 0 @ [calculate_bcc (frame_body 1 1000 0) 9, 0x7D]"

definition demo_control :: Control where
  "demo_control = \<lparr>ctl_stamp_ns = 1000010000000, ctl_velocity = Fin 1, ctl_steering_tire_angle = Fin 0\<rparr>"

definition demo5 :: RcNode where
  "demo5 = demo4\<lparr>calls := 21, last_transmitted_command_stamp_ns := 1000010000000,
     has_transmitted_command := True,
     hall_feedback_monitor := (hall_feedback_monitor demo4)
       \<lparr>motion_started_ms := 1000020, command_direction := 1, motion_expected := True,
        feedback_acquired := False, loss_active := False\<rparr>,
     counters := (counters demo4)\<lparr>transmitted_frame_count := 1\<rparr>,
     outputs := Written demo_frame # outputs demo4\<rparr>"

section \<open>Each state is computed from the previous one\<close>

lemma demo_params_simps:
  "serial_port demo_params \<noteq> []" "base_frame_id demo_params \<noteq> []" "baud_rate demo_params = 115200"
  "command_limits demo_params = demo_limits" "firmware_command_timeout_ms demo_params = 250"
  "emergency_status_timeout_ms demo_params = 250"
  "hall_feedback_acquisition_timeout_ms demo_params = 1500"
  "hall_feedback_loss_timeout_ms demo_params = 250" "serial_poll_period_ms demo_params = 10"
  "reconnect_period_ms demo_params = 1000" "telemetry_only demo_params = False"
  by (simp_all add: demo_params_def)

lemma demo_world_simps:
  "steady_ns demo_world i = 1000000000000 + int i * 1000000"
  "ros_ns demo_world i = 1000000000000 + int i * 1000000" "kernel_open demo_world i = 3"
  "tty_ok demo_world i c = True" "kernel_write demo_world i n = WrCount n"
  "kernel_read demo_world i n =
     (if i = 0 then RdBytes (telemetry_frame demo_telemetry) else RdErr EAGAIN)"
  "kernel_poll demo_world i t = PollReady \<lparr>ev_in = True, ev_out = True, ev_bad = False\<rparr>"
  by (simp_all add: demo_world_def)

lemma demo_value:
  "telemetry_value demo_telemetry =
     \<lparr>status_flags = 1, sequence_nr = 7, hall_delta_count_command_signed = 0,
      hall_speed_command_signed_mps = Fin 0, steering_angle_estimate_rad = Fin 0,
      yaw_rate_estimate_rad_s = Fin 0, battery_mv = 12000, dt_ms = 20, status_bits = 0x1020,
      protocol_id = 0xA1\<rparr>"
  by (simp add: telemetry_value_def demo_telemetry_def milli_to_double_def d64_of_int_def)

lemma demo_feed:
  "decoder_append FeedbackStreamDecoder_init (telemetry_frame demo_telemetry) =
     (demo_decoder, [telemetry_value demo_telemetry])"
  using decode_loop_telemetry [of demo_telemetry "[]" FeedbackDecoderStats_init "[]"]
  by (simp add: decoder_append_def FeedbackStreamDecoder_init_def FeedbackDecoderStats_init_def
      demo_decoder_def)

lemma demo_discard: "discard_buffer FeedbackStreamDecoder_init = FeedbackStreamDecoder_init"
  by (simp add: discard_buffer_def FeedbackStreamDecoder_init_def FeedbackDecoderStats_init_def)

lemmas demo_eval = demo_params_simps demo_world_simps demo_value demo_discard Let_def sys_def
  steady_now_ms_def duration_ms_def emit_def reset_hall_def reset_fault_clear_handshake_def

lemmas demo_states = demo0_def demo_open_def demo_read_def demo1_def demo2_def demo3_def demo4_def

lemma demo_start: "RcVehicleInterfaceNode_new demo_world demo_params = Inr demo0"
  by (simp add: RcVehicleInterfaceNode_new_def validate_parameters_def demo_eval demo_limits_def
      baud_to_termios_def kExpectedBaudRate_def kExpectedFirmwareCommandTimeoutMs_def
      control_to_chassis_motion_def EmergencyStatusMonitor_new_def HallFeedbackMonitor_new_def
      std_clamp_def demo0_def)

lemma demo_opens: "try_open_serial demo_world demo0 = demo_open"
  by (simp add: try_open_serial_def configure_serial_def demo_eval demo_states NodeCounters_init_def)

lemma demo_publish:
  "publish_all demo_world [telemetry_value demo_telemetry]
     (demo_open\<lparr>calls := 10, reads := 1, feedback_decoder := demo_decoder\<rparr>) = Some demo_read"
  by (simp add: publish_feedback_def check_feedback_def handle_faults_def monitor_hall_def demo_eval
      demo_states status_has_def status_consts velocity_feedback_state_def has_live_chassis_fault_def
      has_latched_chassis_fault_def hall_observe_def publish_reports_def
      velocity_report_is_publishable_def steering_estimate_is_valid_def reported_control_mode_def
      NodeCounters_init_def LastFeedback_init_def)

lemma read_serial_more:
  "sys_read w s = (RdBytes data, t) \<Longrightarrow> data \<noteq> [] \<Longrightarrow>
   decoder_append (feedback_decoder t) data = (d, fbs) \<Longrightarrow>
   publish_all w fbs (t\<lparr>feedback_decoder := d\<rparr>) = Some u \<Longrightarrow> read_serial w s = read_serial w u"
  by (subst read_serial.simps) simp

lemma read_serial_done: "sys_read w s = (RdErr EAGAIN, t) \<Longrightarrow> read_serial w s = Some t"
  by (subst read_serial.simps) simp

lemma demo_reads: "read_serial demo_world (demo_open\<lparr>calls := 9\<rparr>) = Some (demo_read\<lparr>calls := 13, reads := 2\<rparr>)"
proof -
  have rd: "sys_read demo_world (demo_open\<lparr>calls := 9\<rparr>) =
      (RdBytes (telemetry_frame demo_telemetry), demo_open\<lparr>calls := 10, reads := 1\<rparr>)"
    by (simp add: sys_read_def demo_eval demo_states)
  have ne: "telemetry_frame demo_telemetry \<noteq> []" by (simp add: telemetry_frame_def)
  have app: "decoder_append (feedback_decoder (demo_open\<lparr>calls := 10, reads := 1\<rparr>)) (telemetry_frame demo_telemetry) =
      (demo_decoder, [telemetry_value demo_telemetry])"
    by (simp add: demo_states demo_feed)
  have "read_serial demo_world (demo_open\<lparr>calls := 9\<rparr>) = read_serial demo_world demo_read"
    by (rule read_serial_more [OF rd ne app demo_publish])
  also have "\<dots> = Some (demo_read\<lparr>calls := 13, reads := 2\<rparr>)"
    by (rule read_serial_done) (simp add: sys_read_def demo_eval demo_states)
  finally show ?thesis .
qed

lemma demo_step1: "on_serial_timer demo_world demo0 = Some demo1"
proof -
  have "autonomous_requested demo_open = False" "serial_fd demo_open = 3" "calls demo_open = 8"
    by (simp_all add: demo_states)
  moreover have "log_stats_if_due demo_world (demo_read\<lparr>calls := 13, reads := 2\<rparr>) = demo1"
    by (simp add: log_stats_if_due_def demo_eval kStatsLogPeriodNs_def demo_states)
  ultimately show ?thesis
    by (simp add: on_serial_timer_def demo_opens demo_reads sys_def demo_world_simps)
qed

lemma demo_step2: "on_emergency_status demo_world False demo1 = Some demo2"
  by (simp add: on_emergency_status_def em_observe_def demo_eval demo_states)

lemma demo_step3: "on_control_mode_request demo_world MR_AUTONOMOUS demo2 = Some (True, demo3)"
  by (simp add: on_control_mode_request_def accept_autonomous_def fresh_and_clear_def demo_eval demo_states
      has_live_chassis_fault_def has_latched_chassis_fault_def status_has_def status_consts
      ChassisFeedback_init_def hall_reset_def)

lemma demo_step4: "on_gear_command GC_DRIVE demo3 = demo4"
  by (simp add: on_gear_command_def demo4_def)

lemma demo_motion:
  "control_to_chassis_motion (Fin 1) (Fin 0) demo_limits =
     Inr \<lparr>sp_speed_mps = Fin 1, sp_steering_tire_angle_rad = Fin 0, sp_speed_saturated = False,
          sp_steering_saturated = False, sp_speed_below_minimum = False\<rparr>"
  by (subst control_to_chassis_motion_Fin [where vmax = 3 and vmin = "3 / 10" and smax = "349 / 1000"])
    (simp_all add: demo_limits_def dead_band_def saturate_def)

lemma demo_encodes: "encode_command_frame demo_command = Inr demo_frame"
proof -
  have "d64 (1 * 1000) = Fin 1000" using d64_int [of 1000] by simp
  from quantize_milli_Fin(1) [OF this, of "''speed''"] have "quantize_milli (Fin 1) ''speed'' = Inr 1000"
    using lround_rat_of_int [of 1000] by simp
  then show ?thesis
    by (simp add: encode_command_frame_eq demo_command_def ChassisCommand_init_def applied_speed_def
        applied_steering_def inhibited_def quantize_milli_zero command_flags_def demo_frame_def)
qed

lemma write_loop_all:
  "frame \<noteq> [] \<Longrightarrow> kernel_write w (calls s) (length frame) = WrCount (length frame) \<Longrightarrow>
   write_loop w dl frame 0 s = Some (True, emit (Written frame) (s\<lparr>calls := Suc (calls s)\<rparr>))"
  by (subst write_loop.simps) (simp add: sys_def write_loop.simps [of w dl frame "length frame"])

lemma demo_write:
  "write_frame demo_world demo_frame (demo4\<lparr>calls := 18\<rparr>) =
     Some (True, demo4\<lparr>calls := 20, counters := (counters demo4)\<lparr>transmitted_frame_count := 1\<rparr>,
                       outputs := Written demo_frame # outputs demo4\<rparr>)"
proof -
  have "demo_frame \<noteq> []" by (simp add: demo_frame_def)
  then show ?thesis
    by (simp add: write_frame_def write_loop_all demo_eval demo_states NodeCounters_init_def)
qed

lemma demo_speed: "cmd_speed_mps demo_command = Fin 1"
  by (simp add: demo_command_def)

lemma demo_step5: "on_control_command demo_world demo_control demo4 = Some demo5"
proof -
  have "gated_command (demo4\<lparr>calls := 18\<rparr>)
      \<lparr>sp_speed_mps = Fin 1, sp_steering_tire_angle_rad = Fin 0, sp_speed_saturated = False,
       sp_steering_saturated = False, sp_speed_below_minimum = False\<rparr> = demo_command"
    by (simp add: gated_command_def demo_command_def ChassisCommand_init_def demo_states)
  moreover have "calls demo4 = 16" "autonomous_requested demo4" "serial_fd demo4 = 3"
    "fault_clear_pending demo4 = False" "rc_override_active demo4 = False" "params demo4 = demo_params"
    "fresh_and_clear (emergency_status_monitor demo4) 1000016"
    "motion_expected (hall_feedback_monitor demo4) = False"
    "command_stamp_is_fresh demo_world 1000010000000 (demo4\<lparr>calls := 17\<rparr>) = (True, demo4\<lparr>calls := 18\<rparr>)"
    by (simp_all add: demo_states fresh_and_clear_def command_stamp_is_fresh_def demo_eval
        kFutureStampToleranceNs_def)
  ultimately show ?thesis
    by (simp add: on_control_command_def demo_eval demo_control_def demo_motion demo_encodes demo_write
        demo5_def demo_speed note_effective_command_def direction_of_def)
qed

lemma demo_tel: "\<not> is_telemetry_only demo0" "\<not> is_telemetry_only demo1" "\<not> is_telemetry_only demo2"
  "\<not> is_telemetry_only demo3" "\<not> is_telemetry_only demo4"
  by (simp_all add: demo_states demo_params_simps)

lemma demo_reachable:
  "rc_reachable demo_world demo_params demo1" "rc_reachable demo_world demo_params demo3"
  "rc_reachable demo_world demo_params demo4" "rc_reachable demo_world demo_params demo5"
  "rc_reachable demo_world demo_params demo2" "rc_reachable demo_world demo_params demo0"
proof -
  have r0: "rc_reachable demo_world demo_params demo0" by (rule rc_reachable.start [OF demo_start])
  have r1: "rc_reachable demo_world demo_params demo1"
    by (rule rc_reachable.continue [OF r0], rule rc_step.step [of EvTimer]) (simp_all add: demo_step1)
  have r2: "rc_reachable demo_world demo_params demo2"
    by (rule rc_reachable.continue [OF r1], rule rc_step.step [of "EvEmergency False"])
      (simp_all add: demo_step2 demo_tel)
  have r3: "rc_reachable demo_world demo_params demo3"
    by (rule rc_reachable.continue [OF r2], rule rc_step.step [of "EvMode MR_AUTONOMOUS"])
      (simp_all add: demo_step3 demo_tel)
  have r4: "rc_reachable demo_world demo_params demo4"
    by (rule rc_reachable.continue [OF r3], rule rc_step.step [of "EvGear GC_DRIVE"])
      (simp_all add: demo_step4 demo_tel)
  have r5: "rc_reachable demo_world demo_params demo5"
    by (rule rc_reachable.continue [OF r4], rule rc_step.step [of "EvControl demo_control"])
      (simp_all add: demo_step5 demo_tel)
  show "rc_reachable demo_world demo_params demo1" "rc_reachable demo_world demo_params demo3"
    "rc_reachable demo_world demo_params demo4" "rc_reachable demo_world demo_params demo5"
    "rc_reachable demo_world demo_params demo2" "rc_reachable demo_world demo_params demo0"
    using r0 r1 r2 r3 r4 r5 by simp_all
qed

lemma demo_step_autonomous: "rc_step demo_world demo2 (EvMode MR_AUTONOMOUS) demo3"
  by (rule rc_step.step) (simp_all add: demo_step3 demo_tel)

end
