(* ===== verification/Rc_Node_Liveness.thy ===== *)
theory Rc_Node_Liveness
  imports Rc_Node_Run
begin

text \<open>
  Termination of the RC node's handlers. Its two loops wait for the operating system: the
  write loop until the frame is out or its deadline has passed, the read loop until there is
  no more data. They end in every fair world: the steady clock passes every deadline, again and
  again a write is not interrupted by a signal, and again and again a read finds the port
  drained. Telemetry may go on forever; what ends a loop is that each burst of it ends.
\<close>

section \<open>Fair worlds\<close>

text \<open>The answers that end the read loop: no data for now, the end of the file, or an error.\<close>

definition read_drained :: "World \<Rightarrow> nat \<Rightarrow> bool" where
  "read_drained w i \<longleftrightarrow> kernel_read w i 512 \<in> {RdErr EAGAIN, RdErr EOTHER, RdBytes []}"

text \<open>
  Reads are numbered on their own, so the last clause says that every burst of data ends, whatever
  the node calls between two reads.
\<close>

definition fair_world :: "World \<Rightarrow> bool" where
  "fair_world w \<longleftrightarrow>
     (\<forall>t. \<exists>k. \<forall>i. k \<le> i \<longrightarrow> t \<le> steady_ns w i) \<and>
     (\<forall>k. \<exists>i. k \<le> i \<and> (\<forall>n. kernel_write w i n \<noteq> WrErr EINTR)) \<and>
     (\<forall>k. \<exists>i. k \<le> i \<and> read_drained w i)"

section \<open>The write loop\<close>

lemma duration_ms_le_0: "ns \<le> 0 \<Longrightarrow> duration_ms ns \<le> 0"
  by (simp add: duration_ms_def pos_imp_zdiv_nonneg_iff)

lemma sys_unfold: "sys f s = (f (calls s), s\<lparr>calls := Suc (calls s)\<rparr>)"
  by (simp add: sys_def)

text \<open>A state later in the sequence of calls, with no read between.\<close>

definition later :: "RcNode \<Rightarrow> RcNode \<Rightarrow> bool" where
  "later s s' \<longleftrightarrow> calls s \<le> calls s' \<and> reads s' = reads s"

lemma later_refl [simp]: "later s s"
  by (simp add: later_def)

lemma later_trans: "later s t \<Longrightarrow> later t u \<Longrightarrow> later s u"
  by (auto simp: later_def)

lemma write_failed_later: "later s (snd (write_failed w s))"
  by (simp add: later_def write_failed_def close_serial_def Let_def sys_unfold emit_def
      reset_fault_clear_handshake_def reset_hall_def)

text \<open>One pass of the loop: it ends, makes progress, was interrupted, or waited before the deadline.\<close>

lemma write_loop_pass:
  obtains (ended) r where "write_loop w dl frame offset s = Some r" "later s (snd r)"
  | (progress) n where "0 < n" "offset < length frame" "write_loop w dl frame offset s =
      write_loop w dl frame (offset + n) (emit (Written (take n (drop offset frame))) (s\<lparr>calls := Suc (calls s)\<rparr>))"
  | (interrupted) n where "kernel_write w (calls s) n = WrErr EINTR"
      "write_loop w dl frame offset s = write_loop w dl frame offset (s\<lparr>calls := Suc (calls s)\<rparr>)"
  | (waited) "\<not> dl \<le> steady_ns w (Suc (calls s))" "write_loop w dl frame offset s =
      write_loop w dl frame offset (s\<lparr>calls := Suc (Suc (Suc (calls s)))\<rparr>)"
proof -
  have failed: thesis if "write_loop w dl frame offset s = Some (write_failed w (s\<lparr>calls := m\<rparr>))" "calls s \<le> m" for m
    using ended [OF that(1)] that(2) write_failed_later [of "s\<lparr>calls := m\<rparr>" w] by (simp add: later_def)
  let ?now = "steady_ns w (Suc (calls s))"
  let ?poll = "kernel_poll w (Suc (Suc (calls s))) (duration_ms (dl - ?now))"
  note pass = write_loop.simps [of w dl frame offset s]
  show thesis
  proof (cases "offset < length frame")
    case False
    then show thesis using ended [of "(True, s)"] pass by simp
  next
    case inside: True
    show thesis
    proof (cases "kernel_write w (calls s) (length frame - offset)")
      case (WrCount n)
      then show thesis
        using inside pass progress [of n] failed [of "Suc (calls s)"] by (cases "0 < n") (simp_all add: sys_unfold)
    next
      case (WrErr e)
      show thesis
      proof (cases e)
        case EAGAIN
        have step: "write_loop w dl frame offset s =
            (if duration_ms (dl - ?now) \<le> 0 then Some (write_failed w (s\<lparr>calls := Suc (Suc (calls s))\<rparr>))
             else case ?poll of
               PollReady ev \<Rightarrow>
                 if ev_out ev then write_loop w dl frame offset (s\<lparr>calls := Suc (Suc (Suc (calls s)))\<rparr>)
                 else Some (write_failed w (s\<lparr>calls := Suc (Suc (Suc (calls s)))\<rparr>))
             | PollTimeout \<Rightarrow> Some (write_failed w (s\<lparr>calls := Suc (Suc (Suc (calls s)))\<rparr>))
             | PollErr e \<Rightarrow> Some (write_failed w (s\<lparr>calls := Suc (Suc (Suc (calls s)))\<rparr>)))"
          unfolding pass using inside WrErr EAGAIN by (simp add: sys_unfold cong: poll_result.case_cong)
        show thesis
        proof (cases "duration_ms (dl - ?now) \<le> 0")
          case True
          then show thesis using step failed [of "Suc (Suc (calls s))"] by simp
        next
          case False
          then have "\<not> dl \<le> ?now" using duration_ms_le_0 [of "dl - ?now"] by auto
          then show thesis
            using False step waited failed [of "Suc (Suc (Suc (calls s)))"]
            by (auto split: poll_result.splits if_splits)
        qed
      qed (use inside WrErr pass interrupted failed [of "Suc (calls s)"] in \<open>simp_all add: sys_unfold\<close>)
    qed
  qed
qed

text \<open>
  The measure: calls left before the deadline has passed for sure and bytes left to write, then calls
  left before a write is not interrupted.
\<close>

lemma write_loop_returns:
  assumes k: "\<And>i. k \<le> i \<Longrightarrow> dl \<le> steady_ns w i"
    and free: "\<And>c. \<exists>i. c \<le> i \<and> (\<forall>n. kernel_write w i n \<noteq> WrErr EINTR)"
  shows "\<exists>r. write_loop w dl frame offset s = Some r \<and> later s (snd r)"
proof (induction "(k - calls s) + (length frame - offset)" arbitrary: offset s rule: less_induct)
  case outer: less
  let ?ends = "\<lambda>t. \<exists>r. write_loop w dl frame offset t = Some r \<and> later t (snd r)"
  obtain i where i: "calls s \<le> i" "\<forall>n. kernel_write w i n \<noteq> WrErr EINTR" using free by blast
  have "?ends t" if "calls s \<le> calls t" "calls t \<le> i" for t
    using that
  proof (induction "i - calls t" arbitrary: t rule: less_induct)
    case inner: less
    have shorter: "\<exists>r. write_loop w dl frame o' u = Some r \<and> later u (snd r)"
      if "(k - calls u) + (length frame - o') < (k - calls t) + (length frame - offset)" for u o'
      by (rule outer.hyps) (use that inner.prems(1) in linarith)
    show ?case
    proof (cases rule: write_loop_pass [of w dl frame offset t])
      case (ended r)
      then show ?thesis by blast
    next
      case (progress n)
      let ?u = "emit (Written (take n (drop offset frame))) (t\<lparr>calls := Suc (calls t)\<rparr>)"
      have "later t ?u" by (simp add: later_def emit_def)
      moreover have "(k - calls ?u) + (length frame - (offset + n)) < (k - calls t) + (length frame - offset)"
        using progress(1,2) by (simp add: emit_def)
      ultimately obtain r where "write_loop w dl frame (offset + n) ?u = Some r" "later ?u (snd r)"
        using shorter by blast
      then show ?thesis using progress(3) later_trans [OF \<open>later t ?u\<close>] by simp
    next
      case (interrupted n)
      let ?u = "t\<lparr>calls := Suc (calls t)\<rparr>"
      have "calls t \<noteq> i" using i(2) interrupted(1) by metis
      then have "?ends ?u" using inner.hyps [of ?u] inner.prems by simp
      then show ?thesis using interrupted(2) by (auto simp: later_def)
    next
      case waited
      let ?u = "t\<lparr>calls := Suc (Suc (Suc (calls t)))\<rparr>"
      have "Suc (calls t) < k" using waited(1) k by (meson not_le)
      then have "?ends ?u" using shorter by simp
      then show ?thesis using waited(2) by (auto simp: later_def)
    qed
  qed
  from this [of s] i(1) show ?case by simp
qed

text \<open>An operation that returns, later in the sequence of calls.\<close>

definition returns_later :: "RcNode \<Rightarrow> RcNode option \<Rightarrow> bool" where
  "returns_later s r \<longleftrightarrow> (\<exists>s'. r = Some s' \<and> later s s')"

definition returns2_later :: "RcNode \<Rightarrow> ('a \<times> RcNode) option \<Rightarrow> bool" where
  "returns2_later s r \<longleftrightarrow> (\<exists>x s'. r = Some (x, s') \<and> later s s')"

lemma write_frame_returns: "fair_world w \<Longrightarrow> returns2_later s (write_frame w frame s)"
proof -
  assume "fair_world w"
  let ?dl = "steady_ns w (calls s) + kSerialWriteTimeoutNs" and ?s1 = "s\<lparr>calls := Suc (calls s)\<rparr>"
  obtain k where "\<And>i. k \<le> i \<Longrightarrow> ?dl \<le> steady_ns w i"
    using \<open>fair_world w\<close> unfolding fair_world_def by blast
  then have "\<exists>r. write_loop w ?dl frame 0 ?s1 = Some r \<and> later ?s1 (snd r)"
    by (rule write_loop_returns) (use \<open>fair_world w\<close> in \<open>auto simp: fair_world_def\<close>)
  then show ?thesis
    by (auto simp: write_frame_def returns2_later_def sys_unfold later_def)
qed

section \<open>The handlers\<close>

lemma stop_returns: "fair_world w \<Longrightarrow> returns2_later s (transmit_software_stop w s)"
proof (cases "encode_command_frame software_stop_command")
  case (Inr f)
  assume "fair_world w"
  from write_frame_returns [OF this, of s f] Inr show ?thesis
    by (auto simp: transmit_software_stop_def returns2_later_def later_def)
qed (auto simp: transmit_software_stop_def returns2_later_def intro: exI [of _ False])

lemma clear_returns: "fair_world w \<Longrightarrow> returns2_later s (transmit_clear_fault w s)"
proof (cases "encode_command_frame clear_fault_command")
  case (Inr f)
  assume "fair_world w"
  from write_frame_returns [OF this, of s f] Inr show ?thesis
    by (auto simp: transmit_clear_fault_def returns2_later_def later_def)
qed (auto simp: transmit_clear_fault_def returns2_later_def intro: exI [of _ False])

lemma latch_returns: "fair_world w \<Longrightarrow> returns_later s (latch_safety_stop w s)"
proof -
  assume "fair_world w"
  let ?t = "reset_hall (reset_fault_clear_handshake
    (s\<lparr>safety_stop_latched := True, autonomous_requested := False\<rparr>))"
  have "later s ?t" by (simp add: later_def reset_hall_def reset_fault_clear_handshake_def)
  with stop_returns [OF \<open>fair_world w\<close>, of ?t] show ?thesis
    by (auto simp: latch_safety_stop_def Let_def returns2_later_def returns_later_def later_def)
qed

lemma returns_later_bind:
  "returns_later s r \<Longrightarrow> (\<And>t. later s t \<Longrightarrow> returns_later s (f t)) \<Longrightarrow> returns_later s (Option.bind r f)"
  by (auto simp: returns_later_def)

lemma returns_later_Some: "later s t \<Longrightarrow> returns_later s (Some t)"
  by (simp add: returns_later_def)

lemma returns_later_from: "returns_later t r \<Longrightarrow> later s t \<Longrightarrow> returns_later s r"
  by (auto simp: returns_later_def later_def)

lemma check_feedback_returns:
  assumes "fair_world w"
  shows "returns_later s (check_feedback w fb s)"
  unfolding check_feedback_def Let_def
  by (rule returns_later_bind)
    (auto intro!: returns_later_Some intro: returns_later_from [OF latch_returns [OF assms]] simp: later_def)

lemma handle_faults_returns:
  assumes "fair_world w"
  shows "returns_later s (handle_faults w fb s)"
proof -
  have clear: "returns_later s (Option.bind (transmit_clear_fault w t) (\<lambda>(sent, u). Some (u\<lparr>fault_clear_sent := sent\<rparr>)))"
    if "later s t" for t
    using clear_returns [OF assms, of t] that by (auto simp: returns2_later_def returns_later_def later_def)
  show ?thesis
    unfolding handle_faults_def Let_def
    by (rule returns_later_bind)
      (auto intro!: returns_later_Some clear intro: returns_later_from [OF latch_returns [OF assms]]
        simp: reset_fault_clear_handshake_def later_def)
qed

lemma monitor_hall_returns:
  assumes "fair_world w"
  shows "returns2_later s (monitor_hall w fb s)"
proof -
  obtain e t where m: "monitor_hall w fb s =
     (if e = kFault
      then Option.bind (latch_safety_stop w (count (\<lambda>c. c\<lparr>hall_feedback_fault_count :=
             hall_feedback_fault_count c + 1\<rparr>) t)) (\<lambda>s. Some (e, s))
      else Some (e, t))" and t: "later s t"
  proof (cases "rc_override_active s \<or>
      status_has fb (kRcStatusCommandTimeout OR kRcStatusStopOverrideActive) \<or>
      has_live_chassis_fault fb \<or> has_latched_chassis_fault fb")
    case True
    then show ?thesis
      by (intro that [of kNotRequired "reset_hall s"]) (simp_all add: monitor_hall_def reset_hall_def later_def)
  next
    case False
    obtain e m where o: "hall_observe (velocity_feedback_state fb = kMeasuredMotion)
        (duration_ms (steady_ns w (calls s))) (hall_feedback_monitor s) = (e, m)"
      by (cases "hall_observe (velocity_feedback_state fb = kMeasuredMotion)
        (duration_ms (steady_ns w (calls s))) (hall_feedback_monitor s)")
    show ?thesis
      using False o
      by (intro that [of e "s\<lparr>calls := Suc (calls s), hall_feedback_monitor := m\<rparr>"])
        (simp_all add: monitor_hall_def Let_def steady_now_ms_def sys_unfold later_def)
  qed
  show ?thesis
    using latch_returns [OF assms, of "count (\<lambda>c. c\<lparr>hall_feedback_fault_count :=
             hall_feedback_fault_count c + 1\<rparr>) t"] t
    unfolding m by (auto simp: returns2_later_def returns_later_def later_def)
qed

lemma publish_reports_later: "later s (publish_reports w fb d s)"
  by (simp add: later_def publish_reports_def Let_def sys_unfold emit_def)

lemma publish_feedback_returns:
  assumes "fair_world w"
  shows "returns_later s (publish_feedback w fb s)"
  unfolding publish_feedback_def
proof (intro returns_later_bind)
  show "returns_later s (check_feedback w fb s)" by (rule check_feedback_returns [OF assms])
next
  fix t :: RcNode assume "later s t"
  then show "returns_later s (handle_faults w fb t)"
    by (rule returns_later_from [OF handle_faults_returns [OF assms]])
next
  fix u :: RcNode assume u: "later s u"
  obtain d v where "monitor_hall w fb u = Some (d, v)" "later u v"
    using monitor_hall_returns [OF assms, of u fb] by (auto simp: returns2_later_def)
  with u publish_reports_later [of v w fb d]
  show "returns_later s (Option.bind (monitor_hall w fb u) (\<lambda>(d, v). Some (publish_reports w fb d v)))"
    by (simp add: returns_later_def later_def)
qed

lemma publish_all_returns: "fair_world w \<Longrightarrow> returns_later s (publish_all w fbs s)"
proof (induction fbs arbitrary: s)
  case (Cons fb fbs)
  show ?case
    using publish_feedback_returns [OF Cons.prems, of s fb] Cons.IH [OF Cons.prems]
    by (auto intro!: returns_later_bind intro: returns_later_from)
qed (simp add: returns_later_Some)

lemma read_serial_returns:
  assumes "fair_world w"
  shows "\<exists>s'. read_serial w s = Some s'"
proof -
  obtain i where i: "reads s \<le> i" "read_drained w i" using assms unfolding fair_world_def by blast
  have "\<exists>s'. read_serial w t = Some s'" if "reads t \<le> i" for t
    using that
  proof (induction "i - reads t" arbitrary: t rule: less_induct)
    case less
    let ?t1 = "t\<lparr>calls := Suc (calls t), reads := Suc (reads t)\<rparr>"
    have later_read: "\<exists>s'. read_serial w u = Some s'" if "reads u = Suc (reads t)" "\<not> read_drained w (reads t)" for u
    proof -
      have "reads t \<noteq> i" using i(2) that(2) by blast
      then show ?thesis using less.hyps [of u] less.prems that(1) by simp
    qed
    show ?case
    proof (cases "serial_fd t < 0 \<or> read_drained w (reads t)")
      case True
      then show ?thesis
        unfolding read_serial.simps [of w t] by (auto simp: sys_read_def read_drained_def)
    next
      case False
      then have isopen: "\<not> serial_fd t < 0" and more: "\<not> read_drained w (reads t)" by simp_all
      then consider data where "kernel_read w (reads t) 512 = RdBytes data" "data \<noteq> []"
        | "kernel_read w (reads t) 512 = RdErr EINTR"
        by (cases "kernel_read w (reads t) 512"; cases "\<exists>e. kernel_read w (reads t) 512 = RdErr e")
          (auto simp: read_drained_def intro: errno.exhaust)
      then show ?thesis
      proof cases
        case (1 data)
        obtain d fbs where app: "decoder_append (feedback_decoder t) data = (d, fbs)"
          by (cases "decoder_append (feedback_decoder t) data")
        obtain u where u: "publish_all w fbs (?t1\<lparr>feedback_decoder := d\<rparr>) = Some u" "reads u = Suc (reads t)"
          using publish_all_returns [OF assms, of "?t1\<lparr>feedback_decoder := d\<rparr>" fbs]
          by (auto simp: returns_later_def later_def)
        then show ?thesis
          using isopen 1 app later_read [OF u(2) more]
          unfolding read_serial.simps [of w t] by (simp add: sys_read_def)
      next
        case 2
        have "\<exists>s'. read_serial w ?t1 = Some s'" using later_read [OF _ more, of ?t1] by simp
        then show ?thesis
          using isopen 2 unfolding read_serial.simps [of w t] by (simp add: sys_read_def)
      qed
    qed
  qed
  from this [of s] i(1) show ?thesis by simp
qed

lemma on_serial_timer_returns:
  assumes "fair_world w"
  shows "\<exists>s'. on_serial_timer w s = Some s'"
proof -
  have latch: "\<exists>s'. latch_safety_stop w t = Some s'" for t
    using latch_returns [OF assms, of t] by (auto simp: returns_later_def)
  let ?t = "try_open_serial w s"
  have "\<exists>u. (if autonomous_requested ?t
      then let (now_ms, s) = steady_now_ms w ?t
           in if \<not> fresh_and_clear (emergency_status_monitor s) now_ms then latch_safety_stop w s else Some s
      else Some ?t) = Some u"
    using latch [of "?t\<lparr>calls := Suc (calls ?t)\<rparr>"]
    by (auto simp: steady_now_ms_def sys_unfold later_def)
  then obtain u where u: "(if autonomous_requested ?t
      then let (now_ms, s) = steady_now_ms w ?t
           in if \<not> fresh_and_clear (emergency_status_monitor s) now_ms then latch_safety_stop w s else Some s
      else Some ?t) = Some u" ..
  have reads: "\<exists>s'. read_serial w t = Some s'" for t
    using read_serial_returns [OF assms, of t] by (auto simp: returns_later_def)
  have "\<exists>v. (if 0 \<le> serial_fd u
      then let (answer, s) = sys (\<lambda>i. kernel_poll w i 0) u
         in case answer of
             PollErr e \<Rightarrow> if e \<noteq> EINTR
               then Some (close_serial w (count (\<lambda>c. c\<lparr>read_error_count := read_error_count c + 1\<rparr>) s))
               else Some s
           | PollTimeout \<Rightarrow> Some s
           | PollReady ev \<Rightarrow>
               if ev_bad ev then Some (close_serial w s)
               else if ev_in ev then read_serial w s else Some s
      else Some u) = Some v"
    using reads by (auto simp: sys_unfold split: poll_result.split)
  then obtain v where v: "(if 0 \<le> serial_fd u
      then let (answer, s) = sys (\<lambda>i. kernel_poll w i 0) u
         in case answer of
             PollErr e \<Rightarrow> if e \<noteq> EINTR
               then Some (close_serial w (count (\<lambda>c. c\<lparr>read_error_count := read_error_count c + 1\<rparr>) s))
               else Some s
           | PollTimeout \<Rightarrow> Some s
           | PollReady ev \<Rightarrow>
               if ev_bad ev then Some (close_serial w s)
               else if ev_in ev then read_serial w s else Some s
      else Some u) = Some v" ..
  have "on_serial_timer w s = Some (log_stats_if_due w v)"
    by (simp only: on_serial_timer_def Let_def [of ?t] u v Option.bind.bind_lunit)
  then show ?thesis ..
qed

end
