(* ===== verification/Rc_Node_Properties.thy ===== *)
theory Rc_Node_Properties
  imports Rc_Node_Safety Rc_Node_Run Rc_Node_Liveness
begin

text \<open>
  What the RC node guarantees in every state its executor can reach, and that its handlers
  return. The witnesses are states of the run of \<open>Rc_Node_Run\<close>.
\<close>

section \<open>Helpers\<close>

lemma telemetry_written:
  "rc_reachable w p s \<Longrightarrow> telemetry_only p \<Longrightarrow> written s = []"
proof (induction rule: rc_reachable.induct)
  case (start s)
  then show ?case
    by (auto simp: RcVehicleInterfaceNode_new_def written_def split: sum.splits)
next
  case (continue s e s')
  have inv: "node_inv s" "params s = p" using reachable_inv [OF continue.hyps(1)] by simp_all
  with continue.hyps(2) continue.prems have "on_serial_timer w s = Some s'"
    by (auto elim!: rc_step_cases)
  from safe_timer [OF this inv(1)] inv(2) continue show ?case by (simp add: safe_def)
qed

lemma emergency_true_result:
  assumes "on_emergency_status w True s = Some s'" "node_inv s"
  shows "\<not> autonomous_requested s' \<and> safety_stop_latched s'"
proof -
  let ?t = "s\<lparr>calls := Suc (calls s), emergency_status_monitor :=
    em_observe True (duration_ms (steady_ns w (calls s))) (emergency_status_monitor s)\<rparr>"
  have "node_inv ?t" using assms(2) by (simp add: node_inv_def)
  moreover have "latch_safety_stop w ?t = Some s'"
    using assms(1) by (simp add: on_emergency_status_def Let_def handler_defs)
  ultimately show ?thesis using latch_result by blast
qed

lemma stop_frame_nonempty: "frame_of software_stop_command \<noteq> []"
  using stop_encodable by (auto simp: encode_command_frame_eq split: sum.splits if_splits)

lemma demo_emergency:
  "on_emergency_status demo_world True demo1 =
     Some (demo1\<lparr>calls := 17, safety_stop_latched := True, safety_stop_sent := True,
       emergency_status_monitor :=
         \<lparr>em_timeout_ms = 250, em_last_observation_ms = 1000014, em_received = True, em_active = True\<rparr>,
       counters := (counters demo1)\<lparr>transmitted_frame_count := 1\<rparr>,
       outputs := Written (frame_of software_stop_command) # outputs demo1\<rparr>)"
proof -
  show ?thesis
    using stop_frame_nonempty
    by (simp add: on_emergency_status_def em_observe_def latch_safety_stop_def transmit_software_stop_def
        stop_encodable write_frame_def write_loop_all demo_eval demo_states NodeCounters_init_def
        hall_reset_def)
qed


definition demo_listen :: RcNode where
  "demo_listen = demo0\<lparr>params := demo_params\<lparr>telemetry_only := True\<rparr>\<rparr>"

text \<open>The same world with a silent serial line.\<close>

definition quiet_world :: World where
  "quiet_world = demo_world\<lparr>kernel_read := (\<lambda>i n. RdErr EAGAIN)\<rparr>"

definition demo_listening :: RcNode where
  "demo_listening = demo_listen\<lparr>serial_fd := 3, telemetry_open_attempted := True,
     next_reconnect_attempt_ns := 1001002000000,
     counters := NodeCounters_init\<lparr>connection_count := 1\<rparr>, calls := 13, reads := 1, outputs := [Opened]\<rparr>"

lemma demo_listen_reachable:
  "rc_reachable quiet_world (demo_params\<lparr>telemetry_only := True\<rparr>) demo_listening"
proof (rule rc_reachable.continue [OF rc_reachable.start rc_step.step [of EvTimer]])
  show "RcVehicleInterfaceNode_new quiet_world (demo_params\<lparr>telemetry_only := True\<rparr>) = Inr demo_listen"
    by (simp add: RcVehicleInterfaceNode_new_def validate_parameters_def quiet_world_def demo_eval demo_limits_def
        baud_to_termios_def kExpectedBaudRate_def kExpectedFirmwareCommandTimeoutMs_def
        control_to_chassis_motion_def EmergencyStatusMonitor_new_def HallFeedbackMonitor_new_def
        std_clamp_def demo0_def demo_listen_def)
  let ?open = "demo_listening\<lparr>calls := 10, reads := 0\<rparr>"
  have opened: "try_open_serial quiet_world demo_listen = ?open"
    by (simp add: try_open_serial_def configure_serial_def quiet_world_def demo_eval demo0_def demo_listen_def
        demo_listening_def NodeCounters_init_def)
  have reads: "read_serial quiet_world (demo_listening\<lparr>reads := 0, calls := 11\<rparr>) = Some (demo_listening\<lparr>calls := 12\<rparr>)"
    by (rule read_serial_done) (simp add: sys_read_def quiet_world_def demo_eval demo_listening_def demo_listen_def)
  have "log_stats_if_due quiet_world (demo_listening\<lparr>calls := 12\<rparr>) = demo_listening"
    by (simp add: log_stats_if_due_def quiet_world_def demo_eval kStatsLogPeriodNs_def demo_listening_def
        demo_listen_def demo0_def)
  moreover have "autonomous_requested demo_listening = False" "serial_fd demo_listening = 3"
    by (simp_all add: demo_listening_def demo_listen_def demo0_def)
  ultimately show "handle_event quiet_world EvTimer demo_listen = Some demo_listening"
    using opened reads by (simp add: on_serial_timer_def sys_def quiet_world_def demo_world_simps)
qed simp

lemma demo_stop:
  "transmit_software_stop demo_world demo5 =
     Some (True, demo5\<lparr>calls := 23, has_transmitted_command := False,
       counters := (counters demo5)\<lparr>transmitted_frame_count := 2\<rparr>,
       outputs := Written (frame_of software_stop_command) # outputs demo5\<rparr>)"
  using stop_frame_nonempty
  by (simp add: transmit_software_stop_def stop_encodable write_frame_def write_loop_all demo_eval
      demo5_def demo_states NodeCounters_init_def)

text \<open>A world of unending telemetry: every other read delivers a frame.\<close>

definition telemetry_world :: World where
  "telemetry_world = demo_world\<lparr>kernel_read :=
     (\<lambda>i n. if even i then RdBytes (telemetry_frame demo_telemetry) else RdErr EAGAIN)\<rparr>"

lemma telemetry_fair: "fair_world telemetry_world"
  unfolding fair_world_def
proof (intro conjI allI)
  fix t
  have "t \<le> steady_ns telemetry_world i" if "nat t \<le> i" for i
  proof -
    have "t \<le> int (nat t)" by simp
    also have "int (nat t) \<le> int i" using that by (simp only: of_nat_le_iff)
    also have "\<dots> \<le> steady_ns telemetry_world i" by (simp add: telemetry_world_def demo_world_simps)
    finally show ?thesis .
  qed
  then show "\<exists>k. \<forall>i\<ge>k. t \<le> steady_ns telemetry_world i" by blast
next
  fix k :: nat
  show "\<exists>i\<ge>k. \<forall>n. kernel_write telemetry_world i n \<noteq> WrErr EINTR"
    by (rule exI [of _ k]) (simp add: telemetry_world_def demo_world_simps)
  show "\<exists>i\<ge>k. read_drained telemetry_world i"
    by (rule exI [of _ "2 * k + 1"]) (simp add: telemetry_world_def read_drained_def)
qed

lemma handler_returns:
  assumes "fair_world w"
  shows "\<exists>s'. handle_event w e s = Some s'"
proof -
  have latch: "\<exists>s'. latch_safety_stop w t = Some s'" for t
    using latch_returns [OF assms, of t] by (auto simp: returns_later_def)
  have stop: "\<exists>r. transmit_software_stop w t = Some r" for t
    using stop_returns [OF assms, of t] by (auto simp: returns2_later_def)
  have wf: "\<exists>r. write_frame w f t = Some r" for f t
    using write_frame_returns [OF assms, of t f] by (auto simp: returns2_later_def)
  show ?thesis
  proof (cases e)
    case EvTimer
    then show ?thesis using on_serial_timer_returns [OF assms, of s] by simp
  next
    case (EvControl m)
    let ?s1 = "s\<lparr>calls := Suc (calls s)\<rparr>"
    obtain fresh s2 where st: "command_stamp_is_fresh w (ctl_stamp_ns m) ?s1 = (fresh, s2)"
      by (cases "command_stamp_is_fresh w (ctl_stamp_ns m) ?s1")
    have "\<exists>s'. on_control_command w m s = Some s'"
    proof (cases "control_to_chassis_motion (ctl_velocity m) (ctl_steering_tire_angle m)
        (command_limits (params s2))")
      case (Inl err)
      then show ?thesis using latch st by (simp add: on_control_command_def Let_def handler_defs)
    next
      case setpoint: (Inr sp)
      show ?thesis
      proof (cases "encode_command_frame (gated_command s2 sp)")
        case (Inl err)
        then show ?thesis using latch st setpoint
          by (simp add: on_control_command_def Let_def handler_defs)
      next
        case (Inr f)
        obtain written t where "write_frame w f s2 = Some (written, t)" using wf by fastforce
        then show ?thesis using latch st setpoint Inr
          by (simp add: on_control_command_def Let_def handler_defs)
      qed
    qed
    with EvControl show ?thesis by simp
  next
    case (EvGear g)
    then show ?thesis by simp
  next
    case (EvEmergency b)
    then show ?thesis using latch by (simp add: on_emergency_status_def Let_def handler_defs)
  next
    case (EvMode m)
    have "\<exists>r. on_control_mode_request w m s = Some r"
      using stop [of "reset_hall (reset_fault_clear_handshake (s\<lparr>autonomous_requested := False\<rparr>))"]
      by (auto simp: on_control_mode_request_def Let_def handler_defs)
    with EvMode show ?thesis by auto
  qed
qed

lemma shutdown_returns: "fair_world w \<Longrightarrow> \<exists>s'. node_shutdown w s = Some s'"
  using stop_returns [of w s] by (auto simp: node_shutdown_def returns2_later_def)


section \<open>What goes over the line\<close>

text \<open>
  C1: In every reachable state with an open link, the bytes written since the link was opened
  are exactly a sequence of whole command frames. Every one of them is a motion command within
  the configured limits, a software stop, or a clear-fault frame, and a clear-fault frame is
  always preceded at once by an enabled zero command. While no command is in force the
  sequence is empty or ends with the software stop.
\<close>

theorem reachable_line_is_safe:
  assumes "rc_reachable w p s" "0 \<le> serial_fd s"
  shows "\<exists>cs. wire_log (command_limits p) cs \<and> line (outputs s) = concat (map frame_of cs) \<and>
     (\<not> autonomous_requested s \<longrightarrow> cs = [] \<or> last cs = software_stop_command)"
  using reachable_line [OF assms] reachable_flags [OF assms(1)] by metis

theorem reachable_line_is_safe_witness:
  "0 \<le> serial_fd demo5 \<and> line (outputs demo5) = demo_frame \<and>
   (\<exists>cs. wire_log demo_limits cs \<and> line (outputs demo5) = concat (map frame_of cs))"
  using reachable_line_is_safe [OF demo_reachable(4)]
  by (auto simp: demo5_def demo_states demo_params_simps)

text \<open>
  C36: A node in telemetry-only mode never writes a byte to the serial port, whatever the
  firmware sends and whatever the operating system answers.
\<close>

theorem telemetry_only_never_writes:
  assumes "rc_reachable w p s" "telemetry_only p"
  shows "\<forall>b. Written b \<notin> set (outputs s)"
  using telemetry_written [OF assms] by (auto simp: written_def filter_empty_conv)

theorem telemetry_only_never_writes_witness:
  "0 \<le> serial_fd demo_listening \<and> outputs demo_listening = [Opened] \<and>
   (\<forall>b. Written b \<notin> set (outputs demo_listening))"
  using telemetry_only_never_writes [OF demo_listen_reachable]
  by (simp add: demo_listening_def)

text \<open>
  While the node is autonomous the link is open, a feedback frame has been decoded on it and
  the safety stop is released; a command is in force, or a fault clear is pending, only while
  the node is autonomous; the clear-fault frame is sent only after the zero command.
\<close>

theorem reachable_flags_consistent:
  assumes "rc_reachable w p s"
  shows "(autonomous_requested s \<longrightarrow>
            0 \<le> serial_fd s \<and> \<not> safety_stop_latched s \<and> has_received_feedback s) \<and>
     (has_transmitted_command s \<or> fault_clear_pending s \<longrightarrow> autonomous_requested s) \<and>
     (fault_clear_sent s \<longrightarrow> fault_clear_zero_sent s)"
  using reachable_flags [OF assms] by blast

theorem reachable_flags_consistent_witness:
  "autonomous_requested demo4 \<and>
   0 \<le> serial_fd demo4 \<and> \<not> safety_stop_latched demo4 \<and> has_received_feedback demo4"
  using reachable_flags_consistent [OF demo_reachable(3)] by (simp add: demo_states)

section \<open>Gates\<close>

text \<open>
  C2: A Control message changes the line in one of four ways only: not at all; the link is given
  up; a software stop is sent because the emergency status is not fresh and clear; or, when the
  node is autonomous, the link open, the status fresh and the stamp neither in the future, nor
  older than the firmware timeout, nor older than the last one sent, exactly the frame of the
  gated command is sent.
\<close>

theorem control_message_gate:
  assumes "rc_reachable w p s" "on_control_command w m s = Some s'"
  shows "control_outcome w m s s'"
  using control_result [OF assms(2)] reachable_inv [OF assms(1)] by blast

theorem control_message_gate_witness:
  "control_outcome demo_world demo_control demo4 demo5 \<and> line (outputs demo5) = demo_frame"
  using control_message_gate [OF demo_reachable(3) demo_step5] by (simp add: demo5_def demo_states)

text \<open>
  The command built from a set point is an enabled command within the configured limits, its
  speed has the sign the logical gear allows, and it is zero while a fault clear is pending.
\<close>

theorem gated_command_contract:
  assumes "control_to_chassis_motion v a (command_limits (params s)) = Inr sp"
  shows "motion_within (command_limits (params s)) (gated_command s sp) \<and>
     logical_gear_allows_speed (logical_gear s) (cmd_speed_mps (gated_command s sp)) \<and>
     (fault_clear_pending s \<longrightarrow> enabled_zero (gated_command s sp))"
  using gated_command_facts [OF assms] by blast

theorem gated_command_contract_witness:
  "let sp = \<lparr>sp_speed_mps = Fin 1, sp_steering_tire_angle_rad = Fin 0, sp_speed_saturated = False,
       sp_steering_saturated = False, sp_speed_below_minimum = False\<rparr>
   in motion_within demo_limits (gated_command demo0 sp) \<and>
      logical_gear_allows_speed kPark (cmd_speed_mps (gated_command demo0 sp))"
  using gated_command_contract [of "Fin 1" "Fin 0" demo0] demo_motion
  by (simp add: demo_states demo_params_simps Let_def)

text \<open>
  C12: Autonomous authority is gained, and a latched safety stop released, only by an AUTONOMOUS
  mode request that finds the link open, a feedback frame received, the emergency status fresh
  and clear, and no live chassis fault in the last status.
\<close>

theorem authority_only_by_request:
  assumes "rc_reachable w p s" "rc_step w s e s'"
    and "\<not> autonomous_requested s \<and> autonomous_requested s' \<or>
      safety_stop_latched s \<and> \<not> safety_stop_latched s'"
  shows "e = EvMode MR_AUTONOMOUS \<and> authorised w s"
  using step_authority [OF assms(2) _ assms(3)] reachable_inv [OF assms(1)] by blast

theorem authority_only_by_request_witness:
  "rc_step demo_world demo2 (EvMode MR_AUTONOMOUS) demo3 \<and> authorised demo_world demo2"
  using authority_only_by_request [OF demo_reachable(5) demo_step_autonomous] demo_step_autonomous
  by (simp add: demo_states)

text \<open>
  The stamps of the Control messages that are sent never go back: no step of the executor
  lowers the stamp of the last command transmitted.
\<close>

theorem transmitted_stamps_monotone:
  assumes "rc_reachable w p s" "rc_step w s e s'"
  shows "last_transmitted_command_stamp_ns s \<le> last_transmitted_command_stamp_ns s'"
  using step_result [OF assms(2)] reachable_inv [OF assms(1)] by blast

theorem transmitted_stamps_monotone_witness:
  "last_transmitted_command_stamp_ns demo4 \<le> last_transmitted_command_stamp_ns demo5"
  using transmitted_stamps_monotone [OF demo_reachable(3), of "EvControl demo_control" demo5]
  by (simp add: rc_step.simps demo_step5 demo_tel)

section \<open>Stopping\<close>

text \<open>
  C34: An emergency report takes the authority away and latches the safety stop; the link is then
  closed, or its last frame is the software stop, or nothing was ever sent on it.
\<close>

theorem emergency_stops:
  assumes "rc_reachable w p s" "on_emergency_status w True s = Some s'"
  shows "\<not> autonomous_requested s' \<and> safety_stop_latched s' \<and>
     (serial_fd s' < 0 \<or>
      (\<exists>cs. wire_log (command_limits p) cs \<and> line (outputs s') = concat (map frame_of cs) \<and>
         (cs = [] \<or> last cs = software_stop_command)))"
proof -
  have inv: "node_inv s" "params s = p" using reachable_inv [OF assms(1)] by simp_all
  have off: "\<not> autonomous_requested s' \<and> safety_stop_latched s'"
    by (rule emergency_true_result [OF assms(2) inv(1)])
  have "node_inv s'" "params s' = p" using emergency_result [OF assms(2) inv(1)] inv(2) by simp_all
  with off show ?thesis by (auto simp: node_inv_def flags_inv_def line_inv_def)
qed

theorem emergency_stops_witness:
  "\<exists>s'. on_emergency_status demo_world True demo1 = Some s' \<and>
     line (outputs s') = frame_of software_stop_command \<and>
     \<not> autonomous_requested s' \<and> safety_stop_latched s'"
  using emergency_stops [OF demo_reachable(1) demo_emergency] demo_emergency
  by (simp add: demo_states)

text \<open>
  C37: Shutting the node down leaves the port closed, and when a command was in force either the
  last bytes on the line are the software stop frame or the stop could not be written.
\<close>

theorem shutdown_sends_stop:
  assumes "rc_reachable w p s" "node_shutdown w s = Some s'"
  shows "serial_fd s' < 0 \<and>
     (has_transmitted_command s \<longrightarrow>
        line (outputs s') = line (outputs s) @ frame_of software_stop_command \<or>
        (\<exists>t. transmit_software_stop w s = Some (False, t)))"
proof -
  have fl: "has_transmitted_command s \<Longrightarrow> 0 \<le> serial_fd s \<and> \<not> is_telemetry_only s"
    using reachable_flags [OF assms(1)] by blast
  have closed: "serial_fd (if 0 \<le> serial_fd t then (emit Closed t)\<lparr>serial_fd := - 1\<rparr> else t) < 0"
    "line (outputs (if 0 \<le> serial_fd t then (emit Closed t)\<lparr>serial_fd := - 1\<rparr> else t)) =
     line (outputs t)" for t
    by (simp_all add: emit_def)
  show ?thesis
  proof (cases "has_transmitted_command s")
    case True
    then obtain sent t where t: "transmit_software_stop w s = Some (sent, t)"
      "s' = (if 0 \<le> serial_fd t then (emit Closed t)\<lparr>serial_fd := - 1\<rparr> else t)"
      using fl assms(2) by (auto simp: node_shutdown_def bind_eq_Some_conv)
    show ?thesis
    proof (cases sent)
      case True
      with stop_outcome [OF t(1)] closed [of t] t(2) show ?thesis by (auto simp: sends_def)
    next
      case False
      with t closed(1) [of t] show ?thesis by auto
    qed
  next
    case False
    with assms(2) closed(1) [of s] show ?thesis by (simp add: node_shutdown_def)
  qed
qed

theorem shutdown_sends_stop_witness:
  "has_transmitted_command demo5 \<and>
   (\<exists>s'. node_shutdown demo_world demo5 = Some s' \<and> serial_fd s' < 0 \<and>
      line (outputs s') = line (outputs demo5) @ frame_of software_stop_command)"
proof -
  have ex: "\<exists>s'. node_shutdown demo_world demo5 = Some s'"
    by (simp add: node_shutdown_def demo_stop)
  then obtain s' where s': "node_shutdown demo_world demo5 = Some s'" ..
  have "has_transmitted_command demo5" by (simp add: demo5_def)
  with shutdown_sends_stop [OF demo_reachable(4) s'] demo_stop s' show ?thesis by auto
qed

section \<open>Termination\<close>

text \<open>
  C35: Every handler returns from every state, and so does the destructor, in every fair world: the steady
  clock passes every deadline, again and again a write is not interrupted by a signal, and again
  and again a read finds the port drained, so that no burst of telemetry is endless, though the
  telemetry itself may be. On a line that always had data ready, the read loop of the timer would not end.
\<close>

theorem handlers_return:
  assumes "fair_world w"
  shows "(\<exists>s'. handle_event w e s = Some s') \<and> (\<exists>s'. node_shutdown w s = Some s')"
  using handler_returns [OF assms] shutdown_returns [OF assms] by blast

theorem handlers_return_witness:
  "(\<forall>k. \<exists>i\<ge>k. kernel_read telemetry_world i 512 = RdBytes (telemetry_frame demo_telemetry)) \<and>
   (\<exists>s'. handle_event telemetry_world EvTimer demo_open = Some s') \<and>
   (\<exists>s'. handle_event telemetry_world (EvControl demo_control) demo4 = Some s') \<and>
   (\<exists>s'. node_shutdown telemetry_world demo5 = Some s')"
proof -
  have "\<exists>i\<ge>k. kernel_read telemetry_world i 512 = RdBytes (telemetry_frame demo_telemetry)" for k
    by (rule exI [of _ "2 * k"]) (simp add: telemetry_world_def)
  then show ?thesis using handlers_return [OF telemetry_fair] by blast
qed

end
