(* ===== verification/Rc_Pointcloud.thy ===== *)
theory Rc_Pointcloud
  imports Binary_Float "HOL-Library.Monad_Syntax"
begin

text \<open>
  \<open>c32_pointcloud_adapter.cpp\<close>: the conversion of the C32 lidar's point cloud into the layout
  Autoware expects. Sizes and offsets keep their widths (32 bits in the message, 64 bits in the
  computation), the cloud's data is a byte list, and an access outside of it is \<open>None\<close>. The bytes of a
  \<open>float\<close> are read as on a little-endian host. Running out of memory is not modelled.
\<close>

section \<open>Messages\<close>

record CloudHeader =
  stamp_sec :: "32 word"
  stamp_nanosec :: u32
  hdr_frame_id :: string

record PointField =
  pf_name :: string
  pf_offset :: u32
  pf_datatype :: u8
  pf_count :: u32

record PointCloud2 =
  pc_header :: CloudHeader
  pc_height :: u32
  pc_width :: u32
  pc_fields :: "PointField list"
  is_bigendian :: bool
  point_step :: u32
  row_step :: u32
  pc_data :: bytes
  is_dense :: bool

text \<open>The datatype codes of \<open>sensor_msgs/PointField\<close>.\<close>

definition UINT8 :: u8 where "UINT8 = 2"
definition UINT16 :: u8 where "UINT16 = 4"
definition FLOAT32 :: u8 where "FLOAT32 = 7"

definition kOutputPointStep :: u32 where "kOutputPointStep = 16"
definition kSingleStrongestReturn :: u8 where "kSingleStrongestReturn = 1"

datatype c32_error =
  Big_endian | Zero_point_step | Missing_field string | Incompatible_type string
| Exceeds_point_step string | Short_row | Short_data | Layout_overflow

section \<open>Memory\<close>

text \<open>\<open>std::memcpy\<close> out of and into the data of a cloud.\<close>

definition read_mem :: "bytes \<Rightarrow> u64 \<Rightarrow> nat \<Rightarrow> bytes option" where
  "read_mem data off n =
     (if unat off + n \<le> length data then Some (take n (drop (unat off) data)) else None)"

definition write_mem :: "u64 \<Rightarrow> bytes \<Rightarrow> bytes \<Rightarrow> bytes option" where
  "write_mem off src data =
     (if unat off + length src \<le> length data
      then Some (take (unat off) data @ src @ drop (unat off + length src) data) else None)"

text \<open>The loop \<open>for (i = start; i < start + n; ++i)\<close>.\<close>

primrec for_loop :: "(nat \<Rightarrow> 's \<Rightarrow> 's option) \<Rightarrow> nat \<Rightarrow> nat \<Rightarrow> 's \<Rightarrow> 's option" where
  "for_loop step i 0 s = Some s"
| "for_loop step i (Suc n) s = do { s \<leftarrow> step i s; for_loop step (Suc i) n s }"

section \<open>Fields and intensities\<close>

definition require_field :: "PointCloud2 \<Rightarrow> string \<Rightarrow> u8 \<Rightarrow> nat \<Rightarrow> c32_error + PointField" where
  "require_field cloud name datatype byte_size =
     (case find (\<lambda>candidate. pf_name candidate = name) (pc_fields cloud) of
        None \<Rightarrow> Inl (Missing_field name)
      | Some field \<Rightarrow>
          if pf_datatype field \<noteq> datatype \<or> pf_count field \<noteq> 1 then Inl (Incompatible_type name)
          else if (ucast (pf_offset field) :: u64) + of_nat byte_size > ucast (point_step cloud)
          then Inl (Exceeds_point_step name)
          else Inr field)"

definition make_field :: "string \<Rightarrow> u32 \<Rightarrow> u8 \<Rightarrow> PointField" where
  "make_field name offset datatype =
     \<lparr>pf_name = name, pf_offset = offset, pf_datatype = datatype, pf_count = 1\<rparr>"

text \<open>The value of the 32 bits of a \<open>float\<close> (IEEE 754 binary32).\<close>

definition float_of_bits :: "u32 \<Rightarrow> fp" where
  "float_of_bits b =
     (let e = uint (drop_bit 23 b AND 0xFF); m = uint (b AND 0x7FFFFF); negative = bit b 31
      in if e = 255 then (if m = 0 then (if negative then NInf else PInf) else NaN)
         else let v = (if e = 0 then of_int m * 2 powi (- 149)
                       else of_int (m + 2 ^ 23) * 2 powi (e - 150))
              in Fin (if negative then - v else v))"

definition bits_of_bytes :: "bytes \<Rightarrow> u32" where
  "bits_of_bytes bs =
     push_bit 24 (ucast (bs ! 3)) OR push_bit 16 (ucast (bs ! 2)) OR push_bit 8 (ucast (bs ! 1)) OR
     ucast (bs ! 0)"

definition normalize_intensity :: "fp \<Rightarrow> u8" where
  "normalize_intensity intensity =
     (if \<not> isfinite intensity then 0
      else case std_clamp intensity (Fin 0) (Fin 255) of
             Fin clamped \<Rightarrow> word_of_int (lround_rat clamped)
           | _ \<Rightarrow> 0)"

section \<open>The conversion\<close>

record CloudFields =
  x_field :: PointField
  y_field :: PointField
  z_field :: PointField
  intensity_field :: PointField
  ring_field :: PointField

definition require_fields :: "PointCloud2 \<Rightarrow> c32_error + CloudFields" where
  "require_fields input =
     (case require_field input ''x'' FLOAT32 4 of Inl e \<Rightarrow> Inl e | Inr x \<Rightarrow>
      case require_field input ''y'' FLOAT32 4 of Inl e \<Rightarrow> Inl e | Inr y \<Rightarrow>
      case require_field input ''z'' FLOAT32 4 of Inl e \<Rightarrow> Inl e | Inr z \<Rightarrow>
      case require_field input ''intensity'' FLOAT32 4 of Inl e \<Rightarrow> Inl e | Inr i \<Rightarrow>
      case require_field input ''ring'' UINT16 2 of Inl e \<Rightarrow> Inl e | Inr r \<Rightarrow>
        Inr \<lparr>x_field = x, y_field = y, z_field = z, intensity_field = i, ring_field = r\<rparr>)"

definition minimum_input_row_step :: "PointCloud2 \<Rightarrow> u64" where
  "minimum_input_row_step input = ucast (pc_width input) * ucast (point_step input)"

definition required_input_bytes :: "PointCloud2 \<Rightarrow> u64" where
  "required_input_bytes input =
     (if pc_height input = 0 then 0
      else ucast (pc_height input - 1) * ucast (row_step input) + minimum_input_row_step input)"

definition output_row_step :: "PointCloud2 \<Rightarrow> u64" where
  "output_row_step input = ucast (pc_width input) * ucast kOutputPointStep"

definition output_data_size :: "PointCloud2 \<Rightarrow> u64" where
  "output_data_size input = ucast (pc_height input) * output_row_step input"

text \<open>The comparison of \<open>output_data_size\<close> with the greatest \<open>size_t\<close> is never true of a 64-bit value.\<close>

definition check_layout :: "PointCloud2 \<Rightarrow> c32_error option" where
  "check_layout input =
     (if minimum_input_row_step input > ucast (row_step input) then Some Short_row
      else if unat (required_input_bytes input) > length (pc_data input) then Some Short_data
      else if output_row_step input > 0xFFFFFFFF \<or> output_data_size input > 0xFFFFFFFFFFFFFFFF
      then Some Layout_overflow
      else None)"

definition output_fields :: "PointField list" where
  "output_fields =
     [make_field ''x'' 0 FLOAT32, make_field ''y'' 4 FLOAT32, make_field ''z'' 8 FLOAT32,
      make_field ''intensity'' 12 UINT8, make_field ''return_type'' 13 UINT8,
      make_field ''channel'' 14 UINT16]"

definition empty_output :: "PointCloud2 \<Rightarrow> PointCloud2" where
  "empty_output input =
     \<lparr>pc_header = pc_header input, pc_height = pc_height input, pc_width = pc_width input,
      pc_fields = output_fields, is_bigendian = False, point_step = kOutputPointStep,
      row_step = ucast (output_row_step input),
      pc_data = replicate (unat (output_data_size input)) 0, is_dense = is_dense input\<rparr>"

text \<open>The body of the inner loop, on the output's data.\<close>

definition convert_point ::
  "PointCloud2 \<Rightarrow> CloudFields \<Rightarrow> u32 \<Rightarrow> nat \<Rightarrow> nat \<Rightarrow> bytes \<Rightarrow> bytes option" where
  "convert_point input fs out_row_step row column out = do {
     let input_offset = of_nat row * ucast (row_step input) + of_nat column * ucast (point_step input);
     let output_offset = of_nat row * ucast out_row_step + of_nat column * ucast kOutputPointStep;
     x \<leftarrow> read_mem (pc_data input) (input_offset + ucast (pf_offset (x_field fs))) 4;
     out \<leftarrow> write_mem output_offset x out;
     y \<leftarrow> read_mem (pc_data input) (input_offset + ucast (pf_offset (y_field fs))) 4;
     out \<leftarrow> write_mem (output_offset + 4) y out;
     z \<leftarrow> read_mem (pc_data input) (input_offset + ucast (pf_offset (z_field fs))) 4;
     out \<leftarrow> write_mem (output_offset + 8) z out;
     intensity \<leftarrow> read_mem (pc_data input) (input_offset + ucast (pf_offset (intensity_field fs))) 4;
     channel \<leftarrow> read_mem (pc_data input) (input_offset + ucast (pf_offset (ring_field fs))) 2;
     out \<leftarrow> write_mem (output_offset + 12) [normalize_intensity (float_of_bits (bits_of_bytes intensity))] out;
     out \<leftarrow> write_mem (output_offset + 13) [kSingleStrongestReturn] out;
     write_mem (output_offset + 14) channel out
   }"

definition convert_points :: "PointCloud2 \<Rightarrow> CloudFields \<Rightarrow> PointCloud2 \<Rightarrow> PointCloud2 option" where
  "convert_points input fs out = do {
     data \<leftarrow> for_loop (\<lambda>row. for_loop (convert_point input fs (row_step out) row) 0 (unat (pc_width input)))
               0 (unat (pc_height input)) (pc_data out);
     Some (out\<lparr>pc_data := data\<rparr>)
   }"

text \<open>\<open>None\<close> is an access outside of the data, \<open>Inl\<close> an exception.\<close>

definition convert_c32_pointcloud :: "PointCloud2 \<Rightarrow> (c32_error + PointCloud2) option" where
  "convert_c32_pointcloud input =
     (if is_bigendian input then Some (Inl Big_endian)
      else if point_step input = 0 \<and> pc_width input \<noteq> 0 \<and> pc_height input \<noteq> 0 then Some (Inl Zero_point_step)
      else case require_fields input of
        Inl e \<Rightarrow> Some (Inl e)
      | Inr fs \<Rightarrow>
          case check_layout input of
            Some e \<Rightarrow> Some (Inl e)
          | None \<Rightarrow> map_option Inr (convert_points input fs (empty_output input)))"

text \<open>The subscription: what is published for an input, if anything.\<close>

definition on_cloud :: "PointCloud2 \<Rightarrow> PointCloud2 list option" where
  "on_cloud input =
     map_option (\<lambda>r. case r of Inl e \<Rightarrow> [] | Inr output \<Rightarrow> [output]) (convert_c32_pointcloud input)"

section \<open>Sizes without wrap-around\<close>

lemma unat_u32_less: "unat (a :: u32) < 2 ^ 32"
  using unsigned_less [of a] by simp

lemma unat_u64_less: "unat (a :: u64) < 2 ^ 64"
  using unsigned_less [of a] by simp

lemma unat_up [simp]: "unat (ucast (a :: u32) :: u64) = unat a"
  using unat_u32_less [of a] by (simp add: unsigned_ucast_eq take_bit_nat_eq_self)

lemma nat_mult_bound: "(a :: nat) < 2 ^ 32 \<Longrightarrow> b < 2 ^ 32 \<Longrightarrow> a * b \<le> (2 ^ 32 - 1) * (2 ^ 32 - 1)"
  by (rule mult_le_mono) simp_all

lemma unat_mult_u32: "unat (ucast (a :: u32) * ucast (b :: u32) :: u64) = unat a * unat b"
proof -
  have "unat a * unat b \<le> (2 ^ 32 - 1) * (2 ^ 32 - 1)"
    by (rule nat_mult_bound [OF unat_u32_less unat_u32_less])
  then have "unat a * unat b < 2 ^ 64" by simp
  then show ?thesis by (simp add: unat_word_ariths)
qed

lemma unat_of_small: "n < 2 ^ 64 \<Longrightarrow> unat (of_nat n :: u64) = n"
  by (simp add: unat_of_nat take_bit_nat_eq_self)

lemma u64_le_conv: "(a :: u64) \<le> b \<longleftrightarrow> unat a \<le> unat b"
  by (rule word_le_nat_alt)

lemma u64_less_conv: "(a :: u64) < b \<longleftrightarrow> unat a < unat b"
  by (rule word_less_nat_alt)

lemma unat_add_small: "unat (a :: u64) + unat b < 2 ^ 64 \<Longrightarrow> unat (a + b) = unat a + unat b"
  by (simp add: unat_word_ariths)

lemma require_field_Inr:
  assumes "k < 2 ^ 32"
  shows "require_field cloud name datatype k = Inr f \<longleftrightarrow>
     find (\<lambda>c. pf_name c = name) (pc_fields cloud) = Some f \<and> pf_datatype f = datatype \<and>
     pf_count f = 1 \<and> unat (pf_offset f) + k \<le> unat (point_step cloud)"
proof -
  have "unat (ucast (pf_offset f) + of_nat k :: u64) = unat (pf_offset f) + k" for f :: PointField
    using assms unat_u32_less [of "pf_offset f"]
    by (subst unat_add_small) (simp_all add: unat_of_small)
  then show ?thesis
    by (auto simp: require_field_def word_less_nat_alt split: option.split)
qed

text \<open>The sizes as numbers.\<close>

abbreviation cloud_h :: "PointCloud2 \<Rightarrow> nat" where "cloud_h c \<equiv> unat (pc_height c)"
abbreviation cloud_w :: "PointCloud2 \<Rightarrow> nat" where "cloud_w c \<equiv> unat (pc_width c)"
abbreviation cloud_ps :: "PointCloud2 \<Rightarrow> nat" where "cloud_ps c \<equiv> unat (point_step c)"
abbreviation cloud_rs :: "PointCloud2 \<Rightarrow> nat" where "cloud_rs c \<equiv> unat (row_step c)"

lemma unat_minimum: "unat (minimum_input_row_step c) = cloud_w c * cloud_ps c"
  by (simp add: minimum_input_row_step_def unat_mult_u32)

lemma unat_height_1: "pc_height c \<noteq> 0 \<Longrightarrow> unat (pc_height c - 1) = cloud_h c - 1"
  by (simp add: unat_minus_one)

lemma unat_required:
  assumes "cloud_w c * cloud_ps c \<le> cloud_rs c"
  shows "unat (required_input_bytes c) =
     (if cloud_h c = 0 then 0 else (cloud_h c - 1) * cloud_rs c + cloud_w c * cloud_ps c)"
proof (cases "pc_height c = 0")
  case False
  have "(cloud_h c - 1) * cloud_rs c \<le> (2 ^ 32 - 2) * (2 ^ 32 - 1)"
    by (rule mult_le_mono) (use unat_u32_less [of "pc_height c"] unat_u32_less [of "row_step c"] in simp_all)
  moreover have "cloud_w c * cloud_ps c \<le> 2 ^ 32 - 1" using assms unat_u32_less [of "row_step c"] by simp
  ultimately have "(cloud_h c - 1) * cloud_rs c + cloud_w c * cloud_ps c < 2 ^ 64" by simp
  moreover have "unat (ucast (pc_height c - 1) * ucast (row_step c) :: u64) = (cloud_h c - 1) * cloud_rs c"
    by (simp only: unat_mult_u32 unat_height_1 [OF False])
  moreover have "cloud_h c \<noteq> 0" using False by (simp add: unat_eq_0)
  ultimately show ?thesis
    using False by (simp add: required_input_bytes_def unat_add_small unat_minimum)
qed (simp add: required_input_bytes_def)

lemma unat_output_row: "unat (output_row_step c) = cloud_w c * 16"
  unfolding output_row_step_def unat_mult_u32 by (simp add: kOutputPointStep_def)

lemma unat_output_size:
  assumes "cloud_w c * 16 < 2 ^ 32"
  shows "unat (output_data_size c) = cloud_h c * (cloud_w c * 16)"
proof -
  have "cloud_h c * (cloud_w c * 16) \<le> (2 ^ 32 - 1) * (2 ^ 32 - 1)"
    by (rule nat_mult_bound [OF unat_u32_less assms])
  then have "cloud_h c * (cloud_w c * 16) < 2 ^ 64" by simp
  then show ?thesis by (simp add: output_data_size_def unat_word_ariths unat_output_row)
qed

definition sizes_ok :: "PointCloud2 \<Rightarrow> bool" where
  "sizes_ok c \<longleftrightarrow>
     cloud_w c * cloud_ps c \<le> cloud_rs c \<and>
     (cloud_h c = 0 \<or> (cloud_h c - 1) * cloud_rs c + cloud_w c * cloud_ps c \<le> length (pc_data c)) \<and>
     cloud_w c * 16 < 2 ^ 32"

lemma check_layout_None: "check_layout c = None \<longleftrightarrow> sizes_ok c"
proof -
  have "output_data_size c \<le> 0xFFFFFFFFFFFFFFFF"
    using unat_u64_less [of "output_data_size c"] by (simp add: word_le_nat_alt)
  moreover have "output_row_step c > 0xFFFFFFFF \<longleftrightarrow> \<not> cloud_w c * 16 < 2 ^ 32"
    by (simp add: word_less_nat_alt unat_output_row) linarith
  moreover have "minimum_input_row_step c > ucast (row_step c) \<longleftrightarrow> cloud_rs c < cloud_w c * cloud_ps c"
    by (simp add: word_less_nat_alt unat_minimum)
  ultimately have "check_layout c = None \<longleftrightarrow>
      \<not> cloud_rs c < cloud_w c * cloud_ps c \<and> \<not> length (pc_data c) < unat (required_input_bytes c) \<and>
      cloud_w c * 16 < 2 ^ 32"
    by (simp add: check_layout_def linorder_not_less [symmetric])
  then show ?thesis
    using unat_required [of c] by (cases "cloud_w c * cloud_ps c \<le> cloud_rs c") (simp_all add: sizes_ok_def not_less)
qed

section \<open>The converted points\<close>

text \<open>The sixteen bytes of a point, and the data filled up to a point.\<close>

definition slice :: "bytes \<Rightarrow> nat \<Rightarrow> nat \<Rightarrow> bytes" where
  "slice data off n = take n (drop off data)"

definition point_bytes :: "PointCloud2 \<Rightarrow> CloudFields \<Rightarrow> nat \<Rightarrow> nat \<Rightarrow> bytes" where
  "point_bytes input fs row column =
     (let start = row * cloud_rs input + column * cloud_ps input;
          field = (\<lambda>f. slice (pc_data input) (start + unat (pf_offset f)))
      in field (x_field fs) 4 @ field (y_field fs) 4 @ field (z_field fs) 4 @
         [normalize_intensity (float_of_bits (bits_of_bytes (field (intensity_field fs) 4))),
          kSingleStrongestReturn] @ field (ring_field fs) 2)"

definition filled :: "PointCloud2 \<Rightarrow> CloudFields \<Rightarrow> nat \<Rightarrow> bytes" where
  "filled input fs k =
     concat (map (\<lambda>i. point_bytes input fs (i div cloud_w input) (i mod cloud_w input)) [0..<k]) @
     replicate (16 * (cloud_h input * cloud_w input - k)) 0"

definition fields_inside :: "PointCloud2 \<Rightarrow> CloudFields \<Rightarrow> bool" where
  "fields_inside input fs \<longleftrightarrow>
     unat (pf_offset (x_field fs)) + 4 \<le> cloud_ps input \<and> unat (pf_offset (y_field fs)) + 4 \<le> cloud_ps input \<and>
     unat (pf_offset (z_field fs)) + 4 \<le> cloud_ps input \<and>
     unat (pf_offset (intensity_field fs)) + 4 \<le> cloud_ps input \<and>
     unat (pf_offset (ring_field fs)) + 2 \<le> cloud_ps input"

lemma point_inside:
  assumes "sizes_ok c" "row < cloud_h c" "column < cloud_w c" "k \<le> cloud_ps c"
  shows "row * cloud_rs c + column * cloud_ps c + k \<le> (cloud_h c - 1) * cloud_rs c + cloud_w c * cloud_ps c"
proof -
  have "column * cloud_ps c + k \<le> (column + 1) * cloud_ps c" using assms(4) by simp
  also have "\<dots> \<le> cloud_w c * cloud_ps c" by (rule mult_le_mono1) (use assms(3) in simp)
  finally have "column * cloud_ps c + k \<le> cloud_w c * cloud_ps c" .
  moreover have "row * cloud_rs c \<le> (cloud_h c - 1) * cloud_rs c"
    by (rule mult_le_mono1) (use assms(2) in simp)
  ultimately show ?thesis by linarith
qed

text \<open>No offset computed for a point wraps.\<close>

lemma unat_offset:
  assumes "row < 2 ^ 32" "column < 2 ^ 32" "row * unat a + column * unat b < 2 ^ 64"
  shows "unat (of_nat row * ucast (a :: u32) + of_nat column * ucast (b :: u32) :: u64) =
      row * unat a + column * unat b"
proof -
  have m: "unat (of_nat n * ucast (x :: u32) :: u64) = n * unat x" if "n < 2 ^ 32" for n x
  proof -
    have "n * unat x \<le> (2 ^ 32 - 1) * (2 ^ 32 - 1)" by (rule nat_mult_bound [OF that unat_u32_less])
    then show ?thesis using that by (simp add: unat_word_ariths unat_of_small)
  qed
  show ?thesis using m [OF assms(1), of a] m [OF assms(2), of b] assms(3) by (simp add: unat_add_small)
qed

lemma offset_bound:
  assumes "sizes_ok c" "row < cloud_h c"
  shows "(cloud_h c - 1) * cloud_rs c + cloud_w c * cloud_ps c < 2 ^ 64"
proof -
  have "(cloud_h c - 1) * cloud_rs c \<le> (2 ^ 32 - 2) * (2 ^ 32 - 1)"
    by (rule mult_le_mono) (use unat_u32_less [of "pc_height c"] unat_u32_less [of "row_step c"] in simp_all)
  moreover have "cloud_w c * cloud_ps c \<le> 2 ^ 32 - 1"
    using assms(1) unat_u32_less [of "row_step c"] by (simp add: sizes_ok_def)
  ultimately show ?thesis by simp
qed

lemma read_field:
  assumes "sizes_ok c" "row < cloud_h c" "column < cloud_w c" "unat off + k \<le> cloud_ps c"
  shows "read_mem (pc_data c)
      (of_nat row * ucast (row_step c) + of_nat column * ucast (point_step c) + ucast (off :: u32)) k =
    Some (slice (pc_data c) (row * cloud_rs c + column * cloud_ps c + unat off) k)"
proof -
  let ?o = "of_nat row * ucast (row_step c) + of_nat column * ucast (point_step c) :: u64"
  have small: "row < 2 ^ 32" "column < 2 ^ 32"
    using assms(2,3) unat_u32_less [of "pc_height c"] unat_u32_less [of "pc_width c"] by simp_all
  have i: "row * cloud_rs c + column * cloud_ps c + (unat off + k) \<le>
      (cloud_h c - 1) * cloud_rs c + cloud_w c * cloud_ps c"
    by (rule point_inside [OF assms])
  have bound: "row * cloud_rs c + column * cloud_ps c + unat off < 2 ^ 64"
    using i offset_bound [OF assms(1,2)] by linarith
  then have o: "unat ?o = row * cloud_rs c + column * cloud_ps c" by (intro unat_offset [OF small]) linarith
  then have "unat ?o + unat (ucast off :: u64) < 2 ^ 64" using bound by simp
  then have "unat (?o + ucast off) = row * cloud_rs c + column * cloud_ps c + unat off"
    by (subst unat_add_small) (simp_all only: o unat_up)
  moreover have "row * cloud_rs c + column * cloud_ps c + unat off + k \<le> length (pc_data c)"
    using i assms(1,2) by (simp add: sizes_ok_def)
  ultimately show ?thesis by (simp only: read_mem_def slice_def if_True)
qed

text \<open>Writing into the cell of a point.\<close>

lemma write_cell:
  assumes "unat off = length pre + j" "j + length src \<le> length cell"
  shows "write_mem off src (pre @ cell @ post) =
    Some (pre @ (take j cell @ src @ drop (j + length src) cell) @ post)"
  using assms by (simp add: write_mem_def)

lemma for_loop_inv:
  "(\<And>j. i \<le> j \<Longrightarrow> j < i + n \<Longrightarrow> step j (I j) = Some (I (Suc j))) \<Longrightarrow>
   for_loop step i n (I i) = Some (I (i + n))"
proof (induction n arbitrary: i)
  case (Suc n)
  have "step i (I i) = Some (I (Suc i))" using Suc.prems [of i] by simp
  moreover have "for_loop step (Suc i) n (I (Suc i)) = Some (I (Suc i + n))"
    by (rule Suc.IH) (use Suc.prems in simp)
  ultimately show ?case by simp
qed simp

lemma field_slice_length:
  assumes "sizes_ok c" "row < cloud_h c" "column < cloud_w c" "unat off + k \<le> cloud_ps c"
  shows "length (slice (pc_data c) (row * cloud_rs c + column * cloud_ps c + unat (off :: u32)) k) = k"
proof -
  have "row * cloud_rs c + column * cloud_ps c + unat off + k \<le> length (pc_data c)"
    using point_inside [OF assms] assms(1,2) by (simp add: sizes_ok_def)
  then show ?thesis by (simp add: slice_def)
qed

lemma concat_length: "(\<And>i. i < k \<Longrightarrow> length (f i) = 16) \<Longrightarrow> length (concat (map f [0..<k])) = 16 * k"
  by (induction k) simp_all

lemma point_bytes_length:
  assumes "sizes_ok c" "fields_inside c fs" "row < cloud_h c" "column < cloud_w c"
  shows "length (point_bytes c fs row column) = 16"
  using assms(2) field_slice_length [OF assms(1,3,4)]
  by (simp add: point_bytes_def Let_def fields_inside_def)

lemma index_cell: "column < (w :: nat) \<Longrightarrow> (row * w + column) div w = row \<and> (row * w + column) mod w = column"
  by simp

lemma index_less: "row < h \<Longrightarrow> column < w \<Longrightarrow> row * w + column < h * (w :: nat)"
proof -
  assume a: "row < h" "column < w"
  then have "row * w + column < (row + 1) * w" by simp
  also have "\<dots> \<le> h * w" by (rule mult_le_mono1) (use a in simp)
  finally show ?thesis .
qed

lemma filled_split:
  assumes "sizes_ok c" "fields_inside c fs" "k < cloud_h c * cloud_w c"
  obtains pre post where "filled c fs k = pre @ replicate 16 0 @ post" "length pre = 16 * k"
    "filled c fs (Suc k) = pre @ point_bytes c fs (k div cloud_w c) (k mod cloud_w c) @ post"
proof -
  let ?f = "\<lambda>i. point_bytes c fs (i div cloud_w c) (i mod cloud_w c)"
  let ?n = "cloud_h c * cloud_w c"
  have "length (?f i) = 16" if "i < k" for i
  proof (rule point_bytes_length [OF assms(1,2)])
    have "i < cloud_w c * cloud_h c" using that assms(3) by (simp add: mult.commute)
    then show "i div cloud_w c < cloud_h c" by (simp add: less_mult_imp_div_less mult.commute)
    show "i mod cloud_w c < cloud_w c" using assms(3) by (cases "cloud_w c = 0") simp_all
  qed
  then have len: "length (concat (map ?f [0..<k])) = 16 * k" by (rule concat_length)
  have "16 * (?n - k) = 16 + 16 * (?n - Suc k)" using assms(3) by simp
  then have "replicate (16 * (?n - k)) (0 :: u8) = replicate 16 0 @ replicate (16 * (?n - Suc k)) 0"
    by (simp only: replicate_add)
  then show ?thesis
    by (intro that [of "concat (map ?f [0..<k])" "replicate (16 * (?n - Suc k)) 0"])
      (simp_all add: filled_def len)
qed

lemma convert_point_filled:
  assumes ok: "sizes_ok c" "fields_inside c fs" and i: "row < cloud_h c" "column < cloud_w c"
    and ors: "unat ors = cloud_w c * 16"
  shows "convert_point c fs ors row column (filled c fs (row * cloud_w c + column)) =
    Some (filled c fs (Suc (row * cloud_w c + column)))"
proof -
  let ?k = "row * cloud_w c + column"
  let ?at = "row * cloud_rs c + column * cloud_ps c"
  let ?o = "of_nat row * ucast ors + of_nat column * ucast kOutputPointStep :: u64"
  obtain pre post where f: "filled c fs ?k = pre @ replicate 16 0 @ post" "length pre = 16 * ?k"
    "filled c fs (Suc ?k) = pre @ point_bytes c fs row column @ post"
    using filled_split [OF ok index_less [OF i]] index_cell [OF i(2)] by metis
  have small: "row < 2 ^ 32" "column < 2 ^ 32"
    using i unat_u32_less [of "pc_height c"] unat_u32_less [of "pc_width c"] by simp_all
  have "16 * ?k + 16 \<le> (2 ^ 32 - 1) * (2 ^ 32 - 1)"
  proof -
    have "16 * ?k + 16 \<le> cloud_h c * (cloud_w c * 16)"
      using index_less [OF i] by (simp add: algebra_simps)
    also have "\<dots> \<le> (2 ^ 32 - 1) * (2 ^ 32 - 1)"
      by (rule nat_mult_bound [OF unat_u32_less]) (use ok(1) in \<open>simp add: sizes_ok_def\<close>)
    finally show ?thesis .
  qed
  then have room: "16 * ?k + 16 < 2 ^ 64" by simp
  have step: "unat kOutputPointStep = 16" by (simp add: kOutputPointStep_def)
  have "unat ?o = row * unat ors + column * unat kOutputPointStep"
    by (rule unat_offset [OF small]) (use room in \<open>simp add: ors step algebra_simps\<close>)
  then have o: "unat ?o = 16 * ?k" by (simp add: ors step algebra_simps)
  have off: "unat (?o + d) = length pre + unat d" if "unat d < 16" for d
    using room that by (subst unat_add_small) (simp_all only: o f(2))
  have off0: "unat ?o = length pre + 0" using o f(2) by simp
  have off_numeral: "unat (?o + 4) = length pre + 4" "unat (?o + 8) = length pre + 8"
    "unat (?o + 12) = length pre + 12" "unat (?o + 13) = length pre + 13" "unat (?o + 14) = length pre + 14"
    using off [of 4] off [of 8] off [of 12] off [of 13] off [of 14] by simp_all
  let ?s = "\<lambda>f k. slice (pc_data c) (?at + unat (pf_offset f)) k"
  let ?x = "?s (x_field fs) 4" and ?y = "?s (y_field fs) 4" and ?z = "?s (z_field fs) 4"
    and ?i = "?s (intensity_field fs) 4" and ?r = "?s (ring_field fs) 2"
  have len: "length ?x = 4" "length ?y = 4" "length ?z = 4" "length ?r = 2"
    using ok(2) field_slice_length [OF ok(1) i] by (simp_all add: fields_inside_def)
  note reads = read_field [OF ok(1) i, of "pf_offset (x_field fs)" 4]
    read_field [OF ok(1) i, of "pf_offset (y_field fs)" 4] read_field [OF ok(1) i, of "pf_offset (z_field fs)" 4]
    read_field [OF ok(1) i, of "pf_offset (intensity_field fs)" 4]
    read_field [OF ok(1) i, of "pf_offset (ring_field fs)" 2]
  let ?n = "normalize_intensity (float_of_bits (bits_of_bytes ?i))"
  have zeros: "replicate 16 (0 :: u8) = replicate 12 0 @ replicate 4 0" "replicate 12 (0 :: u8) = replicate 4 0 @ replicate 8 0"
    by (simp_all only: replicate_add [symmetric]) simp_all
  have w: "write_mem ?o ?x (pre @ replicate 16 0 @ post) = Some (pre @ (?x @ replicate 12 0) @ post)"
    "write_mem (?o + 4) ?y (pre @ (?x @ replicate 12 0) @ post) = Some (pre @ (?x @ ?y @ replicate 8 0) @ post)"
    "write_mem (?o + 8) ?z (pre @ (?x @ ?y @ replicate 8 0) @ post) = Some (pre @ (?x @ ?y @ ?z @ replicate 4 0) @ post)"
    "write_mem (?o + 12) [?n] (pre @ (?x @ ?y @ ?z @ replicate 4 0) @ post) =
       Some (pre @ (?x @ ?y @ ?z @ [?n] @ replicate 3 0) @ post)"
    "write_mem (?o + 13) [kSingleStrongestReturn] (pre @ (?x @ ?y @ ?z @ [?n] @ replicate 3 0) @ post) =
       Some (pre @ (?x @ ?y @ ?z @ [?n, kSingleStrongestReturn] @ replicate 2 0) @ post)"
    "write_mem (?o + 14) ?r (pre @ (?x @ ?y @ ?z @ [?n, kSingleStrongestReturn] @ replicate 2 0) @ post) =
       Some (pre @ (?x @ ?y @ ?z @ [?n, kSingleStrongestReturn] @ ?r) @ post)"
    by (subst write_cell [OF off0]; simp add: len)
      (subst write_cell [OF off_numeral(1)] write_cell [OF off_numeral(2)] write_cell [OF off_numeral(3)]
        write_cell [OF off_numeral(4)] write_cell [OF off_numeral(5)]; simp add: len)+
  have "convert_point c fs ors row column (pre @ replicate 16 0 @ post) =
      Some (pre @ (?x @ ?y @ ?z @ [?n, kSingleStrongestReturn] @ ?r) @ post)"
    using ok(2) reads w by (simp only: convert_point_def Let_def fields_inside_def Option.bind.simps)
  then show ?thesis by (simp add: f(1,3) point_bytes_def Let_def)
qed

lemma convert_points_filled:
  assumes "sizes_ok c" "fields_inside c fs"
  shows "convert_points c fs (empty_output c) =
    Some ((empty_output c)\<lparr>pc_data := filled c fs (cloud_h c * cloud_w c)\<rparr>)"
proof -
  let ?ors = "row_step (empty_output c)"
  have w16: "cloud_w c * 16 < 2 ^ 32" using assms(1) by (simp add: sizes_ok_def)
  have "unat ?ors = take_bit 32 (unat (output_row_step c))"
    by (simp add: empty_output_def unsigned_ucast_eq)
  then have ors: "unat ?ors = cloud_w c * 16" using w16 by (simp add: unat_output_row take_bit_nat_eq_self)
  have row: "for_loop (convert_point c fs ?ors row) 0 (cloud_w c) (filled c fs (row * cloud_w c)) =
      Some (filled c fs (Suc row * cloud_w c))" if "row < cloud_h c" for row
  proof -
    let ?I = "\<lambda>j. filled c fs (row * cloud_w c + j)"
    have "for_loop (convert_point c fs ?ors row) 0 (cloud_w c) (?I 0) = Some (?I (0 + cloud_w c))"
      by (rule for_loop_inv) (simp only: convert_point_filled [OF assms that _ ors] add_Suc_right add_0)
    then show ?thesis by (simp only: add_0_right add_0 mult_Suc add.commute)
  qed
  have "for_loop (\<lambda>row. for_loop (convert_point c fs ?ors row) 0 (cloud_w c)) 0 (cloud_h c)
      (filled c fs (0 * cloud_w c)) = Some (filled c fs ((0 + cloud_h c) * cloud_w c))"
    by (rule for_loop_inv) (use row in simp)
  moreover have "cloud_h c * (cloud_w c * 16) = 16 * (cloud_h c * cloud_w c)" by simp
  then have "pc_data (empty_output c) = filled c fs 0"
    by (simp add: empty_output_def filled_def unat_output_size [OF w16])
  ultimately show ?thesis by (simp add: convert_points_def)
qed

section \<open>When a cloud is accepted\<close>

definition has_field :: "PointCloud2 \<Rightarrow> string \<Rightarrow> u8 \<Rightarrow> nat \<Rightarrow> PointField \<Rightarrow> bool" where
  "has_field c name datatype k f \<longleftrightarrow>
     find (\<lambda>candidate. pf_name candidate = name) (pc_fields c) = Some f \<and> pf_datatype f = datatype \<and>
     pf_count f = 1 \<and> unat (pf_offset f) + k \<le> cloud_ps c"

definition has_fields :: "PointCloud2 \<Rightarrow> CloudFields \<Rightarrow> bool" where
  "has_fields c fs \<longleftrightarrow>
     has_field c ''x'' FLOAT32 4 (x_field fs) \<and> has_field c ''y'' FLOAT32 4 (y_field fs) \<and>
     has_field c ''z'' FLOAT32 4 (z_field fs) \<and> has_field c ''intensity'' FLOAT32 4 (intensity_field fs) \<and>
     has_field c ''ring'' UINT16 2 (ring_field fs)"

text \<open>The converted cloud: all points in a row, sixteen bytes each.\<close>

definition converted_cloud :: "PointCloud2 \<Rightarrow> CloudFields \<Rightarrow> PointCloud2" where
  "converted_cloud c fs =
     \<lparr>pc_header = pc_header c, pc_height = pc_height c, pc_width = pc_width c, pc_fields = output_fields,
      is_bigendian = False, point_step = 16, row_step = pc_width c * 16,
      pc_data = concat (map (\<lambda>i. point_bytes c fs (i div cloud_w c) (i mod cloud_w c)) [0..<cloud_h c * cloud_w c]),
      is_dense = is_dense c\<rparr>"

lemma require_field_has: "k < 2 ^ 32 \<Longrightarrow> require_field c name datatype k = Inr f \<longleftrightarrow> has_field c name datatype k f"
  unfolding has_field_def by (rule require_field_Inr)

lemma require_fields_has: "require_fields c = Inr fs \<longleftrightarrow> has_fields c fs"
  by (cases fs) (auto simp: require_fields_def has_fields_def require_field_has [symmetric] split: sum.split)

lemma has_fields_unique: "has_fields c fs \<Longrightarrow> has_fields c fs' \<Longrightarrow> fs = fs'"
  by (simp add: require_fields_has [symmetric])

lemma has_fields_point_step: "has_fields c fs \<Longrightarrow> point_step c \<noteq> 0"
  by (auto simp: has_fields_def has_field_def)

lemma has_fields_inside: "has_fields c fs \<Longrightarrow> fields_inside c fs"
  by (simp add: has_fields_def has_field_def fields_inside_def)

lemma filled_all:
  "(empty_output c)\<lparr>pc_data := filled c fs (cloud_h c * cloud_w c)\<rparr> = converted_cloud c fs"
proof -
  have "ucast (output_row_step c) = pc_width c * 16"
    by (rule word_unat_eq_iff [THEN iffD2])
      (simp add: unsigned_ucast_eq unat_output_row unat_word_ariths take_bit_eq_mod)
  then show ?thesis by (simp add: empty_output_def converted_cloud_def filled_def kOutputPointStep_def)
qed

lemma convert_cases:
  "convert_c32_pointcloud c =
     Some (if is_bigendian c then Inl Big_endian
           else if point_step c = 0 \<and> pc_width c \<noteq> 0 \<and> pc_height c \<noteq> 0 then Inl Zero_point_step
           else case require_fields c of
             Inl e \<Rightarrow> Inl e
           | Inr fs \<Rightarrow> (case check_layout c of Some e \<Rightarrow> Inl e | None \<Rightarrow> Inr (converted_cloud c fs)))"
proof (cases "require_fields c")
  case (Inl e)
  then show ?thesis by (simp add: convert_c32_pointcloud_def)
next
  case (Inr fs)
  then have "fields_inside c fs" by (simp add: require_fields_has has_fields_inside)
  then have "convert_points c fs (empty_output c) = Some (converted_cloud c fs)" if "check_layout c = None"
    using that convert_points_filled by (simp add: check_layout_None filled_all)
  then show ?thesis using Inr by (simp add: convert_c32_pointcloud_def split: option.split)
qed

lemma convert_success:
  "convert_c32_pointcloud c = Some (Inr out) \<longleftrightarrow>
     \<not> is_bigendian c \<and> sizes_ok c \<and> (\<exists>fs. has_fields c fs \<and> out = converted_cloud c fs)"
proof (cases "require_fields c")
  case (Inl e)
  then have "\<not> has_fields c fs" for fs using require_fields_has [of c fs] by simp
  then show ?thesis using Inl by (simp add: convert_cases)
next
  case (Inr fs)
  then have h: "has_fields c fs" by (simp add: require_fields_has)
  then have "(\<exists>fs. has_fields c fs \<and> out = converted_cloud c fs) \<longleftrightarrow> out = converted_cloud c fs"
    using has_fields_unique by blast
  then show ?thesis
    using Inr has_fields_point_step [OF h] check_layout_None [of c]
    by (cases "check_layout c") (auto simp: convert_cases)
qed

text \<open>
  C16: The conversion of a point cloud succeeds for exactly the little-endian clouds that have the
  five fields at the expected types inside a point and whose data is long enough, and then it is
  the reference conversion: sixteen bytes per point in row order, the three coordinates bit for
  bit, the normalised intensity, the return type 1 and the ring number.
\<close>

theorem c32_conversion_correct:
  "convert_c32_pointcloud c = Some (Inr out) \<longleftrightarrow>
     \<not> is_bigendian c \<and> sizes_ok c \<and> (\<exists>fs. has_fields c fs \<and> out = converted_cloud c fs)"
  by (rule convert_success)

text \<open>The five fields in the order in which they are looked up, with their types and sizes.\<close>

definition required_fields :: "(string \<times> u8 \<times> nat) list" where
  "required_fields =
     [(''x'', FLOAT32, 4), (''y'', FLOAT32, 4), (''z'', FLOAT32, 4), (''intensity'', FLOAT32, 4), (''ring'', UINT16, 2)]"

text \<open>The field \<open>n\<close> is looked up, as the type \<open>t\<close> of \<open>k\<close> bytes, and those before it are in order.\<close>

definition reaches :: "PointCloud2 \<Rightarrow> string \<Rightarrow> u8 \<Rightarrow> nat \<Rightarrow> bool" where
  "reaches c n t k \<longleftrightarrow>
     (\<exists>before after. required_fields = before @ (n, t, k) # after \<and>
        (\<forall>(m, u, l)\<in>set before. \<exists>f. has_field c m u l f))"

definition first_named :: "PointCloud2 \<Rightarrow> string \<Rightarrow> PointField \<Rightarrow> bool" where
  "first_named c n f \<longleftrightarrow>
     (\<exists>i<length (pc_fields c). pc_fields c ! i = f \<and> pf_name f = n \<and> (\<forall>j<i. pf_name (pc_fields c ! j) \<noteq> n))"

fun lookup_all :: "PointCloud2 \<Rightarrow> (string \<times> u8 \<times> nat) list \<Rightarrow> c32_error option" where
  "lookup_all c [] = None"
| "lookup_all c ((n, t, k) # xs) =
     (case require_field c n t k of Inl e \<Rightarrow> Some e | Inr _ \<Rightarrow> lookup_all c xs)"

lemma require_fields_lookup: "require_fields c = Inl e \<longleftrightarrow> lookup_all c required_fields = Some e"
  by (auto simp: require_fields_def required_fields_def split: sum.split)

lemma lookup_all_Some:
  "lookup_all c xs = Some e \<longleftrightarrow>
     (\<exists>before n t k after. xs = before @ (n, t, k) # after \<and>
        (\<forall>(m, u, l)\<in>set before. \<exists>f. require_field c m u l = Inr f) \<and> require_field c n t k = Inl e)"
  (is "_ \<longleftrightarrow> ?first xs")
proof (induction xs)
  case (Cons x xs)
  obtain n t k where x: "x = (n, t, k)" by (cases x)
  show ?case
  proof
    assume first: "lookup_all c (x # xs) = Some e"
    show "?first (x # xs)"
    proof (cases "require_field c n t k")
      case (Inl e')
      then show ?thesis using first unfolding x by - (rule exI [of _ "[]"], simp)
    next
      case (Inr f)
      then obtain before m u l after where "xs = before @ (m, u, l) # after"
        "\<forall>(m, u, l)\<in>set before. \<exists>f. require_field c m u l = Inr f" "require_field c m u l = Inl e"
        using first Cons.IH unfolding x by auto
      then show ?thesis using Inr unfolding x by - (rule exI [of _ "(n, t, k) # before"], auto)
    qed
  next
    assume "?first (x # xs)"
    then show "lookup_all c (x # xs) = Some e"
      using Cons.IH unfolding x by (fastforce simp: Cons_eq_append_conv)
  qed
qed simp

lemma find_first_named: "find (\<lambda>f. pf_name f = n) (pc_fields c) = Some f \<longleftrightarrow> first_named c n f"
  by (auto simp: find_Some_iff first_named_def)

lemma require_field_Inl:
  assumes "k < 2 ^ 32"
  shows "require_field c n t k = Inl e \<longleftrightarrow>
     e = Missing_field n \<and> n \<notin> pf_name ` set (pc_fields c) \<or>
     (\<exists>f. first_named c n f \<and>
        (e = Incompatible_type n \<and> \<not> (pf_datatype f = t \<and> pf_count f = 1) \<or>
         e = Exceeds_point_step n \<and> pf_datatype f = t \<and> pf_count f = 1 \<and> cloud_ps c < unat (pf_offset f) + k))"
proof -
  have len: "unat (ucast (pf_offset f) + of_nat k :: u64) = unat (pf_offset f) + k" for f :: PointField
    using assms unat_u32_less [of "pf_offset f"] by (subst unat_add_small) (simp_all add: unat_of_small)
  show ?thesis
  proof (cases "find (\<lambda>f. pf_name f = n) (pc_fields c)")
    case None
    then have "\<not> first_named c n f" for f by (simp flip: find_first_named)
    moreover have "n \<notin> pf_name ` set (pc_fields c)" using None by (auto simp: find_None_iff)
    ultimately show ?thesis using None by (auto simp: require_field_def)
  next
    case (Some f)
    then have f: "first_named c n g \<longleftrightarrow> g = f" for g by (auto simp flip: find_first_named)
    have "n \<in> pf_name ` set (pc_fields c)"
      using Some unfolding find_Some_iff by (metis image_eqI nth_mem)
    then show ?thesis unfolding f using Some by (auto simp: require_field_def word_less_nat_alt len)
  qed
qed

lemma require_field_names:
  "require_field c n t k = Inl e \<Longrightarrow> e = Missing_field n \<or> e = Incompatible_type n \<or> e = Exceeds_point_step n"
  by (auto simp: require_field_def split: option.splits if_splits)

lemma required_sizes: "required_fields = before @ (n, t, k) # after \<Longrightarrow> k < 2 ^ 32"
proof -
  assume "required_fields = before @ (n, t, k) # after"
  then have "(n, t, k) \<in> set required_fields" by (metis in_set_conv_decomp)
  then show ?thesis by (auto simp: required_fields_def)
qed

lemma require_fields_Inl:
  "require_fields c = Inl e \<longleftrightarrow> (\<exists>n t k. reaches c n t k \<and> require_field c n t k = Inl e)"
proof -
  have "(\<exists>f. require_field c m u l = Inr f) \<longleftrightarrow> (\<exists>f. has_field c m u l f)"
    if "required_fields = before @ (n, t, k) # after" "(m, u, l) \<in> set before" for before n t k after m u l
  proof -
    have "(m, u, l) \<in> set required_fields" unfolding that(1) using that(2) by simp
    then have "l < 2 ^ 32" by (auto simp: required_fields_def)
    then show ?thesis by (simp add: require_field_has)
  qed
  then show ?thesis
    unfolding require_fields_lookup lookup_all_Some reaches_def by fast
qed

lemma check_layout_cases:
  "check_layout c =
     (if cloud_rs c < cloud_w c * cloud_ps c then Some Short_row
      else if cloud_h c \<noteq> 0 \<and> length (pc_data c) < (cloud_h c - 1) * cloud_rs c + cloud_w c * cloud_ps c
      then Some Short_data
      else if 2 ^ 32 \<le> cloud_w c * 16 then Some Layout_overflow
      else None)"
proof -
  have "\<not> 0xFFFFFFFFFFFFFFFF < output_data_size c"
    using unat_u64_less [of "output_data_size c"] by (simp add: word_less_nat_alt)
  moreover have "0xFFFFFFFF < output_row_step c \<longleftrightarrow> 2 ^ 32 \<le> cloud_w c * 16"
    by (simp add: word_less_nat_alt unat_output_row) linarith
  moreover have "ucast (row_step c) < minimum_input_row_step c \<longleftrightarrow> cloud_rs c < cloud_w c * cloud_ps c"
    by (simp add: word_less_nat_alt unat_minimum)
  ultimately show ?thesis using unat_required [of c] by (simp add: check_layout_def)
qed

lemma convert_layout_errors:
  "\<exists>r. convert_c32_pointcloud c = Some r \<and>
     (r = Inl Big_endian \<longleftrightarrow> is_bigendian c) \<and>
     (r = Inl Zero_point_step \<longleftrightarrow> \<not> is_bigendian c \<and> cloud_ps c = 0 \<and> cloud_w c * cloud_h c \<noteq> 0) \<and>
     (r = Inl Short_row \<longleftrightarrow>
        \<not> is_bigendian c \<and> (\<exists>fs. has_fields c fs) \<and> cloud_rs c < cloud_w c * cloud_ps c) \<and>
     (r = Inl Short_data \<longleftrightarrow>
        \<not> is_bigendian c \<and> (\<exists>fs. has_fields c fs) \<and> cloud_w c * cloud_ps c \<le> cloud_rs c \<and> cloud_h c \<noteq> 0 \<and>
        length (pc_data c) < (cloud_h c - 1) * cloud_rs c + cloud_w c * cloud_ps c) \<and>
     (r = Inl Layout_overflow \<longleftrightarrow>
        \<not> is_bigendian c \<and> (\<exists>fs. has_fields c fs) \<and> cloud_w c * cloud_ps c \<le> cloud_rs c \<and>
        (cloud_h c = 0 \<or> (cloud_h c - 1) * cloud_rs c + cloud_w c * cloud_ps c \<le> length (pc_data c)) \<and>
        2 ^ 32 \<le> cloud_w c * 16)"
proof (cases "require_fields c")
  case (Inl e)
  then have "\<not> has_fields c fs" for fs using require_fields_has [of c fs] by simp
  moreover obtain n where "e = Missing_field n \<or> e = Incompatible_type n \<or> e = Exceeds_point_step n"
    using Inl unfolding require_fields_Inl by (auto dest: require_field_names)
  ultimately show ?thesis using Inl by (auto simp: convert_cases unat_eq_0)
next
  case (Inr fs)
  then have h: "has_fields c fs" by (simp add: require_fields_has)
  then have "cloud_ps c \<noteq> 0" "\<exists>fs. has_fields c fs" using has_fields_point_step by (auto simp: unat_eq_0)
  then show ?thesis using Inr by (auto simp: convert_cases check_layout_cases unat_eq_0)
qed

text \<open>The fields are looked up in a little-endian cloud that does not have points of no bytes.\<close>

definition fields_searched :: "PointCloud2 \<Rightarrow> bool" where
  "fields_searched c \<longleftrightarrow> \<not> is_bigendian c \<and> (cloud_ps c \<noteq> 0 \<or> cloud_w c * cloud_h c = 0)"

lemma convert_field_error:
  assumes "convert_c32_pointcloud c = Some r" "e \<in> {Missing_field n, Incompatible_type n, Exceeds_point_step n}"
  shows "r = Inl e \<longleftrightarrow> fields_searched c \<and> (\<exists>t k. reaches c n t k \<and> require_field c n t k = Inl e)"
proof -
  have "r = Inl e \<longleftrightarrow> fields_searched c \<and> require_fields c = Inl e"
    using assms unfolding convert_cases fields_searched_def
    by (auto simp: check_layout_cases unat_eq_0 split: sum.splits if_splits)
  also have "\<dots> \<longleftrightarrow> fields_searched c \<and> (\<exists>t k. reaches c n t k \<and> require_field c n t k = Inl e)"
    unfolding require_fields_Inl using assms(2) by (auto dest: require_field_names)
  finally show ?thesis .
qed

lemma field_reasons:
  assumes "reaches c n t k"
  shows "require_field c n t k = Inl (Missing_field n) \<longleftrightarrow> n \<notin> pf_name ` set (pc_fields c)"
    "require_field c n t k = Inl (Incompatible_type n) \<longleftrightarrow>
       (\<exists>f. first_named c n f \<and> \<not> (pf_datatype f = t \<and> pf_count f = 1))"
    "require_field c n t k = Inl (Exceeds_point_step n) \<longleftrightarrow>
       (\<exists>f. first_named c n f \<and> pf_datatype f = t \<and> pf_count f = 1 \<and> cloud_ps c < unat (pf_offset f) + k)"
proof -
  have "k < 2 ^ 32" using assms required_sizes unfolding reaches_def by blast
  then show "require_field c n t k = Inl (Missing_field n) \<longleftrightarrow> n \<notin> pf_name ` set (pc_fields c)"
    "require_field c n t k = Inl (Incompatible_type n) \<longleftrightarrow>
       (\<exists>f. first_named c n f \<and> \<not> (pf_datatype f = t \<and> pf_count f = 1))"
    "require_field c n t k = Inl (Exceeds_point_step n) \<longleftrightarrow>
       (\<exists>f. first_named c n f \<and> pf_datatype f = t \<and> pf_count f = 1 \<and> cloud_ps c < unat (pf_offset f) + k)"
    unfolding require_field_Inl [OF \<open>k < 2 ^ 32\<close>] by auto
qed

text \<open>
  C40: The conversion never reads or writes outside the data of a cloud, whatever the sizes in the
  message, and it rejects a cloud for exactly the reasons that its eight exceptions name, in numbers that
  do not wrap: the fields are looked up in a fixed order, and the first that fails is the one
  named, as missing, of the wrong type or count, or beyond the point; then come the row, the
  data and the size of the output.
\<close>

theorem c32_conversion_errors:
  "\<exists>r. convert_c32_pointcloud c = Some r \<and>
     (r = Inl Big_endian \<longleftrightarrow> is_bigendian c) \<and>
     (r = Inl Zero_point_step \<longleftrightarrow> \<not> is_bigendian c \<and> cloud_ps c = 0 \<and> cloud_w c * cloud_h c \<noteq> 0) \<and>
     (r = Inl (Missing_field n) \<longleftrightarrow> fields_searched c \<and>
        (\<exists>t k. reaches c n t k \<and> n \<notin> pf_name ` set (pc_fields c))) \<and>
     (r = Inl (Incompatible_type n) \<longleftrightarrow> fields_searched c \<and>
        (\<exists>t k f. reaches c n t k \<and> first_named c n f \<and> \<not> (pf_datatype f = t \<and> pf_count f = 1))) \<and>
     (r = Inl (Exceeds_point_step n) \<longleftrightarrow> fields_searched c \<and>
        (\<exists>t k f. reaches c n t k \<and> first_named c n f \<and> pf_datatype f = t \<and> pf_count f = 1 \<and>
           cloud_ps c < unat (pf_offset f) + k)) \<and>
     (r = Inl Short_row \<longleftrightarrow>
        \<not> is_bigendian c \<and> (\<exists>fs. has_fields c fs) \<and> cloud_rs c < cloud_w c * cloud_ps c) \<and>
     (r = Inl Short_data \<longleftrightarrow>
        \<not> is_bigendian c \<and> (\<exists>fs. has_fields c fs) \<and> cloud_w c * cloud_ps c \<le> cloud_rs c \<and> cloud_h c \<noteq> 0 \<and>
        length (pc_data c) < (cloud_h c - 1) * cloud_rs c + cloud_w c * cloud_ps c) \<and>
     (r = Inl Layout_overflow \<longleftrightarrow>
        \<not> is_bigendian c \<and> (\<exists>fs. has_fields c fs) \<and> cloud_w c * cloud_ps c \<le> cloud_rs c \<and>
        (cloud_h c = 0 \<or> (cloud_h c - 1) * cloud_rs c + cloud_w c * cloud_ps c \<le> length (pc_data c)) \<and>
        2 ^ 32 \<le> cloud_w c * 16)"
proof -
  obtain r where r: "convert_c32_pointcloud c = Some r" using convert_layout_errors [of c] by blast
  note field = convert_field_error [OF r, of _ n]
  have "r = Inl (Missing_field n) \<longleftrightarrow> fields_searched c \<and>
      (\<exists>t k. reaches c n t k \<and> n \<notin> pf_name ` set (pc_fields c))"
    using field [of "Missing_field n"] field_reasons(1) [of c n] by simp metis
  moreover have "r = Inl (Incompatible_type n) \<longleftrightarrow> fields_searched c \<and>
      (\<exists>t k f. reaches c n t k \<and> first_named c n f \<and> \<not> (pf_datatype f = t \<and> pf_count f = 1))"
    using field [of "Incompatible_type n"] field_reasons(2) [of c n] by simp metis
  moreover have "r = Inl (Exceeds_point_step n) \<longleftrightarrow> fields_searched c \<and>
      (\<exists>t k f. reaches c n t k \<and> first_named c n f \<and> pf_datatype f = t \<and> pf_count f = 1 \<and>
         cloud_ps c < unat (pf_offset f) + k)"
    using field [of "Exceeds_point_step n"] field_reasons(3) [of c n] by simp metis
  ultimately show ?thesis using convert_layout_errors [of c] r by auto
qed

text \<open>A well-formed cloud: its rows are packed, its data is as long as its rows, its fields lie in a point.\<close>

definition field_size :: "PointField \<Rightarrow> nat" where
  "field_size f = (if pf_datatype f = FLOAT32 then 4 else if pf_datatype f = UINT16 then 2 else 1)"

definition well_formed_cloud :: "PointCloud2 \<Rightarrow> bool" where
  "well_formed_cloud c \<longleftrightarrow>
     cloud_rs c = cloud_w c * cloud_ps c \<and> length (pc_data c) = cloud_h c * cloud_rs c \<and>
     list_all (\<lambda>f. unat (pf_offset f) + field_size f \<le> cloud_ps c \<and> pf_count f = 1) (pc_fields c) \<and>
     distinct (map pf_name (pc_fields c)) \<and> \<not> is_bigendian c"

lemma output_fields_inside:
  "list_all (\<lambda>f. unat (pf_offset f) + field_size f \<le> 16 \<and> pf_count f = 1) output_fields"
  "distinct (map pf_name output_fields)"
  by (simp_all add: output_fields_def make_field_def field_size_def FLOAT32_def UINT16_def UINT8_def)

text \<open>
  C30: Every cloud that the adapter publishes is well-formed, with the header, the dimensions and the density flag
  of its input: packed rows of sixteen-byte points, data of exactly that length, and six
  distinct fields inside a point.
\<close>

theorem published_clouds_well_formed:
  assumes "on_cloud input = Some [output]"
  shows "well_formed_cloud output \<and> pc_header output = pc_header input \<and> pc_height output = pc_height input \<and>
    pc_width output = pc_width input \<and> is_dense output = is_dense input \<and> point_step output = 16"
proof -
  have "convert_c32_pointcloud input = Some (Inr output)"
    using assms by (cases "convert_c32_pointcloud input") (auto simp: on_cloud_def split: sum.splits)
  then obtain fs where ok: "sizes_ok input" "has_fields input fs" "output = converted_cloud input fs"
    by (auto simp: convert_success)
  have small: "cloud_w input * 16 < 2 ^ 32" using ok(1) by (simp add: sizes_ok_def)
  then have "unat (pc_width input * 16) = cloud_w input * 16" by (simp add: unat_word_ariths)
  moreover have "length (concat (map (\<lambda>i. point_bytes input fs (i div cloud_w input) (i mod cloud_w input))
      [0..<cloud_h input * cloud_w input])) = 16 * (cloud_h input * cloud_w input)"
  proof (rule concat_length, rule point_bytes_length [OF ok(1) has_fields_inside [OF ok(2)]])
    fix i assume i: "i < cloud_h input * cloud_w input"
    then show "i div cloud_w input < cloud_h input" by (simp add: less_mult_imp_div_less)
    show "i mod cloud_w input < cloud_w input" using i by (cases "cloud_w input = 0") simp_all
  qed
  ultimately show ?thesis
    using output_fields_inside by (simp add: ok(3) converted_cloud_def well_formed_cloud_def)
qed

text \<open>A cloud of one point.\<close>

definition demo_cloud :: PointCloud2 where
  "demo_cloud =
     \<lparr>pc_header = \<lparr>stamp_sec = 1, stamp_nanosec = 2, hdr_frame_id = ''lidar_top''\<rparr>, pc_height = 1, pc_width = 1,
      pc_fields = [make_field ''x'' 0 FLOAT32, make_field ''y'' 4 FLOAT32, make_field ''z'' 8 FLOAT32,
        make_field ''intensity'' 16 FLOAT32, make_field ''ring'' 20 UINT16],
      is_bigendian = False, point_step = 24, row_step = 24, pc_data = replicate 24 7, is_dense = True\<rparr>"

theorem published_clouds_well_formed_witness:
  "\<exists>output. on_cloud demo_cloud = Some [output] \<and> length (pc_data output) = 16 \<and> row_step output = 16"
proof -
  define fs where "fs = \<lparr>x_field = make_field ''x'' 0 FLOAT32, y_field = make_field ''y'' 4 FLOAT32,
     z_field = make_field ''z'' 8 FLOAT32, intensity_field = make_field ''intensity'' 16 FLOAT32,
     ring_field = make_field ''ring'' 20 UINT16\<rparr>"
  have "has_fields demo_cloud fs"
    by (simp add: has_fields_def has_field_def demo_cloud_def fs_def make_field_def)
  moreover have "sizes_ok demo_cloud" "\<not> is_bigendian demo_cloud" by (simp_all add: sizes_ok_def demo_cloud_def)
  ultimately have "convert_c32_pointcloud demo_cloud = Some (Inr (converted_cloud demo_cloud fs))"
    by (auto simp: convert_success)
  then have o: "on_cloud demo_cloud = Some [converted_cloud demo_cloud fs]" by (simp add: on_cloud_def)
  then have "length (pc_data (converted_cloud demo_cloud fs)) = 16"
    using published_clouds_well_formed [OF o]
    by (simp add: well_formed_cloud_def demo_cloud_def converted_cloud_def)
  then show ?thesis using o by (simp add: converted_cloud_def demo_cloud_def)
qed

end
