(* ===== verification/Rc_Imu.thy ===== *)
theory Rc_Imu
  imports Binary_Float
begin

text \<open>
  \<open>imu_qos_adapter_node.cpp\<close>: the node that republishes the IMU's messages with a usable covariance of the
  angular velocity. Doubles are binary64 values, the \<open>std::array\<close> of nine of them is a list, an
  exception is \<open>Inl\<close>. The quality-of-service settings and the log are left out.
\<close>

section \<open>State and messages\<close>

record ImuQosAdapterNode =
  fallback_angular_velocity_variance :: fp
  reported_covariance_fallback :: bool

record ImuMsg =
  imu_stamp_ns :: int
  imu_frame_id :: string
  imu_orientation :: "fp list"
  orientation_covariance :: "fp list"
  angular_velocity :: "fp list"
  angular_velocity_covariance :: "fp list"
  linear_acceleration :: "fp list"
  linear_acceleration_covariance :: "fp list"

datatype imu_error = Invalid_fallback_stddev | Non_finite_off_diagonal

section \<open>Operations\<close>

definition ImuQosAdapterNode_new :: "fp \<Rightarrow> imu_error + ImuQosAdapterNode" where
  "ImuQosAdapterNode_new fallback_stddev =
     (if \<not> isfinite fallback_stddev \<or> fallback_stddev \<le> Fin 0 then Inl Invalid_fallback_stddev
      else Inr \<lparr>fallback_angular_velocity_variance = fallback_stddev * fallback_stddev,
                reported_covariance_fallback = False\<rparr>)"

definition covariance_unavailable :: "fp list \<Rightarrow> bool" where
  "covariance_unavailable covariance \<longleftrightarrow>
     fp_eq (covariance ! 0) (Fin (- 1)) \<or> list_all (\<lambda>v. fp_eq v (Fin 0)) covariance"

definition floor_entry :: "fp \<Rightarrow> nat \<Rightarrow> fp list \<Rightarrow> fp list" where
  "floor_entry variance index covariance =
     (if \<not> isfinite (covariance ! index) \<or> covariance ! index \<le> Fin 0 then covariance[index := variance]
      else covariance)"

definition normalize_angular_velocity_covariance ::
  "ImuQosAdapterNode \<Rightarrow> fp list \<Rightarrow> imu_error + (ImuQosAdapterNode \<times> fp list)" where
  "normalize_angular_velocity_covariance n covariance =
     (let unavailable = covariance_unavailable covariance;
          filled = (if unavailable then replicate 9 (Fin 0) else covariance);
          floored = fold (floor_entry (fallback_angular_velocity_variance n)) [0, 4, 8] filled
      in if list_ex (\<lambda>v. \<not> isfinite v) floored then Inl Non_finite_off_diagonal
         else Inr (if unavailable \<and> \<not> reported_covariance_fallback n
                   then n\<lparr>reported_covariance_fallback := True\<rparr> else n, floored))"

text \<open>The subscription: the published message, or the exception that leaves the callback.\<close>

definition on_imu :: "ImuQosAdapterNode \<Rightarrow> ImuMsg \<Rightarrow> imu_error + (ImuQosAdapterNode \<times> ImuMsg)" where
  "on_imu n message =
     (case normalize_angular_velocity_covariance n (angular_velocity_covariance message) of
        Inl e \<Rightarrow> Inl e
      | Inr (n', covariance) \<Rightarrow> Inr (n', message\<lparr>angular_velocity_covariance := covariance\<rparr>))"

section \<open>The variance\<close>

lemma variance_positive:
  assumes "ImuQosAdapterNode_new stddev = Inr n" "Fin (2 powi (- 500)) \<le> stddev" "stddev \<le> Fin (2 powi 500)"
  obtains v where "fallback_angular_velocity_variance n = Fin v" "0 < v"
proof -
  obtain s where s: "stddev = Fin s" "2 powi (- 500) \<le> s" "s \<le> 2 powi 500"
    using assms by (cases stddev) (auto simp: ImuQosAdapterNode_new_def less_eq_fp_def fp_eq_def split: if_splits)
  have p: "d64 (2 powi e) = Fin (2 powi e)" if "- 1000 \<le> e" "e \<le> 1000" for e
  proof -
    have "(2 :: rat) powi e \<le> 2 powi 1000" using that by (intro power_int_increasing) auto
    also have "\<dots> \<le> d64_max" by (simp add: d64_max_def)
    finally show ?thesis using d64_exact [of 1 e] that by simp
  qed
  define lo hi :: rat where "lo = 2 powi (- 500)" and "hi = 2 powi 500"
  have e: "2 powi (- 1000) = lo * lo" "2 powi 1000 = hi * hi"
    by (simp_all add: lo_def hi_def flip: power_int_add)
  have "0 < lo" by (simp add: lo_def)
  moreover have "lo \<le> s" "s \<le> hi" using s(2,3) by (simp_all only: lo_def hi_def)
  ultimately have "2 powi (- 1000) \<le> s * s" "s * s \<le> 2 powi 1000"
    unfolding e by (intro mult_mono; linarith)+
  then obtain r where "d64 (s * s) = Fin r" "2 powi (- 1000) \<le> r"
    using d64_between [OF p p, of "- 1000" 1000] by auto
  moreover have "(0 :: rat) < 2 powi (- 1000)" by simp
  ultimately show ?thesis
    using assms(1) s(1) that [of r] by (auto simp: ImuQosAdapterNode_new_def split: if_splits)
qed

section \<open>The reference\<close>

definition usable_variance :: "fp \<Rightarrow> bool" where
  "usable_variance v \<longleftrightarrow> isfinite v \<and> Fin 0 < v"

definition diagonal_index :: "nat \<Rightarrow> bool" where
  "diagonal_index i \<longleftrightarrow> i = 0 \<or> i = 4 \<or> i = 8"

definition normalized_entry :: "fp \<Rightarrow> fp list \<Rightarrow> nat \<Rightarrow> fp" where
  "normalized_entry variance covariance i =
     (if covariance_unavailable covariance then (if diagonal_index i then variance else Fin 0)
      else if diagonal_index i \<and> \<not> usable_variance (covariance ! i) then variance
      else covariance ! i)"

lemma floor_entry_usable:
  "floor_entry v i c = c[i := if usable_variance (c ! i) then c ! i else v]"
proof -
  have "\<not> isfinite x \<or> x \<le> Fin 0 \<longleftrightarrow> \<not> usable_variance x" for x
    by (cases x) (auto simp: usable_variance_def)
  then show ?thesis by (simp add: floor_entry_def)
qed

lemma floored_entries:
  "fold (floor_entry v) [0, 4, 8] c =
    c[0 := if usable_variance (c ! 0) then c ! 0 else v, 4 := if usable_variance (c ! 4) then c ! 4 else v,
      8 := if usable_variance (c ! 8) then c ! 8 else v]"
  by (simp only: fold_simps floor_entry_usable) simp

lemma floored_reference:
  assumes "length c = 9"
  shows "fold (floor_entry v) [0, 4, 8] (if covariance_unavailable c then replicate 9 (Fin 0) else c) =
    map (normalized_entry v c) [0..<9]"
proof (rule nth_equalityI)
  fix i assume "i < length (fold (floor_entry v) [0, 4, 8]
    (if covariance_unavailable c then replicate 9 (Fin 0) else c))"
  then have "i < 9" unfolding floored_entries using assms by (simp split: if_splits)
  moreover have "\<not> usable_variance (Fin 0)" by (simp add: usable_variance_def)
  ultimately show "fold (floor_entry v) [0, 4, 8] (if covariance_unavailable c then replicate 9 (Fin 0) else c) ! i =
      map (normalized_entry v c) [0..<9] ! i"
    unfolding floored_entries using assms
    by (cases "covariance_unavailable c") (simp_all add: nth_list_update normalized_entry_def diagonal_index_def)
next
  show "length (fold (floor_entry v) [0, 4, 8] (if covariance_unavailable c then replicate 9 (Fin 0) else c)) =
      length (map (normalized_entry v c) [0..<9])"
    unfolding floored_entries using assms by simp
qed

lemma normalize_reference:
  assumes "length c = 9"
  shows "normalize_angular_velocity_covariance n c =
    (let out = map (normalized_entry (fallback_angular_velocity_variance n) c) [0..<9]
     in if list_all isfinite out
        then Inr (n\<lparr>reported_covariance_fallback := reported_covariance_fallback n \<or> covariance_unavailable c\<rparr>, out)
        else Inl Non_finite_off_diagonal)"
proof -
  define out where "out = map (normalized_entry (fallback_angular_velocity_variance n) c) [0..<9]"
  have "list_ex (\<lambda>v. \<not> isfinite v) out \<longleftrightarrow> \<not> list_all isfinite out"
    by (auto simp: list_ex_iff list_all_iff)
  then show ?thesis
    unfolding normalize_angular_velocity_covariance_def Let_def floored_reference [OF assms] out_def [symmetric]
    by (cases "reported_covariance_fallback n"; cases "covariance_unavailable c") simp_all
qed

lemma normalized_finite:
  assumes "isfinite v"
  shows "list_all isfinite (map (normalized_entry v c) [0..<9]) \<longleftrightarrow>
    covariance_unavailable c \<or> \<not> (\<exists>i. i < 9 \<and> \<not> diagonal_index i \<and> \<not> isfinite (c ! i))"
proof -
  have e: "isfinite (normalized_entry v c i) \<longleftrightarrow>
      covariance_unavailable c \<or> diagonal_index i \<or> isfinite (c ! i)" for i
    using assms by (simp add: normalized_entry_def usable_variance_def)
  have "list_all isfinite (map f [0..<k]) \<longleftrightarrow> \<not> (\<exists>i. i < k \<and> \<not> isfinite (f i))" for f k
    by (auto simp: list_all_iff)
  from this [of "normalized_entry v c" 9] show ?thesis unfolding e by blast
qed

text \<open>
  C24: With a fallback deviation from 2 to the power -500 to 2 to the power 500, the node publishes every message
  whose covariance is marked unavailable or has finite off-diagonal entries, with nine finite
  entries, a positive diagonal, the measured entries kept and everything else untouched; any other
  message raises the exception.
\<close>

theorem imu_messages_normalized:
  assumes "ImuQosAdapterNode_new stddev = Inr n" "Fin (2 powi (- 500)) \<le> stddev" "stddev \<le> Fin (2 powi 500)"
    and "length (angular_velocity_covariance m) = 9"
  shows "on_imu (n\<lparr>reported_covariance_fallback := b\<rparr>) m =
     (let c = angular_velocity_covariance m;
          out = map (normalized_entry (fallback_angular_velocity_variance n) c) [0..<9]
      in if covariance_unavailable c \<or> \<not> (\<exists>i. i < 9 \<and> \<not> diagonal_index i \<and> \<not> isfinite (c ! i))
         then Inr (n\<lparr>reported_covariance_fallback := b \<or> covariance_unavailable c\<rparr>,
                   m\<lparr>angular_velocity_covariance := out\<rparr>)
         else Inl Non_finite_off_diagonal) \<and>
     usable_variance (fallback_angular_velocity_variance n)"
proof -
  obtain v where v: "fallback_angular_velocity_variance n = Fin v" "0 < v"
    by (rule variance_positive [OF assms(1-3)])
  then show ?thesis
    unfolding on_imu_def normalize_reference [OF assms(4)] Let_def
    using normalized_finite [of "Fin v" "angular_velocity_covariance m"]
    by (simp add: usable_variance_def)
qed

definition demo_imu :: ImuMsg where
  "demo_imu =
     \<lparr>imu_stamp_ns = 7, imu_frame_id = ''imu'', imu_orientation = [], orientation_covariance = [],
      angular_velocity = [], angular_velocity_covariance = Fin (- 1) # replicate 8 NaN,
      linear_acceleration = [], linear_acceleration_covariance = []\<rparr>"

theorem imu_messages_normalized_witness:
  "on_imu \<lparr>fallback_angular_velocity_variance = Fin (1 / 16), reported_covariance_fallback = False\<rparr> demo_imu =
     Inr (\<lparr>fallback_angular_velocity_variance = Fin (1 / 16), reported_covariance_fallback = True\<rparr>,
       demo_imu\<lparr>angular_velocity_covariance :=
         [Fin (1 / 16), Fin 0, Fin 0, Fin 0, Fin (1 / 16), Fin 0, Fin 0, Fin 0, Fin (1 / 16)]\<rparr>)"
proof -
  let ?n = "\<lparr>fallback_angular_velocity_variance = Fin (1 / 16), reported_covariance_fallback = False\<rparr>"
  have "d64 (1 / 16) = Fin (1 / 16)" using d64_dyadic [of 1 4] by simp
  then have "ImuQosAdapterNode_new (Fin (1 / 4)) = Inr ?n" by (simp add: ImuQosAdapterNode_new_def)
  moreover have "(2 :: rat) powi (- 500) \<le> 2 powi (- 2)" by (rule power_int_increasing) simp_all
  then have "Fin (2 powi (- 500)) \<le> Fin (1 / 4)" by simp
  moreover have "(2 :: rat) powi 0 \<le> 2 powi 500" by (rule power_int_increasing) simp_all
  then have "Fin (1 / 4) \<le> Fin (2 powi 500)" by simp
  moreover have "length (angular_velocity_covariance demo_imu) = 9" by (simp add: demo_imu_def)
  ultimately have "on_imu (?n\<lparr>reported_covariance_fallback := False\<rparr>) demo_imu =
     (let c = angular_velocity_covariance demo_imu;
          out = map (normalized_entry (fallback_angular_velocity_variance ?n) c) [0..<9]
      in if covariance_unavailable c \<or> \<not> (\<exists>i. i < 9 \<and> \<not> diagonal_index i \<and> \<not> isfinite (c ! i))
         then Inr (?n\<lparr>reported_covariance_fallback := False \<or> covariance_unavailable c\<rparr>,
                   demo_imu\<lparr>angular_velocity_covariance := out\<rparr>)
         else Inl Non_finite_off_diagonal)"
    using imu_messages_normalized [of "Fin (1 / 4)" ?n demo_imu False] by blast
  moreover have "covariance_unavailable (angular_velocity_covariance demo_imu)"
    by (simp add: covariance_unavailable_def demo_imu_def)
  ultimately show ?thesis
    by (simp add: Let_def normalized_entry_def diagonal_index_def upt_rec)
qed

end
