(* ===== verification/Wd_Byte.thy ===== *)
theory Wd_Byte
  imports Prelude
begin

text \<open>
  The byte accessor of the Hooke2 stack (\<open>wd_byte/src/wd_byte/byte.cpp\<close>): reading and
  replacing a run of bits of one byte. \<open>Byte\<close> holds a pointer to the byte; here each operation
  takes the byte, last, and the ones that write return it. Positions and lengths are \<open>int32_t\<close>
  in the source and integers here (\<open>start_pos + length - 1\<close> does not overflow for the lengths
  of the protocol).

  The locale \<open>bit_field\<close> states what a user of one field may rely on, and is interpreted on
  the code's accessors for every run of bits that lies in a byte.
\<close>

section \<open>The code\<close>

definition BYTE_LENGTH :: int where "BYTE_LENGTH = 8"

definition RANG_MASK_1_L :: "u8 list" where
  "RANG_MASK_1_L = [0x01, 0x03, 0x07, 0x0F, 0x1F, 0x3F, 0x7F, 0xFF]"

definition RANG_MASK_0_L :: "u8 list" where
  "RANG_MASK_0_L = [0xFE, 0xFC, 0xF8, 0xF0, 0xE0, 0xC0, 0x80, 0x00]"

definition BIT_MASK_1 :: "u8 list" where
  "BIT_MASK_1 = [0x01, 0x02, 0x04, 0x08, 0x10, 0x20, 0x40, 0x80]"

definition BIT_MASK_0 :: "u8 list" where
  "BIT_MASK_0 = [0xFE, 0xFD, 0xFB, 0xF7, 0xEF, 0xDF, 0xBF, 0x7F]"

definition HEX :: string where "HEX = ''0123456789ABCDEF''"

definition byte_to_hex :: "u8 \<Rightarrow> string" where
  "byte_to_hex value = [HEX ! unat (drop_bit 4 value), HEX ! unat (value AND 0x0F)]"

text \<open>The 32-bit version; the global flag \<open>esd_can_extended_frame\<close> is an argument.\<close>

definition byte_to_hex32 :: "bool \<Rightarrow> u32 \<Rightarrow> string" where
  "byte_to_hex32 esd_can_extended_frame value =
     (if esd_can_extended_frame \<and> 65536 \<le> value
      then byte_to_hex (ucast (drop_bit 24 value AND 0xFF)) @ byte_to_hex (ucast (drop_bit 16 value AND 0xFF))
      else []) @
     byte_to_hex (ucast (drop_bit 8 value AND 0xFF)) @ byte_to_hex (ucast (value AND 0xFF))"

definition byte_to_binary :: "u8 \<Rightarrow> string" where
  "byte_to_binary value = map (\<lambda>i. if bit value i then CHR ''1'' else CHR ''0'') (rev [0..<8])"

definition set_bit_1 :: "int \<Rightarrow> u8 \<Rightarrow> u8" where
  "set_bit_1 pos b = (if 0 \<le> pos \<and> pos < BYTE_LENGTH then b OR BIT_MASK_1 ! nat pos else b)"

definition set_bit_0 :: "int \<Rightarrow> u8 \<Rightarrow> u8" where
  "set_bit_0 pos b = (if 0 \<le> pos \<and> pos < BYTE_LENGTH then b AND BIT_MASK_0 ! nat pos else b)"

definition is_bit_1 :: "int \<Rightarrow> u8 \<Rightarrow> bool" where
  "is_bit_1 pos b \<longleftrightarrow> 0 \<le> pos \<and> pos < BYTE_LENGTH \<and> drop_bit (nat pos) b mod 2 = 1"

definition set_value :: "u8 \<Rightarrow> int \<Rightarrow> int \<Rightarrow> u8 \<Rightarrow> u8" where
  "set_value value start_pos len b =
     (if start_pos > BYTE_LENGTH - 1 \<or> start_pos < 0 \<or> len < 1 then b
      else
        let end_pos = min (start_pos + len - 1) (BYTE_LENGTH - 1);
            real_len = end_pos + 1 - start_pos;
            current_value_low = (if 0 < start_pos then b AND RANG_MASK_1_L ! nat (start_pos - 1) else 0);
            current_value_high = b AND RANG_MASK_0_L ! nat end_pos;
            middle_value = value AND RANG_MASK_1_L ! nat (real_len - 1);
            middle_value = push_bit (nat start_pos) middle_value
        in current_value_high + middle_value + current_value_low)"

definition set_value_high_4_bits :: "u8 \<Rightarrow> u8 \<Rightarrow> u8" where
  "set_value_high_4_bits value b = set_value value 4 4 b"

definition set_value_low_4_bits :: "u8 \<Rightarrow> u8 \<Rightarrow> u8" where
  "set_value_low_4_bits value b = set_value value 0 4 b"

definition get_byte :: "int \<Rightarrow> int \<Rightarrow> u8 \<Rightarrow> u8" where
  "get_byte start_pos len b =
     (if start_pos > BYTE_LENGTH - 1 \<or> start_pos < 0 \<or> len < 1 then 0
      else
        let end_pos = min (start_pos + len - 1) (BYTE_LENGTH - 1);
            real_len = end_pos + 1 - start_pos
        in drop_bit (nat start_pos) b AND RANG_MASK_1_L ! nat (real_len - 1))"

definition get_byte_high_4_bits :: "u8 \<Rightarrow> u8" where
  "get_byte_high_4_bits b = get_byte 4 4 b"

definition get_byte_low_4_bits :: "u8 \<Rightarrow> u8" where
  "get_byte_low_4_bits b = get_byte 0 4 b"

section \<open>The tables are masks\<close>

lemma less_8_cases: "(n :: nat) < 8 \<longleftrightarrow> n \<in> {0, 1, 2, 3, 4, 5, 6, 7}"
  by auto

lemma range_mask_1: "n < 8 \<Longrightarrow> RANG_MASK_1_L ! n = mask (Suc n)"
  by (auto simp: less_8_cases RANG_MASK_1_L_def mask_eq_exp_minus_1)

lemma range_mask_0: "n < 8 \<Longrightarrow> RANG_MASK_0_L ! n = NOT (mask (Suc n))"
  by (auto simp: less_8_cases RANG_MASK_0_L_def mask_eq_exp_minus_1)

lemma bit_mask_1: "n < 8 \<Longrightarrow> BIT_MASK_1 ! n = push_bit n 1"
  by (auto simp: less_8_cases BIT_MASK_1_def push_bit_eq_mult)

lemma bit_mask_0: "n < 8 \<Longrightarrow> BIT_MASK_0 ! n = NOT (push_bit n 1)"
  by (auto simp: less_8_cases BIT_MASK_0_def push_bit_eq_mult)

text \<open>A field of the byte: the bits from \<open>s\<close> on, \<open>n\<close> of them.\<close>

definition field_ok :: "nat \<Rightarrow> nat \<Rightarrow> bool" where
  "field_ok s n \<longleftrightarrow> 1 \<le> n \<and> s + n \<le> 8"

lemma u8_eqI: "(\<And>i. i < 8 \<Longrightarrow> bit a i = bit b i) \<Longrightarrow> a = (b :: u8)"
  by (rule bit_word_eqI) simp

lemma get_byte_bits:
  assumes "field_ok s n"
  shows "get_byte (int s) (int n) b = drop_bit s b AND mask n"
proof -
  have "nat (int n - 1) = n - 1" "Suc (n - 1) = n" "n - 1 < 8" "int s + int n - 1 \<le> 7"
    using assms by (auto simp: field_ok_def)
  with assms range_mask_1 [of "n - 1"] show ?thesis
    by (simp add: get_byte_def BYTE_LENGTH_def field_ok_def Let_def)
qed

lemma set_value_bits:
  assumes "field_ok s n"
  shows "bit (set_value v (int s) (int n) b) i \<longleftrightarrow>
     (if s \<le> i \<and> i < s + n then bit v (i - s) else bit b i)"
proof -
  let ?low = "if 0 < s then b AND mask s else 0" and ?high = "b AND NOT (mask (s + n))"
    and ?mid = "push_bit s (v AND mask n)"
  have s: "s < 8" "n - 1 < 8" "s + n - 1 < 8" "1 \<le> n" using assms by (auto simp: field_ok_def)
  have ends: "min (int s + int n - 1) (BYTE_LENGTH - 1) = int (s + n - 1)"
    "int (s + n - 1) + 1 - int s = int n" "nat (int s - 1) = s - 1"
    "nat (int n - 1) = n - 1"
    using s by (auto simp: BYTE_LENGTH_def)
  have "set_value v (int s) (int n) b = ?high + ?mid + ?low"
    using s range_mask_1 [of "n - 1"] range_mask_1 [of "s - 1"] range_mask_0 [of "s + n - 1"]
    unfolding set_value_def Let_def ends nat_int by (simp add: BYTE_LENGTH_def)
  moreover have "?high + ?mid = ?high OR ?mid"
    by (rule disjunctive_add) (auto simp: bit_simps)
  moreover have "(?high OR ?mid) + ?low = (?high OR ?mid) OR ?low"
    by (rule disjunctive_add) (auto simp: bit_simps)
  ultimately have eq: "set_value v (int s) (int n) b = (?high OR ?mid) OR ?low" by simp
  show ?thesis
    unfolding eq using s by (auto simp: bit_simps dest: bit_imp_le_length)
qed

lemma get_byte_bit: "field_ok s n \<Longrightarrow> bit (get_byte (int s) (int n) b) i \<longleftrightarrow> i < n \<and> bit b (s + i)"
  by (auto simp: get_byte_bits bit_simps field_ok_def dest: bit_imp_le_length)

section \<open>What a field promises\<close>

text \<open>
  The contract of one field of a container: writing then reading gives the value cut to the
  field's width, the last write wins, and writing back what was read changes nothing.
\<close>

locale bit_field =
  fixes get :: "'a \<Rightarrow> 'v" and put :: "'v \<Rightarrow> 'a \<Rightarrow> 'a" and clip :: "'v \<Rightarrow> 'v"
  assumes get_put: "get (put v a) = clip v"
    and put_put: "put v (put w a) = put v a"
    and put_get: "put (get a) a = a"
begin

lemma clip_get: "clip (get a) = get a"
  using get_put [of "get a" a] by (simp add: put_get)

lemma clip_clip: "clip (clip v) = clip v"
  using clip_get [of "put v a" for a] by (simp add: get_put)

lemma put_clip: "put (clip v) a = put v a"
  using put_get [of "put v a"] by (simp add: get_put put_put)

lemma put_eq_iff: "put v a = put w a \<longleftrightarrow> clip v = clip w"
  by (metis get_put put_clip)

lemma put_unchanged_iff: "put v a = a \<longleftrightarrow> clip v = get a"
  by (metis get_put put_clip put_get)

end

text \<open>Two fields of one container that do not meet.\<close>

locale disjoint_fields = f: bit_field get put clip + g: bit_field get' put' clip'
  for get :: "'a \<Rightarrow> 'v" and put :: "'v \<Rightarrow> 'a \<Rightarrow> 'a" and clip :: "'v \<Rightarrow> 'v"
    and get' :: "'a \<Rightarrow> 'w" and put' :: "'w \<Rightarrow> 'a \<Rightarrow> 'a" and clip' :: "'w \<Rightarrow> 'w" +
  assumes put_commute: "put v (put' w a) = put' w (put v a)"
begin

lemma get_put_other: "get (put' w a) = get a"
proof -
  have "get (put' w a) = get (put' w (put (get a) a))" by (simp add: f.put_get)
  also have "\<dots> = get (put (get a) (put' w a))" by (simp only: put_commute)
  also have "\<dots> = get a" by (simp add: f.get_put f.clip_get)
  finally show ?thesis .
qed

lemma get_put_other': "get' (put v a) = get' a"
proof -
  have "get' (put v a) = get' (put v (put' (get' a) a))" by (simp add: g.put_get)
  also have "\<dots> = get' (put' (get' a) (put v a))" by (simp only: put_commute)
  also have "\<dots> = get' a" by (simp add: g.get_put g.clip_get)
  finally show ?thesis .
qed

lemma get_both: "get (put v (put' w a)) = clip v \<and> get' (put v (put' w a)) = clip' w"
  by (simp add: f.get_put g.get_put get_put_other')

end

text \<open>Every run of bits of a byte is such a field, and runs that do not meet are disjoint.\<close>

locale byte_run =
  fixes s n :: nat
  assumes run_ok: "field_ok s n"

sublocale byte_run \<subseteq> bit_field "get_byte (int s) (int n)" "\<lambda>v. set_value v (int s) (int n)" "\<lambda>v. v AND mask n"
proof
  fix v w a
  show "get_byte (int s) (int n) (set_value v (int s) (int n) a) = v AND mask n"
    using run_ok
    by (intro u8_eqI) (auto simp: get_byte_bit set_value_bits bit_simps field_ok_def)
  show "set_value v (int s) (int n) (set_value w (int s) (int n) a) = set_value v (int s) (int n) a"
    using run_ok by (intro u8_eqI) (auto simp: set_value_bits)
  show "set_value (get_byte (int s) (int n) a) (int s) (int n) a = a"
    using run_ok by (intro u8_eqI) (auto simp: get_byte_bit set_value_bits field_ok_def)
qed

locale byte_runs = lo: byte_run s n + hi: byte_run t m for s n t m +
  assumes apart: "s + n \<le> t"

sublocale byte_runs \<subseteq> disjoint_fields "get_byte (int s) (int n)" "\<lambda>v. set_value v (int s) (int n)" "\<lambda>v. v AND mask n"
  "get_byte (int t) (int m)" "\<lambda>v. set_value v (int t) (int m)" "\<lambda>v. v AND mask m"
proof
  fix v w a
  show "set_value v (int s) (int n) (set_value w (int t) (int m) a) =
      set_value w (int t) (int m) (set_value v (int s) (int n) a)"
    using lo.run_ok hi.run_ok apart by (intro u8_eqI) (auto simp: set_value_bits)
qed

context byte_runs
begin

lemma both_read:
  "get_byte (int s) (int n) (set_value v (int s) (int n) (set_value w (int t) (int m) a)) = v AND mask n \<and>
   get_byte (int t) (int m) (set_value v (int s) (int n) (set_value w (int t) (int m) a)) = w AND mask m"
  by (rule get_both)

end

text \<open>The runs the Hooke2 frames use, and the nibbles.\<close>

interpretation bit0: byte_run 0 1 by unfold_locales (simp add: field_ok_def)
interpretation low2: byte_run 0 2 by unfold_locales (simp add: field_ok_def)
interpretation low3: byte_run 0 3 by unfold_locales (simp add: field_ok_def)
interpretation low4: byte_run 0 4 by unfold_locales (simp add: field_ok_def)
interpretation high2: byte_run 6 2 by unfold_locales (simp add: field_ok_def)
interpretation whole: byte_run 0 8 by unfold_locales (simp add: field_ok_def)
interpretation bits01: byte_runs 0 1 1 1 by unfold_locales (simp_all add: field_ok_def)
interpretation nibbles: byte_runs 0 4 4 4 by unfold_locales (simp_all add: field_ok_def)

lemma and_mask_8 [simp]: "(v :: u8) AND mask 8 = v"
  by (rule u8_eqI) (simp add: bit_simps)

lemmas field_simps_of_runs =
  bit0.get_put [simplified] low2.get_put [simplified] low3.get_put [simplified]
  high2.get_put [simplified] whole.get_put [simplified] bits01.get_both [simplified]

section \<open>Properties\<close>

text \<open>
  Writing a value into the run of bits that starts at \<open>s\<close> and has \<open>n\<close> of them changes
  exactly these bits, to the low bits of the value; everything else stays. A run that would
  reach past the byte is cut at its end, and an impossible position or length changes nothing.
\<close>

theorem set_value_spec:
  "bit (set_value v s n b) i \<longleftrightarrow>
     (if 0 \<le> s \<and> s < 8 \<and> 1 \<le> n \<and> nat s \<le> i \<and> i < 8 \<and> int i < s + n
      then bit v (i - nat s) else bit b i)"
proof (cases "0 \<le> s \<and> s < 8 \<and> 1 \<le> n")
  case False
  then show ?thesis by (auto simp: set_value_def BYTE_LENGTH_def)
next
  case True
  let ?n = "min n (8 - s)"
  have same: "set_value v s n b = set_value v s ?n b"
    using True by (simp add: set_value_def BYTE_LENGTH_def min_def)
  have s: "s = int (nat s)" and n: "?n = int (nat ?n)" using True by auto
  have ok: "field_ok (nat s) (nat ?n)" using True by (auto simp: field_ok_def)
  have "bit (set_value v s n b) i \<longleftrightarrow>
      (if nat s \<le> i \<and> i < nat s + nat ?n then bit v (i - nat s) else bit b i)"
    unfolding same using set_value_bits [OF ok, of v b i] s n by simp
  moreover have "nat s \<le> i \<and> i < nat s + nat ?n \<longleftrightarrow> nat s \<le> i \<and> i < 8 \<and> int i < s + n"
    using True by auto
  ultimately show ?thesis using True by simp
qed

text \<open>
  Two runs of one byte that do not meet are independent: after writing both, each is read
  back as the low bits of what was written to it, whatever the byte was.
\<close>

theorem set_get_independent:
  assumes "field_ok s n" "field_ok t m" "s + n \<le> t"
  shows "get_byte (int s) (int n) (set_value v (int s) (int n) (set_value w (int t) (int m) b)) = v AND mask n \<and>
     get_byte (int t) (int m) (set_value v (int s) (int n) (set_value w (int t) (int m) b)) = w AND mask m"
proof -
  have "byte_runs s n t m" using assms by (intro byte_runs.intro byte_run.intro byte_runs_axioms.intro)
  from byte_runs.both_read [OF this] show ?thesis .
qed

theorem set_get_independent_witness:
  "get_byte 0 1 (set_value 1 0 1 (set_value 0 1 1 0xFE)) = 1 \<and>
   get_byte 1 1 (set_value 1 0 1 (set_value 0 1 1 0xFE)) = 0"
  using set_get_independent [of 0 1 1 1 1 0 "0xFE"] by (simp add: field_ok_def)

text \<open>
  The operations on single bits: setting and clearing a bit change that bit only, testing
  reads it, and a position outside the byte is ignored by all three.
\<close>

theorem single_bit_operations:
  "(bit (set_bit_1 pos b) i \<longleftrightarrow> bit b i \<or> (0 \<le> pos \<and> pos < 8 \<and> i = nat pos)) \<and>
   (bit (set_bit_0 pos b) i \<longleftrightarrow> bit b i \<and> \<not> (0 \<le> pos \<and> pos < 8 \<and> i = nat pos)) \<and>
   (is_bit_1 pos b \<longleftrightarrow> 0 \<le> pos \<and> pos < 8 \<and> bit b (nat pos))"
proof -
  have odd: "drop_bit k b mod 2 = 1 \<longleftrightarrow> bit b k" for k
    by (metis bit_iff_odd_drop_bit odd_iff_mod_2_eq_one)
  show ?thesis
  proof (cases "0 \<le> pos \<and> pos < 8")
    case True
    then have k: "nat pos < 8" by (simp add: nat_less_iff)
    have one: "bit (2 ^ nat pos :: u8) j \<longleftrightarrow> j = nat pos" for j
      using k by (auto simp: bit_exp_iff)
    show ?thesis
      using True k by (simp add: set_bit_1_def set_bit_0_def is_bit_1_def BYTE_LENGTH_def odd one
          bit_mask_1 bit_mask_0 bit_or_iff bit_and_iff bit_not_iff) (auto dest: bit_imp_le_length)
  next
    case False
    then show ?thesis
      by (auto simp: set_bit_1_def set_bit_0_def is_bit_1_def BYTE_LENGTH_def)
  qed
qed

end
