(* ===== verification/Can_Protocol.thy ===== *)
theory Can_Protocol
  imports Binary_Float Wd_Byte "HOL-Library.Monad_Syntax"
begin

text \<open>
  The command frames \<open>0x100\<close> to \<open>0x105\<close> of the Hooke2 CAN protocol
  (\<open>hooke2_interface/src/common\<close> and \<open>include/common\<close>). Each class is a record of its
  members; \<open>Reset\<close> and the constructor give \<open>..._Reset\<close>, the chained setters
  \<open>set_...\<close> update one member, and \<open>UpdateData\<close> writes the members into the eight data bytes, one \<open>set_p_...\<close>
  function per signal. Converting a \<open>double\<close> to \<open>int\<close> is undefined for a NaN, which
  \<open>BoundedValue\<close> lets through: these functions then return \<open>None\<close>.
\<close>

section \<open>Protocol data\<close>

definition CANBUS_MESSAGE_LENGTH :: nat where "CANBUS_MESSAGE_LENGTH = 8"

definition BoundedValue :: "'a::ord \<Rightarrow> 'a \<Rightarrow> 'a \<Rightarrow> 'a" where
  "BoundedValue lower upper val =
     (if upper < lower then val else if val < lower then lower
      else if upper < val then upper else val)"

definition CalculateCheckSum :: "bytes \<Rightarrow> nat \<Rightarrow> u8" where
  "CalculateCheckSum input len = word_of_int (sum_list (map uint (take len input)) XOR 0xFF)"

text \<open>\<open>Byte to_set(data + k)\<close> followed by a write through it.\<close>

definition at_byte :: "nat \<Rightarrow> (u8 \<Rightarrow> u8) \<Rightarrow> bytes \<Rightarrow> bytes" where
  "at_byte k f data = data[k := f (data ! k)]"

lemma at_byte_nth [simp]:
  "k < length data \<Longrightarrow> at_byte k f data ! i = (if i = k then f (data ! k) else data ! i)"
  by (simp add: at_byte_def nth_list_update)

lemma at_byte_length [simp]: "length (at_byte k f data) = length data"
  by (simp add: at_byte_def)

section \<open>The throttle command 0x100\<close>

record Throttlecommand100 =
  vel_target :: fp
  throttle_acc :: fp
  checksum_100 :: int
  throttle_pedal_target :: fp
  throttle_en_ctrl :: u8

definition Throttlecommand100_ID :: u32 where "Throttlecommand100_ID = 0x100"

definition Throttlecommand100_GetPeriod :: u32 where "Throttlecommand100_GetPeriod = 20 * 1000"

definition Throttlecommand100_Reset :: Throttlecommand100 where
  "Throttlecommand100_Reset =
     \<lparr>vel_target = Fin 0, throttle_acc = Fin 0, checksum_100 = 0, throttle_pedal_target = Fin 0,
      throttle_en_ctrl = 0\<rparr>"

definition set_vel_target :: "fp \<Rightarrow> Throttlecommand100 \<Rightarrow> Throttlecommand100" where
  "set_vel_target v c = c\<lparr>vel_target := v\<rparr>"

definition set_throttle_acc :: "fp \<Rightarrow> Throttlecommand100 \<Rightarrow> Throttlecommand100" where
  "set_throttle_acc v c = c\<lparr>throttle_acc := v\<rparr>"

definition set_checksum_100 :: "int \<Rightarrow> Throttlecommand100 \<Rightarrow> Throttlecommand100" where
  "set_checksum_100 v c = c\<lparr>checksum_100 := v\<rparr>"

definition set_throttle_pedal_target :: "fp \<Rightarrow> Throttlecommand100 \<Rightarrow> Throttlecommand100" where
  "set_throttle_pedal_target v c = c\<lparr>throttle_pedal_target := v\<rparr>"

definition set_throttle_en_ctrl :: "u8 \<Rightarrow> Throttlecommand100 \<Rightarrow> Throttlecommand100" where
  "set_throttle_en_ctrl v c = c\<lparr>throttle_en_ctrl := v\<rparr>"

definition set_p_vel_target :: "fp \<Rightarrow> bytes \<Rightarrow> bytes option" where
  "set_p_vel_target v data =
     (let v = BoundedValue (Fin 0) (d64 (1023 / 100)) (v / Fin 4) in do {
        x \<leftarrow> fp_to_i32 (v / d64 (1 / 100));
        let t = word_of_int x AND 0x3;
        let data = at_byte 6 (set_value t 6 2) data;
        let x = drop_bit 2 x;
        let t = word_of_int x AND 0xFF;
        Some (at_byte 5 (set_value t 0 8) data)
      })"

definition set_p_throttle_acc :: "fp \<Rightarrow> bytes \<Rightarrow> bytes option" where
  "set_p_throttle_acc v data =
     (let v = BoundedValue (Fin 0) (Fin 10) v in do {
        x \<leftarrow> fp_to_i32 (v / d64 (1 / 100));
        let t = word_of_int x AND 0x3;
        let data = at_byte 2 (set_value t 6 2) data;
        let x = drop_bit 2 x;
        let t = word_of_int x AND 0xFF;
        Some (at_byte 1 (set_value t 0 8) data)
      })"

definition set_p_checksum_100 :: "int \<Rightarrow> bytes \<Rightarrow> bytes" where
  "set_p_checksum_100 v data = at_byte 7 (set_value (word_of_int (BoundedValue 0 255 v)) 0 8) data"

definition set_p_throttle_pedal_target :: "fp \<Rightarrow> bytes \<Rightarrow> bytes option" where
  "set_p_throttle_pedal_target v data =
     (let v = BoundedValue (Fin 0) (Fin 100) v in do {
        x \<leftarrow> fp_to_i32 (v / d64 (1 / 10));
        let t = word_of_int x AND 0xFF;
        let data = at_byte 4 (set_value t 0 8) data;
        let x = drop_bit 8 x;
        let t = word_of_int x AND 0xFF;
        Some (at_byte 3 (set_value t 0 8) data)
      })"

definition set_p_throttle_en_ctrl :: "u8 \<Rightarrow> bytes \<Rightarrow> bytes" where
  "set_p_throttle_en_ctrl v data = at_byte 0 (set_value v 0 1) data"

definition Throttlecommand100_UpdateData :: "Throttlecommand100 \<Rightarrow> bytes \<Rightarrow> bytes option" where
  "Throttlecommand100_UpdateData c data = do {
     let data = set_p_throttle_en_ctrl (throttle_en_ctrl c) data;
     data \<leftarrow> set_p_vel_target (vel_target c) data;
     data \<leftarrow> set_p_throttle_acc (throttle_acc c) data;
     data \<leftarrow> set_p_throttle_pedal_target (throttle_pedal_target c) data;
     Some (set_p_checksum_100 (checksum_100 c) data)
   }"

section \<open>The brake command 0x101\<close>

record Brakecommand101 =
  aeb_en_ctrl :: u8
  brake_dec :: fp
  checksum_101 :: int
  brake_pedal_target :: fp
  brake_en_ctrl :: u8

definition Brakecommand101_ID :: u32 where "Brakecommand101_ID = 0x101"

definition Brakecommand101_GetPeriod :: u32 where "Brakecommand101_GetPeriod = 20 * 1000"

definition Brakecommand101_Reset :: Brakecommand101 where
  "Brakecommand101_Reset =
     \<lparr>aeb_en_ctrl = 0, brake_dec = Fin 0, checksum_101 = 0, brake_pedal_target = Fin 0,
      brake_en_ctrl = 0\<rparr>"

definition set_aeb_en_ctrl :: "u8 \<Rightarrow> Brakecommand101 \<Rightarrow> Brakecommand101" where
  "set_aeb_en_ctrl v c = c\<lparr>aeb_en_ctrl := v\<rparr>"

definition set_brake_dec :: "fp \<Rightarrow> Brakecommand101 \<Rightarrow> Brakecommand101" where
  "set_brake_dec v c = c\<lparr>brake_dec := v\<rparr>"

definition set_checksum_101 :: "int \<Rightarrow> Brakecommand101 \<Rightarrow> Brakecommand101" where
  "set_checksum_101 v c = c\<lparr>checksum_101 := v\<rparr>"

definition set_brake_pedal_target :: "fp \<Rightarrow> Brakecommand101 \<Rightarrow> Brakecommand101" where
  "set_brake_pedal_target v c = c\<lparr>brake_pedal_target := v\<rparr>"

definition set_brake_en_ctrl :: "u8 \<Rightarrow> Brakecommand101 \<Rightarrow> Brakecommand101" where
  "set_brake_en_ctrl v c = c\<lparr>brake_en_ctrl := v\<rparr>"

definition set_p_aeb_en_ctrl :: "u8 \<Rightarrow> bytes \<Rightarrow> bytes" where
  "set_p_aeb_en_ctrl v data = at_byte 0 (set_value v 1 1) data"

definition set_p_brake_dec :: "fp \<Rightarrow> bytes \<Rightarrow> bytes option" where
  "set_p_brake_dec v data =
     (let v = BoundedValue (Fin 1) (Fin 10) v in do {
        x \<leftarrow> fp_to_i32 (v / d64 (1 / 100));
        let t = word_of_int x AND 0x3;
        let data = at_byte 2 (set_value t 6 2) data;
        let x = drop_bit 2 x;
        let t = word_of_int x AND 0xFF;
        Some (at_byte 1 (set_value t 0 8) data)
      })"

definition set_p_checksum_101 :: "int \<Rightarrow> bytes \<Rightarrow> bytes" where
  "set_p_checksum_101 v data = at_byte 7 (set_value (word_of_int (BoundedValue 0 255 v)) 0 8) data"

definition set_p_brake_pedal_target :: "fp \<Rightarrow> bytes \<Rightarrow> bytes option" where
  "set_p_brake_pedal_target v data =
     (let v = BoundedValue (Fin 0) (Fin 100) v in do {
        x \<leftarrow> fp_to_i32 (v / d64 (1 / 10));
        let t = word_of_int x AND 0xFF;
        let data = at_byte 4 (set_value t 0 8) data;
        let x = drop_bit 8 x;
        let t = word_of_int x AND 0xFF;
        Some (at_byte 3 (set_value t 0 8) data)
      })"

definition set_p_brake_en_ctrl :: "u8 \<Rightarrow> bytes \<Rightarrow> bytes" where
  "set_p_brake_en_ctrl v data = at_byte 0 (set_value v 0 1) data"

definition Brakecommand101_UpdateData :: "Brakecommand101 \<Rightarrow> bytes \<Rightarrow> bytes option" where
  "Brakecommand101_UpdateData c data = do {
     let data = set_p_aeb_en_ctrl (aeb_en_ctrl c) data;
     data \<leftarrow> set_p_brake_dec (brake_dec c) data;
     data \<leftarrow> set_p_brake_pedal_target (brake_pedal_target c) data;
     let data = set_p_brake_en_ctrl (brake_en_ctrl c) data;
     let data = set_p_checksum_101 (checksum_101 c) data;
     Some (set_p_checksum_101 (checksum_101 c) data)
   }"

section \<open>The steering command 0x102\<close>

record Steeringcommand102 =
  steer_en_ctrl :: u8
  steer_angle_target :: int
  steer_angle_spd :: int
  checksum_102 :: int

definition Steeringcommand102_ID :: u32 where "Steeringcommand102_ID = 0x102"

definition Steeringcommand102_GetPeriod :: u32 where "Steeringcommand102_GetPeriod = 20 * 1000"

definition Steeringcommand102_Reset :: Steeringcommand102 where
  "Steeringcommand102_Reset =
     \<lparr>steer_en_ctrl = 0, steer_angle_target = 0, steer_angle_spd = 0, checksum_102 = 0\<rparr>"

definition set_steer_en_ctrl :: "u8 \<Rightarrow> Steeringcommand102 \<Rightarrow> Steeringcommand102" where
  "set_steer_en_ctrl v c = c\<lparr>steer_en_ctrl := v\<rparr>"

definition set_steer_angle_target :: "int \<Rightarrow> Steeringcommand102 \<Rightarrow> Steeringcommand102" where
  "set_steer_angle_target v c = c\<lparr>steer_angle_target := v\<rparr>"

definition set_steer_angle_spd :: "int \<Rightarrow> Steeringcommand102 \<Rightarrow> Steeringcommand102" where
  "set_steer_angle_spd v c = c\<lparr>steer_angle_spd := v\<rparr>"

definition set_checksum_102 :: "int \<Rightarrow> Steeringcommand102 \<Rightarrow> Steeringcommand102" where
  "set_checksum_102 v c = c\<lparr>checksum_102 := v\<rparr>"

definition set_p_steer_en_ctrl :: "u8 \<Rightarrow> bytes \<Rightarrow> bytes" where
  "set_p_steer_en_ctrl v data = at_byte 0 (set_value v 0 1) data"

definition set_p_steer_angle_target :: "int \<Rightarrow> bytes \<Rightarrow> bytes option" where
  "set_p_steer_angle_target v data =
     (let v = BoundedValue (- 440) 440 v in do {
        x \<leftarrow> fp_to_i32 (d64_of_int v - Fin (- 500));
        let t = word_of_int x AND 0xFF;
        let data = at_byte 4 (set_value t 0 8) data;
        let x = drop_bit 8 x;
        let t = word_of_int x AND 0xFF;
        Some (at_byte 3 (set_value t 0 8) data)
      })"

definition set_p_steer_angle_spd :: "int \<Rightarrow> bytes \<Rightarrow> bytes" where
  "set_p_steer_angle_spd v data = at_byte 1 (set_value (word_of_int (BoundedValue 0 250 v)) 0 8) data"

definition set_p_checksum_102 :: "int \<Rightarrow> bytes \<Rightarrow> bytes" where
  "set_p_checksum_102 v data = at_byte 7 (set_value (word_of_int (BoundedValue 0 255 v)) 0 8) data"

definition Steeringcommand102_UpdateData :: "Steeringcommand102 \<Rightarrow> bytes \<Rightarrow> bytes option" where
  "Steeringcommand102_UpdateData c data = do {
     let data = set_p_steer_en_ctrl (steer_en_ctrl c) data;
     data \<leftarrow> set_p_steer_angle_target (steer_angle_target c) data;
     let data = set_p_steer_angle_spd (steer_angle_spd c) data;
     Some (set_p_checksum_102 (checksum_102 c) data)
   }"

section \<open>The gear command 0x103\<close>

record Gearcommand103 =
  gear_target :: u8
  gear_en_ctrl :: u8
  checksum_103 :: int

definition Gearcommand103_ID :: u32 where "Gearcommand103_ID = 0x103"

definition Gearcommand103_GetPeriod :: u32 where "Gearcommand103_GetPeriod = 20 * 1000"

definition Gearcommand103_Reset :: Gearcommand103 where
  "Gearcommand103_Reset = \<lparr>gear_target = 0, gear_en_ctrl = 0, checksum_103 = 0\<rparr>"

definition set_gear_target :: "u8 \<Rightarrow> Gearcommand103 \<Rightarrow> Gearcommand103" where
  "set_gear_target v c = c\<lparr>gear_target := v\<rparr>"

definition set_gear_en_ctrl :: "u8 \<Rightarrow> Gearcommand103 \<Rightarrow> Gearcommand103" where
  "set_gear_en_ctrl v c = c\<lparr>gear_en_ctrl := v\<rparr>"

definition set_checksum_103 :: "int \<Rightarrow> Gearcommand103 \<Rightarrow> Gearcommand103" where
  "set_checksum_103 v c = c\<lparr>checksum_103 := v\<rparr>"

definition set_p_gear_target :: "u8 \<Rightarrow> bytes \<Rightarrow> bytes" where
  "set_p_gear_target v data = at_byte 1 (set_value v 0 3) data"

definition set_p_gear_en_ctrl :: "u8 \<Rightarrow> bytes \<Rightarrow> bytes" where
  "set_p_gear_en_ctrl v data = at_byte 0 (set_value v 0 1) data"

definition set_p_checksum_103 :: "int \<Rightarrow> bytes \<Rightarrow> bytes" where
  "set_p_checksum_103 v data = at_byte 7 (set_value (word_of_int (BoundedValue 0 255 v)) 0 8) data"

definition Gearcommand103_UpdateData :: "Gearcommand103 \<Rightarrow> bytes \<Rightarrow> bytes" where
  "Gearcommand103_UpdateData c data =
     (let data = set_p_gear_target (gear_target c) data;
          data = set_p_gear_en_ctrl (gear_en_ctrl c) data
      in set_p_checksum_103 (checksum_103 c) data)"

section \<open>The park command 0x104\<close>

record Parkcommand104 =
  checksum_104 :: int
  park_target :: u8
  park_en_ctrl :: u8

definition Parkcommand104_ID :: u32 where "Parkcommand104_ID = 0x104"

definition Parkcommand104_GetPeriod :: u32 where "Parkcommand104_GetPeriod = 20 * 1000"

definition Parkcommand104_Reset :: Parkcommand104 where
  "Parkcommand104_Reset = \<lparr>checksum_104 = 0, park_target = 0, park_en_ctrl = 0\<rparr>"

definition set_checksum_104 :: "int \<Rightarrow> Parkcommand104 \<Rightarrow> Parkcommand104" where
  "set_checksum_104 v c = c\<lparr>checksum_104 := v\<rparr>"

definition set_park_target :: "u8 \<Rightarrow> Parkcommand104 \<Rightarrow> Parkcommand104" where
  "set_park_target v c = c\<lparr>park_target := v\<rparr>"

definition set_park_en_ctrl :: "u8 \<Rightarrow> Parkcommand104 \<Rightarrow> Parkcommand104" where
  "set_park_en_ctrl v c = c\<lparr>park_en_ctrl := v\<rparr>"

definition set_p_checksum_104 :: "int \<Rightarrow> bytes \<Rightarrow> bytes" where
  "set_p_checksum_104 v data = at_byte 7 (set_value (word_of_int (BoundedValue 0 255 v)) 0 8) data"

definition set_p_park_target :: "u8 \<Rightarrow> bytes \<Rightarrow> bytes" where
  "set_p_park_target v data = at_byte 1 (set_value v 0 1) data"

definition set_p_park_en_ctrl :: "u8 \<Rightarrow> bytes \<Rightarrow> bytes" where
  "set_p_park_en_ctrl v data = at_byte 0 (set_value v 0 1) data"

definition Parkcommand104_UpdateData :: "Parkcommand104 \<Rightarrow> bytes \<Rightarrow> bytes" where
  "Parkcommand104_UpdateData c data =
     (let data = set_p_park_target (park_target c) data;
          data = set_p_park_en_ctrl (park_en_ctrl c) data
      in set_p_checksum_104 (checksum_104 c) data)"

section \<open>The vehicle mode command 0x105\<close>

record Vehiclemodecommand105 =
  checksum_105 :: int
  turn_light_ctrl :: u8
  vin_req :: u8
  drive_mode_ctrl :: u8
  steer_mode_ctrl :: u8

definition Vehiclemodecommand105_ID :: u32 where "Vehiclemodecommand105_ID = 0x105"

definition Vehiclemodecommand105_GetPeriod :: u32 where "Vehiclemodecommand105_GetPeriod = 20 * 1000"

definition Vehiclemodecommand105_Reset :: Vehiclemodecommand105 where
  "Vehiclemodecommand105_Reset =
     \<lparr>checksum_105 = 0, turn_light_ctrl = 0, vin_req = 0, drive_mode_ctrl = 0, steer_mode_ctrl = 0\<rparr>"

definition set_checksum_105 :: "int \<Rightarrow> Vehiclemodecommand105 \<Rightarrow> Vehiclemodecommand105" where
  "set_checksum_105 v c = c\<lparr>checksum_105 := v\<rparr>"

definition set_turn_light_ctrl :: "u8 \<Rightarrow> Vehiclemodecommand105 \<Rightarrow> Vehiclemodecommand105" where
  "set_turn_light_ctrl v c = c\<lparr>turn_light_ctrl := v\<rparr>"

definition set_vin_req :: "u8 \<Rightarrow> Vehiclemodecommand105 \<Rightarrow> Vehiclemodecommand105" where
  "set_vin_req v c = c\<lparr>vin_req := v\<rparr>"

definition set_drive_mode_ctrl :: "u8 \<Rightarrow> Vehiclemodecommand105 \<Rightarrow> Vehiclemodecommand105" where
  "set_drive_mode_ctrl v c = c\<lparr>drive_mode_ctrl := v\<rparr>"

definition set_steer_mode_ctrl :: "u8 \<Rightarrow> Vehiclemodecommand105 \<Rightarrow> Vehiclemodecommand105" where
  "set_steer_mode_ctrl v c = c\<lparr>steer_mode_ctrl := v\<rparr>"

definition set_p_checksum_105 :: "int \<Rightarrow> bytes \<Rightarrow> bytes" where
  "set_p_checksum_105 v data = at_byte 7 (set_value (word_of_int (BoundedValue 0 255 v)) 0 8) data"

definition set_p_turn_light_ctrl :: "u8 \<Rightarrow> bytes \<Rightarrow> bytes" where
  "set_p_turn_light_ctrl v data = at_byte 2 (set_value v 0 2) data"

definition set_p_vin_req :: "u8 \<Rightarrow> bytes \<Rightarrow> bytes" where
  "set_p_vin_req v data = at_byte 3 (set_value v 0 1) data"

definition set_p_drive_mode_ctrl :: "u8 \<Rightarrow> bytes \<Rightarrow> bytes" where
  "set_p_drive_mode_ctrl v data = at_byte 1 (set_value v 0 3) data"

definition set_p_steer_mode_ctrl :: "u8 \<Rightarrow> bytes \<Rightarrow> bytes" where
  "set_p_steer_mode_ctrl v data = at_byte 0 (set_value v 0 3) data"

definition Vehiclemodecommand105_UpdateData :: "Vehiclemodecommand105 \<Rightarrow> bytes \<Rightarrow> bytes" where
  "Vehiclemodecommand105_UpdateData c data =
     (let data = set_p_turn_light_ctrl (turn_light_ctrl c) data;
          data = set_p_vin_req (vin_req c) data;
          data = set_p_drive_mode_ctrl (drive_mode_ctrl c) data;
          data = set_p_steer_mode_ctrl (steer_mode_ctrl c) data
      in set_p_checksum_105 (checksum_105 c) data)"

section \<open>The setters of the classes\<close>

lemmas setter_defs =
  set_vel_target_def set_throttle_acc_def set_checksum_100_def set_throttle_pedal_target_def set_throttle_en_ctrl_def
  set_aeb_en_ctrl_def set_brake_dec_def set_checksum_101_def set_brake_pedal_target_def set_brake_en_ctrl_def
  set_steer_en_ctrl_def set_steer_angle_target_def set_steer_angle_spd_def set_checksum_102_def
  set_gear_target_def set_gear_en_ctrl_def set_checksum_103_def
  set_checksum_104_def set_park_target_def set_park_en_ctrl_def
  set_checksum_105_def set_turn_light_ctrl_def set_vin_req_def set_drive_mode_ctrl_def set_steer_mode_ctrl_def

end
