(* ===== verification/Can_Reports.thy ===== *)
theory Can_Reports
  imports Binary_Float Wd_Byte
begin

text \<open>
  The reports \<open>0x500\<close> to \<open>0x516\<close> of the Hooke2 chassis: the parsing part of the
  \<open>on...Report...\<close> handlers of \<open>hooke2_interface.cpp\<close>, from the eight data bytes of a frame
  to the message the handler publishes. Message headers (frame id and the time of publication)
  are left out. An \<open>int32_t\<close> that holds bits of the frame is an integer; the sign extension by
  shifting left and right is done on the 32-bit word.
\<close>

section \<open>Reading the frame\<close>

text \<open>\<open>Byte t(msg + k); t.get_byte(s, n)\<close>\<close>

definition byte_at :: "bytes \<Rightarrow> nat \<Rightarrow> int \<Rightarrow> int \<Rightarrow> int" where
  "byte_at msg k s n = uint (get_byte s n (msg ! k))"

text \<open>Two bytes, the more significant one first: \<open>x <<= 8; x |= t\<close>.\<close>

definition word_at :: "bytes \<Rightarrow> nat \<Rightarrow> int" where
  "word_at msg k =
     (let x = byte_at msg k 0 8;
          t = byte_at msg (k + 1) 0 8;
          x = push_bit 8 x
      in x OR t)"

text \<open>\<open>x <<= n; x >>= n\<close> on an \<open>int32_t\<close>.\<close>

definition shift_back :: "nat \<Rightarrow> int \<Rightarrow> int" where
  "shift_back n x = sint (signed_drop_bit n (push_bit n (word_of_int x :: u32)))"

section \<open>Vehicle identification, battery and ultrasonic sensors\<close>

record VinReport516 =
  vin16 :: int

definition parse_VinReport516 :: "bytes \<Rightarrow> VinReport516" where
  "parse_VinReport516 msg = \<lparr>vin16 = byte_at msg 0 0 8\<rparr>"

record VinReport515 =
  vin15 :: int
  vin14 :: int
  vin13 :: int
  vin12 :: int
  vin11 :: int
  vin10 :: int
  vin09 :: int
  vin08 :: int

definition parse_VinReport515 :: "bytes \<Rightarrow> VinReport515" where
  "parse_VinReport515 msg =
     \<lparr>vin15 = byte_at msg 7 0 8, vin14 = byte_at msg 6 0 8, vin13 = byte_at msg 5 0 8, vin12 = byte_at msg 4 0 8, 
      vin11 = byte_at msg 3 0 8, vin10 = byte_at msg 2 0 8, vin09 = byte_at msg 1 0 8, vin08 = byte_at msg 0 0 8\<rparr>"

record VinReport514 =
  vin07 :: int
  vin06 :: int
  vin05 :: int
  vin04 :: int
  vin03 :: int
  vin02 :: int
  vin01 :: int
  vin00 :: int

definition parse_VinReport514 :: "bytes \<Rightarrow> VinReport514" where
  "parse_VinReport514 msg =
     \<lparr>vin07 = byte_at msg 7 0 8, vin06 = byte_at msg 6 0 8, vin05 = byte_at msg 5 0 8, vin04 = byte_at msg 4 0 8,
      vin03 = byte_at msg 3 0 8, vin02 = byte_at msg 2 0 8, vin01 = byte_at msg 1 0 8, vin00 = byte_at msg 0 0 8\<rparr>"

record BmsReport512 =
  battery_current :: fp
  battery_voltage :: fp
  battery_soc :: int

definition parse_BmsReport512 :: "bytes \<Rightarrow> BmsReport512" where
  "parse_BmsReport512 msg =
     \<lparr>battery_current = d64_of_int (word_at msg 2) * d64 (1 / 10) + Fin (- 3200),
      battery_voltage = d64_of_int (word_at msg 0) * d64 (1 / 100),
      battery_soc = byte_at msg 4 0 8\<rparr>"

text \<open>The distance of one sensor: two bytes, in units of 0.01724 cm.\<close>

definition tof_at :: "bytes \<Rightarrow> nat \<Rightarrow> fp" where
  "tof_at msg k = d64_of_int (word_at msg k) * d64 (1724 / 100000)"

record UltrSensor511 =
  uiuss7_tof_direct :: fp
  uiuss6_tof_direct :: fp
  uiuss1_tof_direct :: fp
  uiuss0_tof_direct :: fp

definition parse_UltrSensor511 :: "bytes \<Rightarrow> UltrSensor511" where
  "parse_UltrSensor511 msg =
     \<lparr>uiuss7_tof_direct = tof_at msg 6, uiuss6_tof_direct = tof_at msg 4,
      uiuss1_tof_direct = tof_at msg 2, uiuss0_tof_direct = tof_at msg 0\<rparr>"

record UltrSensor510 =
  uiuss5_tof_indirect :: fp
  uiuss4_tof_indirect :: fp
  uiuss3_tof_indirect :: fp
  uiuss2_tof_indirect :: fp

definition parse_UltrSensor510 :: "bytes \<Rightarrow> UltrSensor510" where
  "parse_UltrSensor510 msg =
     \<lparr>uiuss5_tof_indirect = tof_at msg 6, uiuss4_tof_indirect = tof_at msg 4,
      uiuss3_tof_indirect = tof_at msg 2, uiuss2_tof_indirect = tof_at msg 0\<rparr>"

record UltrSensor509 =
  uiuss5_tof_direct :: fp
  uiuss4_tof_direct :: fp
  uiuss3_tof_direct :: fp
  uiuss2_tof_direct :: fp

definition parse_UltrSensor509 :: "bytes \<Rightarrow> UltrSensor509" where
  "parse_UltrSensor509 msg =
     \<lparr>uiuss5_tof_direct = tof_at msg 6, uiuss4_tof_direct = tof_at msg 4,
      uiuss3_tof_direct = tof_at msg 2, uiuss2_tof_direct = tof_at msg 0\<rparr>"

record UltrSensor508 =
  uiuss9_tof_indirect :: fp
  uiuss8_tof_indirect :: fp
  uiuss11_tof_indirect :: fp
  uiuss10_tof_indirect :: fp

definition parse_UltrSensor508 :: "bytes \<Rightarrow> UltrSensor508" where
  "parse_UltrSensor508 msg =
     \<lparr>uiuss9_tof_indirect = tof_at msg 2, uiuss8_tof_indirect = tof_at msg 0,
      uiuss11_tof_indirect = tof_at msg 6, uiuss10_tof_indirect = tof_at msg 4\<rparr>"

record UltrSensor507 =
  uiuss9_tof_direct :: fp
  uiuss8_tof_direct :: fp
  uiuss11_tof_direct :: fp
  uiuss10_tof_direct :: fp

definition parse_UltrSensor507 :: "bytes \<Rightarrow> UltrSensor507" where
  "parse_UltrSensor507 msg =
     \<lparr>uiuss9_tof_direct = tof_at msg 2, uiuss8_tof_direct = tof_at msg 0,
      uiuss11_tof_direct = tof_at msg 6, uiuss10_tof_direct = tof_at msg 4\<rparr>"

section \<open>Wheel speeds\<close>

record WheelSpeedReport506 =
  rear_right :: fp
  rear_left :: fp
  front_right :: fp
  front_left :: fp

definition wheel_at :: "bytes \<Rightarrow> nat \<Rightarrow> fp" where
  "wheel_at msg k = d64_of_int (word_at msg k) * d64 (1 / 10000)"

definition parse_WheelSpeedReport506 :: "bytes \<Rightarrow> WheelSpeedReport506" where
  "parse_WheelSpeedReport506 msg =
     \<lparr>rear_right = wheel_at msg 6, rear_left = wheel_at msg 4,
      front_right = wheel_at msg 2, front_left = wheel_at msg 0\<rparr>"

section \<open>The vehicle control unit\<close>

record VcuReport505 =
  brake_light_actual :: u8
  turn_light_actual :: u8
  chassis_errcode :: u8
  drive_mode_sts :: u8
  steer_mode_sts :: u8
  vcu_vehicle_mode_state :: u8
  frontcrash_state :: bool
  backcrash_state :: bool
  aeb_state :: bool
  vcu_acc :: fp
  vcu_speed :: fp

text \<open>The raw integers of the two signed signals.\<close>

definition vcu_raw_acc :: "bytes \<Rightarrow> int" where
  "vcu_raw_acc msg =
     (let x = byte_at msg 0 0 8;
          t = byte_at msg 1 4 4;
          x = push_bit 4 x;
          x = x OR t
      in shift_back 20 x)"

definition vcu_raw_speed :: "bytes \<Rightarrow> int" where
  "vcu_raw_speed msg = shift_back 16 (word_at msg 2)"

definition parse_VcuReport505 :: "bytes \<Rightarrow> VcuReport505" where
  "parse_VcuReport505 msg =
     \<lparr>brake_light_actual = get_byte 3 1 (msg ! 1), turn_light_actual = get_byte 0 2 (msg ! 7),
      chassis_errcode = get_byte 0 8 (msg ! 5), drive_mode_sts = get_byte 5 3 (msg ! 4),
      steer_mode_sts = get_byte 0 3 (msg ! 1), vcu_vehicle_mode_state = get_byte 3 2 (msg ! 4),
      frontcrash_state = (get_byte 1 1 (msg ! 4) \<noteq> 0), backcrash_state = (get_byte 2 1 (msg ! 4) \<noteq> 0),
      aeb_state = (get_byte 0 1 (msg ! 4) \<noteq> 0),
      vcu_acc = d64_of_int (vcu_raw_acc msg) * d64 (1 / 100),
      vcu_speed = d64_of_int (vcu_raw_speed msg) * d64 (1 / 1000)\<rparr>"

section \<open>Park, gear, steering, brake and throttle\<close>

record ParkReport504 =
  park_flt :: bool
  parking_actual :: u8

definition parse_ParkReport504 :: "bytes \<Rightarrow> ParkReport504" where
  "parse_ParkReport504 msg =
     \<lparr>park_flt = (get_byte 0 8 (msg ! 1) \<noteq> 0), parking_actual = get_byte 0 1 (msg ! 0)\<rparr>"

record GearReport503 =
  gear_flt :: bool
  gear_actual :: u8

definition parse_GearReport503 :: "bytes \<Rightarrow> GearReport503" where
  "parse_GearReport503 msg =
     \<lparr>gear_flt = (get_byte 0 8 (msg ! 1) \<noteq> 0), gear_actual = get_byte 0 3 (msg ! 0)\<rparr>"

record SteeringReport502 =
  steer_flt1 :: bool
  steer_flt2 :: bool
  steer_en_state_type :: u8
  steer_angle_spd_actual :: int
  steer_angle_actual :: int

text \<open>\<open>int steer_angle_actual = x + -500.0\<close> goes through \<open>double\<close>.\<close>

definition steer_angle_of :: "bytes \<Rightarrow> int" where
  "steer_angle_of msg =
     (case fp_to_i32 (d64_of_int (word_at msg 3) + Fin (- 500)) of None \<Rightarrow> 0 | Some n \<Rightarrow> n)"

definition parse_SteeringReport502 :: "bytes \<Rightarrow> SteeringReport502" where
  "parse_SteeringReport502 msg =
     \<lparr>steer_flt1 = (get_byte 0 8 (msg ! 1) \<noteq> 0), steer_flt2 = (get_byte 0 8 (msg ! 2) \<noteq> 0),
      steer_en_state_type = get_byte 0 2 (msg ! 0), steer_angle_spd_actual = byte_at msg 7 0 8,
      steer_angle_actual = steer_angle_of msg\<rparr>"

record BrakeReport501 =
  brake_pedal_actual :: fp
  brake_flt1 :: bool
  brake_flt2 :: bool
  brake_en_state :: u8

definition parse_BrakeReport501 :: "bytes \<Rightarrow> BrakeReport501" where
  "parse_BrakeReport501 msg =
     \<lparr>brake_pedal_actual = d64_of_int (word_at msg 3) * d64 (1 / 10),
      brake_flt1 = (get_byte 0 8 (msg ! 1) \<noteq> 0), brake_flt2 = (get_byte 0 8 (msg ! 2) \<noteq> 0),
      brake_en_state = get_byte 0 2 (msg ! 0)\<rparr>"

record ThrottleReport500 =
  throttle_pedal_actual :: fp
  throttle_flt1 :: bool
  throttle_flt2 :: bool
  throttle_en_state :: u8

definition parse_ThrottleReport500 :: "bytes \<Rightarrow> ThrottleReport500" where
  "parse_ThrottleReport500 msg =
     \<lparr>throttle_pedal_actual = d64_of_int (word_at msg 3) * d64 (1 / 10),
      throttle_flt1 = (get_byte 0 8 (msg ! 1) \<noteq> 0), throttle_flt2 = (get_byte 0 8 (msg ! 2) \<noteq> 0),
      throttle_en_state = get_byte 0 2 (msg ! 0)\<rparr>"

section \<open>The system reports derived from them\<close>

text \<open>
  \<open>SystemRptFloat\<close>, without its header and time, and the message as it is constructed: no flag is
  set and every number is zero.
\<close>

record SystemRptFloat =
  rf_enabled :: bool
  rf_override_active :: bool
  rf_command_output_fault :: bool
  rf_input_output_fault :: bool
  rf_output_reported_fault :: bool
  rf_hooke2_fault :: bool
  rf_communication_fault :: bool
  rf_hardware_fault :: bool
  rf_command_timeout :: bool
  rf_manual_input :: fp
  rf_command :: fp
  rf_output :: fp
  rf_steer_tier_angle :: fp

definition SystemRptFloat_init :: SystemRptFloat where
  "SystemRptFloat_init =
     \<lparr>rf_enabled = False, rf_override_active = False, rf_command_output_fault = False,
      rf_input_output_fault = False, rf_output_reported_fault = False, rf_hooke2_fault = False,
      rf_communication_fault = False, rf_hardware_fault = False, rf_command_timeout = False,
      rf_manual_input = Fin 0, rf_command = Fin 0, rf_output = Fin 0, rf_steer_tier_angle = Fin 0\<rparr>"

text \<open>Of \<open>SystemRptInt\<close>, the fields the stack sets or reads.\<close>

record SystemRptInt =
  ri_hooke2_fault :: bool
  ri_command :: u16
  ri_output :: u16
  ri_vehicle_mode_state :: u8

record WheelSpeedRpt =
  front_left_wheel_speed :: fp
  front_right_wheel_speed :: fp
  rear_left_wheel_speed :: fp
  rear_right_wheel_speed :: fp

definition SHIFT_NONE :: u16 where "SHIFT_NONE = 0"
definition SHIFT_PARK :: u16 where "SHIFT_PARK = 1"
definition SHIFT_REVERSE :: u16 where "SHIFT_REVERSE = 2"
definition SHIFT_NEUTRAL :: u16 where "SHIFT_NEUTRAL = 3"
definition SHIFT_FORWARD :: u16 where "SHIFT_FORWARD = 4"
definition SHIFT_LOW :: u16 where "SHIFT_LOW = 5"
definition TURN_RIGHT :: u16 where "TURN_RIGHT = 0"
definition TURN_NONE :: u16 where "TURN_NONE = 1"
definition TURN_LEFT :: u16 where "TURN_LEFT = 2"
definition TURN_HAZARDS :: u16 where "TURN_HAZARDS = 3"

lemmas shift_consts = SHIFT_NONE_def SHIFT_PARK_def SHIFT_REVERSE_def SHIFT_NEUTRAL_def
  SHIFT_FORWARD_def SHIFT_LOW_def
lemmas turn_consts = TURN_RIGHT_def TURN_NONE_def TURN_LEFT_def TURN_HAZARDS_def

definition wheel_speed_rpt_of :: "bytes \<Rightarrow> WheelSpeedRpt" where
  "wheel_speed_rpt_of msg =
     (let r = parse_WheelSpeedReport506 msg
      in \<lparr>front_left_wheel_speed = front_left r, front_right_wheel_speed = front_right r,
          rear_left_wheel_speed = rear_left r, rear_right_wheel_speed = rear_right r\<rparr>)"

definition turn_rpt_of :: "bytes \<Rightarrow> SystemRptInt" where
  "turn_rpt_of msg =
     (let turn_light_actual = get_byte 0 2 (msg ! 7);
          vehicle_mode_state = get_byte 3 2 (msg ! 4)
      in \<lparr>ri_hooke2_fault = False, ri_command = 0,
          ri_output =
            (if turn_light_actual = 0 then TURN_NONE
             else if turn_light_actual = 1 then TURN_LEFT
             else if turn_light_actual = 2 then TURN_RIGHT
             else if turn_light_actual = 3 then TURN_HAZARDS
             else TURN_NONE),
          ri_vehicle_mode_state = vehicle_mode_state\<rparr>)"

definition shift_rpt_of :: "bytes \<Rightarrow> SystemRptInt" where
  "shift_rpt_of msg =
     (let gear_flt_type = get_byte 0 8 (msg ! 1);
          gear_actual = get_byte 0 3 (msg ! 0)
      in \<lparr>ri_hooke2_fault = (gear_flt_type = 1), ri_command = 0,
          ri_output =
            (if gear_actual = 0 then SHIFT_NONE
             else if gear_actual = 1 then SHIFT_PARK
             else if gear_actual = 2 then SHIFT_REVERSE
             else if gear_actual = 3 then SHIFT_NEUTRAL
             else if gear_actual = 4 then SHIFT_FORWARD
             else SHIFT_NONE),
          ri_vehicle_mode_state = 0\<rparr>)"

text \<open>\<open>M_PI\<close>, and the factor \<open>180.0 / M_PI\<close>.\<close>

definition M_PI :: fp where "M_PI = Fin (884279719003555 / 2 ^ 48)"

definition deg_per_rad :: fp where "deg_per_rad = Fin 180 / M_PI"

definition steer_wheel_rpt_of :: "bytes \<Rightarrow> SystemRptFloat" where
  "steer_wheel_rpt_of msg =
     (let steer_flt2_type = get_byte 0 8 (msg ! 2);
          steer_flt1_type = get_byte 0 8 (msg ! 1);
          steer_en_state = get_byte 0 2 (msg ! 0);
          angle = d64_of_int (steer_angle_of msg)
      in SystemRptFloat_init
         \<lparr>rf_enabled := (steer_en_state = 1),
          rf_output := angle / deg_per_rad,
          rf_steer_tier_angle := (angle / deg_per_rad) / Fin 16,
          rf_communication_fault := (steer_flt2_type = 1),
          rf_hardware_fault := (steer_flt1_type = 1)\<rparr>)"

definition brake_rpt_of :: "bytes \<Rightarrow> SystemRptFloat" where
  "brake_rpt_of msg =
     (let r = parse_BrakeReport501 msg;
          brake_flt2_type = get_byte 0 8 (msg ! 2);
          brake_flt1_type = get_byte 0 8 (msg ! 1)
      in SystemRptFloat_init
         \<lparr>rf_enabled := (brake_en_state r = 1),
          rf_communication_fault := (brake_flt2_type = 1),
          rf_hardware_fault := (brake_flt1_type = 1),
          rf_output := brake_pedal_actual r / Fin 100\<rparr>)"

definition accel_rpt_of :: "bytes \<Rightarrow> SystemRptFloat" where
  "accel_rpt_of msg =
     (let r = parse_ThrottleReport500 msg;
          throttle_flt2_type = get_byte 0 8 (msg ! 2);
          throttle_flt1_type = get_byte 0 8 (msg ! 1)
      in SystemRptFloat_init
         \<lparr>rf_enabled := (throttle_en_state r = 1),
          rf_output := throttle_pedal_actual r / Fin 100,
          rf_hardware_fault := (throttle_flt1_type = 1),
          rf_communication_fault := (throttle_flt2_type = 1)\<rparr>)"

end
