(* ===== verification/Hooke2_State.thy ===== *)
theory Hooke2_State
  imports Can_Protocol Can_Reports
begin

text \<open>
  The state of \<open>Hooke2Interface\<close> (\<open>hooke2_interface.hpp\<close>), the messages it exchanges with the
  Autoware side, its parameters with the defaults of the constructor, and the callbacks that
  only store what they receive.

  The ROS clock, \<open>rclcpp::Duration::seconds\<close> and \<open>std::tan\<close> are the parameter \<open>HookeWorld\<close>;
  the \<open>n\<close>-th reading of the clock is \<open>clock_ns n\<close>. A null shared pointer is \<open>None\<close>; an operation
  that dereferences one, or converts a double outside the range of \<open>int\<close>, has no defined
  behaviour and returns \<open>None\<close>. Published messages are recorded, newest first, in \<open>sent\<close>,
  without their headers. Log output and the \<open>ParamMonitor\<close> display are left out.
\<close>

section \<open>Messages of the Autoware side\<close>

datatype gear_request = Gear_PARK | Gear_REVERSE | Gear_DRIVE | Gear_LOW | Gear_NEUTRAL | Gear_other u8

datatype autoware_gear_report = Report_PARK | Report_REVERSE | Report_DRIVE | Report_NEUTRAL | Report_NONE

datatype turn_command = Turn_ENABLE_LEFT | Turn_ENABLE_RIGHT | Turn_other u8

datatype hazard_command = Hazard_ENABLE | Hazard_other u8

datatype turn_report = Turn_is_left | Turn_is_right | Turn_is_disabled

datatype door_status = Door_UNKNOWN | Door_CLOSING | Door_OPENING | Door_CLOSED | Door_OPENED

datatype control_mode_request =
  Mode_AUTONOMOUS | Mode_AUTONOMOUS_STEER_ONLY | Mode_AUTONOMOUS_VELOCITY_ONLY
| Mode_MANUAL | Mode_NO_COMMAND | Mode_other u8

record ActuationCommand =
  act_accel_cmd :: fp
  act_brake_cmd :: fp

record ControlCommand =
  lateral_steering_tire_angle :: fp
  lateral_steering_tire_rotation_rate :: fp
  longitudinal_velocity :: fp
  longitudinal_acceleration :: fp

section \<open>Messages of the vehicle side\<close>

record SystemCmdFloat =
  cf_enable :: bool
  cf_ignore_overrides :: bool
  cf_clear_override :: bool
  cf_command :: fp

record SystemCmdInt =
  ci_enable :: bool
  ci_ignore_overrides :: bool
  ci_clear_override :: bool
  ci_command :: u16

record SteeringCmd =
  sc_enable :: bool
  sc_ignore_overrides :: bool
  sc_clear_override :: bool
  sc_command :: fp
  sc_wheel_tier_angle :: fp
  sc_rotation_rate :: fp

record GlobalRpt =
  gl_stamp_ns :: int
  gl_enabled :: bool
  gl_override_active :: bool
  gl_sys_fault_active :: bool
  gl_vehicle_vin :: bytes

definition SystemCmdInt_init :: SystemCmdInt where
  "SystemCmdInt_init =
     \<lparr>ci_enable = False, ci_ignore_overrides = False, ci_clear_override = False, ci_command = 0\<rparr>"

definition DOOR_NEUTRAL :: u16 where "DOOR_NEUTRAL = 0"
definition DOOR_OPEN :: u16 where "DOOR_OPEN = 1"
definition DOOR_CLOSE :: u16 where "DOOR_CLOSE = 2"

definition VEHICLE_MODE_STATE_MANUAL_REMOTE_MODE :: u8 where "VEHICLE_MODE_STATE_MANUAL_REMOTE_MODE = 0"
definition VEHICLE_MODE_STATE_AUTO_MODE :: u8 where "VEHICLE_MODE_STATE_AUTO_MODE = 1"
definition VEHICLE_MODE_STATE_EMERGENCY_MODE :: u8 where "VEHICLE_MODE_STATE_EMERGENCY_MODE = 2"

lemmas vehicle_mode_consts =
  VEHICLE_MODE_STATE_MANUAL_REMOTE_MODE_def VEHICLE_MODE_STATE_AUTO_MODE_def
  VEHICLE_MODE_STATE_EMERGENCY_MODE_def

text \<open>Everything the node publishes.\<close>

datatype publication =
  Can_frame u32 bytes
| Throttle_cmd SystemCmdFloat | Acceleration_cmd SystemCmdFloat | Speed_cmd SystemCmdFloat
| Brake_cmd SystemCmdFloat | Steer_cmd SteeringCmd | Raw_steer_cmd SteeringCmd
| Shift_cmd SystemCmdInt | Parking_cmd SystemCmdInt | Turn_cmd SystemCmdInt | Door_cmd SystemCmdInt
| Vin_rpt516 VinReport516 | Vin_rpt515 VinReport515 | Vin_rpt514 VinReport514 | Bms_rpt512 BmsReport512
| Ultr_511 UltrSensor511 | Ultr_510 UltrSensor510 | Ultr_509 UltrSensor509 | Ultr_508 UltrSensor508
| Ultr_507 UltrSensor507 | Wheelspeed_rpt506 WheelSpeedReport506 | Vcu_rpt505 VcuReport505
| Park_rpt504 ParkReport504 | Gear_rpt503 GearReport503 | Steering_rpt502 SteeringReport502
| Brake_rpt501 BrakeReport501 | Throttle_rpt500 ThrottleReport500
| Steer_wheel_rpt SystemRptFloat | Wheel_speed_rpt WheelSpeedRpt | Accel_rpt SystemRptFloat
| Brake_rpt SystemRptFloat | Shift_rpt SystemRptInt | Turn_rpt SystemRptInt | Global_rpt GlobalRpt
| Steering_wheel_status fp | Control_mode_report bool | Gear_status autoware_gear_report
| Velocity_report fp fp fp | Steering_status fp | Actuation_status fp fp fp
| Turn_status turn_report | Hazard_status bool | Battery_status fp | Door_report door_status

section \<open>The world, the parameters and the node\<close>

record HookeWorld =
  clock_ns :: "nat \<Rightarrow> int"
  duration_seconds :: "int \<Rightarrow> fp"
  std_tan :: "fp \<Rightarrow> fp"

record HookeParams =
  command_timeout_ms :: int
  loop_rate :: fp
  tire_radius :: fp
  wheel_base :: fp
  steering_offset :: fp
  enable_steering_rate_control :: bool
  emergency_brake :: fp
  vgr_coef_a :: fp
  vgr_coef_b :: fp
  vgr_coef_c :: fp
  accel_pedal_offset :: fp
  brake_pedal_offset :: fp
  max_speed :: fp
  max_throttle :: fp
  max_brake :: fp
  max_steering_wheel :: fp
  max_steering_wheel_rate :: fp
  min_steering_wheel_rate :: fp
  steering_wheel_rate_low_vel :: fp
  steering_wheel_rate_stopped :: fp
  low_vel_thresh :: fp
  hazard_thresh_time :: fp
  need_separate_engage_sequence :: bool
  vehicle_driving_interface :: u8
  vehicle_steering_interface :: u8

definition Hooke2_default_params :: HookeParams where
  "Hooke2_default_params =
     \<lparr>command_timeout_ms = 1000, loop_rate = Fin 30,
      tire_radius = d64 (39 / 100), wheel_base = Fin 2,
      steering_offset = Fin 0, enable_steering_rate_control = False,
      emergency_brake = d64 (7 / 10),
      vgr_coef_a = d64 (15713 / 1000), vgr_coef_b = d64 (53 / 1000), vgr_coef_c = d64 (42 / 1000),
      accel_pedal_offset = Fin 0, brake_pedal_offset = Fin 0,
      max_speed = Fin (3 / 2), max_throttle = d64 (2 / 10), max_brake = d64 (8 / 10),
      max_steering_wheel = d64 (488 / 100),
      max_steering_wheel_rate = d64 (4746 / 1000), min_steering_wheel_rate = Fin (1 / 2),
      steering_wheel_rate_low_vel = Fin 5, steering_wheel_rate_stopped = Fin 5,
      low_vel_thresh = d64 (1389 / 1000),
      hazard_thresh_time = d64 (20 / 100),
      need_separate_engage_sequence = False,
      vehicle_driving_interface = 2, vehicle_steering_interface = 0\<rparr>"

definition THROTTLE_PEDAL_MODE :: u8 where "THROTTLE_PEDAL_MODE = 0"
definition ACCELERATION_MODE :: u8 where "ACCELERATION_MODE = 1"
definition SPEED_MODE :: u8 where "SPEED_MODE = 2"

lemmas driving_consts = THROTTLE_PEDAL_MODE_def ACCELERATION_MODE_def SPEED_MODE_def

record Hooke2Interface =
  hparams :: HookeParams
  is_hooke2_rpt_received :: bool
  is_hooke2_auto_enabled :: bool
  is_clear_override_needed :: bool
  prev_override :: bool
  hazard_recover_count :: int
  current_speed :: fp
  parking_state :: int
  actuation_cmd_ptr :: "ActuationCommand option"
  control_cmd_ptr :: "ControlCommand option"
  turn_indicators_cmd_ptr :: "turn_command option"
  hazard_lights_cmd_ptr :: "hazard_command option"
  gear_cmd_ptr :: "gear_request option"
  steer_wheel_rpt_ptr :: "SystemRptFloat option"
  wheel_speed_rpt_ptr :: "WheelSpeedRpt option"
  accel_rpt_ptr :: "SystemRptFloat option"
  brake_rpt_ptr :: "SystemRptFloat option"
  gear_rpt_ptr :: "SystemRptInt option"
  bms_rpt512_ptr :: "BmsReport512 option"
  global_rpt :: GlobalRpt
  turn_rpt_ptr :: "SystemRptInt option"
  prev_steer_command :: fp
  prev_steer_cmd_time :: int
  engage_cmd :: bool
  is_emergency :: bool
  control_command_received_time :: int
  actuation_command_received_time :: int
  last_shift_inout_matched_time :: int
  control_mode_cmd :: bool
  is_running :: bool
  disable_auto_mode :: bool
  vin_report514 :: VinReport514
  vin_report515 :: VinReport515
  vin_report516 :: VinReport516
  vehicle_id :: bytes
  msg_throttle_cmd :: Throttlecommand100
  msg_brake_cmd :: Brakecommand101
  msg_steering_cmd :: Steeringcommand102
  msg_gear_cmd :: Gearcommand103
  msg_park_cmd :: Parkcommand104
  msg_vehicle_mode_cmd :: Vehiclemodecommand105
  desired_speed :: fp
  desired_acceleration :: fp
  vehicle_shift_counter :: u8
  clock_reads :: nat
  sent :: "publication list"

definition hazard_recover_cmd_num :: int where "hazard_recover_cmd_num = 5"

definition publish :: "publication \<Rightarrow> Hooke2Interface \<Rightarrow> Hooke2Interface" where
  "publish x s = s\<lparr>sent := x # sent s\<rparr>"

definition ros_now :: "HookeWorld \<Rightarrow> Hooke2Interface \<Rightarrow> int \<times> Hooke2Interface" where
  "ros_now w s = (clock_ns w (clock_reads s), s\<lparr>clock_reads := clock_reads s + 1\<rparr>)"

text \<open>The members after the constructor; the clock has been read once.\<close>

definition Hooke2Interface_new :: "HookeWorld \<Rightarrow> HookeParams \<Rightarrow> Hooke2Interface" where
  "Hooke2Interface_new w p =
     \<lparr>hparams = p, is_hooke2_rpt_received = False, is_hooke2_auto_enabled = False,
      is_clear_override_needed = False, prev_override = False, hazard_recover_count = 0,
      current_speed = Fin 0, parking_state = 1,
      actuation_cmd_ptr = None, control_cmd_ptr = None, turn_indicators_cmd_ptr = None,
      hazard_lights_cmd_ptr = None, gear_cmd_ptr = None,
      steer_wheel_rpt_ptr = None, wheel_speed_rpt_ptr = None, accel_rpt_ptr = None,
      brake_rpt_ptr = None, gear_rpt_ptr = None, bms_rpt512_ptr = None,
      global_rpt = \<lparr>gl_stamp_ns = 0, gl_enabled = False, gl_override_active = False,
        gl_sys_fault_active = False, gl_vehicle_vin = []\<rparr>,
      turn_rpt_ptr = None, prev_steer_command = Fin 0, prev_steer_cmd_time = clock_ns w 0,
      engage_cmd = False, is_emergency = False,
      control_command_received_time = 0, actuation_command_received_time = 0,
      last_shift_inout_matched_time = clock_ns w 0,
      control_mode_cmd = False, is_running = False, disable_auto_mode = False,
      vin_report514 = \<lparr>vin07 = 0, vin06 = 0, vin05 = 0, vin04 = 0, vin03 = 0, vin02 = 0, vin01 = 0, vin00 = 0\<rparr>,
      vin_report515 = \<lparr>vin15 = 0, vin14 = 0, vin13 = 0, vin12 = 0, vin11 = 0, vin10 = 0, vin09 = 0, vin08 = 0\<rparr>,
      vin_report516 = \<lparr>vin16 = 0\<rparr>, vehicle_id = [],
      msg_throttle_cmd = Throttlecommand100_Reset, msg_brake_cmd = Brakecommand101_Reset,
      msg_steering_cmd = Steeringcommand102_Reset, msg_gear_cmd = Gearcommand103_Reset,
      msg_park_cmd = Parkcommand104_Reset, msg_vehicle_mode_cmd = Vehiclemodecommand105_Reset,
      desired_speed = Fin 0, desired_acceleration = Fin 0, vehicle_shift_counter = 50,
      clock_reads = 1, sent = []\<rparr>"

section \<open>Callbacks of the Autoware side\<close>

definition callbackActuationCmd ::
  "HookeWorld \<Rightarrow> ActuationCommand \<Rightarrow> Hooke2Interface \<Rightarrow> Hooke2Interface" where
  "callbackActuationCmd w msg s =
     (let (now, s) = ros_now w s
      in s\<lparr>actuation_command_received_time := now, actuation_cmd_ptr := Some msg\<rparr>)"

definition callbackEmergencyCmd :: "bool \<Rightarrow> Hooke2Interface \<Rightarrow> Hooke2Interface" where
  "callbackEmergencyCmd emergency s = s\<lparr>is_emergency := emergency\<rparr>"

definition callbackControlCmd ::
  "HookeWorld \<Rightarrow> ControlCommand \<Rightarrow> Hooke2Interface \<Rightarrow> Hooke2Interface" where
  "callbackControlCmd w msg s =
     (let (now, s) = ros_now w s
      in s\<lparr>control_command_received_time := now, control_cmd_ptr := Some msg\<rparr>)"

definition callbackGearCmd :: "gear_request \<Rightarrow> Hooke2Interface \<Rightarrow> Hooke2Interface" where
  "callbackGearCmd msg s = s\<lparr>gear_cmd_ptr := Some msg\<rparr>"

definition callbackTurnIndicatorsCommand :: "turn_command \<Rightarrow> Hooke2Interface \<Rightarrow> Hooke2Interface" where
  "callbackTurnIndicatorsCommand msg s = s\<lparr>turn_indicators_cmd_ptr := Some msg\<rparr>"

definition callbackHazardLightsCommand :: "hazard_command \<Rightarrow> Hooke2Interface \<Rightarrow> Hooke2Interface" where
  "callbackHazardLightsCommand msg s = s\<lparr>hazard_lights_cmd_ptr := Some msg\<rparr>"

text \<open>The response's \<open>success\<close> is the first component.\<close>

fun onControlModeRequest :: "control_mode_request \<Rightarrow> Hooke2Interface \<Rightarrow> bool \<times> Hooke2Interface" where
  "onControlModeRequest (Mode_other _) s = (False, s)"
| "onControlModeRequest mode s =
     (if mode \<in> {Mode_AUTONOMOUS, Mode_AUTONOMOUS_STEER_ONLY, Mode_AUTONOMOUS_VELOCITY_ONLY}
      then (True, s\<lparr>engage_cmd := True, is_clear_override_needed := True, control_mode_cmd := True\<rparr>)
      else (True, s\<lparr>engage_cmd := False, is_clear_override_needed := True, control_mode_cmd := False\<rparr>))"

section \<open>Doors\<close>

definition toAutowareDoorStatusMsg :: "SystemRptInt \<Rightarrow> door_status" where
  "toAutowareDoorStatusMsg msg =
     (if ri_command msg = DOOR_CLOSE \<and> ri_output msg = DOOR_OPEN then Door_CLOSING
      else if ri_command msg = DOOR_OPEN \<and> ri_output msg = DOOR_CLOSE then Door_OPENING
      else if ri_output msg = DOOR_CLOSE then Door_CLOSED
      else if ri_output msg = DOOR_OPEN then Door_OPENED
      else Door_UNKNOWN)"

definition callbackRearDoor :: "SystemRptInt \<Rightarrow> Hooke2Interface \<Rightarrow> Hooke2Interface" where
  "callbackRearDoor rear_door_rpt s = publish (Door_report (toAutowareDoorStatusMsg rear_door_rpt)) s"

definition createClearOverrideDoorCommand :: SystemCmdInt where
  "createClearOverrideDoorCommand = SystemCmdInt_init\<lparr>ci_clear_override := True\<rparr>"

definition createDoorCommand :: "bool \<Rightarrow> SystemCmdInt" where
  "createDoorCommand open_door =
     SystemCmdInt_init\<lparr>ci_enable := True, ci_command := if open_door then DOOR_OPEN else DOOR_CLOSE\<rparr>"

datatype door_response = Door_IGNORED | Door_SUCCESS

definition setDoor :: "bool \<Rightarrow> Hooke2Interface \<Rightarrow> door_response \<times> Hooke2Interface" where
  "setDoor open_door s =
     (if \<not> engage_cmd s then (Door_IGNORED, s)
      else let s = publish (Door_cmd createClearOverrideDoorCommand) s;
               s = publish (Door_cmd (createDoorCommand open_door)) s
           in (Door_SUCCESS, s))"

section \<open>Speed, gear ratio and steering\<close>

definition calculateVehicleVelocity :: "WheelSpeedRpt \<Rightarrow> SystemRptInt \<Rightarrow> Hooke2Interface \<Rightarrow> fp" where
  "calculateVehicleVelocity wheel_speed shift s = current_speed s"

definition calculateVariableGearRatio :: "fp \<Rightarrow> fp \<Rightarrow> Hooke2Interface \<Rightarrow> fp" where
  "calculateVariableGearRatio vel steer_wheel s =
     (let p = hparams s
      in std_max (d64 (1 / 100000))
           (vgr_coef_a p + vgr_coef_b p * vel * vel - vgr_coef_c p * fp_abs steer_wheel))"

text \<open>\<open>std::numeric_limits<double>::epsilon()\<close>\<close>

definition d64_epsilon :: fp where "d64_epsilon = Fin (1 / 2 ^ 52)"

definition calcSteerWheelRateCmd :: "fp \<Rightarrow> Hooke2Interface \<Rightarrow> fp option" where
  "calcSteerWheelRateCmd gear_ratio s = do {
     wheel_speed \<leftarrow> wheel_speed_rpt_ptr s;
     shift \<leftarrow> gear_rpt_ptr s;
     let p = hparams s;
     let current_vel = fp_abs (calculateVehicleVelocity wheel_speed shift s);
     if current_vel < d64_epsilon then Some (steering_wheel_rate_stopped p)
     else if current_vel < low_vel_thresh p then Some (steering_wheel_rate_low_vel p)
     else if \<not> enable_steering_rate_control p then Some (max_steering_wheel_rate p)
     else do {
       control \<leftarrow> control_cmd_ptr s;
       let rate = Fin (3 / 2) * lateral_steering_tire_rotation_rate control * gear_ratio;
       Some (std_min (std_max (fp_abs rate) (min_steering_wheel_rate p)) (max_steering_wheel_rate p))
     }
   }"

definition steerWheelRateLimiter ::
  "HookeWorld \<Rightarrow> fp \<Rightarrow> fp \<Rightarrow> int \<Rightarrow> int \<Rightarrow> fp \<Rightarrow> fp \<Rightarrow> bool \<Rightarrow> fp" where
  "steerWheelRateLimiter w current_steer_cmd prev_steer_cmd current_steer_time prev_steer_time
     steer_rate current_steer_output engage =
     (if \<not> engage then current_steer_output
      else let dsteer = current_steer_cmd - prev_steer_cmd;
               dt = std_max (Fin 0) (duration_seconds w (current_steer_time - prev_steer_time));
               max_dsteer = fp_abs steer_rate * dt
           in current_steer_cmd)"

section \<open>Gear and lights\<close>

definition PARK_TARGET_RELEASE :: u8 where "PARK_TARGET_RELEASE = 0"
definition PARK_TARGET_PARKING_TRIGGER :: u8 where "PARK_TARGET_PARKING_TRIGGER = 1"

definition set_msg_park_target :: "u8 \<Rightarrow> Hooke2Interface \<Rightarrow> Hooke2Interface" where
  "set_msg_park_target v s = s\<lparr>msg_park_cmd := (msg_park_cmd s)\<lparr>park_target := v\<rparr>\<rparr>"

fun toHooke2ShiftCmd :: "gear_request \<Rightarrow> Hooke2Interface \<Rightarrow> u16 \<times> Hooke2Interface" where
  "toHooke2ShiftCmd Gear_PARK s = (SHIFT_PARK, set_msg_park_target PARK_TARGET_PARKING_TRIGGER s)"
| "toHooke2ShiftCmd Gear_REVERSE s = (SHIFT_REVERSE, set_msg_park_target PARK_TARGET_RELEASE s)"
| "toHooke2ShiftCmd Gear_DRIVE s = (SHIFT_FORWARD, set_msg_park_target PARK_TARGET_RELEASE s)"
| "toHooke2ShiftCmd Gear_LOW s = (SHIFT_FORWARD, set_msg_park_target PARK_TARGET_RELEASE s)"
| "toHooke2ShiftCmd Gear_NEUTRAL s = (SHIFT_NEUTRAL, set_msg_park_target PARK_TARGET_RELEASE s)"
| "toHooke2ShiftCmd (Gear_other _) s = (SHIFT_FORWARD, set_msg_park_target PARK_TARGET_RELEASE s)"

definition toAutowareShiftReport :: "SystemRptInt \<Rightarrow> autoware_gear_report option" where
  "toAutowareShiftReport shift = Some
     (if ri_output shift = SHIFT_PARK then Report_PARK
      else if ri_output shift = SHIFT_REVERSE then Report_REVERSE
      else if ri_output shift = SHIFT_FORWARD then Report_DRIVE
      else if ri_output shift = SHIFT_LOW then Report_DRIVE
      else if ri_output shift = SHIFT_NEUTRAL then Report_NEUTRAL
      else Report_NONE)"

definition set_msg_turn_light :: "u8 \<Rightarrow> Hooke2Interface \<Rightarrow> Hooke2Interface" where
  "set_msg_turn_light v s = s\<lparr>msg_vehicle_mode_cmd := (msg_vehicle_mode_cmd s)\<lparr>turn_light_ctrl := v\<rparr>\<rparr>"

definition toHooke2TurnCmd ::
  "turn_command \<Rightarrow> hazard_command \<Rightarrow> Hooke2Interface \<Rightarrow> u16 \<times> Hooke2Interface" where
  "toHooke2TurnCmd turn hazard s =
     (if hazard = Hazard_ENABLE then (TURN_HAZARDS, set_msg_turn_light 3 s)
      else if turn = Turn_ENABLE_LEFT then (TURN_LEFT, set_msg_turn_light 1 s)
      else if turn = Turn_ENABLE_RIGHT then (TURN_RIGHT, set_msg_turn_light 2 s)
      else (TURN_NONE, set_msg_turn_light 0 s))"

text \<open>The bookkeeping of one recovery cycle.\<close>

definition count_recovery :: "HookeWorld \<Rightarrow> Hooke2Interface \<Rightarrow> Hooke2Interface" where
  "count_recovery w s =
     (let s = (if hazard_recover_count s > hazard_recover_cmd_num
               then let (now, s) = ros_now w s
                    in s\<lparr>last_shift_inout_matched_time := now, hazard_recover_count := 0\<rparr>
               else s)
      in s\<lparr>hazard_recover_count := hazard_recover_count s + 1\<rparr>)"

definition toHooke2TurnCmdWithHazardRecover ::
  "HookeWorld \<Rightarrow> turn_command \<Rightarrow> hazard_command \<Rightarrow> Hooke2Interface \<Rightarrow> (u16 \<times> Hooke2Interface) option" where
  "toHooke2TurnCmdWithHazardRecover w turn hazard s = do {
     matched \<leftarrow> (if \<not> engage_cmd s then Some True
                 else do { r \<leftarrow> turn_rpt_ptr s; Some (ri_command r = ri_output r) });
     if matched then
       let (now, s) = ros_now w s
       in Some (toHooke2TurnCmd turn hazard (s\<lparr>last_shift_inout_matched_time := now\<rparr>))
     else
       let (now, s) = ros_now w s
       in if duration_seconds w (now - last_shift_inout_matched_time s) < hazard_thresh_time (hparams s)
          then Some (toHooke2TurnCmd turn hazard s)
          else
            let s = count_recovery w s
            in do {
              r \<leftarrow> turn_rpt_ptr s;
              if ri_command r \<noteq> TURN_HAZARDS \<and> ri_output r = TURN_HAZARDS then Some (TURN_HAZARDS, s)
              else if ri_command r = TURN_HAZARDS \<and> ri_output r \<noteq> TURN_HAZARDS then Some (TURN_NONE, s)
              else Some (toHooke2TurnCmd turn hazard s)
            }
   }"

definition toAutowareTurnIndicatorsReport :: "SystemRptInt \<Rightarrow> turn_report" where
  "toAutowareTurnIndicatorsReport turn =
     (if ri_output turn = TURN_RIGHT then Turn_is_right
      else if ri_output turn = TURN_LEFT then Turn_is_left
      else if ri_output turn = TURN_NONE then Turn_is_disabled
      else Turn_is_disabled)"

definition toAutowareHazardLightsReport :: "SystemRptInt \<Rightarrow> bool" where
  "toAutowareHazardLightsReport hazard = (ri_output hazard = TURN_HAZARDS)"

end
