(* ===== verification/Hooke2_Commands.thy ===== *)
theory Hooke2_Commands
  imports Hooke2_State
begin

text \<open>
  \<open>Hooke2Interface::publishCommands\<close>, the timer callback that turns the stored Autoware commands
  into the six command messages, one definition per commented block of the function and
  \<open>publishCommands\<close> as their composition. The pair \<open>(throttle, brake)\<close> holds the local variables
  \<open>desired_throttle\<close> and \<open>desired_brake\<close>; their initial values are overwritten before any use
  and are left out.
\<close>

definition command_guard :: "Hooke2Interface \<Rightarrow> bool" where
  "command_guard s \<longleftrightarrow>
     control_cmd_ptr s \<noteq> None \<and> is_hooke2_rpt_received s \<and> gear_cmd_ptr s \<noteq> None"

definition take_desired :: "ControlCommand \<Rightarrow> Hooke2Interface \<Rightarrow> Hooke2Interface" where
  "take_desired control s =
     (let s = s\<lparr>desired_speed := longitudinal_velocity control,
                desired_acceleration := longitudinal_acceleration control\<rparr>
      in if parking_state s = 1 \<or> 0 < vehicle_shift_counter s
         then s\<lparr>desired_speed := Fin 0, desired_acceleration := Fin 0,
                msg_throttle_cmd := (msg_throttle_cmd s)
                  \<lparr>throttle_pedal_target := Fin 0, throttle_acc := Fin 0, vel_target := Fin 0\<rparr>,
                vehicle_shift_counter := vehicle_shift_counter s - 1\<rparr>
         else s)"

definition pedal_targets :: "Hooke2Interface \<Rightarrow> fp \<times> fp" where
  "pedal_targets s =
     (case actuation_cmd_ptr s of
        None \<Rightarrow> if Fin 0 \<le> desired_acceleration s
                then (desired_speed s / Fin 5, Fin 0)
                else (Fin 0, desired_acceleration s / Fin (- 5))
      | Some a \<Rightarrow> (act_accel_cmd a + accel_pedal_offset (hparams s),
                   act_brake_cmd a + brake_pedal_offset (hparams s)))"

text \<open>
  The guard reads \<open>control_cmd_delta_time_ms > t_out > t_out\<close>: the boolean outcome of the first
  comparison, converted to an integer, is compared with \<open>t_out\<close> again.
\<close>

definition command_timed_out :: "HookeWorld \<Rightarrow> int \<Rightarrow> Hooke2Interface \<Rightarrow> bool" where
  "command_timed_out w current_time s =
     (let delta_ms = duration_seconds w (current_time - control_command_received_time s) * Fin 1000;
          t_out = command_timeout_ms (hparams s)
      in 0 \<le> t_out \<and> t_out < of_bool (d64_of_int t_out < delta_ms))"

definition check_emergency ::
  "HookeWorld \<Rightarrow> int \<Rightarrow> fp \<times> fp \<Rightarrow> Hooke2Interface \<Rightarrow> (fp \<times> fp) \<times> Hooke2Interface" where
  "check_emergency w current_time targets s =
     (if is_emergency s \<or> command_timed_out w current_time s
      then ((Fin 0, emergency_brake (hparams s)),
            s\<lparr>msg_brake_cmd := (msg_brake_cmd s)\<lparr>aeb_en_ctrl := 1\<rparr>\<rparr>)
      else (targets, s\<lparr>msg_brake_cmd := (msg_brake_cmd s)\<lparr>aeb_en_ctrl := 0\<rparr>\<rparr>))"

definition desired_steer_wheel :: "ControlCommand \<Rightarrow> Hooke2Interface \<Rightarrow> fp" where
  "desired_steer_wheel control s =
     (let limit = max_steering_wheel (hparams s);
          desired = (lateral_steering_tire_angle control - steering_offset (hparams s)) * Fin 16
      in std_min (std_max (- desired) (- limit)) limit)"

definition check_clear_flag :: "Hooke2Interface \<Rightarrow> bool \<times> Hooke2Interface" where
  "check_clear_flag s =
     (if is_hooke2_auto_enabled s then (False, s\<lparr>is_clear_override_needed := False\<rparr>)
      else if is_clear_override_needed s then (True, s)
      else (False, s))"

definition report_timed_out :: "HookeWorld \<Rightarrow> int \<Rightarrow> Hooke2Interface \<Rightarrow> bool" where
  "report_timed_out w current_time s \<longleftrightarrow>
     Fin 1 < duration_seconds w (current_time - gl_stamp_ns (global_rpt s))"

definition update_engagement :: "HookeWorld \<Rightarrow> int \<Rightarrow> Hooke2Interface \<Rightarrow> Hooke2Interface" where
  "update_engagement w current_time s =
     (let s = (if \<not> prev_override s \<and> gl_override_active (global_rpt s)
               then s\<lparr>engage_cmd := False\<rparr> else s);
          s = s\<lparr>prev_override := gl_override_active (global_rpt s)\<rparr>;
          s = (if report_timed_out w current_time s then s\<lparr>engage_cmd := False\<rparr> else s)
      in if gl_sys_fault_active (global_rpt s) then s\<lparr>engage_cmd := False\<rparr> else s)"

definition brake_for_shift_trans :: fp where "brake_for_shift_trans = d64 (7 / 10)"

definition check_shift_change ::
  "fp \<Rightarrow> gear_request \<Rightarrow> SystemRptInt \<Rightarrow> fp \<times> fp \<Rightarrow> Hooke2Interface \<Rightarrow>
     (fp \<times> fp) \<times> u16 \<times> Hooke2Interface" where
  "check_shift_change current_velocity gear gear_rpt targets s =
     (if fp_abs current_velocity < d64 (1 / 10)
      then let (wanted, s) = toHooke2ShiftCmd gear s
           in if wanted \<noteq> ri_output gear_rpt
              then let (desired_shift, s) = toHooke2ShiftCmd gear s
                   in ((Fin 0, brake_for_shift_trans), desired_shift, s\<lparr>vehicle_shift_counter := 10\<rparr>)
              else (targets, ri_output gear_rpt, s)
      else (targets, ri_output gear_rpt, s))"

definition enable_flag :: "bool \<Rightarrow> Hooke2Interface \<Rightarrow> bool" where
  "enable_flag clear_override s =
     (if clear_override \<and> need_separate_engage_sequence (hparams s) then False else engage_cmd s)"

definition float_cmd :: "bool \<Rightarrow> fp \<Rightarrow> Hooke2Interface \<Rightarrow> SystemCmdFloat" where
  "float_cmd clear_override command s =
     \<lparr>cf_enable = enable_flag clear_override s, cf_ignore_overrides = False,
      cf_clear_override = clear_override, cf_command = command\<rparr>"

definition int_cmd :: "bool \<Rightarrow> u16 \<Rightarrow> Hooke2Interface \<Rightarrow> SystemCmdInt" where
  "int_cmd clear_override command s =
     \<lparr>ci_enable = enable_flag clear_override s, ci_ignore_overrides = False,
      ci_clear_override = clear_override, ci_command = command\<rparr>"

definition publish_throttle_cmd :: "bool \<Rightarrow> fp \<Rightarrow> Hooke2Interface \<Rightarrow> Hooke2Interface" where
  "publish_throttle_cmd clear_override desired_throttle s =
     (let command = std_max (Fin 0) (std_min desired_throttle (max_throttle (hparams s)));
          cmd = float_cmd clear_override command s;
          s = s\<lparr>msg_throttle_cmd := (msg_throttle_cmd s)\<lparr>throttle_pedal_target := command\<rparr>\<rparr>
      in publish (Throttle_cmd cmd) s)"

definition publish_acceleration_cmd :: "bool \<Rightarrow> Hooke2Interface \<Rightarrow> Hooke2Interface" where
  "publish_acceleration_cmd clear_override s =
     (let command = (if Fin 0 < desired_acceleration s then desired_acceleration s else Fin 0);
          cmd = float_cmd clear_override command s;
          s = s\<lparr>msg_throttle_cmd := (msg_throttle_cmd s)\<lparr>throttle_acc := command\<rparr>\<rparr>
      in publish (Acceleration_cmd cmd) s)"

definition speed_command :: "fp \<Rightarrow> fp \<Rightarrow> fp" where
  "speed_command speed limit =
     (if Fin 0 \<le> speed then std_max (Fin 0) (std_min speed limit)
      else std_max (d64 (2 / 10)) (std_min (- speed) limit))"

definition publish_speed_cmd :: "bool \<Rightarrow> Hooke2Interface \<Rightarrow> Hooke2Interface" where
  "publish_speed_cmd clear_override s =
     (let command = speed_command (desired_speed s) (max_speed (hparams s));
          cmd = float_cmd clear_override command s;
          s = s\<lparr>msg_throttle_cmd := (msg_throttle_cmd s)\<lparr>vel_target := command\<rparr>\<rparr>
      in publish (Speed_cmd cmd) s)"

definition publish_brake_cmd :: "bool \<Rightarrow> fp \<Rightarrow> Hooke2Interface \<Rightarrow> Hooke2Interface" where
  "publish_brake_cmd clear_override desired_brake s =
     (let command = std_max (Fin 0) (std_min desired_brake (max_brake (hparams s)));
          cmd = float_cmd clear_override command s;
          s = s\<lparr>msg_brake_cmd := (msg_brake_cmd s)
                 \<lparr>brake_pedal_target := command,
                  brake_dec := if desired_acceleration s < Fin 0 then desired_acceleration s else Fin 0\<rparr>\<rparr>
      in publish (Brake_cmd cmd) s)"

text \<open>\<open>static_cast<int32_t>(180.0 / M_PI)\<close> discards the fraction before the product is taken.\<close>

definition publish_steer_cmd ::
  "HookeWorld \<Rightarrow> int \<Rightarrow> bool \<Rightarrow> fp \<Rightarrow> fp \<Rightarrow> Hooke2Interface \<Rightarrow> Hooke2Interface option" where
  "publish_steer_cmd w current_time clear_override desired current_steer_wheel s = do {
     let rate = max_steering_wheel_rate (hparams s);
     let command = steerWheelRateLimiter w desired (prev_steer_command s) current_time
                     (prev_steer_cmd_time s) rate current_steer_wheel (engage_cmd s);
     let cmd = \<lparr>sc_enable = enable_flag clear_override s, sc_ignore_overrides = False,
                sc_clear_override = clear_override, sc_command = command,
                sc_wheel_tier_angle = command / Fin 16, sc_rotation_rate = rate\<rparr>;
     degrees \<leftarrow> fp_to_i32 deg_per_rad;
     target \<leftarrow> fp_to_i32 (command * d64_of_int degrees);
     let s = s\<lparr>msg_steering_cmd := (msg_steering_cmd s)\<lparr>steer_angle_target := target\<rparr>\<rparr>;
     let s = publish (Steer_cmd cmd) s;
     Some (s\<lparr>prev_steer_command := command, prev_steer_cmd_time := current_time\<rparr>)
   }"

definition publish_raw_steer_cmd ::
  "bool \<Rightarrow> fp \<Rightarrow> fp \<Rightarrow> ControlCommand \<Rightarrow> Hooke2Interface \<Rightarrow> Hooke2Interface" where
  "publish_raw_steer_cmd clear_override desired adaptive_gear_ratio control s =
     publish (Raw_steer_cmd
       \<lparr>sc_enable = enable_flag clear_override s, sc_ignore_overrides = False,
        sc_clear_override = clear_override, sc_command = desired, sc_wheel_tier_angle = Fin 0,
        sc_rotation_rate = lateral_steering_tire_rotation_rate control * adaptive_gear_ratio\<rparr>) s"

definition publish_shift_cmd :: "bool \<Rightarrow> u16 \<Rightarrow> Hooke2Interface \<Rightarrow> Hooke2Interface" where
  "publish_shift_cmd clear_override desired_shift s =
     (let cmd = int_cmd clear_override desired_shift s;
          s = s\<lparr>msg_gear_cmd := (msg_gear_cmd s)\<lparr>gear_target := ucast desired_shift\<rparr>\<rparr>
      in publish (Shift_cmd cmd) s)"

definition publish_parking_cmd :: "bool \<Rightarrow> Hooke2Interface \<Rightarrow> Hooke2Interface" where
  "publish_parking_cmd clear_override s =
     publish (Parking_cmd (int_cmd clear_override
       (if park_target (msg_park_cmd s) = PARK_TARGET_RELEASE then 0 else 1) s)) s"

definition publish_turn_cmd :: "HookeWorld \<Rightarrow> bool \<Rightarrow> Hooke2Interface \<Rightarrow> Hooke2Interface option" where
  "publish_turn_cmd w clear_override s =
     (case (turn_indicators_cmd_ptr s, hazard_lights_cmd_ptr s) of
        (Some turn, Some hazard) \<Rightarrow> do {
          let enable = enable_flag clear_override s;
          (command, s) \<leftarrow> toHooke2TurnCmdWithHazardRecover w turn hazard s;
          Some (publish (Turn_cmd \<lparr>ci_enable = enable, ci_ignore_overrides = False,
                  ci_clear_override = clear_override, ci_command = command\<rparr>) s)
        }
      | _ \<Rightarrow> Some s)"

definition update_disable_flag :: "Hooke2Interface \<Rightarrow> Hooke2Interface" where
  "update_disable_flag s =
     (if \<not> engage_cmd s \<and> is_hooke2_auto_enabled s then s
      else if engage_cmd s \<and> \<not> gl_override_active (global_rpt s) then s\<lparr>disable_auto_mode := False\<rparr>
      else if gl_override_active (global_rpt s) then s\<lparr>disable_auto_mode := True\<rparr>
      else s)"

text \<open>The part before anything is published: targets, emergency, engagement and shift change.\<close>

record CommandPlan =
  plan_throttle :: fp
  plan_brake :: fp
  plan_shift :: u16
  plan_clear_override :: bool

definition plan_commands ::
  "HookeWorld \<Rightarrow> int \<Rightarrow> ControlCommand \<Rightarrow> gear_request \<Rightarrow> WheelSpeedRpt \<Rightarrow> SystemRptInt \<Rightarrow>
     Hooke2Interface \<Rightarrow> CommandPlan \<times> Hooke2Interface" where
  "plan_commands w current_time control gear wheel_speed gear_rpt s =
     (let s = take_desired control s;
          (targets, s) = check_emergency w current_time (pedal_targets s) s;
          current_velocity = calculateVehicleVelocity wheel_speed gear_rpt s;
          (clear_override, s) = check_clear_flag s;
          s = update_engagement w current_time s;
          ((throttle, brake), shift, s) = check_shift_change current_velocity gear gear_rpt targets s
      in (\<lparr>plan_throttle = throttle, plan_brake = brake, plan_shift = shift,
           plan_clear_override = clear_override\<rparr>, s))"

text \<open>The part that publishes.\<close>

definition publish_plan ::
  "HookeWorld \<Rightarrow> int \<Rightarrow> ControlCommand \<Rightarrow> fp \<Rightarrow> fp \<Rightarrow> CommandPlan \<Rightarrow> Hooke2Interface \<Rightarrow>
     Hooke2Interface option" where
  "publish_plan w current_time control current_velocity current_steer_wheel plan s = do {
     let clear = plan_clear_override plan;
     let desired = desired_steer_wheel control s;
     let ratio = calculateVariableGearRatio current_velocity current_steer_wheel s;
     let s = publish_throttle_cmd clear (plan_throttle plan) s;
     let s = publish_acceleration_cmd clear s;
     let s = publish_speed_cmd clear s;
     let s = publish_brake_cmd clear (plan_brake plan) s;
     s \<leftarrow> publish_steer_cmd w current_time clear desired current_steer_wheel s;
     let s = publish_raw_steer_cmd clear desired ratio control s;
     let s = publish_shift_cmd clear (plan_shift plan) s;
     let s = publish_parking_cmd clear s;
     s \<leftarrow> publish_turn_cmd w clear s;
     Some (update_disable_flag s)
   }"

definition publishCommands :: "HookeWorld \<Rightarrow> Hooke2Interface \<Rightarrow> Hooke2Interface option" where
  "publishCommands w s =
     (if \<not> command_guard s then Some s
      else do {
        control \<leftarrow> control_cmd_ptr s;
        gear \<leftarrow> gear_cmd_ptr s;
        let (current_time, s) = ros_now w s;
        wheel_speed \<leftarrow> wheel_speed_rpt_ptr s;
        gear_rpt \<leftarrow> gear_rpt_ptr s;
        steer_wheel_rpt \<leftarrow> steer_wheel_rpt_ptr s;
        let current_velocity = calculateVehicleVelocity wheel_speed gear_rpt s;
        let (plan, s) = plan_commands w current_time control gear wheel_speed gear_rpt s;
        publish_plan w current_time control current_velocity (rf_output steer_wheel_rpt) plan s
      })"

end
