(* ===== verification/Hooke2_Can.thy ===== *)
theory Hooke2_Can
  imports Hooke2_Commands
begin

text \<open>
  The CAN side of \<open>Hooke2Interface\<close>: \<open>publishCan\<close>, which packs the stored commands into the
  six command frames, the thread \<open>enableAutoMode\<close> that raises the enable flags, and
  \<open>canTxCallback\<close>, which dispatches the frames of the vehicle to the report handlers.
\<close>

section \<open>Sending the command frames\<close>

definition zero_data :: bytes where "zero_data = replicate CANBUS_MESSAGE_LENGTH 0"

definition throttle_can :: "Hooke2Interface \<Rightarrow> Throttlecommand100" where
  "throttle_can s =
     (let can = Throttlecommand100_Reset; msg = msg_throttle_cmd s;
          interface = vehicle_driving_interface (hparams s)
      in if \<not> disable_auto_mode s
         then let can = set_throttle_en_ctrl (throttle_en_ctrl msg) can
              in if interface = THROTTLE_PEDAL_MODE
                 then set_throttle_acc (Fin 0) (set_throttle_pedal_target (throttle_pedal_target msg) can)
                 else if interface = ACCELERATION_MODE
                 then set_throttle_pedal_target (Fin 0) (set_throttle_acc (throttle_acc msg) can)
                 else if interface = SPEED_MODE
                 then set_vel_target (vel_target msg) can
                 else can
         else Throttlecommand100_Reset)"

definition send_throttle :: "Hooke2Interface \<Rightarrow> Hooke2Interface option" where
  "send_throttle s = do {
     data \<leftarrow> Throttlecommand100_UpdateData (throttle_can s) zero_data;
     Some (publish (Can_frame Throttlecommand100_ID data) s)
   }"

definition brake_can :: "Hooke2Interface \<Rightarrow> Brakecommand101" where
  "brake_can s =
     (let can = Brakecommand101_Reset; msg = msg_brake_cmd s
      in if \<not> disable_auto_mode s
         then let can = set_aeb_en_ctrl (aeb_en_ctrl msg) can;
                  can = set_brake_dec (Fin 0) can;
                  can = set_brake_pedal_target (brake_pedal_target msg) can
              in set_brake_en_ctrl (brake_en_ctrl msg) can
         else Brakecommand101_Reset)"

definition send_brake :: "Hooke2Interface \<Rightarrow> Hooke2Interface option" where
  "send_brake s = do {
     data \<leftarrow> Brakecommand101_UpdateData (brake_can s) zero_data;
     Some (publish (Can_frame Brakecommand101_ID data) s)
   }"

definition steering_can :: "Hooke2Interface \<Rightarrow> Steeringcommand102" where
  "steering_can s =
     (let can = Steeringcommand102_Reset; msg = msg_steering_cmd s
      in if \<not> disable_auto_mode s
         then let can = set_steer_en_ctrl (steer_en_ctrl msg) can;
                  can = set_steer_angle_target (steer_angle_target msg) can
              in set_steer_angle_spd (steer_angle_spd msg) can
         else Steeringcommand102_Reset)"

definition send_steering :: "Hooke2Interface \<Rightarrow> Hooke2Interface option" where
  "send_steering s = do {
     data \<leftarrow> Steeringcommand102_UpdateData (steering_can s) zero_data;
     Some (publish (Can_frame Steeringcommand102_ID data) s)
   }"

definition gear_can :: "Hooke2Interface \<Rightarrow> Gearcommand103" where
  "gear_can s =
     (let can = Gearcommand103_Reset; msg = msg_gear_cmd s
      in if \<not> disable_auto_mode s
         then set_gear_target (gear_target msg) (set_gear_en_ctrl (gear_en_ctrl msg) can)
         else Gearcommand103_Reset)"

definition send_gear :: "Hooke2Interface \<Rightarrow> Hooke2Interface" where
  "send_gear s =
     publish (Can_frame Gearcommand103_ID (Gearcommand103_UpdateData (gear_can s) zero_data)) s"

definition park_can :: "Hooke2Interface \<Rightarrow> Parkcommand104" where
  "park_can s =
     (let can = Parkcommand104_Reset; msg = msg_park_cmd s
      in if \<not> disable_auto_mode s
         then set_park_en_ctrl (park_en_ctrl msg) (set_park_target (park_target msg) can)
         else Parkcommand104_Reset)"

definition send_park :: "Hooke2Interface \<Rightarrow> Hooke2Interface" where
  "send_park s =
     publish (Can_frame Parkcommand104_ID (Parkcommand104_UpdateData (park_can s) zero_data)) s"

definition vehicle_mode_can :: "Hooke2Interface \<Rightarrow> Vehiclemodecommand105" where
  "vehicle_mode_can s =
     (let can = Vehiclemodecommand105_Reset; msg = msg_vehicle_mode_cmd s
      in if \<not> disable_auto_mode s
         then let can = set_turn_light_ctrl (turn_light_ctrl msg) can;
                  can = set_vin_req (vin_req msg) can;
                  can = set_drive_mode_ctrl (drive_mode_ctrl msg) can
              in set_steer_mode_ctrl (steer_mode_ctrl msg) can
         else Vehiclemodecommand105_Reset)"

definition send_vehicle_mode :: "Hooke2Interface \<Rightarrow> Hooke2Interface" where
  "send_vehicle_mode s =
     publish (Can_frame Vehiclemodecommand105_ID
       (Vehiclemodecommand105_UpdateData (vehicle_mode_can s) zero_data)) s"

definition publishCan :: "Hooke2Interface \<Rightarrow> Hooke2Interface option" where
  "publishCan s = do {
     s \<leftarrow> send_throttle s;
     s \<leftarrow> send_brake s;
     s \<leftarrow> send_steering s;
     Some (send_vehicle_mode (send_park (send_gear s)))
   }"

section \<open>The thread that enables drive-by-wire\<close>

text \<open>
  \<open>checkResponse\<close>, with the number of tries left; no condition of the loop body can fail once a
  report has been received.
\<close>

fun check_response_loop :: "nat \<Rightarrow> bool \<Rightarrow> Hooke2Interface \<Rightarrow> bool" where
  "check_response_loop 0 need_wait s = False"
| "check_response_loop (Suc retry_num) need_wait s =
     (if \<not> is_hooke2_rpt_received s then False
      else let check_ok = True
           in if check_ok then True
              else if need_wait then check_response_loop retry_num need_wait s
              else False)"

definition checkResponse :: "Hooke2Interface \<Rightarrow> bool \<Rightarrow> bool" where
  "checkResponse s need_wait = check_response_loop 50 need_wait s"

definition select_modes :: "Hooke2Interface \<Rightarrow> Hooke2Interface" where
  "select_modes s =
     (let drive = (if vehicle_driving_interface (hparams s) = SPEED_MODE then 1 else 0);
          s = s\<lparr>msg_vehicle_mode_cmd := (msg_vehicle_mode_cmd s)\<lparr>drive_mode_ctrl := drive\<rparr>\<rparr>;
          steering = vehicle_steering_interface (hparams s)
      in if steering = 0
         then s\<lparr>msg_vehicle_mode_cmd := (msg_vehicle_mode_cmd s)\<lparr>steer_mode_ctrl := 0\<rparr>\<rparr>
         else if steering = 1
         then s\<lparr>msg_vehicle_mode_cmd := (msg_vehicle_mode_cmd s)\<lparr>steer_mode_ctrl := 1\<rparr>\<rparr>
         else s)"

definition enable_wires :: "Hooke2Interface \<Rightarrow> Hooke2Interface option" where
  "enable_wires s = do {
     let s = s\<lparr>msg_park_cmd := (msg_park_cmd s)\<lparr>park_en_ctrl := 1, park_target := PARK_TARGET_RELEASE\<rparr>,
              msg_gear_cmd := (msg_gear_cmd s)\<lparr>gear_en_ctrl := 1, gear_target := 4\<rparr>\<rparr>;
     steer_wheel_rpt \<leftarrow> steer_wheel_rpt_ptr s;
     angle \<leftarrow> fp_to_i32 (rf_output steer_wheel_rpt);
     Some (s\<lparr>msg_steering_cmd := (msg_steering_cmd s)
              \<lparr>steer_en_ctrl := 1, steer_angle_spd := 220, steer_angle_target := angle\<rparr>,
            msg_brake_cmd := (msg_brake_cmd s)\<lparr>brake_en_ctrl := 1\<rparr>,
            msg_throttle_cmd := (msg_throttle_cmd s)
              \<lparr>throttle_en_ctrl := 1, vel_target := current_speed s\<rparr>\<rparr>)
   }"

text \<open>One pass of the loop; the boolean says whether the thread goes on.\<close>

definition enable_auto_pass :: "Hooke2Interface \<Rightarrow> (bool \<times> Hooke2Interface) option" where
  "enable_auto_pass s =
     (if \<not> is_running s then Some (False, s)
      else if engage_cmd s
      then if is_hooke2_auto_enabled s then Some (False, s)
           else do {
             s \<leftarrow> enable_wires (select_modes s);
             Some (checkResponse s True, s)
           }
      else Some (True, s))"

definition disableAutoMode :: "Hooke2Interface \<Rightarrow> Hooke2Interface" where
  "disableAutoMode s = s\<lparr>disable_auto_mode := True\<rparr>"

section \<open>Receiving the report frames\<close>

record CanFrame =
  frame_id :: u32
  frame_is_rtr :: bool
  frame_is_error :: bool
  frame_data :: bytes

definition BMS_REPORT :: u32 where "BMS_REPORT = 0x512"
definition THROTTLE_REPORT :: u32 where "THROTTLE_REPORT = 0x500"
definition BRAKE_REPORT :: u32 where "BRAKE_REPORT = 0x501"
definition STEERING_REPORT :: u32 where "STEERING_REPORT = 0x502"
definition GEAR_REPORT :: u32 where "GEAR_REPORT = 0x503"
definition PARK_REPORT :: u32 where "PARK_REPORT = 0x504"
definition VCU_REPORT :: u32 where "VCU_REPORT = 0x505"
definition WHEELSPEED_REPORT :: u32 where "WHEELSPEED_REPORT = 0x506"
definition ULTR_SENSOR_1 :: u32 where "ULTR_SENSOR_1 = 0x507"
definition ULTR_SENSOR_2 :: u32 where "ULTR_SENSOR_2 = 0x508"
definition ULTR_SENSOR_3 :: u32 where "ULTR_SENSOR_3 = 0x509"
definition ULTR_SENSOR_4 :: u32 where "ULTR_SENSOR_4 = 0x510"
definition ULTR_SENSOR_5 :: u32 where "ULTR_SENSOR_5 = 0x511"
definition VIN_RESP1 :: u32 where "VIN_RESP1 = 0x514"
definition VIN_RESP2 :: u32 where "VIN_RESP2 = 0x515"
definition VIN_RESP3 :: u32 where "VIN_RESP3 = 0x516"

lemmas message_ids =
  BMS_REPORT_def THROTTLE_REPORT_def BRAKE_REPORT_def STEERING_REPORT_def GEAR_REPORT_def
  PARK_REPORT_def VCU_REPORT_def WHEELSPEED_REPORT_def ULTR_SENSOR_1_def ULTR_SENSOR_2_def
  ULTR_SENSOR_3_def ULTR_SENSOR_4_def ULTR_SENSOR_5_def VIN_RESP1_def VIN_RESP2_def VIN_RESP3_def

definition isTargetId :: "u32 \<Rightarrow> bool" where
  "isTargetId i \<longleftrightarrow>
     i = BMS_REPORT \<or> i = 0x101 \<or> i = BRAKE_REPORT \<or> i = 0x103 \<or> i = GEAR_REPORT \<or> i = 0x104 \<or>
     i = PARK_REPORT \<or> i = 0x102 \<or> i = STEERING_REPORT \<or> i = 0x100 \<or> i = THROTTLE_REPORT \<or>
     i = ULTR_SENSOR_1 \<or> i = ULTR_SENSOR_2 \<or> i = ULTR_SENSOR_3 \<or> i = ULTR_SENSOR_4 \<or>
     i = ULTR_SENSOR_5 \<or> i = VCU_REPORT \<or> i = 0x105 \<or> i = VIN_RESP1 \<or> i = VIN_RESP2 \<or>
     i = VIN_RESP3 \<or> i = WHEELSPEED_REPORT"

definition onVinReport516 :: "bytes \<Rightarrow> Hooke2Interface \<Rightarrow> Hooke2Interface" where
  "onVinReport516 msg s =
     (let r = parse_VinReport516 msg in publish (Vin_rpt516 r) (s\<lparr>vin_report516 := r\<rparr>))"

definition onVinReport515 :: "bytes \<Rightarrow> Hooke2Interface \<Rightarrow> Hooke2Interface" where
  "onVinReport515 msg s =
     (let r = parse_VinReport515 msg in publish (Vin_rpt515 r) (s\<lparr>vin_report515 := r\<rparr>))"

definition onVinReport514 :: "bytes \<Rightarrow> Hooke2Interface \<Rightarrow> Hooke2Interface" where
  "onVinReport514 msg s =
     (let r = parse_VinReport514 msg in publish (Vin_rpt514 r) (s\<lparr>vin_report514 := r\<rparr>))"

definition onBmsReport512 :: "bytes \<Rightarrow> Hooke2Interface \<Rightarrow> Hooke2Interface" where
  "onBmsReport512 msg s =
     (let r = parse_BmsReport512 msg in (publish (Bms_rpt512 r) s)\<lparr>bms_rpt512_ptr := Some r\<rparr>)"

definition onWheelSpeedReport506 :: "bytes \<Rightarrow> Hooke2Interface \<Rightarrow> Hooke2Interface" where
  "onWheelSpeedReport506 msg s =
     publish (Wheel_speed_rpt (wheel_speed_rpt_of msg))
       (publish (Wheelspeed_rpt506 (parse_WheelSpeedReport506 msg)) s)"

definition onVcuReport505 :: "bytes \<Rightarrow> Hooke2Interface \<Rightarrow> Hooke2Interface" where
  "onVcuReport505 msg s =
     (let r = parse_VcuReport505 msg;
          s = (if vcu_vehicle_mode_state r = 0 then s\<lparr>is_hooke2_auto_enabled := False\<rparr> else s);
          s = s\<lparr>current_speed := vcu_speed r\<rparr>;
          s = publish (Vcu_rpt505 r) s
      in publish (Turn_rpt (turn_rpt_of msg)) s)"

definition onParkReport504 :: "bytes \<Rightarrow> Hooke2Interface \<Rightarrow> Hooke2Interface" where
  "onParkReport504 msg s =
     (let r = parse_ParkReport504 msg
      in publish (Park_rpt504 r) (s\<lparr>parking_state := uint (parking_actual r)\<rparr>))"

definition onGearReport503 :: "bytes \<Rightarrow> Hooke2Interface \<Rightarrow> Hooke2Interface" where
  "onGearReport503 msg s =
     publish (Shift_rpt (shift_rpt_of msg)) (publish (Gear_rpt503 (parse_GearReport503 msg)) s)"

definition onSteeringReport502 :: "bytes \<Rightarrow> Hooke2Interface \<Rightarrow> Hooke2Interface" where
  "onSteeringReport502 msg s =
     publish (Steer_wheel_rpt (steer_wheel_rpt_of msg))
       (publish (Steering_rpt502 (parse_SteeringReport502 msg)) s)"

definition onBrakeReport501 :: "bytes \<Rightarrow> Hooke2Interface \<Rightarrow> Hooke2Interface" where
  "onBrakeReport501 msg s =
     publish (Brake_rpt (brake_rpt_of msg)) (publish (Brake_rpt501 (parse_BrakeReport501 msg)) s)"

definition onThrottleReport500 :: "bytes \<Rightarrow> Hooke2Interface \<Rightarrow> Hooke2Interface" where
  "onThrottleReport500 msg s =
     publish (Accel_rpt (accel_rpt_of msg)) (publish (Throttle_rpt500 (parse_ThrottleReport500 msg)) s)"

definition canTxCallback :: "CanFrame \<Rightarrow> Hooke2Interface \<Rightarrow> Hooke2Interface" where
  "canTxCallback frame s =
     (let i = frame_id frame; data = frame_data frame
      in if frame_is_rtr frame \<or> frame_is_error frame then s
         else if \<not> isTargetId i then s
         else if i = THROTTLE_REPORT then onThrottleReport500 data s
         else if i = BRAKE_REPORT then onBrakeReport501 data s
         else if i = STEERING_REPORT then onSteeringReport502 data s
         else if i = GEAR_REPORT then onGearReport503 data s
         else if i = PARK_REPORT then onParkReport504 data s
         else if i = VCU_REPORT then onVcuReport505 data s
         else if i = WHEELSPEED_REPORT then onWheelSpeedReport506 data s
         else if i = ULTR_SENSOR_1 then publish (Ultr_507 (parse_UltrSensor507 data)) s
         else if i = ULTR_SENSOR_2 then publish (Ultr_508 (parse_UltrSensor508 data)) s
         else if i = ULTR_SENSOR_3 then publish (Ultr_509 (parse_UltrSensor509 data)) s
         else if i = ULTR_SENSOR_4 then publish (Ultr_510 (parse_UltrSensor510 data)) s
         else if i = ULTR_SENSOR_5 then publish (Ultr_511 (parse_UltrSensor511 data)) s
         else if i = BMS_REPORT then onBmsReport512 data s
         else if i = VIN_RESP1 then onVinReport514 data s
         else if i = VIN_RESP2 then onVinReport515 data s
         else if i = VIN_RESP3 then onVinReport516 data s
         else s)"

end
