(* ===== verification/Hooke2_Feedback.thy ===== *)
theory Hooke2_Feedback
  imports Hooke2_Can
begin

text \<open>
  \<open>Hooke2Interface::callbackHooke2Rpt\<close>, which the message synchroniser calls with six reports of
  about the same time: vehicle identification, the global report, the automatic-mode flag and
  the status messages for Autoware. The double fields of the status messages are given before
  any narrowing to the field types of the Autoware message definitions.
\<close>

section \<open>Vehicle identification\<close>

definition vin_char :: "int \<Rightarrow> u8" where "vin_char n = word_of_int n"

text \<open>The 17 characters appended, in the order of the source.\<close>

definition vin_chars :: "Hooke2Interface \<Rightarrow> bytes" where
  "vin_chars s =
     (let r4 = vin_report514 s; r5 = vin_report515 s; r6 = vin_report516 s
      in map vin_char
           [vin00 r4, vin01 r4, vin02 r4, vin03 r4, vin04 r4, vin05 r4, vin06 r4, vin07 r4,
            vin08 r5, vin09 r5, vin10 r5, vin11 r5, vin12 r5, vin13 r5, vin15 r5, vin15 r5,
            vin16 r6])"

lemma length_vin_chars [simp]: "length (vin_chars s) = 17"
  by (simp add: vin_chars_def Let_def)

definition checkVin :: "Hooke2Interface \<Rightarrow> bool \<times> Hooke2Interface" where
  "checkVin s =
     (let s = s\<lparr>vehicle_id := rev (vehicle_id s @ vin_chars s)\<rparr>
      in if length (vehicle_id s) = 17 then (True, s) else (True, s))"

definition requestVin :: "Hooke2Interface \<Rightarrow> Hooke2Interface" where
  "requestVin s = s\<lparr>msg_vehicle_mode_cmd := (msg_vehicle_mode_cmd s)\<lparr>vin_req := 1\<rparr>\<rparr>"

definition disableVinReq :: "Hooke2Interface \<Rightarrow> Hooke2Interface" where
  "disableVinReq s = s\<lparr>msg_vehicle_mode_cmd := (msg_vehicle_mode_cmd s)\<lparr>vin_req := 0\<rparr>\<rparr>"

definition verifyVehicleId :: "Hooke2Interface \<Rightarrow> Hooke2Interface" where
  "verifyVehicleId s =
     (let (ok, s) = checkVin s in if \<not> ok then requestVin s else disableVinReq s)"

section \<open>The global report\<close>

text \<open>
  The fourth argument is called \<open>wheel_speed_rpt_ptr\<close> in the source and receives the steering
  report.
\<close>

definition processGlobalRpts ::
  "HookeWorld \<Rightarrow> bool \<Rightarrow> bytes \<Rightarrow> SystemRptInt \<Rightarrow> SystemRptFloat \<Rightarrow> SystemRptFloat \<Rightarrow> SystemRptFloat \<Rightarrow>
     Hooke2Interface \<Rightarrow> Hooke2Interface" where
  "processGlobalRpts w autodrive_mode_cmd vin turn_rpt wheel_speed_rpt accel brake s =
     (let (now, s) = ros_now w s;
          mode = ri_vehicle_mode_state turn_rpt;
          override =
            (if mode = VEHICLE_MODE_STATE_MANUAL_REMOTE_MODE then True
             else if mode = VEHICLE_MODE_STATE_AUTO_MODE then False
             else if mode = VEHICLE_MODE_STATE_EMERGENCY_MODE then True
             else False);
          fault = (rf_communication_fault wheel_speed_rpt \<or> rf_communication_fault accel \<or>
                   rf_communication_fault brake);
          g = \<lparr>gl_stamp_ns = now, gl_enabled = autodrive_mode_cmd, gl_override_active = override,
               gl_sys_fault_active = fault, gl_vehicle_vin = vin\<rparr>
      in publish (Global_rpt g) (s\<lparr>global_rpt := g\<rparr>))"

section \<open>The status messages\<close>

definition current_steer :: "SystemRptFloat \<Rightarrow> Hooke2Interface \<Rightarrow> fp" where
  "current_steer steer_wheel s =
     rf_output steer_wheel / d64 (166 / 10) + steering_offset (hparams s)"

definition publish_gear_status :: "SystemRptInt \<Rightarrow> Hooke2Interface \<Rightarrow> Hooke2Interface" where
  "publish_gear_status shift s =
     (case toAutowareShiftReport shift of None \<Rightarrow> s | Some r \<Rightarrow> publish (Gear_status r) s)"

definition publish_battery :: "Hooke2Interface \<Rightarrow> Hooke2Interface" where
  "publish_battery s =
     (case bms_rpt512_ptr s of
        None \<Rightarrow> s
      | Some r \<Rightarrow> publish (Battery_status (to_float (Fin (of_int (battery_soc r))))) s)"

definition publish_status ::
  "HookeWorld \<Rightarrow> SystemRptFloat \<Rightarrow> WheelSpeedRpt \<Rightarrow> SystemRptFloat \<Rightarrow> SystemRptFloat \<Rightarrow>
     SystemRptInt \<Rightarrow> SystemRptInt \<Rightarrow> Hooke2Interface \<Rightarrow> Hooke2Interface" where
  "publish_status w steer_wheel wheel_speed accel brake shift turn s =
     (let velocity = calculateVehicleVelocity wheel_speed shift s;
          steer = current_steer steer_wheel s;
          s = publish (Steering_wheel_status (rf_output steer_wheel)) s;
          s = publish (Control_mode_report (is_hooke2_auto_enabled s)) s;
          s = publish_gear_status shift s;
          s = publish (Velocity_report velocity (velocity * std_tan w steer) (Fin 0)) s;
          s = publish (Steering_status steer) s;
          s = publish (Actuation_status (rf_output accel) (rf_output brake) steer) s;
          s = publish (Turn_status (toAutowareTurnIndicatorsReport turn)) s;
          s = publish (Hazard_status (toAutowareHazardLightsReport turn)) s
      in publish_battery s)"

definition store_reports ::
  "SystemRptFloat \<Rightarrow> WheelSpeedRpt \<Rightarrow> SystemRptFloat \<Rightarrow> SystemRptFloat \<Rightarrow> SystemRptInt \<Rightarrow>
     SystemRptInt \<Rightarrow> Hooke2Interface \<Rightarrow> Hooke2Interface" where
  "store_reports steer_wheel wheel_speed accel brake shift turn s =
     s\<lparr>is_hooke2_rpt_received := True, steer_wheel_rpt_ptr := Some steer_wheel,
       wheel_speed_rpt_ptr := Some wheel_speed, accel_rpt_ptr := Some accel,
       brake_rpt_ptr := Some brake, gear_rpt_ptr := Some shift, turn_rpt_ptr := Some turn\<rparr>"

definition callbackHooke2Rpt ::
  "HookeWorld \<Rightarrow> SystemRptFloat \<Rightarrow> WheelSpeedRpt \<Rightarrow> SystemRptFloat \<Rightarrow> SystemRptFloat \<Rightarrow>
     SystemRptInt \<Rightarrow> SystemRptInt \<Rightarrow> Hooke2Interface \<Rightarrow> Hooke2Interface" where
  "callbackHooke2Rpt w steer_wheel wheel_speed accel brake shift turn s =
     (let s = store_reports steer_wheel wheel_speed accel brake shift turn s;
          s = verifyVehicleId s;
          s = processGlobalRpts w (control_mode_cmd s) (vehicle_id s) turn steer_wheel accel brake s;
          s = s\<lparr>is_hooke2_auto_enabled := rf_enabled steer_wheel \<and> rf_enabled accel \<and> rf_enabled brake\<rparr>
      in publish_status w steer_wheel wheel_speed accel brake shift turn s)"

end
