(* ===== verification/Can_Frames.thy ===== *)
theory Can_Frames
  imports Can_Protocol
begin

text \<open>
  What the command frames say to a receiver. A receiver reads a signal from its bits as the
  protocol lays them out; the lemmas compute these readings from the members, first for the
  conversion of a physical value to its integer (\<open>wire_value\<close>), then frame by frame.
\<close>

section \<open>Physical values\<close>

definition wire_value :: "fp \<Rightarrow> fp \<Rightarrow> fp \<Rightarrow> fp \<Rightarrow> int option" where
  "wire_value lower upper step v = fp_to_i32 (BoundedValue lower upper v / step)"

lemma d64_001: "d64 (1 / 100) = Fin (5764607523034235 / 2 ^ 59)"
  using d64_eval [of "1 / 100" 59 5764607523034235] by simp

lemma d64_01: "d64 (1 / 10) = Fin (7205759403792794 / 2 ^ 56)"
  using d64_eval [of "1 / 10" 56 7205759403792794] by simp

lemma d64_1023: "d64 (1023 / 100) = Fin (5758978023500022 / 2 ^ 49)"
  using d64_eval [of "1023 / 100" 49 5758978023500022] by simp

lemma fp_le_Fin_cases: "v \<noteq> NaN \<Longrightarrow> lo \<le> hi \<Longrightarrow>
  \<exists>r. BoundedValue (Fin lo) (Fin hi) v = Fin r \<and> lo \<le> r \<and> r \<le> hi \<and>
      (\<forall>x. v = Fin x \<longrightarrow> r = max lo (min hi x))"
  by (cases v) (auto simp: BoundedValue_def max_def min_def)

lemma BoundedValue_NaN [simp]: "BoundedValue a b NaN = NaN"
  by (simp add: BoundedValue_def)

lemma NaN_div [simp]: "NaN / (s :: fp) = NaN"
  by (cases s) (simp_all add: divide_fp.simps)

lemma wire_value_NaN [simp]: "wire_value lo hi s NaN = None"
  by (simp add: wire_value_def)

text \<open>
  A value that is not a NaN always has a wire value; it lies between those of the bounds and is
  the bounded value divided by the step, cut to an integer up to the rounding of the division.
\<close>

lemma wire_value_range:
  assumes "v \<noteq> NaN" "lo \<le> hi" "0 < s" "d64 (lo / s) = Fin a" "d64 (hi / s) = Fin b"
    and "- 2147483648 \<le> trunc_rat a" "trunc_rat b \<le> 2147483647"
  obtains x r q where "wire_value (Fin lo) (Fin hi) (Fin s) v = Some x"
    "BoundedValue (Fin lo) (Fin hi) v = Fin r" "lo \<le> r" "r \<le> hi" "d64 (r / s) = Fin q"
    "x = trunc_rat q" "trunc_rat a \<le> x" "x \<le> trunc_rat b" "a \<le> q"
    "\<And>y. v = Fin y \<Longrightarrow> r = max lo (min hi y)"
proof -
  obtain r where r: "BoundedValue (Fin lo) (Fin hi) v = Fin r" "lo \<le> r" "r \<le> hi"
    "\<And>y. v = Fin y \<Longrightarrow> r = max lo (min hi y)"
    using fp_le_Fin_cases [OF assms(1,2)] by blast
  have "Fin a \<le> d64 (r / s)" "d64 (r / s) \<le> Fin b"
    using d64_mono [of "lo / s" "r / s"] d64_mono [of "r / s" "hi / s"] r(2,3) assms(3-5)
    by (simp_all add: divide_right_mono)
  then obtain q where q: "d64 (r / s) = Fin q" "a \<le> q" "q \<le> b"
    by (cases "d64 (r / s)") (auto simp: less_eq_fp_def fp_eq_def)
  have t: "trunc_rat a \<le> trunc_rat q" "trunc_rat q \<le> trunc_rat b"
    using q by (simp_all add: trunc_rat_mono)
  with assms(6,7) have "fits_i32 (trunc_rat q)" by (simp add: fits_i32_def)
  with r q(1) assms(3) have "wire_value (Fin lo) (Fin hi) (Fin s) v = Some (trunc_rat q)"
    by (simp add: wire_value_def)
  with r q t that show ?thesis by blast
qed

text \<open>The three scales of the protocol: percent, metres per second squared, metres per second.\<close>

definition wire_percent :: "fp \<Rightarrow> int option" where
  "wire_percent v = wire_value (Fin 0) (Fin 100) (d64 (1 / 10)) v"

definition wire_acc :: "fp \<Rightarrow> int option" where
  "wire_acc v = wire_value (Fin 0) (Fin 10) (d64 (1 / 100)) v"

definition wire_dec :: "fp \<Rightarrow> int option" where
  "wire_dec v = wire_value (Fin 1) (Fin 10) (d64 (1 / 100)) v"

text \<open>
  What the sender puts into the velocity field: the code divides the target by 4 first. This is its
  encoding, not the documented meaning of the field, which the configuration comment and the message
  definition give as steps of 0.01 m/s up to 10.23 m/s, without the division.
\<close>

definition wire_vel :: "fp \<Rightarrow> int option" where
  "wire_vel v = wire_value (Fin 0) (d64 (1023 / 100)) (d64 (1 / 100)) (v / Fin 4)"

lemma hundred_by_01: "d64 (100 / (7205759403792794 / 2 ^ 56)) = Fin 1000"
proof -
  have "d64 (100 / (7205759403792794 / 2 ^ 56)) = Fin (of_int 8796093022208000 / 2 ^ 43)"
    by (rule d64_eval) simp_all
  then show ?thesis by simp
qed

lemma ten_by_001: "d64 (10 / (5764607523034235 / 2 ^ 59)) = Fin 1000"
proof -
  have "d64 (10 / (5764607523034235 / 2 ^ 59)) = Fin (of_int 8796093022208000 / 2 ^ 43)"
    by (rule d64_eval) simp_all
  then show ?thesis by simp
qed

lemma one_by_001: "d64 (1 / (5764607523034235 / 2 ^ 59)) = Fin 100"
proof -
  have "d64 (1 / (5764607523034235 / 2 ^ 59)) = Fin (of_int 7036874417766400 / 2 ^ 46)"
    by (rule d64_eval) simp_all
  then show ?thesis by simp
qed

lemma top_by_001: "d64 (5758978023500022 / 2 ^ 49 / (5764607523034235 / 2 ^ 59)) = Fin 1023"
proof -
  have "d64 (5758978023500022 / 2 ^ 49 / (5764607523034235 / 2 ^ 59)) = Fin (of_int 8998403161718784 / 2 ^ 43)"
    by (rule d64_eval) simp_all
  then show ?thesis by simp
qed

lemma zero_by: "d64 (0 / s) = Fin 0"
  by simp

lemma trunc_numeral [simp]: "trunc_rat (numeral n) = numeral n"
  using trunc_rat_of_int [of "numeral n"] by (simp del: trunc_rat_of_int)

lemma trunc_0 [simp]: "trunc_rat 0 = 0"
  using trunc_rat_of_int [of 0] by (simp del: trunc_rat_of_int)

lemma div4_not_NaN [simp]: "v \<noteq> NaN \<Longrightarrow> v / Fin 4 \<noteq> NaN"
  by (cases v) (simp_all add: divide_fp.simps)

lemma wire_ranges:
  "v \<noteq> NaN \<Longrightarrow> \<exists>x. wire_percent v = Some x \<and> 0 \<le> x \<and> x \<le> 1000"
  "v \<noteq> NaN \<Longrightarrow> \<exists>x. wire_acc v = Some x \<and> 0 \<le> x \<and> x \<le> 1000"
  "v \<noteq> NaN \<Longrightarrow> \<exists>x. wire_dec v = Some x \<and> 100 \<le> x \<and> x \<le> 1000"
  "v \<noteq> NaN \<Longrightarrow> \<exists>x. wire_vel v = Some x \<and> 0 \<le> x \<and> x \<le> 1023"
proof -
  assume v: "v \<noteq> NaN"
  have v4: "v / Fin 4 \<noteq> NaN" using v by simp
  show "\<exists>x. wire_percent v = Some x \<and> 0 \<le> x \<and> x \<le> 1000"
    unfolding wire_percent_def d64_01
    by (rule wire_value_range [OF v _ _ zero_by hundred_by_01]) simp_all
  show "\<exists>x. wire_acc v = Some x \<and> 0 \<le> x \<and> x \<le> 1000"
    unfolding wire_acc_def d64_001
    by (rule wire_value_range [OF v _ _ zero_by ten_by_001]) simp_all
  show "\<exists>x. wire_dec v = Some x \<and> 100 \<le> x \<and> x \<le> 1000"
    unfolding wire_dec_def d64_001
    by (rule wire_value_range [OF v _ _ one_by_001 ten_by_001]) simp_all
  show "\<exists>x. wire_vel v = Some x \<and> 0 \<le> x \<and> x \<le> 1023"
    unfolding wire_vel_def d64_001 d64_1023
    by (rule wire_value_range [OF v4 _ _ zero_by top_by_001]) simp_all
qed

text \<open>Inside its range a value loses less than one step, up to the rounding of the division.\<close>

lemma wire_value_accuracy:
  assumes q: "d64 (y / s) = Fin q" and s: "0 < s" "1 / s \<le> 200" "\<bar>1 / s - n\<bar> \<le> 1 / 10 ^ 13"
    and y: "0 \<le> y" "y \<le> 100"
  shows "of_int (trunc_rat q) \<le> n * y + 1 / 10 ^ 9 \<and> n * y < of_int (trunc_rat q) + 1 + 1 / 10 ^ 9"
proof -
  have eq: "y / s = y * (1 / s)" by simp
  have inv: "0 \<le> 1 / s" using s(1) by simp
  have "y * (1 / s) \<le> 100 * 200" by (rule mult_mono [OF y(2) s(2) _ inv]) simp
  then have up: "y / s \<le> 20000" by simp
  have nn: "0 \<le> y / s" using y s by simp
  have "\<bar>y / s\<bar> \<le> 20000" using up nn by simp
  also have "(20000 :: rat) \<le> 2 ^ 100" by simp
  finally have "\<bar>y / s\<bar> \<le> 2 ^ 100" .
  then obtain r where r: "d64 (y / s) = Fin r" "\<bar>r - y / s\<bar> \<le> \<bar>y / s\<bar> / 2 ^ 53 + 1 / 2 ^ 100"
    by (rule d64_abs_error)
  have "\<bar>y / s\<bar> / 2 ^ 53 \<le> 20000 / 2 ^ 53" using up nn by (intro divide_right_mono) simp_all
  then have e1: "\<bar>q - y / s\<bar> \<le> 20000 / 2 ^ 53 + 1 / 2 ^ 100" using r q by simp
  have "\<bar>y * (1 / s - n)\<bar> \<le> 100 * (1 / 10 ^ 13)"
    unfolding abs_mult by (rule mult_mono [OF _ s(3)]) (use y in simp_all)
  then have e2: "\<bar>y / s - n * y\<bar> \<le> 100 * (1 / 10 ^ 13)"
    by (simp add: right_diff_distrib mult.commute)
  have small: "(20000 / 2 ^ 53 + 1 / 2 ^ 100) + 100 * (1 / 10 ^ 13) \<le> (1 / 10 ^ 9 :: rat)" by simp
  have "0 \<le> q" using d64_mono [OF nn] q by simp
  from trunc_rat_error [OF this] e1 e2 small show ?thesis by linarith
qed

abbreviation "step001 \<equiv> (5764607523034235 / 2 ^ 59 :: rat)"
abbreviation "top1023 \<equiv> (5758978023500022 / 2 ^ 49 :: rat)"

lemma wire_vel_Fin:
  assumes "BoundedValue (Fin 0) (Fin top1023) (v / Fin 4) = Fin r" "d64 (r / step001) = Fin q"
    "fits_i32 (trunc_rat q)"
  shows "wire_vel v = Some (trunc_rat q)"
  using assms by (simp add: wire_vel_def wire_value_def d64_001 d64_1023)

lemma wire_vel_low: "BoundedValue (Fin 0) (Fin top1023) (v / Fin 4) = Fin 0 \<Longrightarrow> wire_vel v = Some 0"
  using wire_vel_Fin [of v 0 0] by (simp add: fits_i32_def)

lemma wire_vel_high: "BoundedValue (Fin 0) (Fin top1023) (v / Fin 4) = Fin top1023 \<Longrightarrow> wire_vel v = Some 1023"
  using wire_vel_Fin [of v top1023 1023, OF _ top_by_001] by (simp add: fits_i32_def)

lemma wire_vel_inside:
  assumes y: "0 < y" "y < 4092 / 100"
  obtains x where "wire_vel (Fin y) = Some x" "0 \<le> x" "x \<le> 1023"
    "of_int x \<le> 25 * y + 1 / 10 ^ 8" "25 * y < of_int x + 1 + 1 / 10 ^ 8"
proof -
  have "\<bar>y / 4\<bar> \<le> 11" using y by simp
  also have "(11 :: rat) \<le> 2 ^ 100" by simp
  finally obtain w where w: "d64 (y / 4) = Fin w" "\<bar>w - y / 4\<bar> \<le> \<bar>y / 4\<bar> / 2 ^ 53 + 1 / 2 ^ 100"
    by (rule d64_abs_error)
  have "\<bar>y / 4\<bar> / 2 ^ 53 \<le> 11 / 2 ^ 53" using y by (intro divide_right_mono) simp_all
  then have werr: "\<bar>w - y / 4\<bar> \<le> 1 / 10 ^ 12" using w(2) by simp
  let ?v = "Fin y / Fin 4"
  have v: "?v = Fin w" using w(1) by simp
  obtain x r q where r: "wire_value (Fin 0) (Fin top1023) (Fin step001) (Fin w) = Some x"
      "BoundedValue (Fin 0) (Fin top1023) (Fin w) = Fin r" "0 \<le> r" "r \<le> top1023"
      "d64 (r / step001) = Fin q" "x = trunc_rat q" "trunc_rat 0 \<le> x" "x \<le> trunc_rat 1023"
      "\<And>y. Fin w = Fin y \<Longrightarrow> r = max 0 (min top1023 y)"
    by (rule wire_value_range [OF _ _ _ zero_by top_by_001, of "Fin w"]) simp_all
  have x: "wire_vel (Fin y) = Some x"
    using r(1) v by (simp only: wire_vel_def d64_001 d64_1023)
  have top: "\<bar>top1023 - 1023 / 100\<bar> \<le> 1 / 10 ^ 12" by simp
  have "\<bar>r - y / 4\<bar> \<le> 2 / 10 ^ 12"
    using r(9) [OF refl] werr top y by (auto simp: max_def min_def split: if_splits)
  moreover have "of_int x \<le> 100 * r + 1 / 10 ^ 9 \<and> 100 * r < of_int x + 1 + 1 / 10 ^ 9"
    unfolding r(6)
  proof (rule wire_value_accuracy [OF r(5)])
    show "r \<le> 100" using r(4) by simp
  qed (use r(3) in simp_all)
  moreover have "100 * (2 / 10 ^ 12) + 1 / 10 ^ 9 \<le> (1 / 10 ^ 8 :: rat)" by simp
  ultimately have "of_int x \<le> 25 * y + 1 / 10 ^ 8" "25 * y < of_int x + 1 + 1 / 10 ^ 8"
    unfolding abs_le_iff by linarith+
  with x r(7,8) that show ?thesis by simp
qed

text \<open>
  The encoding of the velocity target: between 0 and 40.92 m/s the integer of the
  frame is the velocity divided by four, in hundredths, with less than one hundredth lost; outside
  it saturates at 0 and 1023; and only a NaN has no integer, which is undefined behaviour in C++.
\<close>

theorem wire_vel_spec:
  "case v of
     Fin y \<Rightarrow>
       if y \<le> 0 then wire_vel v = Some 0
       else if y < 4092 / 100 then
         \<exists>x. wire_vel v = Some x \<and> 0 \<le> x \<and> x \<le> 1023 \<and>
             of_int x \<le> 25 * y + 1 / 10 ^ 8 \<and> 25 * y < of_int x + 1 + 1 / 10 ^ 8
       else wire_vel v = Some 1023
   | PInf \<Rightarrow> wire_vel v = Some 1023
   | NInf \<Rightarrow> wire_vel v = Some 0
   | NaN \<Rightarrow> wire_vel v = None"
proof (cases v)
  case (Fin y)
  have low: "wire_vel (Fin y) = Some 0" if "y \<le> 0"
  proof (rule wire_vel_low)
    have "d64 (y / 4) \<le> Fin 0" using d64_mono [of "y / 4" 0] that by simp
    then show "BoundedValue (Fin 0) (Fin top1023) (Fin y / Fin 4) = Fin 0"
      by (cases "d64 (y / 4)") (auto simp: BoundedValue_def less_eq_fp_def fp_eq_def)
  qed
  have high: "wire_vel (Fin y) = Some 1023" if "\<not> y < 4092 / 100"
  proof (rule wire_vel_high)
    have "Fin top1023 \<le> d64 (y / 4)" using d64_mono [of "1023 / 100" "y / 4"] that by (simp add: d64_1023)
    then show "BoundedValue (Fin 0) (Fin top1023) (Fin y / Fin 4) = Fin top1023"
      by (cases "d64 (y / 4)") (auto simp: BoundedValue_def less_eq_fp_def fp_eq_def)
  qed
  have mid: "\<exists>x. wire_vel (Fin y) = Some x \<and> 0 \<le> x \<and> x \<le> 1023 \<and>
      of_int x \<le> 25 * y + 1 / 10 ^ 8 \<and> 25 * y < of_int x + 1 + 1 / 10 ^ 8"
    if "0 < y" "y < 4092 / 100"
    using wire_vel_inside [OF that] by metis
  show ?thesis using Fin low high mid by (simp only: fp.case) (metis not_le)
next
  case PInf
  have "BoundedValue (Fin 0) (Fin top1023) (PInf / Fin 4) = Fin top1023"
    by (simp add: BoundedValue_def)
  with PInf wire_vel_high show ?thesis by (simp only: fp.case)
next
  case NInf
  have "BoundedValue (Fin 0) (Fin top1023) (NInf / Fin 4) = Fin 0"
    by (simp add: BoundedValue_def)
  with NInf wire_vel_low show ?thesis by (simp only: fp.case)
next
  case NaN
  then show ?thesis by (simp add: wire_vel_def)
qed

section \<open>Writing and reading the signals\<close>

definition write10 :: "nat \<Rightarrow> int \<Rightarrow> bytes \<Rightarrow> bytes" where
  "write10 k x data =
     at_byte k (set_value (word_of_int (drop_bit 2 x) AND 0xFF) 0 8)
       (at_byte (k + 1) (set_value (word_of_int x AND 0x3) 6 2) data)"

definition write16 :: "nat \<Rightarrow> int \<Rightarrow> bytes \<Rightarrow> bytes" where
  "write16 k x data =
     at_byte k (set_value (word_of_int (drop_bit 8 x) AND 0xFF) 0 8)
       (at_byte (k + 1) (set_value (word_of_int x AND 0xFF) 0 8) data)"

definition read10 :: "nat \<Rightarrow> bytes \<Rightarrow> int" where
  "read10 k f = 4 * uint (f ! k) + uint (get_byte 6 2 (f ! (k + 1)))"

definition read16 :: "nat \<Rightarrow> bytes \<Rightarrow> int" where
  "read16 k f = 256 * uint (f ! k) + uint (f ! (k + 1))"

lemma setters:
  "set_p_vel_target v data = map_option (\<lambda>x. write10 5 x data) (wire_vel v)"
  "set_p_throttle_acc v data = map_option (\<lambda>x. write10 1 x data) (wire_acc v)"
  "set_p_brake_dec v data = map_option (\<lambda>x. write10 1 x data) (wire_dec v)"
  "set_p_throttle_pedal_target v data = map_option (\<lambda>x. write16 3 x data) (wire_percent v)"
  "set_p_brake_pedal_target v data = map_option (\<lambda>x. write16 3 x data) (wire_percent v)"
  by (simp_all add: set_p_vel_target_def set_p_throttle_acc_def set_p_brake_dec_def
      set_p_throttle_pedal_target_def set_p_brake_pedal_target_def write10_def write16_def
      wire_vel_def wire_acc_def wire_dec_def wire_percent_def wire_value_def Let_def
      numeral_2_eq_2 split: Option.bind_split)

lemma and_255 [simp]: "(v :: u8) AND 0xFF = v"
  using and_mask_8 [of v] by (simp add: mask_eq_exp_minus_1)

lemma set_value_whole [simp]: "set_value v 0 8 b = v"
proof -
  have "get_byte 0 8 (set_value v 0 8 b) = v" using whole.get_put [of v b] by simp
  moreover have "get_byte 0 8 x = x" for x
    by (rule u8_eqI) (use get_byte_bit [of 0 8 x] in \<open>simp add: field_ok_def\<close>)
  ultimately show ?thesis by simp
qed

lemma uint_u8_of_int: "uint (word_of_int x :: u8) = x mod 256"
  using uint_word_of_int [of x, where 'a = 8] by simp

lemma uint_and_3: "uint (word_of_int x AND 0x3 :: u8) = x mod 4"
proof -
  have "uint (word_of_int x AND 0x3 :: u8) = uint (word_of_int x :: u8) AND 3"
    by (simp add: unsigned_and_eq)
  also have "\<dots> = take_bit 2 (x mod 256)"
    unfolding uint_u8_of_int by (simp add: take_bit_eq_mask mask_eq_exp_minus_1)
  also have "\<dots> = x mod 4" by (simp add: take_bit_eq_mod mod_mod_cancel)
  finally show ?thesis .
qed

lemma and_3_mask_2: "(v AND 0x3 :: u8) AND mask 2 = v AND 0x3"
  by (rule u8_eqI) (auto simp: bit_simps mask_eq_exp_minus_1)

lemma read10_write10:
  assumes "0 \<le> x" "x < 1024" "k + 1 < length data"
  shows "read10 k (write10 k x data) = x"
proof -
  have "uint (word_of_int (drop_bit 2 x) :: u8) = x div 4"
    using assms(1,2) by (simp add: uint_u8_of_int drop_bit_eq_div)
  moreover have "uint (get_byte 6 2 (set_value (word_of_int x AND 0x3) 6 2 b)) = x mod 4" for b
    using high2.get_put [of "word_of_int x AND 0x3" b] by (simp add: and_3_mask_2 uint_and_3)
  ultimately show ?thesis using assms(3) by (simp add: read10_def write10_def)
qed

lemma read16_write16:
  assumes "0 \<le> x" "x < 65536" "k + 1 < length data"
  shows "read16 k (write16 k x data) = x"
proof -
  have "uint (word_of_int (drop_bit 8 x) :: u8) = x div 256"
    using assms(1,2) by (simp add: uint_u8_of_int drop_bit_eq_div)
  then show ?thesis using assms(3) by (simp add: read16_def write16_def uint_u8_of_int)
qed

lemma write_length [simp]: "length (write10 k x data) = length data" "length (write16 k x data) = length data"
  by (simp_all add: write10_def write16_def)

lemma write_nth_other [simp]:
  "k + 1 < length data \<Longrightarrow> i \<noteq> k \<Longrightarrow> i \<noteq> k + 1 \<Longrightarrow> write10 k x data ! i = data ! i"
  "k + 1 < length data \<Longrightarrow> i \<noteq> k \<Longrightarrow> i \<noteq> k + 1 \<Longrightarrow> write16 k x data ! i = data ! i"
  by (simp_all add: write10_def write16_def)

lemma read_cong:
  "f ! k = g ! k \<Longrightarrow> f ! (k + 1) = g ! (k + 1) \<Longrightarrow> read10 k f = read10 k g"
  "f ! k = g ! k \<Longrightarrow> f ! (k + 1) = g ! (k + 1) \<Longrightarrow> read16 k f = read16 k g"
  by (simp_all add: read10_def read16_def)

lemma bounded_byte: "uint (word_of_int (BoundedValue 0 255 v) :: u8) = BoundedValue 0 255 v"
  unfolding uint_u8_of_int by (rule mod_pos_pos_trivial) (simp_all add: BoundedValue_def)

section \<open>The frames\<close>

lemma throttle_command_bytes:
  assumes "length data = 8"
    and "vel_target c \<noteq> NaN" "throttle_acc c \<noteq> NaN" "throttle_pedal_target c \<noteq> NaN"
  shows "\<exists>f v a p. Throttlecommand100_UpdateData c data = Some f \<and> length f = 8 \<and>
     wire_vel (vel_target c) = Some v \<and> wire_acc (throttle_acc c) = Some a \<and>
     wire_percent (throttle_pedal_target c) = Some p \<and>
     read10 5 f = v \<and> read10 1 f = a \<and> read16 3 f = p \<and>
     get_byte 0 1 (f ! 0) = throttle_en_ctrl c AND 1 \<and>
     uint (f ! 7) = BoundedValue 0 255 (checksum_100 c) \<and>
     (\<forall>i. i \<noteq> 0 \<longrightarrow> bit (f ! 0) i = bit (data ! 0) i) \<and>
     (\<forall>i. i < 6 \<longrightarrow> bit (f ! 2) i = bit (data ! 2) i \<and> bit (f ! 6) i = bit (data ! 6) i)"
proof -
  obtain v a p where w: "wire_vel (vel_target c) = Some v" "0 \<le> v" "v \<le> 1023"
      "wire_acc (throttle_acc c) = Some a" "0 \<le> a" "a \<le> 1000"
      "wire_percent (throttle_pedal_target c) = Some p" "0 \<le> p" "p \<le> 1000"
    using wire_ranges(4) [OF assms(2)] wire_ranges(2) [OF assms(3)] wire_ranges(1) [OF assms(4)] by blast
  let ?d0 = "at_byte 0 (set_value (throttle_en_ctrl c) 0 1) data"
  let ?f3 = "write16 3 p (write10 1 a (write10 5 v ?d0))"
  let ?f = "at_byte 7 (set_value (word_of_int (BoundedValue 0 255 (checksum_100 c))) 0 8) ?f3"
  have upd: "Throttlecommand100_UpdateData c data = Some ?f"
    by (simp add: Throttlecommand100_UpdateData_def Let_def setters w set_p_throttle_en_ctrl_def
        set_p_checksum_100_def)
  have vel: "read10 5 ?f = v"
    using read10_write10 [of v 5 ?d0] w assms(1)
    by (subst read_cong(1) [of _ _ "write10 5 v ?d0"]) simp_all
  have acc: "read10 1 ?f = a"
    using read10_write10 [of a 1 "write10 5 v ?d0"] w assms(1)
    by (subst read_cong(1) [of _ _ "write10 1 a (write10 5 v ?d0)"]) simp_all
  have pedal: "read16 3 ?f = p"
    using read16_write16 [of p 3 "write10 1 a (write10 5 v ?d0)"] w assms(1)
    by (subst read_cong(2) [of _ _ ?f3]) simp_all
  have b0: "?f ! 0 = set_value (throttle_en_ctrl c) 0 1 (data ! 0)" using assms(1) by simp
  have check: "uint (?f ! 7) = BoundedValue 0 255 (checksum_100 c)"
    using assms(1) by (simp add: bounded_byte)
  have b2: "?f ! 2 = set_value (word_of_int a AND 0x3) 6 2 (data ! 2)"
    "?f ! 6 = set_value (word_of_int v AND 0x3) 6 2 (data ! 6)"
    using assms(1) by (simp_all add: write10_def numeral_2_eq_2)
  have rest: "bit (set_value x 0 1 y) i = bit y i" if "i \<noteq> 0" for x y i
    using set_value_bits [of 0 1 x y i] that by (simp add: field_ok_def)
  have rest6: "bit (set_value x 6 2 y) i = bit y i" if "i < 6" for x y i
    using set_value_bits [of 6 2 x y i] that by (simp add: field_ok_def)
  have en: "get_byte 0 1 (?f ! 0) = throttle_en_ctrl c AND 1"
    unfolding b0 using bit0.get_put [of "throttle_en_ctrl c" "data ! 0"] by (simp add: mask_eq_exp_minus_1)
  have o0: "\<forall>i. i \<noteq> 0 \<longrightarrow> bit (?f ! 0) i = bit (data ! 0) i" unfolding b0 using rest by blast
  have o26: "\<forall>i. i < 6 \<longrightarrow> bit (?f ! 2) i = bit (data ! 2) i \<and> bit (?f ! 6) i = bit (data ! 6) i"
    unfolding b2 using rest6 by blast
  have len: "length ?f = 8" using assms(1) by simp
  show ?thesis
    using upd len w(1,4,7) vel acc pedal en check o0 o26 by blast
qed

text \<open>The velocity that the documented scale gives to the value of the field, in metres per second.\<close>

definition documented_vel :: "int \<Rightarrow> rat" where "documented_vel x = of_int x / 100"

lemma documented_quarter:
  assumes "wire_vel (Fin y) = Some x" "0 < y" "y < 4092 / 100"
  shows "y / 4 - 101 / 10 ^ 4 \<le> documented_vel x \<and> documented_vel x \<le> y / 4 + 1 / 10 ^ 10"
proof -
  have "of_int x \<le> 25 * y + 1 / 10 ^ 8 \<and> 25 * y < of_int x + 1 + 1 / 10 ^ 8"
    using wire_vel_spec [of "Fin y"] assms by auto
  then show ?thesis by (auto simp: documented_vel_def field_simps)
qed

text \<open>
  C22: The throttle frame. Unless a target is a NaN, the frame can be built in any buffer of eight
  bytes, and a receiver reads back the enable bit, the acceleration and pedal targets in their
  documented steps of 0.01 m/s^2 and 0.1 per cent, cut to their ranges, and the bounded check byte; no
  other bit of the buffer changes. The velocity field holds a quarter of the target in steps of
  0.01 m/s: read with the documented scale, it is a quarter of the speed that was asked for.
\<close>

theorem throttle_frame:
  assumes "length data = 8"
    and "vel_target c \<noteq> NaN" "throttle_acc c \<noteq> NaN" "throttle_pedal_target c \<noteq> NaN"
  shows "\<exists>f v a p. Throttlecommand100_UpdateData c data = Some f \<and> length f = 8 \<and>
     wire_value (Fin 0) (d64 (1023 / 100)) (d64 (1 / 100)) (vel_target c / Fin 4) = Some v \<and>
     wire_value (Fin 0) (Fin 10) (d64 (1 / 100)) (throttle_acc c) = Some a \<and>
     wire_value (Fin 0) (Fin 100) (d64 (1 / 10)) (throttle_pedal_target c) = Some p \<and>
     read10 5 f = v \<and> read10 1 f = a \<and> read16 3 f = p \<and>
     (\<forall>y. vel_target c = Fin y \<and> 0 < y \<and> y < 4092 / 100 \<longrightarrow>
        y / 4 - 101 / 10 ^ 4 \<le> documented_vel (read10 5 f) \<and> documented_vel (read10 5 f) \<le> y / 4 + 1 / 10 ^ 10) \<and>
     get_byte 0 1 (f ! 0) = throttle_en_ctrl c AND 1 \<and>
     uint (f ! 7) = BoundedValue 0 255 (checksum_100 c) \<and>
     (\<forall>i. i \<noteq> 0 \<longrightarrow> bit (f ! 0) i = bit (data ! 0) i) \<and>
     (\<forall>i. i < 6 \<longrightarrow> bit (f ! 2) i = bit (data ! 2) i \<and> bit (f ! 6) i = bit (data ! 6) i)"
proof -
  obtain f v a p where f: "Throttlecommand100_UpdateData c data = Some f" "length f = 8"
    "wire_vel (vel_target c) = Some v" "wire_acc (throttle_acc c) = Some a"
    "wire_percent (throttle_pedal_target c) = Some p" "read10 5 f = v" "read10 1 f = a" "read16 3 f = p"
    "get_byte 0 1 (f ! 0) = throttle_en_ctrl c AND 1" "uint (f ! 7) = BoundedValue 0 255 (checksum_100 c)"
    "\<forall>i. i \<noteq> 0 \<longrightarrow> bit (f ! 0) i = bit (data ! 0) i"
    "\<forall>i. i < 6 \<longrightarrow> bit (f ! 2) i = bit (data ! 2) i \<and> bit (f ! 6) i = bit (data ! 6) i"
    using throttle_command_bytes [OF assms] by blast
  have "y / 4 - 101 / 10 ^ 4 \<le> documented_vel (read10 5 f) \<and> documented_vel (read10 5 f) \<le> y / 4 + 1 / 10 ^ 10"
    if "vel_target c = Fin y \<and> 0 < y \<and> y < 4092 / 100" for y
    using documented_quarter [of y v] f(3,6) that by simp
  with f show ?thesis unfolding wire_vel_def wire_acc_def wire_percent_def by blast
qed

theorem throttle_frame_witness:
  "\<exists>f. Throttlecommand100_UpdateData (Throttlecommand100_Reset\<lparr>vel_target := Fin 4\<rparr>) (replicate 8 0) = Some f \<and>
     documented_vel (read10 5 f) \<le> 1 + 1 / 10 ^ 10"
  using throttle_frame [of "replicate 8 0" "Throttlecommand100_Reset\<lparr>vel_target := Fin 4\<rparr>"]
  by (auto simp: Throttlecommand100_Reset_def)

lemma brake_command_bytes:
  assumes "length data = 8" "brake_dec c \<noteq> NaN" "brake_pedal_target c \<noteq> NaN"
  shows "\<exists>f d p. Brakecommand101_UpdateData c data = Some f \<and> length f = 8 \<and>
     wire_dec (brake_dec c) = Some d \<and> wire_percent (brake_pedal_target c) = Some p \<and>
     read10 1 f = d \<and> read16 3 f = p \<and>
     get_byte 0 1 (f ! 0) = brake_en_ctrl c AND 1 \<and> get_byte 1 1 (f ! 0) = aeb_en_ctrl c AND 1 \<and>
     uint (f ! 7) = BoundedValue 0 255 (checksum_101 c)"
proof -
  obtain d p where w: "wire_dec (brake_dec c) = Some d" "100 \<le> d" "d \<le> 1000"
      "wire_percent (brake_pedal_target c) = Some p" "0 \<le> p" "p \<le> 1000"
    using wire_ranges(3) [OF assms(2)] wire_ranges(1) [OF assms(3)] by blast
  let ?d0 = "at_byte 0 (set_value (aeb_en_ctrl c) 1 1) data"
  let ?f2 = "write16 3 p (write10 1 d ?d0)"
  let ?f3 = "at_byte 0 (set_value (brake_en_ctrl c) 0 1) ?f2"
  let ?chk = "at_byte 7 (set_value (word_of_int (BoundedValue 0 255 (checksum_101 c))) 0 8)"
  let ?f = "?chk (?chk ?f3)"
  have upd: "Brakecommand101_UpdateData c data = Some ?f"
    by (simp add: Brakecommand101_UpdateData_def Let_def setters w set_p_aeb_en_ctrl_def
        set_p_brake_en_ctrl_def set_p_checksum_101_def)
  have dec: "read10 1 ?f = d"
    using read10_write10 [of d 1 ?d0] w assms(1)
    by (subst read_cong(1) [of _ _ "write10 1 d ?d0"]) simp_all
  have pedal: "read16 3 ?f = p"
    using read16_write16 [of p 3 "write10 1 d ?d0"] w assms(1)
    by (subst read_cong(2) [of _ _ ?f2]) simp_all
  have b0: "?f ! 0 = set_value (brake_en_ctrl c) 0 1 (set_value (aeb_en_ctrl c) 1 1 (data ! 0))"
    using assms(1) by simp
  have flags: "get_byte 0 1 (?f ! 0) = brake_en_ctrl c AND 1 \<and> get_byte 1 1 (?f ! 0) = aeb_en_ctrl c AND 1"
    unfolding b0 using bits01.get_both [of "brake_en_ctrl c" "aeb_en_ctrl c" "data ! 0"]
    by (simp add: mask_eq_exp_minus_1)
  have check: "uint (?f ! 7) = BoundedValue 0 255 (checksum_101 c)"
    using assms(1) by (simp add: bounded_byte)
  have len: "length ?f = 8" using assms(1) by simp
  show ?thesis
    using upd w(1,4) dec pedal flags check len by blast
qed

text \<open>
  The brake frame. Its two enable bits share the first byte and do not disturb each other; a
  receiver reads back both, the quantised deceleration and pedal target and the check byte.
\<close>

theorem brake_frame:
  assumes "length data = 8" "brake_dec c \<noteq> NaN" "brake_pedal_target c \<noteq> NaN"
  shows "\<exists>f d p. Brakecommand101_UpdateData c data = Some f \<and> length f = 8 \<and>
     wire_dec (brake_dec c) = Some d \<and> wire_percent (brake_pedal_target c) = Some p \<and>
     read10 1 f = d \<and> read16 3 f = p \<and>
     get_byte 0 1 (f ! 0) = brake_en_ctrl c AND 1 \<and> get_byte 1 1 (f ! 0) = aeb_en_ctrl c AND 1 \<and>
     uint (f ! 7) = BoundedValue 0 255 (checksum_101 c)"
  using assms by (rule brake_command_bytes)

theorem brake_frame_witness:
  "Brakecommand101_UpdateData (Brakecommand101_Reset\<lparr>aeb_en_ctrl := 1\<rparr>) (replicate 8 0) \<noteq> None"
  using brake_frame [of "replicate 8 0" "Brakecommand101_Reset\<lparr>aeb_en_ctrl := 1\<rparr>"]
  by (auto simp: Brakecommand101_Reset_def)

lemma steer_offset: "- 440 \<le> v \<Longrightarrow> v \<le> 440 \<Longrightarrow> fp_to_i32 (d64_of_int v - Fin (- 500)) = Some (v + 500)"
proof -
  assume v: "- 440 \<le> v" "v \<le> 440"
  then have "\<bar>v\<bar> \<le> 2 ^ 53" "\<bar>v + 500\<bar> \<le> 2 ^ 53" by auto
  then have "d64_of_int v = Fin (of_int v)" "d64 (of_int (v + 500)) = Fin (of_int (v + 500))"
    by (simp_all only: d64_of_int_eq d64_int)
  moreover from this(2) have "d64 (of_int v + 500) = Fin (of_int v + 500)" by simp
  moreover have "trunc_rat (of_int v + 500) = v + 500"
    using trunc_rat_of_int [of "v + 500"] by simp
  ultimately show ?thesis using v by (simp add: minus_fp_def fits_i32_def)
qed

lemma steering_command_bytes:
  assumes "length data = 8"
  shows "\<exists>f. Steeringcommand102_UpdateData c data = Some f \<and> length f = 8 \<and>
     read16 3 f = BoundedValue (- 440) 440 (steer_angle_target c) + 500 \<and>
     uint (f ! 1) = BoundedValue 0 250 (steer_angle_spd c) \<and>
     get_byte 0 1 (f ! 0) = steer_en_ctrl c AND 1 \<and>
     uint (f ! 7) = BoundedValue 0 255 (checksum_102 c)"
proof -
  let ?a = "BoundedValue (- 440) 440 (steer_angle_target c)"
  have r: "- 440 \<le> ?a" "?a \<le> 440" by (auto simp: BoundedValue_def)
  let ?d0 = "at_byte 0 (set_value (steer_en_ctrl c) 0 1) data"
  let ?f1 = "write16 3 (?a + 500) ?d0"
  let ?f2 = "at_byte 1 (set_value (word_of_int (BoundedValue 0 250 (steer_angle_spd c))) 0 8) ?f1"
  let ?f = "at_byte 7 (set_value (word_of_int (BoundedValue 0 255 (checksum_102 c))) 0 8) ?f2"
  have upd: "Steeringcommand102_UpdateData c data = Some ?f"
    using steer_offset [OF r]
    by (simp add: Steeringcommand102_UpdateData_def Let_def set_p_steer_en_ctrl_def
        set_p_steer_angle_target_def set_p_steer_angle_spd_def set_p_checksum_102_def write16_def)
  have angle: "read16 3 ?f = ?a + 500"
    using read16_write16 [of "?a + 500" 3 ?d0] r assms
    by (subst read_cong(2) [of _ _ ?f1]) simp_all
  have spd: "uint (?f ! 1) = BoundedValue 0 250 (steer_angle_spd c)"
    using assms unfolding uint_u8_of_int [symmetric]
    by simp (simp add: uint_u8_of_int BoundedValue_def)
  have en: "get_byte 0 1 (?f ! 0) = steer_en_ctrl c AND 1"
    using assms bit0.get_put [of "steer_en_ctrl c" "data ! 0"] by (simp add: mask_eq_exp_minus_1)
  have check: "uint (?f ! 7) = BoundedValue 0 255 (checksum_102 c)"
    using assms by (simp add: bounded_byte)
  have len: "length ?f = 8" using assms by simp
  show ?thesis using upd len angle spd en check by blast
qed

text \<open>
  The steering frame carries the wheel angle bounded to 440 degrees either way, offset by 500,
  the bounded steering speed and the enable bit; building it never fails.
\<close>

theorem steering_frame:
  assumes "length data = 8"
  shows "\<exists>f. Steeringcommand102_UpdateData c data = Some f \<and> length f = 8 \<and>
     read16 3 f = BoundedValue (- 440) 440 (steer_angle_target c) + 500 \<and>
     uint (f ! 1) = BoundedValue 0 250 (steer_angle_spd c) \<and>
     get_byte 0 1 (f ! 0) = steer_en_ctrl c AND 1 \<and>
     uint (f ! 7) = BoundedValue 0 255 (checksum_102 c)"
  using assms by (rule steering_command_bytes)

theorem steering_frame_witness:
  "\<exists>f. Steeringcommand102_UpdateData (Steeringcommand102_Reset\<lparr>steer_angle_target := 700\<rparr>) (replicate 8 0) = Some f \<and>
     read16 3 f = 940"
  using steering_frame [of "replicate 8 0" "Steeringcommand102_Reset\<lparr>steer_angle_target := 700\<rparr>"]
  by (auto simp: Steeringcommand102_Reset_def BoundedValue_def)

text \<open>
  The gear, park and vehicle mode frames: every enumeration value is read back cut to the
  width of its field, so a value that fits is read back unchanged, and each check byte is the
  bounded check value.
\<close>

theorem mode_frames:
  assumes "length data = 8"
  shows "(let f = Gearcommand103_UpdateData g data in
       get_byte 0 3 (f ! 1) = gear_target g AND 7 \<and> get_byte 0 1 (f ! 0) = gear_en_ctrl g AND 1 \<and>
       uint (f ! 7) = BoundedValue 0 255 (checksum_103 g)) \<and>
     (let f = Parkcommand104_UpdateData p data in
       get_byte 0 1 (f ! 1) = park_target p AND 1 \<and> get_byte 0 1 (f ! 0) = park_en_ctrl p AND 1 \<and>
       uint (f ! 7) = BoundedValue 0 255 (checksum_104 p)) \<and>
     (let f = Vehiclemodecommand105_UpdateData m data in
       get_byte 0 2 (f ! 2) = turn_light_ctrl m AND 3 \<and> get_byte 0 1 (f ! 3) = vin_req m AND 1 \<and>
       get_byte 0 3 (f ! 1) = drive_mode_ctrl m AND 7 \<and> get_byte 0 3 (f ! 0) = steer_mode_ctrl m AND 7 \<and>
       uint (f ! 7) = BoundedValue 0 255 (checksum_105 m))"
proof -
  have f1: "get_byte 0 1 (set_value v 0 1 b) = v AND 1" and f2: "get_byte 0 2 (set_value v 0 2 b) = v AND 3"
    and f3: "get_byte 0 3 (set_value v 0 3 b) = v AND 7" for v b
    using bit0.get_put [of v b] low2.get_put [of v b] low3.get_put [of v b]
    by (simp_all add: mask_eq_exp_minus_1)
  show ?thesis
    using assms
    by (simp add: Let_def f1 f2 f3 bounded_byte Gearcommand103_UpdateData_def set_p_gear_target_def
        set_p_gear_en_ctrl_def set_p_checksum_103_def Parkcommand104_UpdateData_def
        set_p_park_target_def set_p_park_en_ctrl_def set_p_checksum_104_def
        Vehiclemodecommand105_UpdateData_def set_p_turn_light_ctrl_def set_p_vin_req_def
        set_p_drive_mode_ctrl_def set_p_steer_mode_ctrl_def set_p_checksum_105_def)
qed

theorem mode_frames_witness:
  "get_byte 0 3 (Gearcommand103_UpdateData (Gearcommand103_Reset\<lparr>gear_target := 4\<rparr>) (replicate 8 0) ! 1) = 4"
  using mode_frames [of "replicate 8 0" "Gearcommand103_Reset\<lparr>gear_target := 4\<rparr>" Parkcommand104_Reset
      Vehiclemodecommand105_Reset]
  by (simp add: Gearcommand103_Reset_def Let_def)

lemma reset_command_bytes:
  "Brakecommand101_UpdateData Brakecommand101_Reset (replicate 8 0) = Some [0, 0x19, 0, 0, 0, 0, 0, 0] \<and>
   Throttlecommand100_UpdateData Throttlecommand100_Reset (replicate 8 0) = Some (replicate 8 0) \<and>
   Steeringcommand102_UpdateData Steeringcommand102_Reset (replicate 8 0) = Some [0, 0, 0, 1, 0xF4, 0, 0, 0] \<and>
   Gearcommand103_UpdateData Gearcommand103_Reset (replicate 8 0) = replicate 8 0 \<and>
   Parkcommand104_UpdateData Parkcommand104_Reset (replicate 8 0) = replicate 8 0 \<and>
   Vehiclemodecommand105_UpdateData Vehiclemodecommand105_Reset (replicate 8 0) = replicate 8 0"
proof -
  have rep: "replicate 8 0 = [0, 0, 0, 0, 0, 0, 0, 0 :: u8]" by (simp add: numeral_eq_Suc)
  have dec: "wire_dec (Fin 0) = Some 100"
    using one_by_001 by (simp add: wire_dec_def wire_value_def BoundedValue_def d64_001 fits_i32_def
        del: div_by_1 times_divide_eq_left times_divide_eq_right divide_divide_eq_right)
  have zero: "wire_percent (Fin 0) = Some 0" "wire_acc (Fin 0) = Some 0" "wire_vel (Fin 0) = Some 0"
    by (simp_all add: wire_percent_def wire_acc_def wire_vel_def wire_value_def BoundedValue_def d64_01
        d64_001 d64_1023 fits_i32_def)
  have zeros: "set_value 0 0 1 0 = 0" "set_value 0 1 1 0 = 0" "set_value 0 0 2 0 = 0" "set_value 0 0 3 0 = 0"
    "set_value 0 6 2 0 = 0"
    by (simp_all add: set_value_def BYTE_LENGTH_def Let_def)
  have steer: "fp_to_i32 (d64_of_int 0 - Fin (- 500)) = Some 500" using steer_offset [of 0] by simp
  show ?thesis
    unfolding rep
    by (simp add: Brakecommand101_UpdateData_def Brakecommand101_Reset_def
        Throttlecommand100_UpdateData_def Throttlecommand100_Reset_def
        Steeringcommand102_UpdateData_def Steeringcommand102_Reset_def
        Gearcommand103_UpdateData_def Gearcommand103_Reset_def
        Parkcommand104_UpdateData_def Parkcommand104_Reset_def
        Vehiclemodecommand105_UpdateData_def Vehiclemodecommand105_Reset_def
        setters dec zero steer zeros write10_def write16_def at_byte_def BoundedValue_def
        set_p_aeb_en_ctrl_def set_p_brake_en_ctrl_def set_p_checksum_101_def
        set_p_throttle_en_ctrl_def set_p_checksum_100_def
        set_p_steer_en_ctrl_def set_p_steer_angle_target_def set_p_steer_angle_spd_def set_p_checksum_102_def
        set_p_gear_target_def set_p_gear_en_ctrl_def set_p_checksum_103_def
        set_p_park_target_def set_p_park_en_ctrl_def set_p_checksum_104_def
        set_p_turn_light_ctrl_def set_p_vin_req_def set_p_drive_mode_ctrl_def
        set_p_steer_mode_ctrl_def set_p_checksum_105_def drop_bit_eq_div)
qed

text \<open>
  The frame of a reset brake command is not all zero: its deceleration member is below the
  bound of the signal, so the frame asks for one metre per second squared (\<open>0x19\<close> in the second
  byte). All other command frames are zero after a reset, but for the steering offset.
\<close>

theorem reset_frames:
  "Brakecommand101_UpdateData Brakecommand101_Reset (replicate 8 0) = Some [0, 0x19, 0, 0, 0, 0, 0, 0] \<and>
   Throttlecommand100_UpdateData Throttlecommand100_Reset (replicate 8 0) = Some (replicate 8 0) \<and>
   Steeringcommand102_UpdateData Steeringcommand102_Reset (replicate 8 0) = Some [0, 0, 0, 1, 0xF4, 0, 0, 0] \<and>
   Gearcommand103_UpdateData Gearcommand103_Reset (replicate 8 0) = replicate 8 0 \<and>
   Parkcommand104_UpdateData Parkcommand104_Reset (replicate 8 0) = replicate 8 0 \<and>
   Vehiclemodecommand105_UpdateData Vehiclemodecommand105_Reset (replicate 8 0) = replicate 8 0"
  by (rule reset_command_bytes)

end
