(* ===== verification/Can_Report_Facts.thy ===== *)
theory Can_Report_Facts
  imports Can_Frames Can_Reports
begin

text \<open>
  What the report parsers deliver: the two signed signals of report \<open>0x505\<close> are read in two's
  complement, every scaled signal is finite and within \<open>10\<^sup>-\<^sup>9\<close> of the exact product, and the
  angle written by the steering command is the angle read back from a steering report with the
  same two bytes.
\<close>

section \<open>Sign extension by shifting\<close>

lemma shift_back_signed: "n \<le> 31 \<Longrightarrow> shift_back n x = signed_take_bit (31 - n) x"
proof (rule bit_eqI)
  fix i
  assume n: "n \<le> 31"
  have "bit (shift_back n x) i \<longleftrightarrow>
      bit (signed_drop_bit n (push_bit n (word_of_int x :: u32))) (min i 31)"
    by (auto simp: shift_back_def bit_sint_iff min_def dest: bit_imp_le_length)
  also have "\<dots> \<longleftrightarrow> bit x (min i (31 - n))"
  proof (cases "n = 0")
    case False
    with n show ?thesis
      by (auto simp: bit_signed_drop_bit_iff bit_push_bit_iff bit_word_of_int_iff min_def
          intro: arg_cong [of _ _ "bit x"])
  qed (auto simp: bit_word_of_int_iff min_def)
  finally show "bit (shift_back n x) i \<longleftrightarrow> bit (signed_take_bit (31 - n) x) i"
    by (simp add: bit_signed_take_bit_iff min_def)
qed

lemma shift_back_range: "n \<le> 31 \<Longrightarrow> - (2 ^ (31 - n)) \<le> shift_back n x \<and> shift_back n x < 2 ^ (31 - n)"
  by (simp add: shift_back_signed signed_take_bit_int_greater_eq_minus_exp signed_take_bit_int_less_exp)

lemma shift_back_mod:
  assumes "n \<le> 31"
  shows "shift_back n x mod 2 ^ (32 - n) = x mod 2 ^ (32 - n)"
proof -
  have e: "32 - n = Suc (31 - n)" using assms by simp
  have "take_bit (32 - n) (shift_back n x) = take_bit (32 - n) x"
    unfolding e using assms by (simp add: shift_back_signed take_bit_signed_take_bit)
  then show ?thesis by (simp add: take_bit_eq_mod)
qed

lemma or_disjoint_int: "0 \<le> t \<Longrightarrow> t < 2 ^ k \<Longrightarrow> push_bit k x OR t = x * 2 ^ k + t" for x t :: int
proof -
  assume t: "0 \<le> t" "t < 2 ^ k"
  then have tb: "take_bit k t = t" by (simp add: take_bit_int_eq_self)
  have low: "i < k" if "bit t i" for i
    using that by (subst (asm) tb [symmetric]) (simp add: bit_take_bit_iff)
  have "push_bit k x + t = push_bit k x OR t"
    by (rule disjunctive_add) (auto simp: bit_push_bit_iff dest: low)
  then show ?thesis by (simp add: push_bit_eq_mult)
qed

section \<open>Reading bytes\<close>

lemma byte_at_whole: "byte_at msg k 0 8 = uint (msg ! k)"
proof -
  have "get_byte 0 8 (msg ! k) = msg ! k" using whole.get_put [of "msg ! k" "msg ! k"] by simp
  then show ?thesis by (simp add: byte_at_def)
qed

lemma u8_range: "0 \<le> uint (b :: u8) \<and> uint b < 2 ^ 8"
  using uint_bounded [of b] by simp

lemma word_at_value: "word_at msg k = uint (msg ! k) * 256 + uint (msg ! (k + 1))"
  using or_disjoint_int [of "uint (msg ! (k + 1))" 8 "uint (msg ! k)"] u8_range [of "msg ! (k + 1)"]
  by (simp add: word_at_def byte_at_whole)

lemma word_at_range: "0 \<le> word_at msg k \<and> word_at msg k \<le> 65535"
  using u8_range [of "msg ! k"] u8_range [of "msg ! (k + 1)"] unfolding word_at_value by auto

lemma high_nibble: "byte_at msg k 4 4 = uint (msg ! k) div 16"
proof -
  have b: "bit (get_byte 4 4 w) i \<longleftrightarrow> i < 4 \<and> bit w (4 + i)" for w i
    using get_byte_bit [of 4 4 w i] by (simp add: field_ok_def)
  have l: "bit (w :: u8) (4 + i) \<Longrightarrow> i < 4" for w i
    using bit_imp_le_length [of w "4 + i"] by simp
  have "get_byte 4 4 (msg ! k) = drop_bit 4 (msg ! k)"
  proof (rule u8_eqI)
    fix i :: nat
    show "bit (get_byte 4 4 (msg ! k)) i \<longleftrightarrow> bit (drop_bit 4 (msg ! k)) i"
      using l [of "msg ! k" i] by (simp only: b bit_drop_bit_eq o_apply) blast
  qed
  then show ?thesis by (simp add: byte_at_def uint_div drop_bit_eq_div)
qed

section \<open>Scaled signals\<close>

lemma scaled_signal:
  assumes "\<bar>n\<bar> \<le> 65536" "0 < s" "s \<le> 1"
  obtains r where "d64_of_int n * d64 s = Fin r" "\<bar>r - of_int n * s\<bar> \<le> 1 / 10 ^ 9"
proof -
  define m :: rat where "m = of_int n"
  have m: "\<bar>m\<bar> \<le> 65536"
    using assms(1) unfolding m_def by (metis of_int_abs of_int_le_iff of_int_numeral)
  obtain c where c: "d64 s = Fin c" "\<bar>c - s\<bar> \<le> \<bar>s\<bar> / 2 ^ 53 + 1 / 2 ^ 100"
    using d64_abs_error [of s] assms by auto
  have e: "\<bar>c - s\<bar> \<le> 1 / 2 ^ 52" using c(2) assms by simp
  have c2: "\<bar>c\<bar> \<le> 2" 
  proof -
    have "(1 :: rat) / 2 ^ 52 \<le> 1" by simp
    with e assms(2,3) show ?thesis by linarith
  qed
  have mc: "\<bar>m * c\<bar> \<le> 131072"
    using mult_mono [OF m c2] by (simp add: abs_mult)
  obtain r where r: "d64 (m * c) = Fin r" "\<bar>r - m * c\<bar> \<le> \<bar>m * c\<bar> / 2 ^ 53 + 1 / 2 ^ 100"
    using d64_abs_error [of "m * c"] mc by auto
  have "\<bar>m * c - m * s\<bar> = \<bar>m\<bar> * \<bar>c - s\<bar>" by (simp add: abs_mult right_diff_distrib [symmetric])
  also have "\<dots> \<le> 65536 * (1 / 2 ^ 52)" using m e by (intro mult_mono) auto
  finally have "\<bar>m * c - m * s\<bar> \<le> 1 / 2 ^ 36" by simp
  moreover have "\<bar>r - m * c\<bar> \<le> 1 / 2 ^ 35" using r(2) mc by simp
  ultimately have "\<bar>r - m * s\<bar> \<le> 1 / 2 ^ 36 + 1 / 2 ^ 35" by linarith
  also have "\<dots> \<le> (1 :: rat) / 10 ^ 9" by simp
  finally have "\<bar>r - m * s\<bar> \<le> 1 / 10 ^ 9" .
  moreover have "d64_of_int n * d64 s = Fin r"
    using assms(1) r(1) c(1) by (simp add: d64_of_int_eq m_def)
  ultimately show ?thesis using that by (simp add: m_def)
qed

definition reads_as :: "fp \<Rightarrow> rat \<Rightarrow> bool" where
  "reads_as a x \<longleftrightarrow> (\<exists>r. a = Fin r \<and> \<bar>r - x\<bar> \<le> 1 / 10 ^ 9)"

lemma reads_as_scaled:
  "\<bar>n\<bar> \<le> 65536 \<Longrightarrow> 0 < s \<Longrightarrow> s \<le> 1 \<Longrightarrow> reads_as (d64_of_int n * d64 s) (of_int n * s)"
  unfolding reads_as_def using scaled_signal [of n s] by metis

section \<open>Properties\<close>

text \<open>C11: The acceleration and the speed of report \<open>0x505\<close> are the 12-bit and the 16-bit two's
  complement numbers of the frame, scaled by 0.01 m/s^2 and 0.001 m/s: the raw numbers lie in
  the signed ranges, agree with the unsigned bits modulo 2^12 and 2^16, and the published
  doubles are within 10^-9 of the scaled numbers.\<close>

theorem vcu_signals:
  "- 2048 \<le> vcu_raw_acc msg \<and> vcu_raw_acc msg \<le> 2047 \<and>
   vcu_raw_acc msg mod 4096 = uint (msg ! 0) * 16 + uint (msg ! 1) div 16 \<and>
   - 32768 \<le> vcu_raw_speed msg \<and> vcu_raw_speed msg \<le> 32767 \<and>
   vcu_raw_speed msg mod 65536 = uint (msg ! 2) * 256 + uint (msg ! 3) \<and>
   reads_as (vcu_acc (parse_VcuReport505 msg)) (of_int (vcu_raw_acc msg) / 100) \<and>
   reads_as (vcu_speed (parse_VcuReport505 msg)) (of_int (vcu_raw_speed msg) / 1000)"
proof -
  have t: "0 \<le> uint (msg ! 1) div 16 \<and> uint (msg ! 1) div 16 < 2 ^ 4"
    using u8_range [of "msg ! 1"] by (simp add: pos_imp_zdiv_nonneg_iff)
  have raw: "vcu_raw_acc msg = shift_back 20 (uint (msg ! 0) * 16 + uint (msg ! 1) div 16)"
    using or_disjoint_int [of "uint (msg ! 1) div 16" 4 "uint (msg ! 0)"] t
    by (simp add: vcu_raw_acc_def byte_at_whole high_nibble Let_def)
  have acc: "- 2048 \<le> vcu_raw_acc msg" "vcu_raw_acc msg \<le> 2047"
    using shift_back_range [of 20] unfolding raw by (simp_all add: zle_diff1_eq [symmetric])
  have "vcu_raw_acc msg mod 4096 = (uint (msg ! 0) * 16 + uint (msg ! 1) div 16) mod 4096"
    using shift_back_mod [of 20] unfolding raw by simp
  also have "\<dots> = uint (msg ! 0) * 16 + uint (msg ! 1) div 16"
    using u8_range [of "msg ! 0"] t by (intro mod_pos_pos_trivial) auto
  finally have acc_mod: "vcu_raw_acc msg mod 4096 = uint (msg ! 0) * 16 + uint (msg ! 1) div 16" .
  have speed: "- 32768 \<le> vcu_raw_speed msg" "vcu_raw_speed msg \<le> 32767"
    using shift_back_range [of 16 "word_at msg 2"]
    by (simp_all add: vcu_raw_speed_def zle_diff1_eq [symmetric])
  have speed_mod: "vcu_raw_speed msg mod 65536 = uint (msg ! 2) * 256 + uint (msg ! 3)"
    using shift_back_mod [of 16 "word_at msg 2"] word_at_range [of msg 2] word_at_value [of msg 2]
    by (simp add: vcu_raw_speed_def)
  have "reads_as (vcu_acc (parse_VcuReport505 msg)) (of_int (vcu_raw_acc msg) / 100)"
    using reads_as_scaled [of "vcu_raw_acc msg" "1 / 100"] acc by (simp add: parse_VcuReport505_def)
  moreover have "reads_as (vcu_speed (parse_VcuReport505 msg)) (of_int (vcu_raw_speed msg) / 1000)"
    using reads_as_scaled [of "vcu_raw_speed msg" "1 / 1000"] speed by (simp add: parse_VcuReport505_def)
  ultimately show ?thesis using acc acc_mod speed speed_mod by blast
qed

text \<open>The unsigned signals of the wheel-speed, brake and throttle reports: each published
  double is within 10^-9 of the frame's 16-bit number times its scale, so no wheel speed above
  6.5535 m/s can ever be reported, and the pedal positions handed on to the rest of the stack
  are fractions of full travel whose raw number may exceed the documented 100 percent.\<close>

theorem report_scales:
  "reads_as (rear_left (parse_WheelSpeedReport506 msg)) (of_int (word_at msg 4) / 10000) \<and>
   of_int (word_at msg 4) / 10000 \<le> (65535 / 10000 :: rat) \<and>
   reads_as (brake_pedal_actual (parse_BrakeReport501 msg)) (of_int (word_at msg 3) / 10) \<and>
   reads_as (throttle_pedal_actual (parse_ThrottleReport500 msg)) (of_int (word_at msg 3) / 10) \<and>
   word_at msg k = uint (msg ! k) * 256 + uint (msg ! (k + 1))"
proof -
  have r: "reads_as (d64_of_int (word_at msg i) * d64 s) (of_int (word_at msg i) * s)"
    if "0 < s" "s \<le> 1" for i s
    using word_at_range [of msg i] that by (intro reads_as_scaled) auto
  have "of_int (word_at msg 4) \<le> (of_int 65535 :: rat)"
    using word_at_range [of msg 4] by (simp only: of_int_le_iff)
  then show ?thesis
    using r [of "1 / 10000" 4] r [of "1 / 10" 3]
    by (simp add: parse_WheelSpeedReport506_def wheel_at_def parse_BrakeReport501_def
        parse_ThrottleReport500_def word_at_value divide_right_mono)
qed

text \<open>Command and report agree on the steering angle: a steering report whose bytes 3 and 4
  are those of a command frame is read as the commanded angle, limited to 440 degrees either
  way.\<close>

theorem steering_echo:
  assumes "length data = 8"
  shows "\<exists>f. Steeringcommand102_UpdateData c data = Some f \<and>
     steer_angle_of f = BoundedValue (- 440) 440 (steer_angle_target c)"
proof -
  let ?a = "BoundedValue (- 440) 440 (steer_angle_target c)"
  obtain f where f: "Steeringcommand102_UpdateData c data = Some f" "read16 3 f = ?a + 500"
    using steering_command_bytes [OF assms, of c] by blast
  have w: "word_at f 3 = ?a + 500"
    using f(2) by (simp add: word_at_value read16_def)
  have r: "- 440 \<le> ?a" "?a \<le> 440" by (auto simp: BoundedValue_def)
  have "fp_to_i32 (d64_of_int (?a + 500) + Fin (- 500)) = Some ?a"
  proof -
    have "d64 (of_int (?a + 500) + - 500) = Fin (of_int ?a)"
      using d64_int [of ?a] r by simp
    then show ?thesis using r trunc_rat_of_int [of ?a]
      by (simp add: d64_of_int_eq fits_i32_def del: trunc_rat_of_int)
  qed
  then have "steer_angle_of f = ?a" by (simp only: steer_angle_of_def w option.case)
  then show ?thesis using f(1) by blast
qed

theorem steering_echo_witness:
  "\<exists>f. Steeringcommand102_UpdateData (Steeringcommand102_Reset\<lparr>steer_angle_target := - 120\<rparr>) (replicate 8 0) = Some f \<and>
     steer_angle_of f = - 120"
  using steering_echo [of "replicate 8 0" "Steeringcommand102_Reset\<lparr>steer_angle_target := - 120\<rparr>"]
  by (auto simp: Steeringcommand102_Reset_def BoundedValue_def)

end
