(* ===== verification/Hooke2_Node.thy ===== *)
theory Hooke2_Node
  imports Hooke2_Feedback Can_Report_Facts
begin

text \<open>
  The events that drive \<open>Hooke2Interface\<close> and its reachable states. The executor runs one
  callback at a time; the thread \<open>enableAutoMode\<close> runs beside it, and one pass of its loop is one
  event, so the model interleaves whole passes with whole callbacks. A step exists only when the
  operation has defined behaviour.
\<close>

datatype hooke_event =
  Actuation_received ActuationCommand
| Emergency_received bool
| Control_received ControlCommand
| Gear_received gear_request
| Turn_received turn_command
| Hazard_received hazard_command
| Mode_requested control_mode_request
| Rear_door_received SystemRptInt
| Reports_received SystemRptFloat WheelSpeedRpt SystemRptFloat SystemRptFloat SystemRptInt SystemRptInt
| Frame_received CanFrame
| Door_requested bool
| Command_timer
| Can_timer
| Thread_pass
| Destroyed

datatype thread_phase = Not_started | Looping | Returned

record HookeSystem =
  node :: Hooke2Interface
  thread :: thread_phase

definition HookeSystem_new :: "HookeWorld \<Rightarrow> HookeParams \<Rightarrow> HookeSystem" where
  "HookeSystem_new w p = \<lparr>node = Hooke2Interface_new w p, thread = Not_started\<rparr>"

text \<open>The thread function sets \<open>is_running_\<close> before its first pass.\<close>

definition thread_step :: "HookeSystem \<Rightarrow> HookeSystem option" where
  "thread_step y =
     (case thread y of
        Not_started \<Rightarrow> Some \<lparr>node = (node y)\<lparr>is_running := True\<rparr>, thread = Looping\<rparr>
      | Looping \<Rightarrow> do {
          (goes_on, s) \<leftarrow> enable_auto_pass (node y);
          Some \<lparr>node = s, thread = if goes_on then Looping else Returned\<rparr>
        }
      | Returned \<Rightarrow> Some y)"

fun node_event :: "HookeWorld \<Rightarrow> hooke_event \<Rightarrow> Hooke2Interface \<Rightarrow> Hooke2Interface option" where
  "node_event w (Actuation_received a) s = Some (callbackActuationCmd w a s)"
| "node_event w (Emergency_received b) s = Some (callbackEmergencyCmd b s)"
| "node_event w (Control_received c) s = Some (callbackControlCmd w c s)"
| "node_event w (Gear_received g) s = Some (callbackGearCmd g s)"
| "node_event w (Turn_received t) s = Some (callbackTurnIndicatorsCommand t s)"
| "node_event w (Hazard_received h) s = Some (callbackHazardLightsCommand h s)"
| "node_event w (Mode_requested m) s = Some (snd (onControlModeRequest m s))"
| "node_event w (Rear_door_received r) s = Some (callbackRearDoor r s)"
| "node_event w (Reports_received st wh ac br sh tu) s = Some (callbackHooke2Rpt w st wh ac br sh tu s)"
| "node_event w (Frame_received f) s = Some (canTxCallback f s)"
| "node_event w (Door_requested b) s = Some (snd (setDoor b s))"
| "node_event w Command_timer s = publishCommands w s"
| "node_event w Can_timer s = publishCan s"
| "node_event w Thread_pass s = Some s"
| "node_event w Destroyed s = Some (s\<lparr>is_running := False\<rparr>)"

definition handle_hooke :: "HookeWorld \<Rightarrow> hooke_event \<Rightarrow> HookeSystem \<Rightarrow> HookeSystem option" where
  "handle_hooke w ev y =
     (if ev = Thread_pass then thread_step y
      else do { s \<leftarrow> node_event w ev (node y); Some (y\<lparr>node := s\<rparr>) })"

text \<open>
  The states that any sequence of events leads to: the messages carry any values, not-a-number and
  the infinities included.
\<close>

inductive hooke_reachable :: "HookeWorld \<Rightarrow> HookeParams \<Rightarrow> HookeSystem \<Rightarrow> bool" for w p where
  hooke_start: "hooke_reachable w p (HookeSystem_new w p)"
| hooke_step: "hooke_reachable w p y \<Longrightarrow> handle_hooke w ev y = Some y' \<Longrightarrow> hooke_reachable w p y'"

inductive_cases hooke_reachable_cases: "hooke_reachable w p y"

section \<open>Sane parameters\<close>

definition params_ok :: "HookeParams \<Rightarrow> bool" where
  "params_ok p \<longleftrightarrow>
     Fin 0 \<le> max_throttle p \<and> max_throttle p \<le> Fin 1 \<and>
     Fin 0 \<le> max_brake p \<and> max_brake p \<le> Fin 1 \<and>
     Fin 0 \<le> max_speed p \<and> max_speed p \<le> Fin 1000 \<and>
     Fin 0 \<le> max_steering_wheel p \<and> max_steering_wheel p \<le> Fin 1000 \<and>
     isfinite (steering_offset p)"

lemma d64_unit_interval:
  assumes "0 \<le> x" "x \<le> of_int n" "\<bar>n\<bar> \<le> 2 ^ 53"
  shows "Fin 0 \<le> d64 x \<and> d64 x \<le> Fin (of_int n)"
  using d64_mono [OF assms(1)] d64_mono [OF assms(2)] d64_int [OF assms(3)] by simp

lemma default_params_ok: "params_ok Hooke2_default_params"
  using d64_unit_interval [of "2 / 10" 1] d64_unit_interval [of "8 / 10" 1]
    d64_unit_interval [of "488 / 100" 1000]
  by (simp add: params_ok_def Hooke2_default_params_def)

end
