(* ===== verification/Hooke2_Invariant.thy ===== *)
theory Hooke2_Invariant
  imports Hooke2_Node
begin

text \<open>
  The invariant of the reachable states of \<open>Hooke2Interface\<close>: engagement needs an accepted
  request, reports are all present once one was received, the stored pedal commands are numbers and
  the published ones lie within the limits, the accelerator and brake reports carry none of the
  three flags the diagnostics look for, every CAN frame has eight bytes, and the vehicle
  identification is a whole number of 17-character copies. Each block of each handler preserves
  it.
\<close>

section \<open>Limited commands\<close>

lemma limited_command:
  assumes "Fin 0 \<le> m" "m \<le> Fin c"
  shows "Fin 0 \<le> std_max (Fin 0) (std_min x m) \<and> std_max (Fin 0) (std_min x m) \<le> m"
proof -
  obtain r where "m = Fin r" "0 \<le> r"
    using assms by (cases m) (auto simp: less_eq_fp_def fp_eq_def)
  then show ?thesis
    by (cases x) (auto simp: std_max_def std_min_def less_eq_fp_def fp_eq_def)
qed

lemma reverse_floor: "\<exists>r. d64 (2 / 10) = Fin r \<and> 0 \<le> r \<and> r \<le> 1"
proof -
  obtain r where "d64 (2 / 10) = Fin r" "0 \<le> r" "r \<le> 1"
    by (rule d64_between [of 0 1 "2 / 10"]) (use d64_int [of 1] in simp_all)
  then show ?thesis by blast
qed

text \<open>The speed command stays below the limit or, when reversing, the floor of 0.2 m/s.\<close>

lemma speed_command_bounds:
  assumes "Fin 0 \<le> m" "m \<le> Fin c"
  shows "Fin 0 \<le> speed_command x m \<and> speed_command x m \<le> std_max (d64 (2 / 10)) m"
proof -
  obtain r where r: "m = Fin r" "0 \<le> r"
    using assms by (cases m) (auto simp: less_eq_fp_def fp_eq_def)
  obtain q where q: "d64 (2 / 10) = Fin q" "0 \<le> q" using reverse_floor by blast
  show ?thesis
    unfolding speed_command_def q r
    by (cases x) (use r q in \<open>auto simp: std_max_def std_min_def less_eq_fp_def fp_eq_def\<close>)
qed

lemma within_not_NaN: "Fin a \<le> x \<Longrightarrow> x \<noteq> NaN"
  by (auto simp: less_eq_fp_def fp_eq_def)

lemma within_Fin:
  assumes "Fin a \<le> x" "x \<le> Fin b"
  obtains r where "x = Fin r" "a \<le> r" "r \<le> b"
  using assms by (cases x) (auto simp: less_eq_fp_def fp_eq_def)

section \<open>The invariant\<close>

definition reports_present :: "Hooke2Interface \<Rightarrow> bool" where
  "reports_present s \<longleftrightarrow>
     (\<exists>st wh sh tu. steer_wheel_rpt_ptr s = Some st \<and> wheel_speed_rpt_ptr s = Some wh \<and>
        gear_rpt_ptr s = Some sh \<and> turn_rpt_ptr s = Some tu)"

definition commands_are_numbers :: "Hooke2Interface \<Rightarrow> bool" where
  "commands_are_numbers s \<longleftrightarrow>
     vel_target (msg_throttle_cmd s) \<noteq> NaN \<and> throttle_acc (msg_throttle_cmd s) \<noteq> NaN \<and>
     throttle_pedal_target (msg_throttle_cmd s) \<noteq> NaN \<and>
     brake_pedal_target (msg_brake_cmd s) \<noteq> NaN \<and> current_speed s \<noteq> NaN"

definition faults_unset :: "SystemRptFloat \<Rightarrow> bool" where
  "faults_unset r \<longleftrightarrow>
     \<not> rf_hooke2_fault r \<and> \<not> rf_command_output_fault r \<and> \<not> rf_input_output_fault r"

fun publication_ok :: "HookeParams \<Rightarrow> publication \<Rightarrow> bool" where
  "publication_ok p (Throttle_cmd c) = (Fin 0 \<le> cf_command c \<and> cf_command c \<le> max_throttle p)"
| "publication_ok p (Brake_cmd c) = (Fin 0 \<le> cf_command c \<and> cf_command c \<le> max_brake p)"
| "publication_ok p (Speed_cmd c) =
     (Fin 0 \<le> cf_command c \<and> cf_command c \<le> std_max (d64 (2 / 10)) (max_speed p))"
| "publication_ok p (Steer_cmd c) =
     (sc_enable c \<longrightarrow> - max_steering_wheel p \<le> sc_command c \<and> sc_command c \<le> max_steering_wheel p)"
| "publication_ok p (Can_frame i data) = (length data = 8)"
| "publication_ok p (Accel_rpt r) = faults_unset r"
| "publication_ok p (Brake_rpt r) = faults_unset r"
| "publication_ok p _ = True"

definition hooke_inv :: "HookeParams \<Rightarrow> Hooke2Interface \<Rightarrow> bool" where
  "hooke_inv p s \<longleftrightarrow>
     hparams s = p \<and> (engage_cmd s \<longrightarrow> control_mode_cmd s) \<and>
     17 dvd length (vehicle_id s) \<and> vin_req (msg_vehicle_mode_cmd s) = 0 \<and>
     0 \<le> hazard_recover_count s \<and> hazard_recover_count s \<le> 6 \<and>
     (is_hooke2_rpt_received s \<longrightarrow> reports_present s) \<and>
     (\<not> is_hooke2_rpt_received s \<longrightarrow> steer_wheel_rpt_ptr s = None) \<and>
     commands_are_numbers s \<and> (\<forall>x\<in>set (sent s). publication_ok p x)"

lemmas inv_defs = hooke_inv_def commands_are_numbers_def

lemma inv_publish: "hooke_inv p s \<Longrightarrow> publication_ok p x \<Longrightarrow> hooke_inv p (publish x s)"
  by (simp add: inv_defs reports_present_def publish_def)

lemma inv_new: "hooke_inv p (Hooke2Interface_new w p)"
  by (simp add: inv_defs Hooke2Interface_new_def Throttlecommand100_Reset_def
      Brakecommand101_Reset_def Vehiclemodecommand105_Reset_def)

section \<open>Callbacks\<close>

lemma inv_ros_now: "hooke_inv p s \<Longrightarrow> hooke_inv p (snd (ros_now w s))"
  by (simp add: inv_defs reports_present_def ros_now_def)

lemma inv_mode: "hooke_inv p s \<Longrightarrow> hooke_inv p (snd (onControlModeRequest m s))"
  by (cases m) (simp_all add: inv_defs reports_present_def)

lemma inv_simple_callbacks:
  assumes "hooke_inv p s"
  shows "hooke_inv p (callbackActuationCmd w a s)" "hooke_inv p (callbackEmergencyCmd b s)"
    "hooke_inv p (callbackControlCmd w c s)"
    "hooke_inv p (callbackGearCmd g s)" "hooke_inv p (callbackTurnIndicatorsCommand t s)"
    "hooke_inv p (callbackHazardLightsCommand h s)" "hooke_inv p (callbackRearDoor r s)"
    "hooke_inv p (snd (setDoor b s))" "hooke_inv p (s\<lparr>is_running := b\<rparr>)"
  using assms
  by (simp_all add: inv_defs reports_present_def ros_now_def callbackActuationCmd_def
      callbackEmergencyCmd_def callbackControlCmd_def callbackGearCmd_def
      callbackTurnIndicatorsCommand_def callbackHazardLightsCommand_def callbackRearDoor_def
      setDoor_def publish_def Let_def)

section \<open>Received frames\<close>

lemma vcu_speed_number: "vcu_speed (parse_VcuReport505 msg) \<noteq> NaN"
proof -
  have "\<bar>vcu_raw_speed msg\<bar> \<le> 65536"
    using shift_back_range [of 16 "word_at msg 2"] by (simp add: vcu_raw_speed_def abs_le_iff)
  then show ?thesis
    using reads_as_scaled [of "vcu_raw_speed msg" "1 / 1000"]
    by (auto simp: parse_VcuReport505_def reads_as_def)
qed

lemma inv_canTxCallback:
  assumes "hooke_inv p s"
  shows "hooke_inv p (canTxCallback f s)"
proof -
  have p: "hooke_inv p (publish x s)" if "hooke_inv p s" "publication_ok p x" for x s
    using that by (rule inv_publish)
  have h: "hooke_inv p (onVinReport516 d s)" "hooke_inv p (onVinReport515 d s)"
    "hooke_inv p (onVinReport514 d s)" "hooke_inv p (onBmsReport512 d s)"
    "hooke_inv p (onParkReport504 d s)" "hooke_inv p (onVcuReport505 d s)" for d
    using assms vcu_speed_number [of d]
    by (simp_all add: inv_defs reports_present_def publish_def onVinReport516_def
        onVinReport515_def onVinReport514_def onBmsReport512_def onParkReport504_def
        onVcuReport505_def Let_def)
  have r: "faults_unset (brake_rpt_of d)" "faults_unset (accel_rpt_of d)" for d
    by (simp_all add: faults_unset_def brake_rpt_of_def accel_rpt_of_def SystemRptFloat_init_def Let_def)
  have "hooke_inv p (onWheelSpeedReport506 d s)" "hooke_inv p (onGearReport503 d s)"
    "hooke_inv p (onSteeringReport502 d s)" "hooke_inv p (onBrakeReport501 d s)"
    "hooke_inv p (onThrottleReport500 d s)" for d
    using assms r by (simp_all add: p onWheelSpeedReport506_def onGearReport503_def
        onSteeringReport502_def onBrakeReport501_def onThrottleReport500_def)
  with h assms show ?thesis
    by (simp add: canTxCallback_def Let_def p)
qed

section \<open>Reports\<close>

lemma inv_store_reports: "hooke_inv p s \<Longrightarrow> hooke_inv p (store_reports st wh ac br sh tu s)"
  by (simp add: inv_defs reports_present_def store_reports_def)

lemma inv_verifyVehicleId: "hooke_inv p s \<Longrightarrow> hooke_inv p (verifyVehicleId s)"
  by (simp add: inv_defs reports_present_def verifyVehicleId_def checkVin_def disableVinReq_def Let_def)

lemma inv_processGlobalRpts: "hooke_inv p s \<Longrightarrow> hooke_inv p (processGlobalRpts w m v tu st ac br s)"
  by (simp add: inv_defs reports_present_def processGlobalRpts_def ros_now_def publish_def Let_def)

lemma inv_auto_flag: "hooke_inv p s \<Longrightarrow> hooke_inv p (s\<lparr>is_hooke2_auto_enabled := b\<rparr>)"
  by (simp add: inv_defs reports_present_def)

lemma inv_publish_status: "hooke_inv p s \<Longrightarrow> hooke_inv p (publish_status w st wh ac br sh tu s)"
  by (simp add: publish_status_def Let_def publish_battery_def publish_gear_status_def inv_publish
      split: option.split)

lemma inv_callbackHooke2Rpt:
  assumes "hooke_inv p s"
  shows "hooke_inv p (callbackHooke2Rpt w st wh ac br sh tu s)"
  unfolding callbackHooke2Rpt_def Let_def
  by (intro inv_publish_status inv_auto_flag inv_processGlobalRpts inv_verifyVehicleId
      inv_store_reports assms)

section \<open>The thread\<close>

lemma inv_enable_auto_pass:
  assumes "hooke_inv p s" "enable_auto_pass s = Some (b, s')"
  shows "hooke_inv p s'"
proof -
  have "hooke_inv p (select_modes s)"
    using assms(1) by (simp add: inv_defs reports_present_def select_modes_def Let_def)
  moreover have "hooke_inv p t'" if "hooke_inv p t" "enable_wires t = Some t'" for t t'
    using that by (auto simp: inv_defs reports_present_def enable_wires_def Let_def bind_eq_Some_conv)
  ultimately show ?thesis
    using assms by (auto simp: enable_auto_pass_def bind_eq_Some_conv split: if_splits)
qed

section \<open>Publishing commands\<close>

lemma inv_toHooke2ShiftCmd: "hooke_inv p s \<Longrightarrow> hooke_inv p (snd (toHooke2ShiftCmd g s))"
  by (cases g) (simp_all add: inv_defs reports_present_def set_msg_park_target_def)

lemma inv_toHooke2TurnCmd: "hooke_inv p s \<Longrightarrow> hooke_inv p (snd (toHooke2TurnCmd t h s))"
  by (simp add: inv_defs reports_present_def toHooke2TurnCmd_def set_msg_turn_light_def)

lemma inv_take_desired: "hooke_inv p s \<Longrightarrow> hooke_inv p (take_desired c s)"
  by (simp add: inv_defs reports_present_def take_desired_def Let_def)

lemma inv_check_emergency: "hooke_inv p s \<Longrightarrow> hooke_inv p (snd (check_emergency w t x s))"
  by (simp add: inv_defs reports_present_def check_emergency_def)

lemma inv_check_clear_flag: "hooke_inv p s \<Longrightarrow> hooke_inv p (snd (check_clear_flag s))"
  by (simp add: inv_defs reports_present_def check_clear_flag_def)

lemma inv_update_engagement: "hooke_inv p s \<Longrightarrow> hooke_inv p (update_engagement w t s)"
  by (simp add: inv_defs reports_present_def update_engagement_def Let_def)

lemma inv_set_counter: "hooke_inv p s \<Longrightarrow> hooke_inv p (s\<lparr>vehicle_shift_counter := n\<rparr>)"
  by (simp add: inv_defs reports_present_def)

lemma inv_check_shift_change:
  assumes "hooke_inv p s"
  shows "hooke_inv p (snd (snd (check_shift_change v g r x s)))"
proof -
  obtain c1 s1 where s1: "toHooke2ShiftCmd g s = (c1, s1)" by force
  obtain c2 s2 where s2: "toHooke2ShiftCmd g s1 = (c2, s2)" by force
  have "hooke_inv p s1" using inv_toHooke2ShiftCmd [OF assms, of g] s1 by simp
  moreover from this have "hooke_inv p s2" using inv_toHooke2ShiftCmd [of p s1 g] s2 by simp
  ultimately show ?thesis
    using assms by (simp add: check_shift_change_def s1 s2 inv_set_counter)
qed

lemma inv_publish_throttle:
  assumes "hooke_inv p s" "params_ok p"
  shows "hooke_inv p (publish_throttle_cmd c d s)"
proof -
  have l: "Fin 0 \<le> std_max (Fin 0) (std_min d (max_throttle p)) \<and>
      std_max (Fin 0) (std_min d (max_throttle p)) \<le> max_throttle p"
    using assms(2) limited_command [of "max_throttle p" 1] by (auto simp: params_ok_def)
  with assms(1) within_not_NaN [OF l [THEN conjunct1]] show ?thesis
    by (simp add: inv_defs reports_present_def publish_throttle_cmd_def publish_def float_cmd_def Let_def)
qed

lemma inv_publish_acceleration: "hooke_inv p s \<Longrightarrow> hooke_inv p (publish_acceleration_cmd c s)"
  by (auto simp: inv_defs reports_present_def publish_acceleration_cmd_def publish_def Let_def)

lemma inv_publish_speed:
  assumes "hooke_inv p s" "params_ok p"
  shows "hooke_inv p (publish_speed_cmd c s)"
proof -
  have l: "Fin 0 \<le> speed_command x (max_speed p) \<and>
      speed_command x (max_speed p) \<le> std_max (d64 (2 / 10)) (max_speed p)" for x
    using assms(2) by (intro speed_command_bounds) (auto simp: params_ok_def)
  with assms(1) within_not_NaN [OF l [THEN conjunct1]] show ?thesis
    by (simp add: inv_defs reports_present_def publish_speed_cmd_def publish_def float_cmd_def Let_def)
qed

lemma inv_publish_brake:
  assumes "hooke_inv p s" "params_ok p"
  shows "hooke_inv p (publish_brake_cmd c d s)"
proof -
  have l: "Fin 0 \<le> std_max (Fin 0) (std_min d (max_brake p)) \<and>
      std_max (Fin 0) (std_min d (max_brake p)) \<le> max_brake p"
    using assms(2) limited_command [of "max_brake p" 1] by (auto simp: params_ok_def)
  with assms(1) within_not_NaN [OF l [THEN conjunct1]] show ?thesis
    by (simp add: inv_defs reports_present_def publish_brake_cmd_def publish_def float_cmd_def Let_def)
qed

lemma fp_limits_finite:
  assumes "params_ok p"
  obtains m f where "max_steering_wheel p = Fin m" "0 \<le> m" "m \<le> 1000" "steering_offset p = Fin f"
proof -
  have "Fin 0 \<le> max_steering_wheel p" "max_steering_wheel p \<le> Fin 1000"
    using assms by (simp_all add: params_ok_def)
  then obtain m where "max_steering_wheel p = Fin m" "0 \<le> m" "m \<le> 1000" by (rule within_Fin)
  moreover obtain f where "steering_offset p = Fin f"
    using assms by (simp add: params_ok_def isfinite_conv) blast
  ultimately show ?thesis using that by blast
qed

lemma desired_steer_wheel_range:
  assumes "params_ok (hparams s)" "lateral_steering_tire_angle c \<noteq> NaN"
  shows "- max_steering_wheel (hparams s) \<le> desired_steer_wheel c s"
    "desired_steer_wheel c s \<le> max_steering_wheel (hparams s)"
proof -
  obtain m f where m: "max_steering_wheel (hparams s) = Fin m" "0 \<le> m" "m \<le> 1000"
    and f: "steering_offset (hparams s) = Fin f"
    using fp_limits_finite [OF assms(1)] .
  let ?a = "lateral_steering_tire_angle c"
  have "?a - Fin f \<noteq> NaN" using assms(2) by (cases ?a) (simp_all add: minus_fp_def)
  then have "(?a - Fin f) * Fin 16 \<noteq> NaN" by (cases "?a - Fin f") simp_all
  then have n: "- ((?a - Fin f) * Fin 16) \<noteq> NaN" by (cases "(?a - Fin f) * Fin 16") simp_all
  have "Fin (- m) \<le> std_min (std_max x (Fin (- m))) (Fin m)"
    "std_min (std_max x (Fin (- m))) (Fin m) \<le> Fin m" if "x \<noteq> NaN" for x
    using that m(2) by (cases x; auto simp: std_min_def std_max_def less_eq_fp_def fp_eq_def)+
  from this [OF n] show "- max_steering_wheel (hparams s) \<le> desired_steer_wheel c s"
    "desired_steer_wheel c s \<le> max_steering_wheel (hparams s)"
    by (simp_all add: desired_steer_wheel_def m f Let_def)
qed

lemma inv_steer_update:
  "hooke_inv p s \<Longrightarrow> publication_ok p (Steer_cmd cmd) \<Longrightarrow>
   hooke_inv p ((publish (Steer_cmd cmd) (s\<lparr>msg_steering_cmd := m\<rparr>))
     \<lparr>prev_steer_command := c, prev_steer_cmd_time := t\<rparr>)"
  by (simp add: inv_defs reports_present_def publish_def)

text \<open>
  The conversion to the wire's integer is defined for numbers only, so a command that was published
  as enabled, which is then the desired angle, is a number and within the limits.
\<close>

lemma desired_steer_wheel_NaN:
  assumes "lateral_steering_tire_angle c = NaN"
  shows "desired_steer_wheel c s = NaN"
proof -
  have nan: "NaN * Fin b = NaN" for b by simp
  show ?thesis
    by (cases "steering_offset (hparams s)")
      (simp_all add: desired_steer_wheel_def Let_def assms minus_fp_def nan std_max_def std_min_def)
qed

lemma inv_publish_steer:
  assumes "hooke_inv p s" "params_ok p"
    and "publish_steer_cmd w t c (desired_steer_wheel k s) x s = Some s'"
  shows "hooke_inv p s'"
proof -
  have "hparams s = p" using assms(1) by (simp add: hooke_inv_def)
  moreover have "lateral_steering_tire_angle k \<noteq> NaN" if "engage_cmd s"
    using assms(3) that desired_steer_wheel_NaN [of k s]
    by (auto simp: publish_steer_cmd_def steerWheelRateLimiter_def Let_def bind_eq_Some_conv d64_of_int_eq)
  ultimately have r: "- max_steering_wheel p \<le> desired_steer_wheel k s"
    "desired_steer_wheel k s \<le> max_steering_wheel p" if "engage_cmd s"
    using desired_steer_wheel_range [of s k] assms(2) that by simp_all
  have ok: "publication_ok p (Steer_cmd \<lparr>sc_enable = enable_flag c s, sc_ignore_overrides = False,
      sc_clear_override = c, sc_command = steerWheelRateLimiter w (desired_steer_wheel k s) a t b r x (engage_cmd s),
      sc_wheel_tier_angle = d, sc_rotation_rate = r\<rparr>)" for a b d r
    using r by (auto simp: enable_flag_def steerWheelRateLimiter_def Let_def)
  from assms(3) show ?thesis
    by (auto simp: publish_steer_cmd_def Let_def bind_eq_Some_conv intro!: inv_steer_update [OF assms(1)] ok
        simp del: publication_ok.simps)
qed

lemma inv_publish_rest:
  assumes "hooke_inv p s"
  shows "hooke_inv p (publish_raw_steer_cmd c d r k s)" "hooke_inv p (publish_shift_cmd c n s)"
    "hooke_inv p (publish_parking_cmd c s)" "hooke_inv p (update_disable_flag s)"
  using assms
  by (simp_all add: inv_defs reports_present_def publish_raw_steer_cmd_def publish_shift_cmd_def
      publish_parking_cmd_def update_disable_flag_def publish_def Let_def)

lemma inv_set_matched:
  "hooke_inv p s \<Longrightarrow> hooke_inv p (s\<lparr>last_shift_inout_matched_time := t\<rparr>)"
  by (simp add: inv_defs reports_present_def)

lemma inv_count_recovery: "hooke_inv p s \<Longrightarrow> hooke_inv p (count_recovery w s)"
  by (simp add: inv_defs reports_present_def count_recovery_def ros_now_def hazard_recover_cmd_num_def Let_def)

lemma inv_hazard_recover:
  assumes "hooke_inv p s" "toHooke2TurnCmdWithHazardRecover w turn hazard s = Some (c, s')"
  shows "hooke_inv p s'"
proof -
  obtain now s1 where s1: "ros_now w s = (now, s1)" by force
  have i1: "hooke_inv p s1" using inv_ros_now [OF assms(1), of w] s1 by simp
  have turn: "hooke_inv p t'" if "toHooke2TurnCmd turn hazard t = (k, t')" "hooke_inv p t" for k t t'
    using inv_toHooke2TurnCmd [OF that(2), of turn hazard] that(1) by simp
  show ?thesis
    using assms(2) i1 turn inv_count_recovery [OF i1, of w] inv_set_matched [OF i1, of now]
    by (auto simp: toHooke2TurnCmdWithHazardRecover_def s1 Let_def bind_eq_Some_conv split: if_splits)
qed

end
