(* ===== verification/Hooke2_Safety.thy ===== *)
theory Hooke2_Safety
  imports Hooke2_Invariant
begin

text \<open>
  The handlers of \<open>Hooke2Interface\<close>: the invariant holds in every reachable state, all callbacks
  but the command timer are defined in it, and the timer is undefined exactly when the steering
  angle it converts does not fit. The interface between the node and the frame
  classes is the locale \<open>command_frame\<close>.
\<close>

section \<open>The interface to the command frames\<close>

locale command_frame =
  fixes update :: "'c \<Rightarrow> bytes \<Rightarrow> bytes option" and numeric :: "'c \<Rightarrow> bool"
  assumes builds: "numeric c \<Longrightarrow> length data = 8 \<Longrightarrow> \<exists>f. update c data = Some f \<and> length f = 8"
begin

definition send :: "u32 \<Rightarrow> 'c \<Rightarrow> Hooke2Interface \<Rightarrow> Hooke2Interface option" where
  "send i c s = do { data \<leftarrow> update c zero_data; Some (publish (Can_frame i data) s) }"

lemma zero_data_builds: "numeric c \<Longrightarrow> \<exists>f. update c zero_data = Some f \<and> length f = 8"
  by (rule builds) (simp_all add: zero_data_def CANBUS_MESSAGE_LENGTH_def)

lemma send_defined:
  "numeric c \<Longrightarrow> \<exists>f. update c zero_data = Some f \<and> length f = 8 \<and>
     send i c s = Some (publish (Can_frame i f) s)"
  using zero_data_builds [of c] by (auto simp: send_def)

lemma send_inv: "numeric c \<Longrightarrow> hooke_inv p s \<Longrightarrow> send i c s = Some s' \<Longrightarrow> hooke_inv p s'"
  using send_defined [of c i s] by (auto intro!: inv_publish)

end

interpretation throttle_tx: command_frame Throttlecommand100_UpdateData
  "\<lambda>c. vel_target c \<noteq> NaN \<and> throttle_acc c \<noteq> NaN \<and> throttle_pedal_target c \<noteq> NaN"
  by unfold_locales (use throttle_command_bytes in blast)

interpretation brake_tx: command_frame Brakecommand101_UpdateData
  "\<lambda>c. brake_dec c \<noteq> NaN \<and> brake_pedal_target c \<noteq> NaN"
  by unfold_locales (use brake_command_bytes in blast)

interpretation steering_tx: command_frame Steeringcommand102_UpdateData "\<lambda>c. True"
  by unfold_locales (use steering_command_bytes in blast)

interpretation gear_tx: command_frame "\<lambda>c d. Some (Gearcommand103_UpdateData c d)" "\<lambda>c. True"
  by unfold_locales (simp add: Gearcommand103_UpdateData_def Let_def set_p_gear_target_def
      set_p_gear_en_ctrl_def set_p_checksum_103_def)

interpretation park_tx: command_frame "\<lambda>c d. Some (Parkcommand104_UpdateData c d)" "\<lambda>c. True"
  by unfold_locales (simp add: Parkcommand104_UpdateData_def Let_def set_p_park_target_def
      set_p_park_en_ctrl_def set_p_checksum_104_def)

interpretation mode_tx: command_frame "\<lambda>c d. Some (Vehiclemodecommand105_UpdateData c d)" "\<lambda>c. True"
  by unfold_locales (simp add: Vehiclemodecommand105_UpdateData_def Let_def set_p_turn_light_ctrl_def
      set_p_vin_req_def set_p_drive_mode_ctrl_def set_p_steer_mode_ctrl_def set_p_checksum_105_def)

lemma sends_conv:
  "send_throttle s = throttle_tx.send Throttlecommand100_ID (throttle_can s) s"
  "send_brake s = brake_tx.send Brakecommand101_ID (brake_can s) s"
  "send_steering s = steering_tx.send Steeringcommand102_ID (steering_can s) s"
  "Some (send_gear s) = gear_tx.send Gearcommand103_ID (gear_can s) s"
  "Some (send_park s) = park_tx.send Parkcommand104_ID (park_can s) s"
  "Some (send_vehicle_mode s) = mode_tx.send Vehiclemodecommand105_ID (vehicle_mode_can s) s"
  by (simp_all add: send_throttle_def throttle_tx.send_def send_brake_def brake_tx.send_def
      send_steering_def steering_tx.send_def send_gear_def gear_tx.send_def send_park_def
      park_tx.send_def send_vehicle_mode_def mode_tx.send_def)

lemma can_numeric:
  assumes "hooke_inv p s"
  shows "vel_target (throttle_can s) \<noteq> NaN" "throttle_acc (throttle_can s) \<noteq> NaN"
    "throttle_pedal_target (throttle_can s) \<noteq> NaN"
    "brake_dec (brake_can s) \<noteq> NaN" "brake_pedal_target (brake_can s) \<noteq> NaN"
  using assms
  by (simp_all add: hooke_inv_def commands_are_numbers_def throttle_can_def brake_can_def Let_def
      setter_defs Throttlecommand100_Reset_def Brakecommand101_Reset_def)

text \<open>The command classes read the stored messages only.\<close>

lemma can_publish [simp]:
  "brake_can (publish x s) = brake_can s" "steering_can (publish x s) = steering_can s"
  "gear_can (publish x s) = gear_can s" "park_can (publish x s) = park_can s"
  "vehicle_mode_can (publish x s) = vehicle_mode_can s"
  by (simp_all add: brake_can_def steering_can_def gear_can_def park_can_def vehicle_mode_can_def publish_def)

text \<open>The six frames of one \<open>publishCan\<close>, newest first.\<close>

lemma publishCan_frames:
  assumes "hooke_inv p s"
  obtains f0 f1 f2 where
    "Throttlecommand100_UpdateData (throttle_can s) zero_data = Some f0"
    "Brakecommand101_UpdateData (brake_can s) zero_data = Some f1"
    "Steeringcommand102_UpdateData (steering_can s) zero_data = Some f2"
    "length f0 = 8" "length f1 = 8" "length f2 = 8"
    "publishCan s = Some (s\<lparr>sent :=
       Can_frame Vehiclemodecommand105_ID (Vehiclemodecommand105_UpdateData (vehicle_mode_can s) zero_data) #
       Can_frame Parkcommand104_ID (Parkcommand104_UpdateData (park_can s) zero_data) #
       Can_frame Gearcommand103_ID (Gearcommand103_UpdateData (gear_can s) zero_data) #
       Can_frame Steeringcommand102_ID f2 # Can_frame Brakecommand101_ID f1 #
       Can_frame Throttlecommand100_ID f0 # sent s\<rparr>)"
proof -
  obtain f0 where f0: "Throttlecommand100_UpdateData (throttle_can s) zero_data = Some f0" "length f0 = 8"
    using throttle_tx.zero_data_builds can_numeric [OF assms] by blast
  obtain f1 where f1: "Brakecommand101_UpdateData (brake_can s) zero_data = Some f1" "length f1 = 8"
    using brake_tx.zero_data_builds can_numeric [OF assms] by blast
  obtain f2 where f2: "Steeringcommand102_UpdateData (steering_can s) zero_data = Some f2" "length f2 = 8"
    using steering_tx.zero_data_builds by blast
  have "publishCan s = Some (send_vehicle_mode (send_park (send_gear
      (publish (Can_frame Steeringcommand102_ID f2) (publish (Can_frame Brakecommand101_ID f1)
         (publish (Can_frame Throttlecommand100_ID f0) s))))))"
    by (simp add: publishCan_def send_throttle_def send_brake_def send_steering_def f0 f1 f2)
  then show ?thesis
    using f0 f1 f2
    by (intro that [of f0 f1 f2]) (simp_all add: send_vehicle_mode_def send_park_def send_gear_def publish_def
        vehicle_mode_can_def park_can_def gear_can_def)
qed

lemma inv_publishCan:
  assumes "hooke_inv p s" "publishCan s = Some s'"
  shows "hooke_inv p s'"
proof -
  obtain s1 where s1: "send_throttle s = Some s1" "hooke_inv p s1"
    using assms throttle_tx.send_inv [of "throttle_can s" p s] can_numeric [OF assms(1)]
    by (auto simp: publishCan_def sends_conv bind_eq_Some_conv)
  obtain s2 where s2: "send_brake s1 = Some s2" "hooke_inv p s2"
    using assms s1 brake_tx.send_inv [of "brake_can s1" p s1] can_numeric [OF s1(2)]
    by (auto simp: publishCan_def sends_conv bind_eq_Some_conv)
  obtain s3 where s3: "send_steering s2 = Some s3" "hooke_inv p s3"
    using assms s1 s2 steering_tx.send_inv [OF _ s2(2)]
    by (auto simp: publishCan_def sends_conv bind_eq_Some_conv)
  have "hooke_inv p (send_gear s3)" using gear_tx.send_inv [OF _ s3(2)] sends_conv(4) by metis
  then have "hooke_inv p (send_park (send_gear s3))" using park_tx.send_inv sends_conv(5) by metis
  then have "hooke_inv p (send_vehicle_mode (send_park (send_gear s3)))"
    using mode_tx.send_inv sends_conv(6) by metis
  then show ?thesis using assms(2) s1(1) s2(1) s3(1) by (simp add: publishCan_def)
qed

section \<open>Publishing commands is defined\<close>

lemma degrees_per_radian: "fp_to_i32 deg_per_rad = Some 57"
proof -
  have bounds: "d64 57 = Fin 57" "d64 (115 / 2) = Fin (115 / 2)"
    using d64_int [of 57] d64_dyadic [of 115 1] by simp_all
  have x: "57 \<le> (180 / (884279719003555 / 2 ^ 48) :: rat)" "180 / (884279719003555 / 2 ^ 48) \<le> (115 / 2 :: rat)"
    by (simp_all add: field_simps)
  obtain r where r: "d64 (180 / (884279719003555 / 2 ^ 48)) = Fin r" "57 \<le> r" "r \<le> 115 / 2"
    by (rule d64_between [OF bounds x])
  have "trunc_rat r = 57" using r(2,3) unfolding trunc_rat_def by (simp add: floor_eq_iff)
  then show ?thesis using r(1) by (simp add: deg_per_rad_def M_PI_def fits_i32_def)
qed

lemma degrees_fit:
  assumes "Fin (- 2000) \<le> x" "x \<le> Fin 2000"
  shows "\<exists>n. fp_to_i32 (x * Fin 57) = Some n"
proof -
  obtain r where r: "x = Fin r" "- 2000 \<le> r" "r \<le> 2000" using within_Fin [OF assms] .
  have b: "d64 (- 114000) = Fin (- 114000)" "d64 114000 = Fin 114000"
    using d64_int [of "- 114000"] d64_int [of 114000] by simp_all
  obtain y where y: "d64 (r * 57) = Fin y" "- 114000 \<le> y" "y \<le> 114000"
    by (rule d64_between [OF b, of "r * 57"]) (use r in simp_all)
  have "trunc_rat (of_int (- 114000)) \<le> trunc_rat y" "trunc_rat y \<le> trunc_rat (of_int 114000)"
    using y(2,3) by (intro trunc_rat_mono; simp)+
  then have "- 114000 \<le> trunc_rat y" "trunc_rat y \<le> 114000" by (simp_all only: trunc_rat_of_int)
  then show ?thesis using r(1) y(1) by (simp add: fits_i32_def)
qed

lemma fp_le_trans: "(a :: fp) \<le> b \<Longrightarrow> b \<le> c \<Longrightarrow> a \<le> c"
  by (cases a; cases b; cases c; auto simp: less_eq_fp_def fp_eq_def)

text \<open>
  The steering command is converted to an \<open>int32_t\<close> of degrees. For the desired angle, which is
  limited first, the conversion is undefined exactly for not-a-number.
\<close>

lemma desired_degrees:
  assumes "params_ok (hparams s)"
  shows "fp_to_i32 (desired_steer_wheel c s * Fin 57) = None \<longleftrightarrow> lateral_steering_tire_angle c = NaN"
proof (cases "lateral_steering_tire_angle c = NaN")
  case True
  then show ?thesis by (simp add: desired_steer_wheel_NaN)
next
  case False
  let ?m = "max_steering_wheel (hparams s)"
  have "Fin (- 2000) \<le> - ?m" "?m \<le> Fin 2000"
    using assms by (auto simp: params_ok_def elim!: within_Fin)
  then have "Fin (- 2000) \<le> desired_steer_wheel c s" "desired_steer_wheel c s \<le> Fin 2000"
    using desired_steer_wheel_range [OF assms False] fp_le_trans by blast+
  from degrees_fit [OF this] False show ?thesis by auto
qed

lemma publish_steer_undefined:
  "publish_steer_cmd w t clear desired out s = None \<longleftrightarrow>
     fp_to_i32 ((if engage_cmd s then desired else out) * Fin 57) = None"
  by (simp add: publish_steer_cmd_def steerWheelRateLimiter_def Let_def degrees_per_radian d64_of_int_eq
      bind_eq_None_conv)

lemma turn_recover_defined:
  assumes "turn_rpt_ptr s = Some r"
  shows "\<exists>c s'. toHooke2TurnCmdWithHazardRecover w turn hazard s = Some (c, s')"
proof -
  have t: "turn_rpt_ptr (count_recovery w s') = turn_rpt_ptr s'" for s'
    by (simp add: count_recovery_def ros_now_def Let_def)
  show ?thesis
    using assms by (simp add: toHooke2TurnCmdWithHazardRecover_def ros_now_def Let_def t
        split: prod.split)
qed

lemma inv_publish_turn:
  assumes "hooke_inv p s" "publish_turn_cmd w clear s = Some s'"
  shows "hooke_inv p s'"
  using assms(2) inv_hazard_recover [OF assms(1)] assms(1)
  by (auto simp: publish_turn_cmd_def Let_def bind_eq_Some_conv intro!: inv_publish
      split: option.splits)

lemma publish_turn_defined:
  assumes "turn_rpt_ptr s = Some r"
  shows "\<exists>s'. publish_turn_cmd w clear s = Some s'"
proof (cases "turn_indicators_cmd_ptr s = None \<or> hazard_lights_cmd_ptr s = None")
  case False
  then obtain t h where "turn_indicators_cmd_ptr s = Some t" "hazard_lights_cmd_ptr s = Some h" by auto
  then show ?thesis
    using turn_recover_defined [OF assms, of w t h] by (auto simp: publish_turn_cmd_def Let_def)
qed (auto simp: publish_turn_cmd_def split: option.split)

text \<open>What the blocks before the steering block leave alone.\<close>

lemma publish_blocks_frame [simp]:
  "hparams (publish_throttle_cmd c d s) = hparams s" "hparams (publish_acceleration_cmd c s) = hparams s"
  "hparams (publish_speed_cmd c s) = hparams s" "hparams (publish_brake_cmd c b s) = hparams s"
  "engage_cmd (publish_throttle_cmd c d s) = engage_cmd s"
  "engage_cmd (publish_acceleration_cmd c s) = engage_cmd s"
  "engage_cmd (publish_speed_cmd c s) = engage_cmd s" "engage_cmd (publish_brake_cmd c b s) = engage_cmd s"
  "turn_rpt_ptr (publish_throttle_cmd c d s) = turn_rpt_ptr s"
  "turn_rpt_ptr (publish_acceleration_cmd c s) = turn_rpt_ptr s"
  "turn_rpt_ptr (publish_speed_cmd c s) = turn_rpt_ptr s"
  "turn_rpt_ptr (publish_brake_cmd c b s) = turn_rpt_ptr s"
  "turn_rpt_ptr (publish_raw_steer_cmd c x r k s) = turn_rpt_ptr s"
  "turn_rpt_ptr (publish_shift_cmd c n s) = turn_rpt_ptr s"
  "turn_rpt_ptr (publish_parking_cmd c s) = turn_rpt_ptr s"
  by (simp_all add: publish_throttle_cmd_def publish_acceleration_cmd_def publish_speed_cmd_def
      publish_brake_cmd_def publish_raw_steer_cmd_def publish_shift_cmd_def publish_parking_cmd_def
      publish_def Let_def)

lemma publish_steer_frame:
  "publish_steer_cmd w t c d x s = Some s' \<Longrightarrow> turn_rpt_ptr s' = turn_rpt_ptr s"
  by (auto simp: publish_steer_cmd_def publish_def Let_def bind_eq_Some_conv)

lemma desired_steer_wheel_cong: "hparams s = hparams t \<Longrightarrow> desired_steer_wheel c s = desired_steer_wheel c t"
  by (simp add: desired_steer_wheel_def)

lemma publish_plan_undefined:
  assumes "turn_rpt_ptr s = Some r"
  shows "publish_plan w t c v out plan s = None \<longleftrightarrow>
     fp_to_i32 ((if engage_cmd s then desired_steer_wheel c s else out) * Fin 57) = None"
proof -
  let ?clear = "plan_clear_override plan"
  let ?s1 = "publish_brake_cmd ?clear (plan_brake plan) (publish_speed_cmd ?clear
    (publish_acceleration_cmd ?clear (publish_throttle_cmd ?clear (plan_throttle plan) s)))"
  let ?steer = "publish_steer_cmd w t ?clear (desired_steer_wheel c s) out ?s1"
  have "publish_plan w t c v out plan s \<noteq> None" if s2: "?steer = Some s2" for s2
  proof -
    have "turn_rpt_ptr s2 = Some r" using publish_steer_frame [OF s2] assms by simp
    then obtain s3 where "publish_turn_cmd w ?clear (publish_parking_cmd ?clear (publish_shift_cmd ?clear
        (plan_shift plan) (publish_raw_steer_cmd ?clear (desired_steer_wheel c s)
          (calculateVariableGearRatio v out s) c s2))) = Some s3"
      using publish_turn_defined by (metis publish_blocks_frame(13-15))
    then show ?thesis using s2 by (simp add: publish_plan_def Let_def)
  qed
  moreover have "publish_plan w t c v out plan s = None" if "?steer = None"
    using that by (simp add: publish_plan_def Let_def)
  moreover have "?steer = None \<longleftrightarrow>
      fp_to_i32 ((if engage_cmd s then desired_steer_wheel c s else out) * Fin 57) = None"
    by (simp add: publish_steer_undefined)
  ultimately show ?thesis by (cases ?steer) auto
qed

lemma inv_publish_plan:
  assumes "hooke_inv p s" "params_ok p" "publish_plan w t c v out plan s = Some s'"
  shows "hooke_inv p s'"
proof -
  let ?clear = "plan_clear_override plan"
  let ?s1 = "publish_brake_cmd ?clear (plan_brake plan) (publish_speed_cmd ?clear
    (publish_acceleration_cmd ?clear (publish_throttle_cmd ?clear (plan_throttle plan) s)))"
  have "hooke_inv p ?s1"
    by (intro inv_publish_brake inv_publish_speed inv_publish_acceleration inv_publish_throttle assms)
  moreover have d: "desired_steer_wheel c s = desired_steer_wheel c ?s1"
    by (rule desired_steer_wheel_cong) simp
  ultimately obtain s2 where s2: "publish_steer_cmd w t ?clear (desired_steer_wheel c s) out ?s1 = Some s2"
    "hooke_inv p s2"
    using assms(3) inv_publish_steer [OF _ assms(2), of ?s1]
    by (auto simp: publish_plan_def Let_def bind_eq_Some_conv)
  let ?s3 = "publish_parking_cmd ?clear (publish_shift_cmd ?clear (plan_shift plan)
    (publish_raw_steer_cmd ?clear (desired_steer_wheel c s) (calculateVariableGearRatio v out s) c s2))"
  have "hooke_inv p ?s3" by (intro inv_publish_rest s2)
  moreover obtain s4 where "publish_turn_cmd w ?clear ?s3 = Some s4" "s' = update_disable_flag s4"
    using assms(3) s2(1) by (auto simp: publish_plan_def Let_def bind_eq_Some_conv)
  ultimately show ?thesis using inv_publish_turn inv_publish_rest(4) by blast
qed

section \<open>The whole command timer\<close>

lemma plan_commands_blocks:
  assumes "plan_commands w t c g wh sh s = (plan, s')"
  obtains x s2 b s3 y n where
    "check_emergency w t (pedal_targets (take_desired c s)) (take_desired c s) = (x, s2)"
    "check_clear_flag s2 = (b, s3)"
    "check_shift_change (current_speed s2) g sh x (update_engagement w t s3) = (y, n, s')"
    "plan = \<lparr>plan_throttle = fst y, plan_brake = snd y, plan_shift = n, plan_clear_override = b\<rparr>"
  using assms that
  by (auto simp: plan_commands_def Let_def calculateVehicleVelocity_def split: prod.splits)

lemma inv_plan_commands:
  assumes "hooke_inv p s" "plan_commands w t c g wh sh s = (plan, s')"
  shows "hooke_inv p s'"
proof -
  obtain x s2 b s3 y n where e:
    "check_emergency w t (pedal_targets (take_desired c s)) (take_desired c s) = (x, s2)"
    "check_clear_flag s2 = (b, s3)"
    "check_shift_change (current_speed s2) g sh x (update_engagement w t s3) = (y, n, s')"
    by (rule plan_commands_blocks [OF assms(2)])
  have "hooke_inv p s2"
    using inv_check_emergency [OF inv_take_desired [OF assms(1)], of w t "pedal_targets (take_desired c s)" c]
      e(1) by simp
  then have "hooke_inv p s3" using inv_check_clear_flag [of p s2] e(2) by simp
  then show ?thesis
    using inv_check_shift_change [OF inv_update_engagement, of p s3 "current_speed s2" g sh x w t] e(3) by simp
qed

lemma publishCommands_cases:
  assumes "hooke_inv p s" "command_guard s"
  obtains c g wh sh st tu s1 plan s2 where
    "control_cmd_ptr s = Some c" "gear_cmd_ptr s = Some g" "wheel_speed_rpt_ptr s = Some wh"
    "gear_rpt_ptr s = Some sh" "steer_wheel_rpt_ptr s = Some st" "turn_rpt_ptr s = Some tu"
    "s1 = s\<lparr>clock_reads := clock_reads s + 1\<rparr>"
    "plan_commands w (clock_ns w (clock_reads s)) c g wh sh s1 = (plan, s2)"
    "publishCommands w s = publish_plan w (clock_ns w (clock_reads s)) c (current_speed s) (rf_output st) plan s2"
proof -
  obtain c g where cg: "control_cmd_ptr s = Some c" "gear_cmd_ptr s = Some g" "is_hooke2_rpt_received s"
    using assms(2) by (auto simp: command_guard_def)
  obtain st wh sh tu where r: "wheel_speed_rpt_ptr s = Some wh" "gear_rpt_ptr s = Some sh"
    "steer_wheel_rpt_ptr s = Some st" "turn_rpt_ptr s = Some tu"
    using assms(1) cg(3) by (auto simp: hooke_inv_def reports_present_def split: if_splits)
  obtain plan s2 where p: "plan_commands w (clock_ns w (clock_reads s)) c g wh sh
      (s\<lparr>clock_reads := clock_reads s + 1\<rparr>) = (plan, s2)" by (metis surj_pair)
  show ?thesis
    by (rule that [OF cg(1,2) r refl p])
      (use assms(2) cg r p in \<open>simp add: publishCommands_def ros_now_def calculateVehicleVelocity_def\<close>)
qed

lemma planning_blocks_turn:
  "turn_rpt_ptr (take_desired c s) = turn_rpt_ptr s"
  "check_emergency w t x s = (y, s') \<Longrightarrow> turn_rpt_ptr s' = turn_rpt_ptr s"
  "check_clear_flag s = (b, s') \<Longrightarrow> turn_rpt_ptr s' = turn_rpt_ptr s"
  "turn_rpt_ptr (update_engagement w t s) = turn_rpt_ptr s"
  "toHooke2ShiftCmd g s = (m, s') \<Longrightarrow> turn_rpt_ptr s' = turn_rpt_ptr s"
  by (auto simp: take_desired_def check_emergency_def check_clear_flag_def update_engagement_def
      set_msg_park_target_def Let_def split: if_splits elim: toHooke2ShiftCmd.elims)

lemma check_shift_change_turn:
  "check_shift_change v g r x s = (y, n, s') \<Longrightarrow> turn_rpt_ptr s' = turn_rpt_ptr s"
  by (auto simp: check_shift_change_def Let_def split: prod.splits if_splits dest!: planning_blocks_turn(5))

lemma plan_commands_turn:
  "plan_commands w t c g wh sh s = (plan, s') \<Longrightarrow> turn_rpt_ptr s' = turn_rpt_ptr s"
  by (erule plan_commands_blocks, drule planning_blocks_turn(2), drule planning_blocks_turn(3),
      drule check_shift_change_turn) (simp add: planning_blocks_turn)

lemma publishCommands_inv:
  assumes "hooke_inv p s" "params_ok p" "publishCommands w s = Some s'"
  shows "hooke_inv p s'"
proof (cases "command_guard s")
  case True
  obtain c g wh sh st tu s1 plan s2 where x: "control_cmd_ptr s = Some c" "gear_cmd_ptr s = Some g"
    "wheel_speed_rpt_ptr s = Some wh" "gear_rpt_ptr s = Some sh" "steer_wheel_rpt_ptr s = Some st"
    "turn_rpt_ptr s = Some tu" "s1 = s\<lparr>clock_reads := clock_reads s + 1\<rparr>"
    "plan_commands w (clock_ns w (clock_reads s)) c g wh sh s1 = (plan, s2)"
    "publishCommands w s = publish_plan w (clock_ns w (clock_reads s)) c (current_speed s) (rf_output st) plan s2"
    by (rule publishCommands_cases [OF assms(1) True])
  have "hooke_inv p s1" using inv_ros_now [OF assms(1), of w] x(7) by (simp add: ros_now_def)
  then have "hooke_inv p s2" using x(8) by (rule inv_plan_commands)
  then show ?thesis using inv_publish_plan [OF _ assms(2)] assms(3) x(9) by metis
qed (use assms in \<open>simp add: publishCommands_def\<close>)

section \<open>All events\<close>

lemma publishCan_defined: "hooke_inv p s \<Longrightarrow> \<exists>s'. publishCan s = Some s'"
  by (erule publishCan_frames) blast

lemma node_event_inv:
  assumes "hooke_inv p s" "params_ok p" "node_event w ev s = Some s'"
  shows "hooke_inv p s'"
proof (cases ev)
  case Command_timer
  then show ?thesis using publishCommands_inv [OF assms(1,2)] assms(3) by simp
next
  case Can_timer
  then show ?thesis using inv_publishCan [OF assms(1)] assms(3) by simp
next
  case (Reports_received st wh ac br sh tu)
  then show ?thesis using assms(1,3) inv_callbackHooke2Rpt by auto
next
  case (Mode_requested m)
  then show ?thesis using inv_mode [OF assms(1)] assms(3) by auto
next
  case (Frame_received f)
  then show ?thesis using inv_canTxCallback [OF assms(1)] assms(3) by auto
qed (use assms(1,3) inv_simple_callbacks [OF assms(1)] in auto)

text \<open>Of the handlers, only the command timer and the thread can be undefined.\<close>

lemma node_event_defined:
  assumes "hooke_inv p s" "ev \<noteq> Command_timer"
  shows "\<exists>s'. node_event w ev s = Some s'"
  using assms publishCan_defined by (cases ev) auto

lemma handle_hooke_inv:
  assumes "hooke_inv p (node y)" "params_ok p" "handle_hooke w ev y = Some y'"
  shows "hooke_inv p (node y')"
proof (cases "ev = Thread_pass")
  case True
  then show ?thesis
    using assms(1,3) inv_enable_auto_pass [of p "node y"] inv_simple_callbacks(9) [OF assms(1), of True]
    by (auto simp: handle_hooke_def thread_step_def bind_eq_Some_conv split: thread_phase.splits)
next
  case False
  then show ?thesis
    using assms(3) node_event_inv [OF assms(1,2)] by (auto simp: handle_hooke_def bind_eq_Some_conv)
qed

lemma hooke_reachable_inv:
  assumes "hooke_reachable w p y" "params_ok p"
  shows "hooke_inv p (node y)"
  using assms(1)
proof (induction rule: hooke_reachable.induct)
  case hooke_start
  then show ?case using inv_new by (simp add: HookeSystem_new_def)
next
  case (hooke_step y ev y')
  then show ?case using handle_hooke_inv [OF _ assms(2)] by blast
qed

end
