(* ===== verification/Hooke2_Effects.thy ===== *)
theory Hooke2_Effects
  imports Hooke2_Safety
begin

text \<open>
  What one run of \<open>publishCommands\<close> changes: the blocks that publish keep the engagement, the
  enable flags of the wires and the global report, and publish a command as enabled only while
  the node is engaged; the stored targets are those of the plan.
\<close>

section \<open>The publishing blocks\<close>

fun cmd_enabled :: "publication \<Rightarrow> bool" where
  "cmd_enabled (Throttle_cmd c) = cf_enable c"
| "cmd_enabled (Acceleration_cmd c) = cf_enable c"
| "cmd_enabled (Speed_cmd c) = cf_enable c"
| "cmd_enabled (Brake_cmd c) = cf_enable c"
| "cmd_enabled (Steer_cmd c) = sc_enable c"
| "cmd_enabled (Raw_steer_cmd c) = sc_enable c"
| "cmd_enabled (Shift_cmd c) = ci_enable c"
| "cmd_enabled (Parking_cmd c) = ci_enable c"
| "cmd_enabled (Turn_cmd c) = ci_enable c"
| "cmd_enabled _ = False"

definition wire_enables :: "Hooke2Interface \<Rightarrow> u8 \<times> u8 \<times> u8 \<times> u8 \<times> u8" where
  "wire_enables s =
     (throttle_en_ctrl (msg_throttle_cmd s), brake_en_ctrl (msg_brake_cmd s),
      steer_en_ctrl (msg_steering_cmd s), gear_en_ctrl (msg_gear_cmd s), park_en_ctrl (msg_park_cmd s))"

definition publishes :: "Hooke2Interface \<Rightarrow> Hooke2Interface \<Rightarrow> bool" where
  "publishes s s' \<longleftrightarrow>
     engage_cmd s' = engage_cmd s \<and> wire_enables s' = wire_enables s \<and>
     aeb_en_ctrl (msg_brake_cmd s') = aeb_en_ctrl (msg_brake_cmd s) \<and>
     global_rpt s' = global_rpt s \<and> is_hooke2_auto_enabled s' = is_hooke2_auto_enabled s \<and>
     desired_speed s' = desired_speed s \<and> desired_acceleration s' = desired_acceleration s \<and>
     vehicle_shift_counter s' = vehicle_shift_counter s \<and>
     disable_auto_mode s' = disable_auto_mode s \<and> hparams s' = hparams s \<and>
     (\<exists>new. sent s' = new @ sent s \<and> (\<forall>x\<in>set new. cmd_enabled x \<longrightarrow> engage_cmd s))"

lemma publishes_refl [simp]: "publishes s s"
  by (simp add: publishes_def)

lemma publishes_trans: "publishes s t \<Longrightarrow> publishes t u \<Longrightarrow> publishes s u"
proof -
  assume a: "publishes s t" "publishes t u"
  then obtain new1 new2 where "sent t = new1 @ sent s" "sent u = new2 @ sent t"
    "\<forall>x\<in>set new1. cmd_enabled x \<longrightarrow> engage_cmd s" "\<forall>x\<in>set new2. cmd_enabled x \<longrightarrow> engage_cmd t"
    by (auto simp: publishes_def)
  then have "sent u = (new2 @ new1) @ sent s \<and> (\<forall>x\<in>set (new2 @ new1). cmd_enabled x \<longrightarrow> engage_cmd s)"
    using a by (auto simp: publishes_def)
  then show ?thesis using a unfolding publishes_def by metis
qed

lemma publishes_one:
  "cmd_enabled x \<longrightarrow> engage_cmd s \<Longrightarrow> publishes s (publish x s)"
  by (simp add: publishes_def publish_def wire_enables_def)

lemma enable_flag_engaged: "enable_flag c s \<Longrightarrow> engage_cmd s"
  by (simp add: enable_flag_def split: if_splits)

lemma publishing_blocks:
  "publishes s (publish_throttle_cmd c d s)" "publishes s (publish_acceleration_cmd c s)"
  "publishes s (publish_speed_cmd c s)" "publishes s (publish_brake_cmd c b s)"
  "publishes s (publish_raw_steer_cmd c x r k s)" "publishes s (publish_shift_cmd c n s)"
  "publishes s (publish_parking_cmd c s)"
  by (auto simp: publish_throttle_cmd_def publish_acceleration_cmd_def publish_speed_cmd_def
      publish_brake_cmd_def publish_raw_steer_cmd_def publish_shift_cmd_def publish_parking_cmd_def
      publishes_def publish_def wire_enables_def float_cmd_def int_cmd_def Let_def
      dest: enable_flag_engaged)

lemma publishing_steer: "publish_steer_cmd w t c d x s = Some s' \<Longrightarrow> publishes s s'"
  by (auto simp: publish_steer_cmd_def publishes_def publish_def wire_enables_def Let_def
      bind_eq_Some_conv dest: enable_flag_engaged)

text \<open>The turn command changes only its own bookkeeping and the turn light.\<close>

definition turn_scrub :: "Hooke2Interface \<Rightarrow> Hooke2Interface" where
  "turn_scrub s = s\<lparr>clock_reads := 0, last_shift_inout_matched_time := 0, hazard_recover_count := 0,
     msg_vehicle_mode_cmd := Vehiclemodecommand105_Reset\<rparr>"

lemma scrubbed:
  "turn_scrub (snd (ros_now w s)) = turn_scrub s" "turn_scrub (count_recovery w s) = turn_scrub s"
  "turn_scrub (s\<lparr>last_shift_inout_matched_time := n\<rparr>) = turn_scrub s"
  "turn_scrub (snd (toHooke2TurnCmd t h s)) = turn_scrub s"
  by (simp_all add: turn_scrub_def ros_now_def count_recovery_def toHooke2TurnCmd_def
      set_msg_turn_light_def Let_def)

lemma hazard_recover_scrub:
  assumes "toHooke2TurnCmdWithHazardRecover w t h s = Some (k, s')"
  shows "turn_scrub s' = turn_scrub s"
proof -
  obtain now s1 where s1: "ros_now w s = (now, s1)" by (metis surj_pair)
  have a: "turn_scrub s1 = turn_scrub s" using scrubbed(1) [of w s] s1 by simp
  have c: "turn_scrub u = turn_scrub x" if "toHooke2TurnCmd t h x = (k, u)" for x k u
    using scrubbed(4) [of t h x] that by simp
  show ?thesis
    using assms a
    by (auto simp: toHooke2TurnCmdWithHazardRecover_def s1 Let_def bind_eq_Some_conv scrubbed
        split: if_splits dest!: c)
qed

lemma scrub_facts:
  assumes "turn_scrub s' = turn_scrub s"
  shows "publishes s s'" "msg_throttle_cmd s' = msg_throttle_cmd s" "msg_brake_cmd s' = msg_brake_cmd s"
  using assms by (cases s; cases s'; simp add: turn_scrub_def publishes_def wire_enables_def)+

lemmas hazard_recover_keeps = hazard_recover_scrub [THEN scrub_facts(1)]

lemma publishing_turn:
  assumes "publish_turn_cmd w c s = Some s'"
  shows "publishes s s'"
proof (cases "turn_indicators_cmd_ptr s = None \<or> hazard_lights_cmd_ptr s = None")
  case True
  then show ?thesis using assms by (auto simp: publish_turn_cmd_def split: option.splits)
next
  case False
  then obtain t h k s1 where x: "toHooke2TurnCmdWithHazardRecover w t h s = Some (k, s1)"
    "s' = publish (Turn_cmd \<lparr>ci_enable = enable_flag c s, ci_ignore_overrides = False,
             ci_clear_override = c, ci_command = k\<rparr>) s1"
    using assms by (auto simp: publish_turn_cmd_def Let_def bind_eq_Some_conv)
  have p: "publishes s s1" by (rule hazard_recover_keeps [OF x(1)])
  then have "engage_cmd s1 = engage_cmd s" by (simp add: publishes_def)
  then have "publishes s1 s'" unfolding x(2) by (intro publishes_one) (auto dest: enable_flag_engaged)
  with p show ?thesis by (rule publishes_trans)
qed

section \<open>A published plan\<close>

abbreviation pedal_blocks :: "CommandPlan \<Rightarrow> Hooke2Interface \<Rightarrow> Hooke2Interface" where
  "pedal_blocks plan s \<equiv>
     publish_brake_cmd (plan_clear_override plan) (plan_brake plan)
       (publish_speed_cmd (plan_clear_override plan) (publish_acceleration_cmd (plan_clear_override plan)
         (publish_throttle_cmd (plan_clear_override plan) (plan_throttle plan) s)))"

abbreviation gear_blocks ::
  "CommandPlan \<Rightarrow> fp \<Rightarrow> fp \<Rightarrow> ControlCommand \<Rightarrow> Hooke2Interface \<Rightarrow> Hooke2Interface" where
  "gear_blocks plan desired ratio c s \<equiv>
     publish_parking_cmd (plan_clear_override plan) (publish_shift_cmd (plan_clear_override plan)
       (plan_shift plan) (publish_raw_steer_cmd (plan_clear_override plan) desired ratio c s))"

lemma publish_plan_blocks:
  assumes "publish_plan w t c v out plan s = Some s'"
  obtains s1 s2 where
    "publish_steer_cmd w t (plan_clear_override plan) (desired_steer_wheel c s) out (pedal_blocks plan s) = Some s1"
    "publish_turn_cmd w (plan_clear_override plan)
       (gear_blocks plan (desired_steer_wheel c s) (calculateVariableGearRatio v out s) c s1) = Some s2"
    "s' = update_disable_flag s2"
  using assms by (auto simp: publish_plan_def Let_def bind_eq_Some_conv)

lemma plan_publishes:
  assumes "publish_plan w t c v out plan s = Some s'"
  obtains s2 where "publishes s s2" "s' = update_disable_flag s2"
proof -
  obtain s1 s2 where e:
    "publish_steer_cmd w t (plan_clear_override plan) (desired_steer_wheel c s) out (pedal_blocks plan s) = Some s1"
    "publish_turn_cmd w (plan_clear_override plan)
       (gear_blocks plan (desired_steer_wheel c s) (calculateVariableGearRatio v out s) c s1) = Some s2"
    "s' = update_disable_flag s2"
    by (rule publish_plan_blocks [OF assms])
  have "publishes s (pedal_blocks plan s)"
    by (meson publishing_blocks publishes_trans)
  then have "publishes s s1" using publishing_steer [OF e(1)] publishes_trans by blast
  then have "publishes s (gear_blocks plan (desired_steer_wheel c s) (calculateVariableGearRatio v out s) c s1)"
    by (meson publishing_blocks publishes_trans)
  then show ?thesis using that publishing_turn [OF e(2)] publishes_trans e(3) by blast
qed

text \<open>The stored targets after the plan.\<close>

lemma steer_messages:
  "publish_steer_cmd w t c d x s = Some s' \<Longrightarrow>
     msg_throttle_cmd s' = msg_throttle_cmd s \<and> msg_brake_cmd s' = msg_brake_cmd s"
  by (auto simp: publish_steer_cmd_def publish_def Let_def bind_eq_Some_conv)

lemma turn_messages:
  assumes "publish_turn_cmd w c s = Some s'"
  shows "msg_throttle_cmd s' = msg_throttle_cmd s \<and> msg_brake_cmd s' = msg_brake_cmd s"
  using assms scrub_facts(2,3) [OF hazard_recover_scrub]
  by (auto simp: publish_turn_cmd_def publish_def Let_def bind_eq_Some_conv split: option.splits)

lemma gear_messages [simp]:
  "msg_throttle_cmd (gear_blocks plan d r c s) = msg_throttle_cmd s"
  "msg_brake_cmd (gear_blocks plan d r c s) = msg_brake_cmd s"
  by (simp_all add: publish_parking_cmd_def publish_shift_cmd_def publish_raw_steer_cmd_def publish_def Let_def)

lemma pedal_messages:
  "msg_throttle_cmd (pedal_blocks plan s) = (msg_throttle_cmd s)
     \<lparr>throttle_pedal_target := std_max (Fin 0) (std_min (plan_throttle plan) (max_throttle (hparams s))),
      throttle_acc := if Fin 0 < desired_acceleration s then desired_acceleration s else Fin 0,
      vel_target := speed_command (desired_speed s) (max_speed (hparams s))\<rparr>"
  "aeb_en_ctrl (msg_brake_cmd (pedal_blocks plan s)) = aeb_en_ctrl (msg_brake_cmd s)"
  "brake_pedal_target (msg_brake_cmd (pedal_blocks plan s)) =
     std_max (Fin 0) (std_min (plan_brake plan) (max_brake (hparams s)))"
  by (simp_all add: publish_brake_cmd_def publish_speed_cmd_def publish_acceleration_cmd_def
      publish_throttle_cmd_def publish_def Let_def)

lemma disable_flag_messages [simp]:
  "msg_throttle_cmd (update_disable_flag s) = msg_throttle_cmd s"
  "msg_brake_cmd (update_disable_flag s) = msg_brake_cmd s"
  "engage_cmd (update_disable_flag s) = engage_cmd s" "sent (update_disable_flag s) = sent s"
  "wire_enables (update_disable_flag s) = wire_enables s"
  "desired_speed (update_disable_flag s) = desired_speed s" "hparams (update_disable_flag s) = hparams s"
  "desired_acceleration (update_disable_flag s) = desired_acceleration s"
  "vehicle_shift_counter (update_disable_flag s) = vehicle_shift_counter s"
  by (simp_all add: update_disable_flag_def wire_enables_def)

lemma plan_messages:
  assumes "publish_plan w t c v out plan s = Some s'"
  shows "msg_throttle_cmd s' = msg_throttle_cmd (pedal_blocks plan s) \<and>
     msg_brake_cmd s' = msg_brake_cmd (pedal_blocks plan s)"
proof -
  obtain s1 s2 where e:
    "publish_steer_cmd w t (plan_clear_override plan) (desired_steer_wheel c s) out (pedal_blocks plan s) = Some s1"
    "publish_turn_cmd w (plan_clear_override plan)
       (gear_blocks plan (desired_steer_wheel c s) (calculateVariableGearRatio v out s) c s1) = Some s2"
    "s' = update_disable_flag s2"
    by (rule publish_plan_blocks [OF assms])
  show ?thesis
    using steer_messages [OF e(1)] turn_messages [OF e(2)] by (simp only: e(3) disable_flag_messages gear_messages)
qed

section \<open>Planning\<close>

text \<open>What planning never touches.\<close>

definition plans :: "Hooke2Interface \<Rightarrow> Hooke2Interface \<Rightarrow> bool" where
  "plans s s' \<longleftrightarrow>
     wire_enables s' = wire_enables s \<and> sent s' = sent s \<and> global_rpt s' = global_rpt s \<and>
     is_hooke2_auto_enabled s' = is_hooke2_auto_enabled s \<and>
     disable_auto_mode s' = disable_auto_mode s \<and> hparams s' = hparams s"

lemma planning_blocks:
  "plans s (take_desired c s)"
  "check_emergency w t x s = (y, s') \<Longrightarrow> plans s s'"
  "check_clear_flag s = (b, s') \<Longrightarrow> plans s s'"
  "plans s (update_engagement w t s)"
  by (auto simp: plans_def wire_enables_def take_desired_def check_emergency_def check_clear_flag_def
      update_engagement_def Let_def split: if_splits)

text \<open>A shift command sets the park target only.\<close>

lemma shift_command_state: "\<exists>v. toHooke2ShiftCmd g s = (fst (toHooke2ShiftCmd g s), set_msg_park_target v s)"
  by (cases g) auto

lemma shift_change_state:
  assumes "check_shift_change v g r x s = (y, n, s')"
  shows "(y = x \<and> n = ri_output r \<or> y = (Fin 0, brake_for_shift_trans)) \<and>
     (\<exists>q k. s' = (set_msg_park_target q s)\<lparr>vehicle_shift_counter := k\<rparr> \<and> (k = 10 \<or> k = vehicle_shift_counter s))"
    (is "_ \<and> (\<exists>q k. ?is q k \<and> ?count k)")
proof -
  obtain m a where a: "toHooke2ShiftCmd g s = (m, set_msg_park_target a s)"
    using shift_command_state by blast
  obtain j b where b: "toHooke2ShiftCmd g (set_msg_park_target a s) =
      (j, set_msg_park_target b (set_msg_park_target a s))"
    using shift_command_state by blast
  consider "fp_abs v < d64 (1 / 10)" "m \<noteq> ri_output r" | "fp_abs v < d64 (1 / 10)" "m = ri_output r"
    | "\<not> fp_abs v < d64 (1 / 10)" by blast
  then show ?thesis
  proof cases
    case 1
    then have "y = (Fin 0, brake_for_shift_trans)"
      "s' = (set_msg_park_target b (set_msg_park_target a s))\<lparr>vehicle_shift_counter := 10\<rparr>"
      using assms by (auto simp: check_shift_change_def a b)
    then have "y = (Fin 0, brake_for_shift_trans)" "?is b 10"
      by (simp_all add: set_msg_park_target_def)
    then show ?thesis by blast
  next
    case 2
    then have "y = x \<and> n = ri_output r" "?is a (vehicle_shift_counter s)"
      using assms by (auto simp: check_shift_change_def a set_msg_park_target_def)
    then show ?thesis by blast
  next
    case 3
    then have "y = x \<and> n = ri_output r" "?is (park_target (msg_park_cmd s)) (vehicle_shift_counter s)"
      using assms by (auto simp: check_shift_change_def set_msg_park_target_def)
    then show ?thesis by blast
  qed
qed

lemma shift_state_facts:
  "plans s ((set_msg_park_target q s)\<lparr>vehicle_shift_counter := k\<rparr>)"
  by (simp add: plans_def set_msg_park_target_def wire_enables_def)

lemma plans_trans: "plans s t \<Longrightarrow> plans t u \<Longrightarrow> plans s u"
  by (simp add: plans_def)

lemma planning_plans:
  assumes "plan_commands w t c g wh sh s = (plan, s')"
  shows "plans s s'"
proof -
  obtain x s2 b s3 y n where e:
    "check_emergency w t (pedal_targets (take_desired c s)) (take_desired c s) = (x, s2)"
    "check_clear_flag s2 = (b, s3)"
    "check_shift_change (current_speed s2) g sh x (update_engagement w t s3) = (y, n, s')"
    by (rule plan_commands_blocks [OF assms])
  have "plans s (update_engagement w t s3)"
    by (rule plans_trans [OF plans_trans [OF plans_trans [OF planning_blocks(1)
          planning_blocks(2) [OF e(1)]] planning_blocks(3) [OF e(2)]] planning_blocks(4)])
  moreover obtain q k where "s' = (set_msg_park_target q (update_engagement w t s3))\<lparr>vehicle_shift_counter := k\<rparr>"
    using shift_change_state [OF e(3)] by blast
  ultimately show ?thesis using shift_state_facts plans_trans by metis
qed

text \<open>Engagement after planning: kept unless an override begins, the report is late or a fault is active.\<close>

lemma planning_engagement:
  assumes "plan_commands w t c g wh sh s = (plan, s')"
  shows "engage_cmd s' \<longleftrightarrow>
     engage_cmd s \<and> (prev_override s \<or> \<not> gl_override_active (global_rpt s)) \<and>
     \<not> report_timed_out w t s \<and> \<not> gl_sys_fault_active (global_rpt s)"
proof -
  obtain x s2 b s3 y n where e:
    "check_emergency w t (pedal_targets (take_desired c s)) (take_desired c s) = (x, s2)"
    "check_clear_flag s2 = (b, s3)"
    "check_shift_change (current_speed s2) g sh x (update_engagement w t s3) = (y, n, s')"
    by (rule plan_commands_blocks [OF assms])
  have "engage_cmd s2 = engage_cmd s \<and> prev_override s2 = prev_override s \<and> global_rpt s2 = global_rpt s"
    using e(1) by (auto simp: check_emergency_def take_desired_def Let_def split: if_splits)
  moreover have "engage_cmd s3 = engage_cmd s2 \<and> prev_override s3 = prev_override s2 \<and> global_rpt s3 = global_rpt s2"
    using e(2) by (auto simp: check_clear_flag_def split: if_splits)
  moreover obtain q k where "s' = (set_msg_park_target q (update_engagement w t s3))\<lparr>vehicle_shift_counter := k\<rparr>"
    using shift_change_state [OF e(3)] by blast
  then have "engage_cmd s' = engage_cmd (update_engagement w t s3)" by (simp add: set_msg_park_target_def)
  ultimately show ?thesis by (auto simp: update_engagement_def report_timed_out_def Let_def)
qed

text \<open>Targets after planning.\<close>

definition held :: "Hooke2Interface \<Rightarrow> bool" where
  "held s \<longleftrightarrow> parking_state s = 1 \<or> 0 < vehicle_shift_counter s"

lemma planning_targets:
  assumes "plan_commands w t c g wh sh s = (plan, s')"
  shows "desired_speed s' = (if held s then Fin 0 else longitudinal_velocity c)"
    "desired_acceleration s' = (if held s then Fin 0 else longitudinal_acceleration c)"
    "vehicle_shift_counter s' \<in> {10, if held s then vehicle_shift_counter s - 1 else vehicle_shift_counter s}"
    "aeb_en_ctrl (msg_brake_cmd s') = (if is_emergency s \<or> command_timed_out w t s then 1 else 0)"
    "is_emergency s \<or> command_timed_out w t s \<Longrightarrow>
       plan_throttle plan = Fin 0 \<and> plan_brake plan \<in> {emergency_brake (hparams s), brake_for_shift_trans}"
proof -
  let ?s1 = "take_desired c s"
  obtain x s2 b s3 y n where e: "check_emergency w t (pedal_targets ?s1) ?s1 = (x, s2)"
    "check_clear_flag s2 = (b, s3)"
    "check_shift_change (current_speed s2) g sh x (update_engagement w t s3) = (y, n, s')"
    "plan = \<lparr>plan_throttle = fst y, plan_brake = snd y, plan_shift = n, plan_clear_override = b\<rparr>"
    by (rule plan_commands_blocks [OF assms])
  have one: "desired_speed ?s1 = (if held s then Fin 0 else longitudinal_velocity c)"
    "desired_acceleration ?s1 = (if held s then Fin 0 else longitudinal_acceleration c)"
    "vehicle_shift_counter ?s1 = (if held s then vehicle_shift_counter s - 1 else vehicle_shift_counter s)"
    "is_emergency ?s1 = is_emergency s" "command_timed_out w t ?s1 = command_timed_out w t s"
    "hparams ?s1 = hparams s"
    by (simp_all add: take_desired_def held_def command_timed_out_def Let_def)
  have two: "desired_speed s2 = desired_speed ?s1 \<and> desired_acceleration s2 = desired_acceleration ?s1 \<and>
      vehicle_shift_counter s2 = vehicle_shift_counter ?s1 \<and>
      aeb_en_ctrl (msg_brake_cmd s2) = (if is_emergency s \<or> command_timed_out w t s then 1 else 0) \<and>
      (is_emergency s \<or> command_timed_out w t s \<longrightarrow> x = (Fin 0, emergency_brake (hparams s)))"
    using e(1) one by (auto simp: check_emergency_def split: if_splits)
  have three: "desired_speed s3 = desired_speed s2 \<and> desired_acceleration s3 = desired_acceleration s2 \<and>
      vehicle_shift_counter s3 = vehicle_shift_counter s2 \<and> msg_brake_cmd s3 = msg_brake_cmd s2"
    using e(2) by (auto simp: check_clear_flag_def split: if_splits)
  have four: "desired_speed (update_engagement w t s3) = desired_speed s3"
    "desired_acceleration (update_engagement w t s3) = desired_acceleration s3"
    "vehicle_shift_counter (update_engagement w t s3) = vehicle_shift_counter s3"
    "msg_brake_cmd (update_engagement w t s3) = msg_brake_cmd s3"
    by (simp_all add: update_engagement_def Let_def)
  obtain q k where five: "s' = (set_msg_park_target q (update_engagement w t s3))\<lparr>vehicle_shift_counter := k\<rparr>"
    "k = 10 \<or> k = vehicle_shift_counter (update_engagement w t s3)"
    "y = x \<or> y = (Fin 0, brake_for_shift_trans)"
    using shift_change_state [OF e(3)] by blast
  show "desired_speed s' = (if held s then Fin 0 else longitudinal_velocity c)"
    "desired_acceleration s' = (if held s then Fin 0 else longitudinal_acceleration c)"
    "vehicle_shift_counter s' \<in> {10, if held s then vehicle_shift_counter s - 1 else vehicle_shift_counter s}"
    "aeb_en_ctrl (msg_brake_cmd s') = (if is_emergency s \<or> command_timed_out w t s then 1 else 0)"
    using five two three four one by (auto simp: set_msg_park_target_def)
  show "is_emergency s \<or> command_timed_out w t s \<Longrightarrow>
      plan_throttle plan = Fin 0 \<and> plan_brake plan \<in> {emergency_brake (hparams s), brake_for_shift_trans}"
    using five(3) two e(4) by auto
qed

end
