(* ===== verification/Hooke2_Properties.thy ===== *)
theory Hooke2_Properties
  imports Hooke2_Effects
begin

text \<open>
  The properties of \<open>Hooke2Interface\<close>: its reachable states, when its handlers are defined, how
  engagement is gained and lost, and what reaches the wire in an emergency, while disabled, and
  after a return to manual mode.
\<close>

section \<open>A run of the command timer\<close>

lemma publishCommands_run:
  assumes "command_guard s" "publishCommands w s = Some s'"
  obtains c g wh sh plan s2 and st :: SystemRptFloat where
    "control_cmd_ptr s = Some c"
    "plan_commands w (clock_ns w (clock_reads s)) c g wh sh (s\<lparr>clock_reads := clock_reads s + 1\<rparr>) = (plan, s2)"
    "publish_plan w (clock_ns w (clock_reads s)) c (current_speed s) (rf_output st) plan s2 = Some s'"
proof -
  obtain c g where cg: "control_cmd_ptr s = Some c" "gear_cmd_ptr s = Some g"
    using assms(1) by (auto simp: command_guard_def)
  obtain wh sh st where r: "wheel_speed_rpt_ptr s = Some wh" "gear_rpt_ptr s = Some sh"
    "steer_wheel_rpt_ptr s = Some st"
    using assms cg by (auto simp: publishCommands_def ros_now_def bind_eq_Some_conv)
  obtain plan s2 where p: "plan_commands w (clock_ns w (clock_reads s)) c g wh sh
      (s\<lparr>clock_reads := clock_reads s + 1\<rparr>) = (plan, s2)" by (metis surj_pair)
  show ?thesis
    by (rule that [OF cg(1) p, of st])
      (use assms cg r p in \<open>simp add: publishCommands_def ros_now_def calculateVehicleVelocity_def\<close>)
qed

lemma clock_facts [simp]:
  "held (s\<lparr>clock_reads := n\<rparr>) = held s"
  "command_timed_out w t (s\<lparr>clock_reads := n\<rparr>) = command_timed_out w t s"
  "report_timed_out w t (s\<lparr>clock_reads := n\<rparr>) = report_timed_out w t s"
  "wire_enables (s\<lparr>clock_reads := n\<rparr>) = wire_enables s"
  by (simp_all add: held_def command_timed_out_def report_timed_out_def wire_enables_def)

definition engagement_kept :: "HookeWorld \<Rightarrow> Hooke2Interface \<Rightarrow> bool" where
  "engagement_kept w s \<longleftrightarrow>
     (prev_override s \<or> \<not> gl_override_active (global_rpt s)) \<and>
     \<not> report_timed_out w (clock_ns w (clock_reads s)) s \<and> \<not> gl_sys_fault_active (global_rpt s)"

text \<open>When the timer is undefined: the steering angle that it converts does not fit.\<close>

definition steer_unrepresentable :: "HookeWorld \<Rightarrow> Hooke2Interface \<Rightarrow> bool" where
  "steer_unrepresentable w s \<longleftrightarrow>
     (if engage_cmd s \<and> engagement_kept w s
      then \<exists>c. control_cmd_ptr s = Some c \<and> lateral_steering_tire_angle c = NaN
      else \<exists>st. steer_wheel_rpt_ptr s = Some st \<and> fp_to_i32 (rf_output st * Fin 57) = None)"

lemma timer_undefined:
  assumes "hooke_inv p s" "params_ok p"
  shows "publishCommands w s = None \<longleftrightarrow> command_guard s \<and> steer_unrepresentable w s"
proof (cases "command_guard s")
  case True
  let ?t = "clock_ns w (clock_reads s)"
  obtain c g wh sh st tu s1 plan s2 where x: "control_cmd_ptr s = Some c" "gear_cmd_ptr s = Some g"
    "wheel_speed_rpt_ptr s = Some wh" "gear_rpt_ptr s = Some sh" "steer_wheel_rpt_ptr s = Some st"
    "turn_rpt_ptr s = Some tu" "s1 = s\<lparr>clock_reads := clock_reads s + 1\<rparr>"
    "plan_commands w ?t c g wh sh s1 = (plan, s2)"
    "publishCommands w s = publish_plan w ?t c (current_speed s) (rf_output st) plan s2"
    by (rule publishCommands_cases [OF assms(1) True])
  have "hparams s2 = p" using planning_plans [OF x(8)] assms(1) x(7) by (simp add: plans_def hooke_inv_def)
  then have d: "fp_to_i32 (desired_steer_wheel c s2 * Fin 57) = None \<longleftrightarrow> lateral_steering_tire_angle c = NaN"
    by (intro desired_degrees) (simp add: assms(2))
  have e: "engage_cmd s2 \<longleftrightarrow> engage_cmd s \<and> engagement_kept w s"
    using planning_engagement [OF x(8)] x(7) by (auto simp: engagement_kept_def)
  have "turn_rpt_ptr s2 = Some tu" using plan_commands_turn [OF x(8)] x(6,7) by simp
  from publish_plan_undefined [OF this] True x(1,5) d e show ?thesis
    by (simp add: x(9) steer_unrepresentable_def)
qed (simp add: publishCommands_def)

lemma run_engagement:
  assumes "command_guard s" "publishCommands w s = Some s'"
  shows "engage_cmd s' = (engage_cmd s \<and> engagement_kept w s)"
    "\<exists>new. sent s' = new @ sent s \<and> (\<forall>x\<in>set new. cmd_enabled x \<longrightarrow> engage_cmd s')"
    "wire_enables s' = wire_enables s"
    "disable_auto_mode s' =
       (if \<not> engage_cmd s' \<and> is_hooke2_auto_enabled s then disable_auto_mode s
        else if engage_cmd s' \<and> \<not> gl_override_active (global_rpt s) then False
        else gl_override_active (global_rpt s) \<or> disable_auto_mode s)"
proof -
  let ?t = "clock_ns w (clock_reads s)"
  obtain c g wh sh plan s2 and st :: SystemRptFloat where
    r: "plan_commands w ?t c g wh sh (s\<lparr>clock_reads := clock_reads s + 1\<rparr>) = (plan, s2)"
      "publish_plan w ?t c (current_speed s) (rf_output st) plan s2 = Some s'"
    by (rule publishCommands_run [OF assms])
  obtain s3 where s3: "publishes s2 s3" "s' = update_disable_flag s3"
    by (rule plan_publishes [OF r(2)])
  have pl: "plans s s2" using planning_plans [OF r(1)] by (simp add: plans_def)
  have e: "engage_cmd s2 = (engage_cmd s \<and> engagement_kept w s)"
    using planning_engagement [OF r(1)] by (auto simp: engagement_kept_def)
  have e3: "engage_cmd s' = engage_cmd s2" using s3 by (simp add: publishes_def)
  show "engage_cmd s' = (engage_cmd s \<and> engagement_kept w s)" using e e3 by simp
  show "\<exists>new. sent s' = new @ sent s \<and> (\<forall>x\<in>set new. cmd_enabled x \<longrightarrow> engage_cmd s')"
    using s3 pl e3 by (auto simp: publishes_def plans_def)
  show "wire_enables s' = wire_enables s" using s3 pl by (simp add: publishes_def plans_def)
  show "disable_auto_mode s' =
       (if \<not> engage_cmd s' \<and> is_hooke2_auto_enabled s then disable_auto_mode s
        else if engage_cmd s' \<and> \<not> gl_override_active (global_rpt s) then False
        else gl_override_active (global_rpt s) \<or> disable_auto_mode s)"
    using s3 pl by (auto simp: publishes_def plans_def update_disable_flag_def)
qed

lemma run_messages:
  assumes "command_guard s" "publishCommands w s = Some s'" "control_cmd_ptr s = Some c"
  shows "vel_target (msg_throttle_cmd s') =
      speed_command (if held s then Fin 0 else longitudinal_velocity c) (max_speed (hparams s))"
    "throttle_acc (msg_throttle_cmd s') =
      (if held s then Fin 0 else if Fin 0 < longitudinal_acceleration c then longitudinal_acceleration c else Fin 0)"
    "vehicle_shift_counter s' \<in> {10, if held s then vehicle_shift_counter s - 1 else vehicle_shift_counter s}"
    "aeb_en_ctrl (msg_brake_cmd s') =
      (if is_emergency s \<or> command_timed_out w (clock_ns w (clock_reads s)) s then 1 else 0)"
    "is_emergency s \<Longrightarrow> throttle_pedal_target (msg_throttle_cmd s') =
       std_max (Fin 0) (std_min (Fin 0) (max_throttle (hparams s)))"
    "is_emergency s \<Longrightarrow> \<exists>b\<in>{emergency_brake (hparams s), brake_for_shift_trans}.
       brake_pedal_target (msg_brake_cmd s') = std_max (Fin 0) (std_min b (max_brake (hparams s)))"
    "hparams s' = hparams s"
proof -
  let ?t = "clock_ns w (clock_reads s)"
  obtain g wh sh plan s2 and st :: SystemRptFloat where
    r: "plan_commands w ?t c g wh sh (s\<lparr>clock_reads := clock_reads s + 1\<rparr>) = (plan, s2)"
      "publish_plan w ?t c (current_speed s) (rf_output st) plan s2 = Some s'"
    by (rule publishCommands_run [OF assms(1,2)]) (use assms(3) in auto)
  obtain s3 where s3: "publishes s2 s3" "s' = update_disable_flag s3"
    by (rule plan_publishes [OF r(2)])
  have h: "hparams s2 = hparams s" using planning_plans [OF r(1)] by (simp add: plans_def)
  note t = planning_targets [OF r(1)] and m = plan_messages [OF r(2)] and p = pedal_messages [of plan s2]
  show "vel_target (msg_throttle_cmd s') =
      speed_command (if held s then Fin 0 else longitudinal_velocity c) (max_speed (hparams s))"
    using m p(1) t(1) h by simp
  show "throttle_acc (msg_throttle_cmd s') =
      (if held s then Fin 0 else if Fin 0 < longitudinal_acceleration c then longitudinal_acceleration c else Fin 0)"
    using m p(1) t(2) by simp
  show "vehicle_shift_counter s' \<in> {10, if held s then vehicle_shift_counter s - 1 else vehicle_shift_counter s}"
    using t(3) s3 by (auto simp: publishes_def split: if_splits)
  show "aeb_en_ctrl (msg_brake_cmd s') = (if is_emergency s \<or> command_timed_out w ?t s then 1 else 0)"
    using m p(2) t(4) by simp
  show "throttle_pedal_target (msg_throttle_cmd s') = std_max (Fin 0) (std_min (Fin 0) (max_throttle (hparams s)))"
    if "is_emergency s" using m p(1) t(5) h that by simp
  show "\<exists>b\<in>{emergency_brake (hparams s), brake_for_shift_trans}.
      brake_pedal_target (msg_brake_cmd s') = std_max (Fin 0) (std_min b (max_brake (hparams s)))"
    if "is_emergency s" using m p(3) t(5) h that by auto
  show "hparams s' = hparams s" using s3 h by (simp add: publishes_def)
qed

section \<open>Concrete states\<close>

definition hooke_demo_world :: HookeWorld where
  "hooke_demo_world = \<lparr>clock_ns = \<lambda>n. int n * 10000000, duration_seconds = \<lambda>d. d64 (of_int d / 10 ^ 9),
     std_tan = \<lambda>x. x\<rparr>"

definition hooke_demo_control :: ControlCommand where
  "hooke_demo_control = \<lparr>lateral_steering_tire_angle = Fin 0, lateral_steering_tire_rotation_rate = Fin 0,
     longitudinal_velocity = Fin 1, longitudinal_acceleration = Fin 0\<rparr>"

definition demo_float_rpt :: SystemRptFloat where
  "demo_float_rpt = SystemRptFloat_init"

definition demo_int_rpt :: SystemRptInt where
  "demo_int_rpt = \<lparr>ri_hooke2_fault = False, ri_command = 0, ri_output = 4, ri_vehicle_mode_state = 1\<rparr>"

definition demo_wheels :: WheelSpeedRpt where
  "demo_wheels = \<lparr>front_left_wheel_speed = Fin 0, front_right_wheel_speed = Fin 0,
     rear_left_wheel_speed = Fin 0, rear_right_wheel_speed = Fin 0\<rparr>"

text \<open>The thread has started and automatic mode was requested before any report.\<close>

definition demo_engaged :: HookeSystem where
  "demo_engaged =
     \<lparr>node = (Hooke2Interface_new hooke_demo_world Hooke2_default_params)
        \<lparr>is_running := True, engage_cmd := True, is_clear_override_needed := True, control_mode_cmd := True\<rparr>,
      thread = Looping\<rparr>"

lemma demo_engaged_reachable: "hooke_reachable hooke_demo_world Hooke2_default_params demo_engaged"
proof -
  let ?w = hooke_demo_world and ?p = Hooke2_default_params
  have "hooke_reachable ?w ?p \<lparr>node = (Hooke2Interface_new ?w ?p)\<lparr>is_running := True\<rparr>, thread = Looping\<rparr>"
    by (rule hooke_step [OF hooke_start, where ev = Thread_pass])
      (simp_all add: handle_hooke_def thread_step_def HookeSystem_new_def)
  then show ?thesis
    by (rule hooke_step [where ev = "Mode_requested Mode_AUTONOMOUS"])
      (simp_all add: handle_hooke_def demo_engaged_def)
qed

text \<open>Commands and reports are in, the vehicle is released, and an emergency was announced.\<close>

definition demo_ready :: HookeSystem where
  "demo_ready = demo_engaged\<lparr>node :=
     callbackEmergencyCmd True
       (callbackHooke2Rpt hooke_demo_world demo_float_rpt demo_wheels demo_float_rpt demo_float_rpt demo_int_rpt demo_int_rpt
          (callbackGearCmd Gear_DRIVE (callbackControlCmd hooke_demo_world hooke_demo_control (node demo_engaged))))\<rparr>"

lemma demo_ready_reachable: "hooke_reachable hooke_demo_world Hooke2_default_params demo_ready"
proof -
  let ?w = hooke_demo_world and ?p = Hooke2_default_params
  have "hooke_reachable ?w ?p (demo_engaged\<lparr>node := callbackControlCmd ?w hooke_demo_control (node demo_engaged)\<rparr>)"
    by (rule hooke_step [OF demo_engaged_reachable, where ev = "Control_received hooke_demo_control"])
      (simp_all add: handle_hooke_def hooke_demo_control_def)
  then have "hooke_reachable ?w ?p (demo_engaged\<lparr>node :=
      callbackGearCmd Gear_DRIVE (callbackControlCmd ?w hooke_demo_control (node demo_engaged))\<rparr>)"
    by (rule hooke_step [where ev = "Gear_received Gear_DRIVE"]) (simp_all add: handle_hooke_def)
  then have "hooke_reachable ?w ?p (demo_engaged\<lparr>node :=
      callbackHooke2Rpt ?w demo_float_rpt demo_wheels demo_float_rpt demo_float_rpt demo_int_rpt demo_int_rpt
        (callbackGearCmd Gear_DRIVE (callbackControlCmd ?w hooke_demo_control (node demo_engaged)))\<rparr>)"
    by (rule hooke_step [where ev = "Reports_received demo_float_rpt demo_wheels demo_float_rpt demo_float_rpt
          demo_int_rpt demo_int_rpt"]) (simp_all add: handle_hooke_def demo_float_rpt_def SystemRptFloat_init_def)
  then show ?thesis
    by (rule hooke_step [where ev = "Emergency_received True"]) (simp_all add: handle_hooke_def demo_ready_def)
qed

text \<open>The status messages change nothing but the list of what was sent.\<close>

definition only_sends :: "Hooke2Interface \<Rightarrow> Hooke2Interface \<Rightarrow> bool" where
  "only_sends s s' \<longleftrightarrow> (\<exists>xs. s' = s\<lparr>sent := xs\<rparr>)"

lemma sends_publish: "only_sends s t \<Longrightarrow> only_sends s (publish p t)"
  by (auto simp: only_sends_def publish_def)

lemma sends_gear: "only_sends s t \<Longrightarrow> only_sends s (publish_gear_status sh t)"
  by (simp add: publish_gear_status_def sends_publish split: option.split)

lemma sends_battery: "only_sends s t \<Longrightarrow> only_sends s (publish_battery t)"
  by (simp add: publish_battery_def sends_publish split: option.split)

lemma sends_refl: "only_sends s s"
  unfolding only_sends_def by (rule exI [of _ "sent s"]) simp

lemma status_only_sends: "only_sends s (publish_status w st wh ac br sh tu s)"
  unfolding publish_status_def Let_def
  by (intro sends_publish sends_gear sends_battery sends_refl)

lemma report_callback_facts:
  "engage_cmd (callbackHooke2Rpt w st wh ac br sh tu s) = engage_cmd s"
  "control_cmd_ptr (callbackHooke2Rpt w st wh ac br sh tu s) = control_cmd_ptr s"
  "gear_cmd_ptr (callbackHooke2Rpt w st wh ac br sh tu s) = gear_cmd_ptr s"
  "parking_state (callbackHooke2Rpt w st wh ac br sh tu s) = parking_state s"
  "vehicle_shift_counter (callbackHooke2Rpt w st wh ac br sh tu s) = vehicle_shift_counter s"
  "hparams (callbackHooke2Rpt w st wh ac br sh tu s) = hparams s"
  "disable_auto_mode (callbackHooke2Rpt w st wh ac br sh tu s) = disable_auto_mode s"
  "is_hooke2_rpt_received (callbackHooke2Rpt w st wh ac br sh tu s)"
  "gl_override_active (global_rpt (callbackHooke2Rpt w st wh ac br sh tu s)) =
     (ri_vehicle_mode_state tu = 0 \<or> ri_vehicle_mode_state tu = 2)"
  "gl_sys_fault_active (global_rpt (callbackHooke2Rpt w st wh ac br sh tu s)) =
     (rf_communication_fault st \<or> rf_communication_fault ac \<or> rf_communication_fault br)"
proof -
  let ?s1 = "verifyVehicleId (store_reports st wh ac br sh tu s)"
  let ?s2 = "processGlobalRpts w (control_mode_cmd ?s1) (vehicle_id ?s1) tu st ac br ?s1"
  obtain xs where xs: "callbackHooke2Rpt w st wh ac br sh tu s =
      ?s2\<lparr>is_hooke2_auto_enabled := rf_enabled st \<and> rf_enabled ac \<and> rf_enabled br, sent := xs\<rparr>"
    unfolding callbackHooke2Rpt_def Let_def using status_only_sends unfolding only_sends_def by blast
  have one: "engage_cmd ?s1 = engage_cmd s" "control_cmd_ptr ?s1 = control_cmd_ptr s"
    "gear_cmd_ptr ?s1 = gear_cmd_ptr s" "parking_state ?s1 = parking_state s"
    "vehicle_shift_counter ?s1 = vehicle_shift_counter s" "hparams ?s1 = hparams s"
    "disable_auto_mode ?s1 = disable_auto_mode s" "is_hooke2_rpt_received ?s1"
    by (simp_all add: store_reports_def verifyVehicleId_def checkVin_def disableVinReq_def Let_def)
  have two: "engage_cmd ?s2 = engage_cmd ?s1" "control_cmd_ptr ?s2 = control_cmd_ptr ?s1"
    "gear_cmd_ptr ?s2 = gear_cmd_ptr ?s1" "parking_state ?s2 = parking_state ?s1"
    "vehicle_shift_counter ?s2 = vehicle_shift_counter ?s1" "hparams ?s2 = hparams ?s1"
    "disable_auto_mode ?s2 = disable_auto_mode ?s1" "is_hooke2_rpt_received ?s2 = is_hooke2_rpt_received ?s1"
    "gl_override_active (global_rpt ?s2) = (ri_vehicle_mode_state tu = 0 \<or> ri_vehicle_mode_state tu = 2)"
    "gl_sys_fault_active (global_rpt ?s2) =
       (rf_communication_fault st \<or> rf_communication_fault ac \<or> rf_communication_fault br)"
    by (simp_all add: processGlobalRpts_def ros_now_def publish_def vehicle_mode_consts Let_def)
  show "engage_cmd (callbackHooke2Rpt w st wh ac br sh tu s) = engage_cmd s"
  "control_cmd_ptr (callbackHooke2Rpt w st wh ac br sh tu s) = control_cmd_ptr s"
  "gear_cmd_ptr (callbackHooke2Rpt w st wh ac br sh tu s) = gear_cmd_ptr s"
  "parking_state (callbackHooke2Rpt w st wh ac br sh tu s) = parking_state s"
  "vehicle_shift_counter (callbackHooke2Rpt w st wh ac br sh tu s) = vehicle_shift_counter s"
  "hparams (callbackHooke2Rpt w st wh ac br sh tu s) = hparams s"
  "disable_auto_mode (callbackHooke2Rpt w st wh ac br sh tu s) = disable_auto_mode s"
  "is_hooke2_rpt_received (callbackHooke2Rpt w st wh ac br sh tu s)"
  "gl_override_active (global_rpt (callbackHooke2Rpt w st wh ac br sh tu s)) =
     (ri_vehicle_mode_state tu = 0 \<or> ri_vehicle_mode_state tu = 2)"
    "gl_sys_fault_active (global_rpt (callbackHooke2Rpt w st wh ac br sh tu s)) =
     (rf_communication_fault st \<or> rf_communication_fault ac \<or> rf_communication_fault br)"
    using one two by (simp_all add: xs)
qed

lemma demo_ready_facts:
  "command_guard (node demo_ready)" "is_emergency (node demo_ready)" "engage_cmd (node demo_ready)"
  "control_cmd_ptr (node demo_ready) = Some hooke_demo_control" "held (node demo_ready)"
  "hparams (node demo_ready) = Hooke2_default_params" "\<not> disable_auto_mode (node demo_ready)"
  "vehicle_shift_counter (node demo_ready) = 50" "\<not> gl_override_active (global_rpt (node demo_ready))"
  "\<not> gl_sys_fault_active (global_rpt (node demo_ready))"
  by (simp_all add: demo_ready_def callbackEmergencyCmd_def command_guard_def held_def report_callback_facts
      callbackGearCmd_def callbackControlCmd_def ros_now_def demo_engaged_def Hooke2Interface_new_def
      demo_int_rpt_def demo_float_rpt_def SystemRptFloat_init_def)

lemma report_callback_stores:
  "steer_wheel_rpt_ptr (callbackHooke2Rpt w st wh ac br sh tu s) = Some st \<and>
   is_running (callbackHooke2Rpt w st wh ac br sh tu s) = is_running s \<and>
   is_hooke2_auto_enabled (callbackHooke2Rpt w st wh ac br sh tu s) =
     (rf_enabled st \<and> rf_enabled ac \<and> rf_enabled br) \<and>
   gl_stamp_ns (global_rpt (callbackHooke2Rpt w st wh ac br sh tu s)) = clock_ns w (clock_reads s) \<and>
   clock_reads (callbackHooke2Rpt w st wh ac br sh tu s) = clock_reads s + 1"
proof -
  have "steer_wheel_rpt_ptr (publish_status w st wh ac br sh tu u) = steer_wheel_rpt_ptr u \<and>
      is_running (publish_status w st wh ac br sh tu u) = is_running u \<and>
      is_hooke2_auto_enabled (publish_status w st wh ac br sh tu u) = is_hooke2_auto_enabled u \<and>
      global_rpt (publish_status w st wh ac br sh tu u) = global_rpt u \<and>
      clock_reads (publish_status w st wh ac br sh tu u) = clock_reads u" for u
    using status_only_sends [of u w st wh ac br sh tu] by (auto simp: only_sends_def)
  then show ?thesis
    by (simp add: callbackHooke2Rpt_def Let_def)
      (simp add: processGlobalRpts_def ros_now_def publish_def verifyVehicleId_def
        checkVin_def disableVinReq_def store_reports_def Let_def)
qed

lemma demo_ready_report:
  "steer_wheel_rpt_ptr (node demo_ready) = Some demo_float_rpt" "is_running (node demo_ready)"
  "\<not> is_hooke2_auto_enabled (node demo_ready)"
  by (simp_all add: demo_ready_def callbackEmergencyCmd_def report_callback_stores callbackGearCmd_def
      callbackControlCmd_def ros_now_def demo_engaged_def demo_float_rpt_def SystemRptFloat_init_def)

text \<open>The enabling thread then raises the flags.\<close>

lemma demo_thread_pass:
  obtains s where "enable_auto_pass (node demo_ready) = Some (True, s)" "wire_enables s = (1, 1, 1, 1, 1)"
proof -
  have "is_hooke2_rpt_received (node demo_ready)" using demo_ready_facts(1) by (simp add: command_guard_def)
  with demo_ready_report demo_ready_facts(3)
  have "\<exists>s. enable_auto_pass (node demo_ready) = Some (True, s) \<and> wire_enables s = (1, 1, 1, 1, 1)"
    by (simp add: enable_auto_pass_def enable_wires_def select_modes_def wire_enables_def checkResponse_def
        numeral_eq_Suc fits_i32_def demo_float_rpt_def SystemRptFloat_init_def Let_def)
  then show ?thesis using that by blast
qed

lemma demo_run: "\<exists>s'. publishCommands hooke_demo_world (node demo_ready) = Some s'"
proof -
  have "\<not> steer_unrepresentable hooke_demo_world (node demo_ready)"
    using demo_ready_facts(4) demo_ready_report(1)
    by (simp add: steer_unrepresentable_def hooke_demo_control_def demo_float_rpt_def SystemRptFloat_init_def
        fits_i32_def)
  then show ?thesis
    using timer_undefined [OF hooke_reachable_inv [OF demo_ready_reachable default_params_ok] default_params_ok]
    by auto
qed

section \<open>Reachable states\<close>

text \<open>
  C4: In every reachable state the node is engaged only if automatic mode was accepted, the
  vehicle identification is a whole number of 17-character copies, the identification is never
  requested again, the hazard recovery counter stays within its cycle, every published throttle,
  brake, speed and (enabled) steering command lies within the configured limits and every CAN
  frame has eight bytes.
\<close>

theorem hooke_reachable_safe:
  assumes "hooke_reachable w p y" "params_ok p"
  shows "(engage_cmd (node y) \<longrightarrow> control_mode_cmd (node y)) \<and> 17 dvd length (vehicle_id (node y)) \<and>
     vin_req (msg_vehicle_mode_cmd (node y)) = 0 \<and>
     0 \<le> hazard_recover_count (node y) \<and> hazard_recover_count (node y) \<le> 6 \<and>
     (\<forall>x\<in>set (sent (node y)). publication_ok p x)"
  using hooke_reachable_inv [OF assms] by (simp add: hooke_inv_def)

theorem hooke_reachable_safe_witness:
  "control_mode_cmd (node demo_ready) \<and> 17 dvd length (vehicle_id (node demo_ready))"
  using hooke_reachable_safe [OF demo_ready_reachable default_params_ok] demo_ready_facts(3) by simp

lemma thread_undefined:
  assumes "hooke_inv p s"
  shows "enable_auto_pass s = None \<longleftrightarrow>
     is_running s \<and> engage_cmd s \<and> \<not> is_hooke2_auto_enabled s \<and>
     (case steer_wheel_rpt_ptr s of None \<Rightarrow> True | Some st \<Rightarrow> fp_to_i32 (rf_output st) = None)"
proof -
  have "steer_wheel_rpt_ptr (select_modes s) = steer_wheel_rpt_ptr s"
    by (simp add: select_modes_def Let_def)
  then show ?thesis
    by (auto simp: enable_auto_pass_def enable_wires_def bind_eq_None_conv split: option.splits)
qed

lemma no_report: "hooke_inv p s \<Longrightarrow> steer_wheel_rpt_ptr s = None \<longleftrightarrow> \<not> is_hooke2_rpt_received s"
  by (auto simp: hooke_inv_def reports_present_def)

text \<open>
  C23: In a reachable state, whatever values the messages carry, a handler is undefined in exactly
  three cases. A pass of the enabling thread, while automatic mode is requested but not yet
  reported, dereferences the null steering report before the first report, and converts a reported
  steering angle that is not a number, or too large, to an integer. The command timer, once the
  commands and reports it waits for are in, converts a steering angle in degrees to an integer: while the node
  stays engaged that of the steering command, which is limited first and so is undefined only for
  not-a-number, otherwise that of the last report, which is undefined where it does not fit.
\<close>

theorem hooke_handlers_defined:
  assumes "hooke_reachable w p y" "params_ok p"
  shows "handle_hooke w ev y = None \<longleftrightarrow>
     ev = Thread_pass \<and> thread y = Looping \<and> is_running (node y) \<and> engage_cmd (node y) \<and>
       \<not> is_hooke2_auto_enabled (node y) \<and>
       (\<not> is_hooke2_rpt_received (node y) \<or>
        (\<exists>st. steer_wheel_rpt_ptr (node y) = Some st \<and> fp_to_i32 (rf_output st) = None)) \<or>
     ev = Command_timer \<and> command_guard (node y) \<and>
       (if engage_cmd (node y) \<and> engagement_kept w (node y)
        then \<exists>c. control_cmd_ptr (node y) = Some c \<and> lateral_steering_tire_angle c = NaN
        else \<exists>st. steer_wheel_rpt_ptr (node y) = Some st \<and> fp_to_i32 (rf_output st * Fin 57) = None)"
proof -
  have inv: "hooke_inv p (node y)" by (rule hooke_reachable_inv [OF assms])
  consider "ev = Thread_pass" | "ev = Command_timer" | "ev \<noteq> Thread_pass" "ev \<noteq> Command_timer" by blast
  then show ?thesis
  proof cases
    case 1
    then show ?thesis
      using thread_undefined [OF inv] no_report [OF inv]
      by (auto simp: handle_hooke_def thread_step_def bind_eq_None_conv split: thread_phase.split option.splits)
  next
    case 2
    then show ?thesis
      using timer_undefined [OF inv assms(2), of w]
      by (simp add: handle_hooke_def bind_eq_None_conv steer_unrepresentable_def)
  next
    case 3
    then show ?thesis
      using node_event_defined [OF inv 3(2), of w] by (auto simp: handle_hooke_def)
  qed
qed

text \<open>Commands with a steering angle that is not a number, while the node is engaged.\<close>

definition demo_nan :: HookeSystem where
  "demo_nan = demo_ready\<lparr>node := callbackControlCmd hooke_demo_world
     (hooke_demo_control\<lparr>lateral_steering_tire_angle := NaN\<rparr>) (node demo_ready)\<rparr>"

lemma demo_nan_reachable: "hooke_reachable hooke_demo_world Hooke2_default_params demo_nan"
  by (rule hooke_step [OF demo_ready_reachable,
        where ev = "Control_received (hooke_demo_control\<lparr>lateral_steering_tire_angle := NaN\<rparr>)"])
    (simp add: handle_hooke_def demo_nan_def)

lemma demo_nan_facts:
  "command_guard (node demo_nan)" "engage_cmd (node demo_nan)" "engagement_kept hooke_demo_world (node demo_nan)"
  "\<exists>c. control_cmd_ptr (node demo_nan) = Some c \<and> lateral_steering_tire_angle c = NaN"
proof -
  have reads: "clock_reads (node demo_ready) = 3" "gl_stamp_ns (global_rpt (node demo_ready)) = 20000000"
    by (simp_all add: demo_ready_def callbackEmergencyCmd_def report_callback_stores callbackGearCmd_def
        callbackControlCmd_def ros_now_def demo_engaged_def Hooke2Interface_new_def hooke_demo_world_def)
  have "d64 (2 / 100) \<le> Fin 1" using d64_mono [of "2 / 100" 1] d64_int [of 1] by simp
  then have "\<not> Fin 1 < d64 (2 / 100)" using d64_mono [of 0 "2 / 100"] by (cases "d64 (2 / 100)") (auto simp: less_eq_fp_def fp_eq_def)
  with reads demo_ready_facts show "engagement_kept hooke_demo_world (node demo_nan)"
    by (simp add: engagement_kept_def report_timed_out_def demo_nan_def callbackControlCmd_def ros_now_def
        hooke_demo_world_def)
  show "command_guard (node demo_nan)" "engage_cmd (node demo_nan)"
    "\<exists>c. control_cmd_ptr (node demo_nan) = Some c \<and> lateral_steering_tire_angle c = NaN"
    using demo_ready_facts(1,3) by (simp_all add: demo_nan_def callbackControlCmd_def ros_now_def command_guard_def)
qed

theorem hooke_handlers_defined_witness:
  "handle_hooke hooke_demo_world Thread_pass demo_engaged = None \<and>
   handle_hooke hooke_demo_world Command_timer demo_nan = None"
  using hooke_handlers_defined [OF demo_engaged_reachable default_params_ok, of Thread_pass]
    hooke_handlers_defined [OF demo_nan_reachable default_params_ok, of Command_timer] demo_nan_facts
  by (simp add: demo_engaged_def Hooke2Interface_new_def)

section \<open>Engagement\<close>

lemma frame_keeps:
  "engage_cmd (canTxCallback f s) = engage_cmd s" "wire_enables (canTxCallback f s) = wire_enables s"
  by (simp_all add: canTxCallback_def Let_def publish_def wire_enables_def onVinReport516_def
      onVinReport515_def onVinReport514_def onBmsReport512_def onParkReport504_def onVcuReport505_def
      onWheelSpeedReport506_def onGearReport503_def onSteeringReport502_def onBrakeReport501_def
      onThrottleReport500_def)

lemma callbacks_keep:
  "engage_cmd (callbackActuationCmd w a s) = engage_cmd s \<and> wire_enables (callbackActuationCmd w a s) = wire_enables s"
  "engage_cmd (callbackEmergencyCmd b s) = engage_cmd s \<and> wire_enables (callbackEmergencyCmd b s) = wire_enables s"
  "engage_cmd (callbackControlCmd w c s) = engage_cmd s \<and> wire_enables (callbackControlCmd w c s) = wire_enables s"
  "engage_cmd (callbackGearCmd g s) = engage_cmd s \<and> wire_enables (callbackGearCmd g s) = wire_enables s"
  "engage_cmd (callbackTurnIndicatorsCommand t s) = engage_cmd s \<and>
     wire_enables (callbackTurnIndicatorsCommand t s) = wire_enables s"
  "engage_cmd (callbackHazardLightsCommand h s) = engage_cmd s \<and>
     wire_enables (callbackHazardLightsCommand h s) = wire_enables s"
  "engage_cmd (callbackRearDoor r s) = engage_cmd s \<and> wire_enables (callbackRearDoor r s) = wire_enables s"
  "engage_cmd (snd (setDoor b s)) = engage_cmd s \<and> wire_enables (snd (setDoor b s)) = wire_enables s"
  by (simp_all add: wire_enables_def callbackActuationCmd_def callbackEmergencyCmd_def callbackControlCmd_def
      callbackGearCmd_def callbackTurnIndicatorsCommand_def callbackHazardLightsCommand_def
      callbackRearDoor_def setDoor_def publish_def ros_now_def Let_def)

lemma request_keeps_wires: "wire_enables (snd (onControlModeRequest m s)) = wire_enables s"
  by (cases m) (simp_all add: wire_enables_def)

lemma reports_keep_wires: "wire_enables (callbackHooke2Rpt w st wh ac br sh tu s) = wire_enables s"
proof -
  have "wire_enables (publish_status w st wh ac br sh tu u) = wire_enables u" for u
    using status_only_sends [of u w st wh ac br sh tu] by (auto simp: only_sends_def wire_enables_def)
  then show ?thesis
    by (simp add: callbackHooke2Rpt_def Let_def)
      (simp add: wire_enables_def processGlobalRpts_def ros_now_def publish_def verifyVehicleId_def
        checkVin_def disableVinReq_def store_reports_def Let_def)
qed

lemma publishCan_keeps:
  assumes "publishCan s = Some s'"
  shows "engage_cmd s' = engage_cmd s \<and> wire_enables s' = wire_enables s"
  using assms
  by (auto simp: publishCan_def send_throttle_def send_brake_def send_steering_def send_gear_def send_park_def
      send_vehicle_mode_def publish_def wire_enables_def bind_eq_Some_conv)

lemma timer_keeps:
  assumes "publishCommands w s = Some s'"
  shows "engage_cmd s' = (engage_cmd s \<and> (command_guard s \<longrightarrow> engagement_kept w s)) \<and>
     wire_enables s' = wire_enables s"
proof (cases "command_guard s")
  case True
  then show ?thesis using run_engagement(1,3) [OF True assms] by simp
next
  case False
  then show ?thesis using assms by (simp add: publishCommands_def)
qed

lemma pass_effect:
  assumes "enable_auto_pass s = Some (b, s')"
  shows "engage_cmd s' = engage_cmd s" "wire_enables s' \<in> {wire_enables s, (1, 1, 1, 1, 1)}"
  using assms
  by (auto simp: enable_auto_pass_def enable_wires_def select_modes_def wire_enables_def Let_def
      bind_eq_Some_conv split: if_splits)

fun engaged_after :: "HookeWorld \<Rightarrow> hooke_event \<Rightarrow> Hooke2Interface \<Rightarrow> bool" where
  "engaged_after w (Mode_requested m) s =
     (if m \<in> {Mode_AUTONOMOUS, Mode_AUTONOMOUS_STEER_ONLY, Mode_AUTONOMOUS_VELOCITY_ONLY} then True
      else if m \<in> {Mode_MANUAL, Mode_NO_COMMAND} then False
      else engage_cmd s)"
| "engaged_after w Command_timer s = (engage_cmd s \<and> (command_guard s \<longrightarrow> engagement_kept w s))"
| "engaged_after w _ s = engage_cmd s"

lemma request_engages: "engage_cmd (snd (onControlModeRequest m s)) = engaged_after w (Mode_requested m) s"
  by (cases m) simp_all

lemma thread_effect:
  assumes "thread_step y = Some y'"
  shows "engage_cmd (node y') = engage_cmd (node y) \<and>
     wire_enables (node y') \<in> {wire_enables (node y), (1, 1, 1, 1, 1)}"
proof (cases "thread y")
  case Not_started
  then have "y' = \<lparr>node = (node y)\<lparr>is_running := True\<rparr>, thread = Looping\<rparr>"
    using assms by (simp add: thread_step_def)
  then show ?thesis by (simp add: wire_enables_def)
next
  case Looping
  then have "enable_auto_pass (node y) \<bind>
      (\<lambda>(b, s). Some \<lparr>node = s, thread = if b then Looping else Returned\<rparr>) = Some y'"
    using assms by (simp only: thread_step_def thread_phase.case)
  then obtain x where x: "enable_auto_pass (node y) = Some x"
      "(case x of (b, s) \<Rightarrow> Some \<lparr>node = s, thread = if b then Looping else Returned\<rparr>) = Some y'"
    unfolding bind_eq_Some_conv by blast
  obtain b s where bs: "x = (b, s)" by (rule prod.exhaust)
  have s: "enable_auto_pass (node y) = Some (b, s)"
      "y' = \<lparr>node = s, thread = if b then Looping else Returned\<rparr>"
    using x by (simp_all only: bs prod.case option.inject)
  then show ?thesis using pass_effect [OF s(1)] by simp
next
  case Returned
  then show ?thesis using assms by (simp add: thread_step_def)
qed

lemma step_effect:
  assumes "handle_hooke w ev y = Some y'"
  shows "engage_cmd (node y') = engaged_after w ev (node y) \<and>
     (wire_enables (node y') = wire_enables (node y) \<or>
      ev = Thread_pass \<and> wire_enables (node y') = (1, 1, 1, 1, 1))"
proof (cases "ev = Thread_pass")
  case True
  then show ?thesis using assms thread_effect [of y y'] by (simp add: handle_hooke_def)
next
  case False
  then obtain s where s: "node_event w ev (node y) = Some s" "node y' = s"
    using assms by (auto simp: handle_hooke_def bind_eq_Some_conv)
  have "engage_cmd s = engaged_after w ev (node y) \<and> wire_enables s = wire_enables (node y)"
  proof (cases ev)
    case Command_timer
    then show ?thesis using s(1) timer_keeps by simp
  next
    case Can_timer
    then show ?thesis using s(1) publishCan_keeps by simp
  next
    case (Mode_requested m)
    then show ?thesis using s(1) request_engages request_keeps_wires by auto
  next
    case (Frame_received f)
    then show ?thesis using s(1) frame_keeps by auto
  next
    case (Reports_received st wh ac br sh tu)
    then show ?thesis using s(1) reports_keep_wires report_callback_facts(1) by auto
  next
    case Destroyed
    then show ?thesis using s(1) by (auto simp: wire_enables_def)
  next
    case (Door_requested b)
    then show ?thesis using s(1) callbacks_keep(8) by auto
  next
    case Thread_pass
    then show ?thesis using False by simp
  qed (use s(1) in \<open>auto simp only: node_event.simps option.inject engaged_after.simps callbacks_keep\<close>)
  then show ?thesis using s(2) by simp
qed

text \<open>
  C6: Engagement changes only through a request for a mode, which turns it on for the three
  autonomous modes and off for the manual ones, and through the command timer, which keeps it
  unless an override begins, the global report is more than a second old or a fault is active.
  No other event changes it.
\<close>

theorem engagement_transition:
  assumes "handle_hooke w ev y = Some y'"
  shows "engage_cmd (node y') = engaged_after w ev (node y)"
  using step_effect [OF assms] by blast

theorem engagement_transition_witness:
  "\<exists>y'. handle_hooke hooke_demo_world (Mode_requested Mode_MANUAL) demo_ready = Some y' \<and> \<not> engage_cmd (node y')"
  using engagement_transition [of hooke_demo_world "Mode_requested Mode_MANUAL" demo_ready]
  by (simp add: handle_hooke_def)

text \<open>
  The enable flags of the five actuators are only ever raised, by the enabling thread and all
  together. A manual request, an override, a fault or a late report clears the engagement but
  leaves the flags, so the frames sent afterwards still carry them.
\<close>

theorem wires_stay_enabled:
  assumes "handle_hooke w ev y = Some y'"
  shows "wire_enables (node y') = wire_enables (node y) \<or>
     ev = Thread_pass \<and> wire_enables (node y') = (1, 1, 1, 1, 1)"
  using step_effect [OF assms] by blast

theorem wires_stay_enabled_witness:
  "\<exists>s y. enable_auto_pass (node demo_ready) = Some (True, s) \<and>
     handle_hooke hooke_demo_world (Mode_requested Mode_MANUAL) \<lparr>node = s, thread = Looping\<rparr> = Some y \<and>
     \<not> engage_cmd (node y) \<and> wire_enables (node y) = (1, 1, 1, 1, 1)"
proof -
  obtain s where s: "enable_auto_pass (node demo_ready) = Some (True, s)" "wire_enables s = (1, 1, 1, 1, 1)"
    by (rule demo_thread_pass)
  let ?y = "\<lparr>node = snd (onControlModeRequest Mode_MANUAL s), thread = Looping\<rparr>"
  have y: "handle_hooke hooke_demo_world (Mode_requested Mode_MANUAL) \<lparr>node = s, thread = Looping\<rparr> = Some ?y"
    by (simp add: handle_hooke_def)
  have "wire_enables (node ?y) = (1, 1, 1, 1, 1)" using wires_stay_enabled [OF y] s(2) by simp
  then show ?thesis using s(1) y by (intro exI [of _ s] exI [of _ ?y]) simp
qed

end
