(* ===== verification/Hooke2_Wire.thy ===== *)
theory Hooke2_Wire
  imports Hooke2_Properties
begin

text \<open>
  What \<open>Hooke2Interface\<close> commands and what reaches the bus: the commands published while engaged,
  the frames sent in an emergency and while automatic mode is disabled, the hold after a gear
  change, and what a received frame may change.
\<close>

section \<open>The command timer\<close>



text \<open>
  The command timeout never fires for a positive threshold: the chained comparison of the
  source compares the outcome of the first one, 0 or 1, with the threshold again, so it holds
  only for the threshold 0 and a positive age of the command.
\<close>

theorem timeout_condition:
  "command_timed_out w t s \<longleftrightarrow>
     command_timeout_ms (hparams s) = 0 \<and>
     Fin 0 < duration_seconds w (t - control_command_received_time s) * Fin 1000"
proof -
  have zero: "d64_of_int 0 = Fin 0" using d64_of_int_eq [of 0] by simp
  have "of_bool b \<le> (1 :: int)" for b by simp
  then show ?thesis
    unfolding command_timed_out_def Let_def
    by (cases "command_timeout_ms (hparams s) = 0") (auto simp: zero of_bool_def split: if_splits)
qed

text \<open>
  While the vehicle is parked or the shift counter runs, the timer commands zero speed and
  zero acceleration whatever Autoware asked for. The counter is then decremented as an 8-bit
  number, so it wraps to 255 when it is already 0, or set to 10 by a gear change.
\<close>

theorem held_vehicle_targets:
  assumes "command_guard s" "publishCommands w s = Some s'" "held s" "Fin 0 \<le> max_speed (hparams s)"
  shows "vel_target (msg_throttle_cmd s') = Fin 0 \<and> throttle_acc (msg_throttle_cmd s') = Fin 0 \<and>
     vehicle_shift_counter s' \<in> {10, vehicle_shift_counter s - 1}"
proof -
  obtain c where c: "control_cmd_ptr s = Some c" using assms(1) by (auto simp: command_guard_def)
  have "speed_command (Fin 0) m = Fin 0" if "Fin 0 \<le> m" for m
    using that by (cases m) (auto simp: speed_command_def std_max_def std_min_def less_eq_fp_def fp_eq_def)
  then show ?thesis
    using run_messages [OF assms(1,2) c] assms(3,4) by simp
qed

theorem held_vehicle_targets_witness:
  "\<exists>s'. publishCommands hooke_demo_world (node demo_ready) = Some s' \<and>
     vel_target (msg_throttle_cmd s') = Fin 0 \<and> vehicle_shift_counter s' \<in> {10, 49}"
proof -
  obtain s' where s': "publishCommands hooke_demo_world (node demo_ready) = Some s'" using demo_run by blast
  from held_vehicle_targets [OF demo_ready_facts(1) s' demo_ready_facts(5)] s' demo_ready_facts(6,8)
  show ?thesis by (auto simp: Hooke2_default_params_def)
qed

section \<open>Frames on the bus\<close>

lemma timer_inv:
  assumes "hooke_inv p s" "params_ok p" "publishCommands w s = Some s'"
  shows "hooke_inv p s'"
  by (rule publishCommands_inv [OF assms])

lemma wire_percent_zero: "wire_percent (Fin 0) = Some 0"
  by (simp add: wire_percent_def wire_value_def BoundedValue_def d64_01 fits_i32_def)

lemma emergency_cans:
  assumes "\<not> disable_auto_mode s" "vehicle_driving_interface (hparams s) = SPEED_MODE"
  shows "vel_target (throttle_can s) = vel_target (msg_throttle_cmd s)"
    "throttle_pedal_target (throttle_can s) = Fin 0"
    "aeb_en_ctrl (brake_can s) = aeb_en_ctrl (msg_brake_cmd s)"
    "brake_pedal_target (brake_can s) = brake_pedal_target (msg_brake_cmd s)"
  using assms
  by (simp_all add: throttle_can_def brake_can_def setter_defs driving_consts Throttlecommand100_Reset_def
      Let_def)

text \<open>
  C5: In an emergency the next brake frame has the emergency-braking bit set and carries the
  emergency brake value (or that of a gear change) after the brake limit, and the pedal field of
  the throttle frame is zero. In the speed mode, which is the default, the velocity field of the
  throttle frame still carries the speed Autoware last asked for, unless the vehicle is held.
\<close>

theorem emergency_on_the_wire:
  assumes "hooke_reachable w p y" "params_ok p" "vehicle_driving_interface p = SPEED_MODE"
    and "command_guard (node y)" "is_emergency (node y)" "control_cmd_ptr (node y) = Some c"
    and "publishCommands w (node y) = Some s'" "\<not> disable_auto_mode s'"
  shows "\<exists>f0 f1 rest s2. publishCan s' = Some s2 \<and>
     sent s2 = rest @ Can_frame 0x101 f1 # Can_frame 0x100 f0 # sent s' \<and>
     get_byte 1 1 (f1 ! 0) = 1 \<and>
     (\<exists>b\<in>{emergency_brake p, brake_for_shift_trans}.
        wire_percent (std_max (Fin 0) (std_min b (max_brake p))) = Some (read16 3 f1)) \<and>
     read16 3 f0 = 0 \<and>
     wire_vel (speed_command (if held (node y) then Fin 0 else longitudinal_velocity c) (max_speed p)) =
       Some (read10 5 f0)"
proof -
  have inv: "hooke_inv p (node y)" by (rule hooke_reachable_inv [OF assms(1,2)])
  then have p: "hparams (node y) = p" by (simp add: hooke_inv_def)
  have inv': "hooke_inv p s'" by (rule timer_inv [OF inv assms(2,7)])
  note run = run_messages [OF assms(4,7,6)]
  have hp: "hparams s' = p" using run(7) p by simp
  obtain f0 f1 f2 where f: "Throttlecommand100_UpdateData (throttle_can s') zero_data = Some f0"
    "Brakecommand101_UpdateData (brake_can s') zero_data = Some f1"
    "publishCan s' = Some (s'\<lparr>sent :=
       Can_frame Vehiclemodecommand105_ID (Vehiclemodecommand105_UpdateData (vehicle_mode_can s') zero_data) #
       Can_frame Parkcommand104_ID (Parkcommand104_UpdateData (park_can s') zero_data) #
       Can_frame Gearcommand103_ID (Gearcommand103_UpdateData (gear_can s') zero_data) #
       Can_frame Steeringcommand102_ID f2 # Can_frame Brakecommand101_ID f1 #
       Can_frame Throttlecommand100_ID f0 # sent s'\<rparr>)"
    by (rule publishCan_frames [OF inv'])
  have z: "length zero_data = 8" by (simp add: zero_data_def CANBUS_MESSAGE_LENGTH_def)
  have cans: "vel_target (throttle_can s') = vel_target (msg_throttle_cmd s')"
    "throttle_pedal_target (throttle_can s') = Fin 0"
    "aeb_en_ctrl (brake_can s') = 1"
    "brake_pedal_target (brake_can s') = brake_pedal_target (msg_brake_cmd s')"
    using emergency_cans [of s'] assms(3,5,8) run(4) hp by simp_all
  have throttle: "wire_vel (vel_target (msg_throttle_cmd s')) = Some (read10 5 f0) \<and> read16 3 f0 = 0"
    using throttle_command_bytes [OF z can_numeric(1-3) [OF inv']] f(1) cans wire_percent_zero by auto
  have brake: "wire_percent (brake_pedal_target (msg_brake_cmd s')) = Some (read16 3 f1) \<and> get_byte 1 1 (f1 ! 0) = 1"
    using brake_command_bytes [OF z can_numeric(4,5) [OF inv']] f(2) cans by auto
  show ?thesis
    using f(3) throttle brake run(1) run(6) [OF assms(5)] p
    by (intro exI [of _ f0] exI [of _ f1]) (auto simp: Throttlecommand100_ID_def Brakecommand101_ID_def)
qed

lemma demo_still_automatic:
  assumes "publishCommands hooke_demo_world (node demo_ready) = Some s'"
  shows "\<not> disable_auto_mode s'"
  using run_engagement(4) [OF demo_ready_facts(1) assms] demo_ready_facts(7,9) by simp

theorem emergency_on_the_wire_witness:
  "\<exists>s' s2 f1 f0 rest. publishCommands hooke_demo_world (node demo_ready) = Some s' \<and> publishCan s' = Some s2 \<and>
     sent s2 = rest @ Can_frame 0x101 f1 # Can_frame 0x100 f0 # sent s' \<and> get_byte 1 1 (f1 ! 0) = 1"
proof -
  obtain s' where s': "publishCommands hooke_demo_world (node demo_ready) = Some s'" using demo_run by blast
  from emergency_on_the_wire [OF demo_ready_reachable default_params_ok _ demo_ready_facts(1,2,4) s'
      demo_still_automatic [OF s']]
  show ?thesis using s' by (auto simp: Hooke2_default_params_def SPEED_MODE_def)
qed

text \<open>
  While automatic mode is disabled, the six frames are those of freshly reset commands,
  whatever is stored: all actuators disabled, the steering offset, and one metre per second
  squared in the deceleration field.
\<close>

theorem disabled_frames:
  assumes "disable_auto_mode s"
  shows "publishCan s = Some (s\<lparr>sent :=
     [Can_frame 0x105 (replicate 8 0), Can_frame 0x104 (replicate 8 0), Can_frame 0x103 (replicate 8 0),
      Can_frame 0x102 [0, 0, 0, 1, 0xF4, 0, 0, 0], Can_frame 0x101 [0, 0x19, 0, 0, 0, 0, 0, 0],
      Can_frame 0x100 (replicate 8 0)] @ sent s\<rparr>)"
proof -
  have z: "zero_data = replicate 8 0" by (simp add: zero_data_def CANBUS_MESSAGE_LENGTH_def)
  have cans: "throttle_can s = Throttlecommand100_Reset" "brake_can s = Brakecommand101_Reset"
    "steering_can s = Steeringcommand102_Reset" "gear_can s = Gearcommand103_Reset"
    "park_can s = Parkcommand104_Reset" "vehicle_mode_can s = Vehiclemodecommand105_Reset"
    using assms by (simp_all add: throttle_can_def brake_can_def steering_can_def gear_can_def park_can_def
        vehicle_mode_can_def Let_def)
  have cans': "gear_can (publish x t) = gear_can t" "park_can (publish x t) = park_can t"
    "vehicle_mode_can (publish x t) = vehicle_mode_can t" for x t
    by simp_all
  note bytes = reset_command_bytes [folded z]
  have "publishCan s = Some (send_vehicle_mode (send_park (send_gear
      (publish (Can_frame 0x102 [0, 0, 0, 1, 0xF4, 0, 0, 0])
        (publish (Can_frame 0x101 [0, 0x19, 0, 0, 0, 0, 0, 0]) (publish (Can_frame 0x100 zero_data) s))))))"
    by (simp add: publishCan_def send_throttle_def send_brake_def send_steering_def cans bytes
        Throttlecommand100_ID_def Brakecommand101_ID_def Steeringcommand102_ID_def)
  then show ?thesis
    by (simp add: send_vehicle_mode_def send_park_def send_gear_def cans bytes
        Gearcommand103_ID_def Parkcommand104_ID_def Vehiclemodecommand105_ID_def)
      (simp add: publish_def z)
qed

theorem disabled_frames_witness:
  "\<exists>s'. publishCan (disableAutoMode (node demo_engaged)) = Some s' \<and> length (sent s') = 6"
  using disabled_frames [of "disableAutoMode (node demo_engaged)"]
  by (simp add: disableAutoMode_def demo_engaged_def Hooke2Interface_new_def)

section \<open>Received frames\<close>

text \<open>What a frame is taken for: nothing, when it is a remote or error frame or has no handler.\<close>

definition handled_id :: "u32 \<Rightarrow> bool" where
  "handled_id i \<longleftrightarrow>
     i \<in> {THROTTLE_REPORT, BRAKE_REPORT, STEERING_REPORT, GEAR_REPORT, PARK_REPORT, VCU_REPORT,
          WHEELSPEED_REPORT, ULTR_SENSOR_1, ULTR_SENSOR_2, ULTR_SENSOR_3, ULTR_SENSOR_4, ULTR_SENSOR_5,
          BMS_REPORT, VIN_RESP1, VIN_RESP2, VIN_RESP3}"

definition taken :: "CanFrame \<Rightarrow> bool" where
  "taken f \<longleftrightarrow> \<not> frame_is_rtr f \<and> \<not> frame_is_error f \<and> handled_id (frame_id f)"

lemmas handler_defs =
  onVinReport516_def onVinReport515_def onVinReport514_def onBmsReport512_def onParkReport504_def
  onVcuReport505_def onWheelSpeedReport506_def onGearReport503_def onSteeringReport502_def
  onBrakeReport501_def onThrottleReport500_def

lemma not_taken: "\<not> taken f \<Longrightarrow> canTxCallback f s = s"
  by (cases "frame_is_rtr f \<or> frame_is_error f") (simp_all add: taken_def handled_id_def canTxCallback_def Let_def)

lemma frame_stores:
  "global_rpt (canTxCallback f s) = global_rpt s" "control_cmd_ptr (canTxCallback f s) = control_cmd_ptr s"
  "msg_throttle_cmd (canTxCallback f s) = msg_throttle_cmd s"
  "msg_brake_cmd (canTxCallback f s) = msg_brake_cmd s"
  "msg_steering_cmd (canTxCallback f s) = msg_steering_cmd s"
  by (simp_all add: canTxCallback_def Let_def publish_def handler_defs)

lemma taken_target: "taken f \<Longrightarrow> \<not> frame_is_rtr f \<and> \<not> frame_is_error f \<and> isTargetId (frame_id f)"
  by (auto simp: taken_def handled_id_def isTargetId_def)

lemma taken_sends:
  assumes "taken f"
  shows "(\<exists>x. sent (canTxCallback f s) = [x] @ sent s) \<or> (\<exists>x y. sent (canTxCallback f s) = [x, y] @ sent s)"
  using taken_target [OF assms] assms
  by (simp add: canTxCallback_def Let_def publish_def handler_defs taken_def handled_id_def) blast

lemma taken_fields:
  assumes "taken f"
  shows "parking_state (canTxCallback f s) =
     (if frame_id f = PARK_REPORT then uint (parking_actual (parse_ParkReport504 (frame_data f)))
      else parking_state s)"
    "current_speed (canTxCallback f s) =
     (if frame_id f = VCU_REPORT then vcu_speed (parse_VcuReport505 (frame_data f)) else current_speed s)"
    "is_hooke2_auto_enabled (canTxCallback f s) =
     (is_hooke2_auto_enabled s \<and>
      \<not> (frame_id f = VCU_REPORT \<and> vcu_vehicle_mode_state (parse_VcuReport505 (frame_data f)) = 0))"
  using taken_target [OF assms]
  by (simp_all add: canTxCallback_def Let_def publish_def handler_defs message_ids)

text \<open>
  C31: A received frame is ignored unless it is a data frame with one of the sixteen report
  identifiers. Of the state that decides about commands a taken frame changes only three members:
  the parking state from a park report, the speed from a vehicle control report, and the
  automatic-mode flag, which a vehicle control report in mode 0 can only clear. It neither
  changes the engagement nor a stored command, and it publishes one or two messages.
\<close>

theorem received_frames:
  "(\<not> taken f \<longrightarrow> canTxCallback f s = s) \<and>
   (taken f \<longrightarrow> (\<exists>x. sent (canTxCallback f s) = [x] @ sent s) \<or>
      (\<exists>x y. sent (canTxCallback f s) = [x, y] @ sent s)) \<and>
   parking_state (canTxCallback f s) =
     (if taken f \<and> frame_id f = PARK_REPORT then uint (parking_actual (parse_ParkReport504 (frame_data f)))
      else parking_state s) \<and>
   current_speed (canTxCallback f s) =
     (if taken f \<and> frame_id f = VCU_REPORT then vcu_speed (parse_VcuReport505 (frame_data f))
      else current_speed s) \<and>
   is_hooke2_auto_enabled (canTxCallback f s) =
     (is_hooke2_auto_enabled s \<and>
      \<not> (taken f \<and> frame_id f = VCU_REPORT \<and> vcu_vehicle_mode_state (parse_VcuReport505 (frame_data f)) = 0)) \<and>
   engage_cmd (canTxCallback f s) = engage_cmd s \<and> global_rpt (canTxCallback f s) = global_rpt s \<and>
   control_cmd_ptr (canTxCallback f s) = control_cmd_ptr s \<and>
   msg_throttle_cmd (canTxCallback f s) = msg_throttle_cmd s \<and>
   msg_brake_cmd (canTxCallback f s) = msg_brake_cmd s \<and>
   msg_steering_cmd (canTxCallback f s) = msg_steering_cmd s"
proof (cases "taken f")
  case True
  then show ?thesis
    using taken_sends [OF True, of s] frame_keeps(1) [of f s] frame_stores [of f s]
      taken_fields [OF True, of s] by simp
next
  case False
  then show ?thesis by (simp add: not_taken)
qed

theorem received_frames_witness:
  "parking_state (canTxCallback \<lparr>frame_id = 0x504, frame_is_rtr = False, frame_is_error = False,
     frame_data = [0, 0, 0, 0, 0, 0, 0, 0]\<rparr> (node demo_engaged)) = 0"
  using received_frames [of "\<lparr>frame_id = 0x504, frame_is_rtr = False, frame_is_error = False,
     frame_data = [0, 0, 0, 0, 0, 0, 0, 0]\<rparr>" "node demo_engaged"]
  by (simp add: taken_def handled_id_def message_ids parse_ParkReport504_def get_byte_def Let_def)

end
