(* ===== verification/Hooke2_Diag.thy ===== *)
theory Hooke2_Diag
  imports Hooke2_State
begin

text \<open>
  \<open>hooke2_diag_publisher.cpp\<close>: the node that turns the vehicle's reports, the measured and the commanded
  accelerations into two diagnostic statuses. A shared pointer is an option, a dereferenced null
  pointer or end iterator is \<open>None\<close>. Times are in nanoseconds; the time of a call is an argument, and
  \<open>rclcpp::Duration::seconds\<close> is the parameter \<open>secs\<close>. The synchroniser of the reports is left out:
  \<open>callbackHooke2Rpt\<close> may be called with any reports.
\<close>

section \<open>State\<close>

type_synonym accel_que = "(int \<times> fp) list"

record Hooke2DiagPublisher =
  can_timeout_sec :: fp
  wd_hooke2_msgs_timeout_sec :: fp
  accel_store_time :: fp
  accel_diff_thresh :: fp
  min_decel :: fp
  max_accel :: fp
  accel_brake_fault_check_min_velocity :: fp
  last_can_received_time :: int
  last_wd_hooke2_msgs_received_time :: int
  dg_is_hooke2_rpt_received :: bool
  dg_steer_wheel_rpt_ptr :: "SystemRptFloat option"
  dg_wheel_speed_rpt_ptr :: "WheelSpeedRpt option"
  dg_accel_rpt_ptr :: "SystemRptFloat option"
  dg_brake_rpt_ptr :: "SystemRptFloat option"
  dg_shift_rpt_ptr :: "SystemRptInt option"
  dg_global_rpt_ptr :: "GlobalRpt option"
  dg_turn_rpt_ptr :: "SystemRptInt option"
  odom_ptr :: "fp option"
  acc_que :: accel_que
  acc_cmd_que :: accel_que

record DiagParams =
  dp_can_timeout_sec :: fp
  dp_hooke2_msg_timeout_sec :: fp
  dp_accel_store_time :: fp
  dp_accel_diff_thresh :: fp
  dp_min_decel :: fp
  dp_max_accel :: fp
  dp_accel_brake_fault_check_min_velocity :: fp

definition Hooke2DiagPublisher_new :: "DiagParams \<Rightarrow> int \<Rightarrow> int \<Rightarrow> Hooke2DiagPublisher" where
  "Hooke2DiagPublisher_new p now1 now2 =
     \<lparr>can_timeout_sec = dp_can_timeout_sec p, wd_hooke2_msgs_timeout_sec = dp_hooke2_msg_timeout_sec p,
      accel_store_time = dp_accel_store_time p, accel_diff_thresh = dp_accel_diff_thresh p,
      min_decel = dp_min_decel p, max_accel = dp_max_accel p,
      accel_brake_fault_check_min_velocity = dp_accel_brake_fault_check_min_velocity p,
      last_can_received_time = now1, last_wd_hooke2_msgs_received_time = now2,
      dg_is_hooke2_rpt_received = False, dg_steer_wheel_rpt_ptr = None, dg_wheel_speed_rpt_ptr = None,
      dg_accel_rpt_ptr = None, dg_brake_rpt_ptr = None, dg_shift_rpt_ptr = None, dg_global_rpt_ptr = None,
      dg_turn_rpt_ptr = None, odom_ptr = None, acc_que = [], acc_cmd_que = []\<rparr>"

section \<open>Queues of values\<close>

definition diag_reports_present :: "Hooke2DiagPublisher \<Rightarrow> bool" where
  "diag_reports_present s \<longleftrightarrow>
     dg_global_rpt_ptr s \<noteq> None \<and> dg_steer_wheel_rpt_ptr s \<noteq> None \<and> dg_accel_rpt_ptr s \<noteq> None \<and>
     dg_brake_rpt_ptr s \<noteq> None \<and> odom_ptr s \<noteq> None"

text \<open>Read after \<open>diag_reports_present\<close> only.\<close>

definition reports_enabled :: "Hooke2DiagPublisher \<Rightarrow> bool" where
  "reports_enabled s \<longleftrightarrow>
     gl_enabled (the (dg_global_rpt_ptr s)) \<and> rf_enabled (the (dg_steer_wheel_rpt_ptr s)) \<and>
     rf_enabled (the (dg_accel_rpt_ptr s)) \<and> rf_enabled (the (dg_brake_rpt_ptr s))"

definition addValueToQue ::
  "(int \<Rightarrow> fp) \<Rightarrow> int \<Rightarrow> Hooke2DiagPublisher \<Rightarrow> accel_que \<Rightarrow> fp \<Rightarrow> int \<Rightarrow> fp \<Rightarrow> accel_que" where
  "addValueToQue secs current_time s que value timestamp store_time =
     (if \<not> diag_reports_present s then []
      else if \<not> reports_enabled s then []
      else if the (odom_ptr s) < accel_brake_fault_check_min_velocity s then []
      else
        let que = que @ [(timestamp, value)]
        in if length que < 2 then que
           else if store_time < secs (current_time - fst (que ! 1)) then tl que
           else que)"

definition checkEnoughDataStored :: "(int \<Rightarrow> fp) \<Rightarrow> int \<Rightarrow> accel_que \<Rightarrow> fp \<Rightarrow> bool" where
  "checkEnoughDataStored secs current_time que store_time =
     (case que of [] \<Rightarrow> False | front # _ \<Rightarrow> store_time < secs (current_time - fst front))"

text \<open>\<open>std::min_element\<close> and \<open>std::max_element\<close>: the first of the smallest or largest elements.\<close>

definition getMinValue :: "accel_que \<Rightarrow> fp option" where
  "getMinValue que =
     (case que of [] \<Rightarrow> None
      | x # xs \<Rightarrow> Some (snd (fold (\<lambda>a smallest. if snd a < snd smallest then a else smallest) xs x)))"

definition getMaxValue :: "accel_que \<Rightarrow> fp option" where
  "getMaxValue que =
     (case que of [] \<Rightarrow> None
      | x # xs \<Rightarrow> Some (snd (fold (\<lambda>a largest. if snd largest < snd a then a else largest) xs x)))"

section \<open>Callbacks\<close>

definition callbackCan :: "int \<Rightarrow> Hooke2DiagPublisher \<Rightarrow> Hooke2DiagPublisher" where
  "callbackCan now s = s\<lparr>last_can_received_time := now\<rparr>"

definition diag_callbackHooke2Rpt ::
  "int \<Rightarrow> SystemRptFloat \<Rightarrow> WheelSpeedRpt \<Rightarrow> SystemRptFloat \<Rightarrow> SystemRptFloat \<Rightarrow> SystemRptInt \<Rightarrow> SystemRptInt \<Rightarrow>
     GlobalRpt \<Rightarrow> Hooke2DiagPublisher \<Rightarrow> Hooke2DiagPublisher" where
  "diag_callbackHooke2Rpt now steer wheel accel brake shift turn gl s =
     s\<lparr>last_wd_hooke2_msgs_received_time := now, dg_steer_wheel_rpt_ptr := Some steer,
       dg_wheel_speed_rpt_ptr := Some wheel, dg_accel_rpt_ptr := Some accel,
       dg_brake_rpt_ptr := Some brake, dg_shift_rpt_ptr := Some shift,
       dg_global_rpt_ptr := Some gl, dg_turn_rpt_ptr := Some turn, dg_is_hooke2_rpt_received := True\<rparr>"

definition callbackAccel :: "(int \<Rightarrow> fp) \<Rightarrow> int \<Rightarrow> int \<Rightarrow> fp \<Rightarrow> Hooke2DiagPublisher \<Rightarrow> Hooke2DiagPublisher" where
  "callbackAccel secs now stamp accel s =
     s\<lparr>acc_que := addValueToQue secs now s (acc_que s) accel stamp (accel_store_time s)\<rparr>"

definition diag_callbackControlCmd ::
  "(int \<Rightarrow> fp) \<Rightarrow> int \<Rightarrow> int \<Rightarrow> fp \<Rightarrow> Hooke2DiagPublisher \<Rightarrow> Hooke2DiagPublisher" where
  "diag_callbackControlCmd secs now stamp acceleration s =
     s\<lparr>acc_cmd_que := addValueToQue secs now s (acc_cmd_que s) acceleration stamp (accel_store_time s)\<rparr>"

definition callbackOdometry :: "fp \<Rightarrow> Hooke2DiagPublisher \<Rightarrow> Hooke2DiagPublisher" where
  "callbackOdometry velocity s = s\<lparr>odom_ptr := Some velocity\<rparr>"

section \<open>Checks\<close>

datatype DiagLevel = DIAG_OK | DIAG_ERROR

definition addMsg :: "string \<Rightarrow> string \<Rightarrow> string" where
  "addMsg original_msg additional_msg =
     (if original_msg = '''' then additional_msg else original_msg @ '' ; '' @ additional_msg)"

definition checkAccelFault :: "Hooke2DiagPublisher \<Rightarrow> bool option" where
  "checkAccelFault s =
     (case getMaxValue (acc_que s) of None \<Rightarrow> None
      | Some maximum_acc \<Rightarrow>
          case getMinValue (acc_cmd_que s) of None \<Rightarrow> None
          | Some m \<Rightarrow>
              let minimum_acc_cmd = std_min m (max_accel s)
              in Some (Fin 0 < minimum_acc_cmd \<and> accel_diff_thresh s < minimum_acc_cmd - maximum_acc))"

definition checkBrakeFault :: "Hooke2DiagPublisher \<Rightarrow> bool option" where
  "checkBrakeFault s =
     (case getMinValue (acc_que s) of None \<Rightarrow> None
      | Some minimum_acc \<Rightarrow>
          case getMaxValue (acc_cmd_que s) of None \<Rightarrow> None
          | Some m \<Rightarrow>
              let maximum_acc_cmd = std_max m (min_decel s)
              in Some (maximum_acc_cmd < Fin 0 \<and> maximum_acc_cmd - minimum_acc < - accel_diff_thresh s))"

definition isTimeoutCanMsgs :: "(int \<Rightarrow> fp) \<Rightarrow> int \<Rightarrow> Hooke2DiagPublisher \<Rightarrow> bool" where
  "isTimeoutCanMsgs secs now s \<longleftrightarrow> can_timeout_sec s < secs (now - last_can_received_time s)"

definition isTimeoutHooke2Msgs :: "(int \<Rightarrow> fp) \<Rightarrow> int \<Rightarrow> Hooke2DiagPublisher \<Rightarrow> bool" where
  "isTimeoutHooke2Msgs secs now s \<longleftrightarrow>
     wd_hooke2_msgs_timeout_sec s < secs (now - last_wd_hooke2_msgs_received_time s)"

definition receivedHooke2Msgs :: "Hooke2DiagPublisher \<Rightarrow> bool" where
  "receivedHooke2Msgs s \<longleftrightarrow> dg_is_hooke2_rpt_received s"

text \<open>
  A fault of the system together with a flag of a report; the report is not read without the fault.
\<close>

definition fault_and ::
  "Hooke2DiagPublisher \<Rightarrow> (Hooke2DiagPublisher \<Rightarrow> SystemRptFloat option) \<Rightarrow> (SystemRptFloat \<Rightarrow> bool) \<Rightarrow> bool option" where
  "fault_and s rpt flag =
     (case dg_global_rpt_ptr s of None \<Rightarrow> None
      | Some g \<Rightarrow> if gl_sys_fault_active g then map_option flag (rpt s) else Some False)"

definition isBrakeActuatorAccident :: "Hooke2DiagPublisher \<Rightarrow> bool option" where
  "isBrakeActuatorAccident s = fault_and s dg_brake_rpt_ptr rf_hooke2_fault"

definition isBrakeWireAccident :: "Hooke2DiagPublisher \<Rightarrow> bool option" where
  "isBrakeWireAccident s = fault_and s dg_brake_rpt_ptr rf_command_output_fault"

definition isAccelAccident :: "Hooke2DiagPublisher \<Rightarrow> bool option" where
  "isAccelAccident s = fault_and s dg_accel_rpt_ptr rf_input_output_fault"

definition isOtherAccident :: "Hooke2DiagPublisher \<Rightarrow> bool option" where
  "isOtherAccident s = map_option gl_sys_fault_active (dg_global_rpt_ptr s)"

text \<open>One step of a check: on an accident, the level and a further message.\<close>

definition report_accident ::
  "bool option \<Rightarrow> string \<Rightarrow> DiagLevel \<times> string \<Rightarrow> (DiagLevel \<times> string) option" where
  "report_accident accident text stat =
     map_option (\<lambda>a. if a then (DIAG_ERROR, addMsg (snd stat) text) else stat) accident"

definition summary :: "DiagLevel \<times> string \<Rightarrow> DiagLevel \<times> string" where
  "summary stat = (if fst stat = DIAG_OK then (fst stat, ''OK'') else stat)"

definition checkHooke2Msgs ::
  "(int \<Rightarrow> fp) \<Rightarrow> int \<Rightarrow> int \<Rightarrow> Hooke2DiagPublisher \<Rightarrow> (DiagLevel \<times> string) option" where
  "checkHooke2Msgs secs now1 now2 s =
     (let stat = (DIAG_OK, '''');
          stat = (if isTimeoutCanMsgs secs now1 s then (DIAG_ERROR, addMsg (snd stat) ''CAN reception timeout.'')
                  else stat);
          stat = (if isTimeoutHooke2Msgs secs now2 s
                  then (DIAG_ERROR, addMsg (snd stat) ''Hooke2 msgs reception timeout.'') else stat)
      in if \<not> receivedHooke2Msgs s then Some (summary stat)
         else
           case report_accident (isBrakeActuatorAccident s) ''Brake actuator failure.'' stat of None \<Rightarrow> None
           | Some stat \<Rightarrow>
           case report_accident (isBrakeWireAccident s) ''Brake wire failure.'' stat of None \<Rightarrow> None
           | Some stat \<Rightarrow>
           case report_accident (isAccelAccident s) ''Accel module failure.'' stat of None \<Rightarrow> None
           | Some stat \<Rightarrow>
           map_option summary
             (if fst stat = DIAG_OK then report_accident (isOtherAccident s) ''Unknown Hooke2 Error.'' stat
              else Some stat))"

definition checkHooke2AccelBrake ::
  "(int \<Rightarrow> fp) \<Rightarrow> int \<Rightarrow> int \<Rightarrow> Hooke2DiagPublisher \<Rightarrow> (DiagLevel \<times> string) option" where
  "checkHooke2AccelBrake secs now1 now2 s =
     (if \<not> diag_reports_present s then Some (DIAG_OK, ''OK'')
      else if \<not> reports_enabled s then Some (DIAG_OK, ''OK'')
      else if \<not> checkEnoughDataStored secs now1 (acc_que s) (accel_store_time s) \<or>
              \<not> checkEnoughDataStored secs now2 (acc_cmd_que s) (accel_store_time s)
      then Some (DIAG_OK, ''OK'')
      else case checkBrakeFault s of None \<Rightarrow> None
        | Some True \<Rightarrow> Some (DIAG_ERROR, ''Hooke2 Brake Fault. Not decelerating enough.'')
        | Some False \<Rightarrow>
            case checkAccelFault s of None \<Rightarrow> None
            | Some True \<Rightarrow> Some (DIAG_ERROR, ''Hooke2 Accel Fault. Not accelerating enough.'')
            | Some False \<Rightarrow> Some (DIAG_OK, ''OK''))"

section \<open>Runs\<close>

datatype DiagEvent =
  Ev_can int
| Ev_reports int SystemRptFloat WheelSpeedRpt SystemRptFloat SystemRptFloat SystemRptInt SystemRptInt GlobalRpt
| Ev_accel int int fp
| Ev_command int int fp
| Ev_odometry fp

fun diag_handle :: "(int \<Rightarrow> fp) \<Rightarrow> DiagEvent \<Rightarrow> Hooke2DiagPublisher \<Rightarrow> Hooke2DiagPublisher" where
  "diag_handle secs (Ev_can now) s = callbackCan now s"
| "diag_handle secs (Ev_reports now st wh ac br sh tu gl) s = diag_callbackHooke2Rpt now st wh ac br sh tu gl s"
| "diag_handle secs (Ev_accel now stamp a) s = callbackAccel secs now stamp a s"
| "diag_handle secs (Ev_command now stamp a) s = diag_callbackControlCmd secs now stamp a s"
| "diag_handle secs (Ev_odometry v) s = callbackOdometry v s"

inductive diag_reachable :: "(int \<Rightarrow> fp) \<Rightarrow> DiagParams \<Rightarrow> Hooke2DiagPublisher \<Rightarrow> bool" for secs p where
  diag_start: "diag_reachable secs p (Hooke2DiagPublisher_new p now1 now2)"
| diag_step: "diag_reachable secs p s \<Longrightarrow> diag_reachable secs p (diag_handle secs e s)"

section \<open>Nothing undefined is read\<close>

definition diag_inv :: "Hooke2DiagPublisher \<Rightarrow> bool" where
  "diag_inv s \<longleftrightarrow>
     (dg_is_hooke2_rpt_received s \<longleftrightarrow> dg_global_rpt_ptr s \<noteq> None) \<and>
     (dg_is_hooke2_rpt_received s \<longleftrightarrow> dg_brake_rpt_ptr s \<noteq> None) \<and>
     (dg_is_hooke2_rpt_received s \<longleftrightarrow> dg_accel_rpt_ptr s \<noteq> None)"

lemma diag_reachable_inv: "diag_reachable secs p s \<Longrightarrow> diag_inv s"
proof (induction rule: diag_reachable.induct)
  case (diag_start now1 now2)
  show ?case by (simp add: diag_inv_def Hooke2DiagPublisher_new_def)
next
  case (diag_step s e)
  then show ?case
    by (cases e) (auto simp: diag_inv_def callbackCan_def diag_callbackHooke2Rpt_def callbackAccel_def
        diag_callbackControlCmd_def callbackOdometry_def)
qed

lemma min_max_some: "que \<noteq> [] \<Longrightarrow> getMinValue que \<noteq> None \<and> getMaxValue que \<noteq> None"
  by (simp add: getMinValue_def getMaxValue_def split: list.split)

lemma enough_nonempty: "checkEnoughDataStored secs now que t \<Longrightarrow> que \<noteq> []"
  by (auto simp: checkEnoughDataStored_def)

definition accel_brake_checked :: "(int \<Rightarrow> fp) \<Rightarrow> int \<Rightarrow> int \<Rightarrow> Hooke2DiagPublisher \<Rightarrow> bool" where
  "accel_brake_checked secs now1 now2 s \<longleftrightarrow>
     diag_reports_present s \<and> reports_enabled s \<and>
     checkEnoughDataStored secs now1 (acc_que s) (accel_store_time s) \<and>
     checkEnoughDataStored secs now2 (acc_cmd_que s) (accel_store_time s)"

lemma faults_defined:
  assumes "acc_que s \<noteq> []" "acc_cmd_que s \<noteq> []"
  obtains b a where "checkBrakeFault s = Some b" "checkAccelFault s = Some a"
  using min_max_some [OF assms(1)] min_max_some [OF assms(2)] that
  by (auto simp: checkBrakeFault_def checkAccelFault_def Let_def)

lemma accel_brake_result:
  "checkHooke2AccelBrake secs now1 now2 s =
     Some (if accel_brake_checked secs now1 now2 s \<and> checkBrakeFault s = Some True
           then (DIAG_ERROR, ''Hooke2 Brake Fault. Not decelerating enough.'')
           else if accel_brake_checked secs now1 now2 s \<and> checkAccelFault s = Some True
           then (DIAG_ERROR, ''Hooke2 Accel Fault. Not accelerating enough.'')
           else (DIAG_OK, ''OK''))"
proof (cases "accel_brake_checked secs now1 now2 s")
  case True
  then have "acc_que s \<noteq> []" "acc_cmd_que s \<noteq> []"
    using enough_nonempty by (auto simp: accel_brake_checked_def)
  then obtain b a where "checkBrakeFault s = Some b" "checkAccelFault s = Some a" by (rule faults_defined)
  then show ?thesis
    using True by (cases b; cases a) (simp_all add: checkHooke2AccelBrake_def accel_brake_checked_def)
qed (auto simp: checkHooke2AccelBrake_def accel_brake_checked_def)

section \<open>The message check\<close>

definition sys_fault :: "Hooke2DiagPublisher \<Rightarrow> bool" where
  "sys_fault s \<longleftrightarrow> (case dg_global_rpt_ptr s of None \<Rightarrow> False | Some g \<Rightarrow> gl_sys_fault_active g)"

definition flagged :: "SystemRptFloat option \<Rightarrow> (SystemRptFloat \<Rightarrow> bool) \<Rightarrow> bool" where
  "flagged r flag \<longleftrightarrow> (case r of None \<Rightarrow> False | Some x \<Rightarrow> flag x)"

definition when_text :: "bool \<Rightarrow> string \<Rightarrow> string list" where
  "when_text b text = (if b then [text] else [])"

text \<open>The reasons of the diagnosis, in order.\<close>

definition reasons :: "(int \<Rightarrow> fp) \<Rightarrow> int \<Rightarrow> int \<Rightarrow> Hooke2DiagPublisher \<Rightarrow> string list" where
  "reasons secs now1 now2 s =
     when_text (isTimeoutCanMsgs secs now1 s) ''CAN reception timeout.'' @
     when_text (isTimeoutHooke2Msgs secs now2 s) ''Hooke2 msgs reception timeout.'' @
     when_text (sys_fault s \<and> flagged (dg_brake_rpt_ptr s) rf_hooke2_fault) ''Brake actuator failure.'' @
     when_text (sys_fault s \<and> flagged (dg_brake_rpt_ptr s) rf_command_output_fault) ''Brake wire failure.'' @
     when_text (sys_fault s \<and> flagged (dg_accel_rpt_ptr s) rf_input_output_fault) ''Accel module failure.''"

fun joined :: "string list \<Rightarrow> string" where
  "joined [] = ''''"
| "joined [x] = x"
| "joined (x # y # xs) = x @ '' ; '' @ joined (y # xs)"

lemma joined_snoc: "xs \<noteq> [] \<Longrightarrow> joined (xs @ [y]) = joined xs @ '' ; '' @ y"
  by (induction xs rule: joined.induct) simp_all

lemma joined_empty: "\<forall>x\<in>set xs. x \<noteq> '''' \<Longrightarrow> joined xs = '''' \<longleftrightarrow> xs = []"
  by (induction xs rule: joined.induct) simp_all

definition stat_of :: "string list \<Rightarrow> DiagLevel \<times> string" where
  "stat_of xs = (if xs = [] then DIAG_OK else DIAG_ERROR, joined xs)"

lemma addMsg_joined: "\<forall>x\<in>set xs. x \<noteq> '''' \<Longrightarrow> addMsg (joined xs) y = joined (xs @ [y])"
  using joined_snoc [of xs y] joined_empty [of xs] by (auto simp: addMsg_def)

lemma add_reason:
  "\<forall>x\<in>set xs. x \<noteq> '''' \<Longrightarrow>
   (if b then (DIAG_ERROR, addMsg (snd (stat_of xs)) y) else stat_of xs) = stat_of (xs @ when_text b y)"
  by (simp add: stat_of_def when_text_def addMsg_joined)

lemma report_accident_reason:
  "\<forall>x\<in>set xs. x \<noteq> '''' \<Longrightarrow> report_accident (Some b) y (stat_of xs) = Some (stat_of (xs @ when_text b y))"
  by (simp add: report_accident_def add_reason)

lemma accidents_of_inv:
  assumes "diag_inv s" "dg_is_hooke2_rpt_received s"
  shows "fault_and s dg_brake_rpt_ptr flag = Some (sys_fault s \<and> flagged (dg_brake_rpt_ptr s) flag)"
    "fault_and s dg_accel_rpt_ptr flag = Some (sys_fault s \<and> flagged (dg_accel_rpt_ptr s) flag)"
    "isOtherAccident s = Some (sys_fault s)"
  using assms by (auto simp: diag_inv_def fault_and_def sys_fault_def flagged_def isOtherAccident_def)

lemma not_received: "diag_inv s \<Longrightarrow> \<not> dg_is_hooke2_rpt_received s \<Longrightarrow> \<not> sys_fault s"
  by (simp add: diag_inv_def sys_fault_def)

definition diagnosis :: "string list \<Rightarrow> bool \<Rightarrow> DiagLevel \<times> string" where
  "diagnosis rs unknown =
     (if rs \<noteq> [] then (DIAG_ERROR, joined rs)
      else if unknown then (DIAG_ERROR, ''Unknown Hooke2 Error.'') else (DIAG_OK, ''OK''))"

lemma summary_stat_of: "summary (stat_of xs) = diagnosis xs False"
  by (simp add: summary_def stat_of_def diagnosis_def)

lemma checkHooke2Msgs_reasons:
  assumes "diag_inv s"
  shows "checkHooke2Msgs secs now1 now2 s = Some (diagnosis (reasons secs now1 now2 s) (sys_fault s))"
proof -
  define ts where "ts = when_text (isTimeoutCanMsgs secs now1 s) ''CAN reception timeout.'' @
       when_text (isTimeoutHooke2Msgs secs now2 s) ''Hooke2 msgs reception timeout.''"
  have t: "stat_of ts =
     (if isTimeoutHooke2Msgs secs now2 s
      then (DIAG_ERROR, addMsg (snd (if isTimeoutCanMsgs secs now1 s
              then (DIAG_ERROR, addMsg (snd (DIAG_OK, '''')) ''CAN reception timeout.'') else (DIAG_OK, '''')))
              ''Hooke2 msgs reception timeout.'')
      else if isTimeoutCanMsgs secs now1 s
      then (DIAG_ERROR, addMsg (snd (DIAG_OK, '''')) ''CAN reception timeout.'') else (DIAG_OK, ''''))"
    by (simp add: stat_of_def when_text_def addMsg_def ts_def)
  have ne: "\<forall>x\<in>set ts. x \<noteq> ''''" by (auto simp: ts_def when_text_def)
  show ?thesis
  proof (cases "dg_is_hooke2_rpt_received s")
    case False
    then have "reasons secs now1 now2 s = ts" using not_received [OF assms] by (simp add: reasons_def ts_def when_text_def)
    then show ?thesis
      unfolding checkHooke2Msgs_def receivedHooke2Msgs_def Let_def t [symmetric] summary_stat_of
      using False not_received [OF assms] by simp
  next
    case True
    note acc = accidents_of_inv [OF assms True]
    define b1 b2 b3 where "b1 \<longleftrightarrow> sys_fault s \<and> flagged (dg_brake_rpt_ptr s) rf_hooke2_fault"
      and "b2 \<longleftrightarrow> sys_fault s \<and> flagged (dg_brake_rpt_ptr s) rf_command_output_fault"
      and "b3 \<longleftrightarrow> sys_fault s \<and> flagged (dg_accel_rpt_ptr s) rf_input_output_fault"
    define r1 where "r1 = ts @ when_text b1 ''Brake actuator failure.''"
    define r2 where "r2 = r1 @ when_text b2 ''Brake wire failure.''"
    define r3 where "r3 = r2 @ when_text b3 ''Accel module failure.''"
    have n: "\<forall>x\<in>set r1. x \<noteq> ''''" "\<forall>x\<in>set r2. x \<noteq> ''''"
      using ne by (auto simp: r1_def r2_def when_text_def)
    have r: "reasons secs now1 now2 s = r3"
      by (simp add: reasons_def r1_def r2_def r3_def ts_def b1_def b2_def b3_def)
    have "checkHooke2Msgs secs now1 now2 s =
        map_option summary (if fst (stat_of r3) = DIAG_OK
          then report_accident (Some (sys_fault s)) ''Unknown Hooke2 Error.'' (stat_of r3) else Some (stat_of r3))"
      unfolding checkHooke2Msgs_def receivedHooke2Msgs_def Let_def t [symmetric]
      using True
      by (simp add: acc isBrakeActuatorAccident_def isBrakeWireAccident_def isAccelAccident_def
          b1_def [symmetric] b2_def [symmetric] b3_def [symmetric]
          report_accident_reason [OF ne] report_accident_reason [OF n(1)] report_accident_reason [OF n(2)]
          r1_def [symmetric] r2_def [symmetric] r3_def [symmetric])
    then show ?thesis unfolding r
      by (simp add: stat_of_def diagnosis_def report_accident_def summary_def addMsg_def)
  qed
qed

section \<open>The meaning of the acceleration check\<close>

definition finite_que :: "accel_que \<Rightarrow> bool" where
  "finite_que que \<longleftrightarrow> list_all (\<lambda>e. isfinite (snd e)) que"

lemma Fin_minus: "Fin x - Fin y = d64 (x - y)"
  by (simp add: minus_fp_def)

lemma getMinValue_least:
  assumes "que \<noteq> []" "finite_que que"
  obtains m where "getMinValue que = Some (Fin m)" "Fin m \<in> snd ` set que"
    "\<And>e. e \<in> set que \<Longrightarrow> \<exists>v. snd e = Fin v \<and> m \<le> v"
proof -
  let ?f = "\<lambda>a smallest :: int \<times> fp. if snd a < snd smallest then a else smallest"
  have g: "\<exists>m. snd (fold ?f xs x) = Fin m \<and> Fin m \<in> snd ` set (x # xs) \<and>
      (\<forall>e\<in>set (x # xs). \<exists>v. snd e = Fin v \<and> m \<le> v)" if "finite_que (x # xs)" for x xs
    using that
  proof (induction xs arbitrary: x)
    case Nil
    then show ?case by (auto simp: finite_que_def isfinite_conv)
  next
    case (Cons y ys)
    then obtain v w where vw: "snd x = Fin v" "snd y = Fin w" by (auto simp: finite_que_def isfinite_conv)
    have "finite_que (?f y x # ys)" using Cons.prems by (simp add: finite_que_def)
    from Cons.IH [OF this] obtain m where m: "snd (fold ?f ys (?f y x)) = Fin m"
      "Fin m \<in> snd ` set (?f y x # ys)" "\<forall>e\<in>set (?f y x # ys). \<exists>v. snd e = Fin v \<and> m \<le> v" by blast
    show ?case
      by (rule exI [of _ m]) (use m vw in \<open>cases "w < v"; auto\<close>)
  qed
  show ?thesis
  proof (cases que)
    case (Cons x xs)
    with g [of x xs] assms(2) that show ?thesis by (auto simp: getMinValue_def)
  qed (use assms in simp)
qed

lemma getMaxValue_greatest:
  assumes "que \<noteq> []" "finite_que que"
  obtains m where "getMaxValue que = Some (Fin m)" "Fin m \<in> snd ` set que"
    "\<And>e. e \<in> set que \<Longrightarrow> \<exists>v. snd e = Fin v \<and> v \<le> m"
proof -
  let ?f = "\<lambda>a largest :: int \<times> fp. if snd largest < snd a then a else largest"
  have g: "\<exists>m. snd (fold ?f xs x) = Fin m \<and> Fin m \<in> snd ` set (x # xs) \<and>
      (\<forall>e\<in>set (x # xs). \<exists>v. snd e = Fin v \<and> v \<le> m)" if "finite_que (x # xs)" for x xs
    using that
  proof (induction xs arbitrary: x)
    case Nil
    then show ?case by (auto simp: finite_que_def isfinite_conv)
  next
    case (Cons y ys)
    then obtain v w where vw: "snd x = Fin v" "snd y = Fin w" by (auto simp: finite_que_def isfinite_conv)
    have "finite_que (?f y x # ys)" using Cons.prems by (simp add: finite_que_def)
    from Cons.IH [OF this] obtain m where m: "snd (fold ?f ys (?f y x)) = Fin m"
      "Fin m \<in> snd ` set (?f y x # ys)" "\<forall>e\<in>set (?f y x # ys). \<exists>v. snd e = Fin v \<and> v \<le> m" by blast
    show ?case
      by (rule exI [of _ m]) (use m vw in \<open>cases "v < w"; auto\<close>)
  qed
  show ?thesis
  proof (cases que)
    case (Cons x xs)
    with g [of x xs] assms(2) that show ?thesis by (auto simp: getMaxValue_def)
  qed (use assms in simp)
qed

text \<open>
  Braking is too weak when every stored command asks for deceleration and every stored acceleration exceeds
  every command, and the limit, by more than the threshold. Accelerating is too weak in the
  mirrored case.
\<close>

definition braking_too_weak :: "Hooke2DiagPublisher \<Rightarrow> bool" where
  "braking_too_weak s \<longleftrightarrow>
     (\<forall>c \<in> insert (min_decel s) (snd ` set (acc_cmd_que s)).
        c < Fin 0 \<and> (\<forall>a \<in> snd ` set (acc_que s). c - a < - accel_diff_thresh s))"

definition accelerating_too_weak :: "Hooke2DiagPublisher \<Rightarrow> bool" where
  "accelerating_too_weak s \<longleftrightarrow>
     (\<forall>c \<in> insert (max_accel s) (snd ` set (acc_cmd_que s)).
        Fin 0 < c \<and> (\<forall>a \<in> snd ` set (acc_que s). accel_diff_thresh s < c - a))"

definition finite_diag :: "Hooke2DiagPublisher \<Rightarrow> bool" where
  "finite_diag s \<longleftrightarrow>
     finite_que (acc_que s) \<and> finite_que (acc_cmd_que s) \<and> isfinite (min_decel s) \<and> isfinite (max_accel s)"

lemma checkBrakeFault_meaning:
  assumes "finite_diag s" "acc_que s \<noteq> []" "acc_cmd_que s \<noteq> []"
  shows "checkBrakeFault s = Some (braking_too_weak s)"
proof -
  have f: "finite_que (acc_que s)" "finite_que (acc_cmd_que s)" using assms(1) by (simp_all add: finite_diag_def)
  obtain d where d: "min_decel s = Fin d" using assms(1) by (auto simp: finite_diag_def isfinite_conv)
  obtain m where m: "getMinValue (acc_que s) = Some (Fin m)" "Fin m \<in> snd ` set (acc_que s)"
    "\<And>e. e \<in> set (acc_que s) \<Longrightarrow> \<exists>v. snd e = Fin v \<and> m \<le> v"
    using getMinValue_least [OF assms(2) f(1)] by metis
  obtain k where k: "getMaxValue (acc_cmd_que s) = Some (Fin k)" "Fin k \<in> snd ` set (acc_cmd_que s)"
    "\<And>e. e \<in> set (acc_cmd_que s) \<Longrightarrow> \<exists>v. snd e = Fin v \<and> v \<le> k"
    using getMaxValue_greatest [OF assms(3) f(2)] by metis
  define x where "x = max k d"
  have sx: "std_max (Fin k) (Fin d) = Fin x" by (simp add: std_max_def x_def max_def)
  have below: "\<exists>v. c = Fin v \<and> v \<le> x" if "c \<in> insert (Fin d) (snd ` set (acc_cmd_que s))" for c
    using that k(3) by (fastforce simp: x_def)
  have above: "\<exists>v. a = Fin v \<and> m \<le> v" if "a \<in> snd ` set (acc_que s)" for a
    using that m(3) by auto
  have xin: "Fin x \<in> insert (Fin d) (snd ` set (acc_cmd_que s))" using k(2) by (auto simp: x_def max_def)
  have "braking_too_weak s \<longleftrightarrow> Fin x < Fin 0 \<and> Fin x - Fin m < - accel_diff_thresh s"
  proof
    assume "braking_too_weak s"
    then show "Fin x < Fin 0 \<and> Fin x - Fin m < - accel_diff_thresh s"
      using xin m(2) unfolding braking_too_weak_def d by blast
  next
    assume x: "Fin x < Fin 0 \<and> Fin x - Fin m < - accel_diff_thresh s"
    show "braking_too_weak s" unfolding braking_too_weak_def d
    proof (intro ballI conjI)
      fix c assume "c \<in> insert (Fin d) (snd ` set (acc_cmd_que s))"
      then obtain v where v: "c = Fin v" "v \<le> x" using below by blast
      then show "c < Fin 0" using x by simp
      fix a assume "a \<in> snd ` set (acc_que s)"
      then obtain w where w: "a = Fin w" "m \<le> w" using above by blast
      have "d64 (v - w) \<le> d64 (x - m)" by (rule d64_mono) (use v w in linarith)
      then show "c - a < - accel_diff_thresh s" using x fp_le_less_trans v w by (auto simp: Fin_minus)
    qed
  qed
  then show ?thesis by (simp add: checkBrakeFault_def m(1) k(1) d sx)
qed

lemma checkAccelFault_meaning:
  assumes "finite_diag s" "acc_que s \<noteq> []" "acc_cmd_que s \<noteq> []"
  shows "checkAccelFault s = Some (accelerating_too_weak s)"
proof -
  have f: "finite_que (acc_que s)" "finite_que (acc_cmd_que s)" using assms(1) by (simp_all add: finite_diag_def)
  obtain d where d: "max_accel s = Fin d" using assms(1) by (auto simp: finite_diag_def isfinite_conv)
  obtain m where m: "getMaxValue (acc_que s) = Some (Fin m)" "Fin m \<in> snd ` set (acc_que s)"
    "\<And>e. e \<in> set (acc_que s) \<Longrightarrow> \<exists>v. snd e = Fin v \<and> v \<le> m"
    using getMaxValue_greatest [OF assms(2) f(1)] by metis
  obtain k where k: "getMinValue (acc_cmd_que s) = Some (Fin k)" "Fin k \<in> snd ` set (acc_cmd_que s)"
    "\<And>e. e \<in> set (acc_cmd_que s) \<Longrightarrow> \<exists>v. snd e = Fin v \<and> k \<le> v"
    using getMinValue_least [OF assms(3) f(2)] by metis
  define x where "x = min k d"
  have sx: "std_min (Fin k) (Fin d) = Fin x" by (simp add: std_min_def x_def min_def)
  have above: "\<exists>v. c = Fin v \<and> x \<le> v" if "c \<in> insert (Fin d) (snd ` set (acc_cmd_que s))" for c
    using that k(3) by (fastforce simp: x_def)
  have below: "\<exists>v. a = Fin v \<and> v \<le> m" if "a \<in> snd ` set (acc_que s)" for a
    using that m(3) by auto
  have xin: "Fin x \<in> insert (Fin d) (snd ` set (acc_cmd_que s))" using k(2) by (auto simp: x_def min_def)
  have "accelerating_too_weak s \<longleftrightarrow> Fin 0 < Fin x \<and> accel_diff_thresh s < Fin x - Fin m"
  proof
    assume "accelerating_too_weak s"
    then show "Fin 0 < Fin x \<and> accel_diff_thresh s < Fin x - Fin m"
      using xin m(2) unfolding accelerating_too_weak_def d by blast
  next
    assume x: "Fin 0 < Fin x \<and> accel_diff_thresh s < Fin x - Fin m"
    show "accelerating_too_weak s" unfolding accelerating_too_weak_def d
    proof (intro ballI conjI)
      fix c assume "c \<in> insert (Fin d) (snd ` set (acc_cmd_que s))"
      then obtain v where v: "c = Fin v" "x \<le> v" using above by blast
      then show "Fin 0 < c" using x by simp
      fix a assume "a \<in> snd ` set (acc_que s)"
      then obtain w where w: "a = Fin w" "w \<le> m" using below by blast
      have "d64 (x - m) \<le> d64 (v - w)" by (rule d64_mono) (use v w in linarith)
      then show "accel_diff_thresh s < c - a" using x fp_less_le_trans v w by (auto simp: Fin_minus)
    qed
  qed
  then show ?thesis by (simp add: checkAccelFault_def m(1) k(1) d sx)
qed

section \<open>Properties\<close>

text \<open>
  C25: In every reachable state the message check reads no missing report, and its status names in order the
  timeouts and the flagged faults; the unknown error stands for a system fault without any
  other reason.
\<close>

theorem message_diagnosis:
  assumes "diag_reachable secs p s"
  shows "checkHooke2Msgs secs now1 now2 s = Some (diagnosis (reasons secs now1 now2 s) (sys_fault s))"
  by (rule checkHooke2Msgs_reasons [OF diag_reachable_inv [OF assms]])

definition demo_diag_params :: DiagParams where
  "demo_diag_params =
     \<lparr>dp_can_timeout_sec = Fin 10, dp_hooke2_msg_timeout_sec = Fin 10, dp_accel_store_time = Fin 1,
      dp_accel_diff_thresh = Fin 1, dp_min_decel = Fin (- 3), dp_max_accel = Fin 3,
      dp_accel_brake_fault_check_min_velocity = Fin 1\<rparr>"

theorem message_diagnosis_witness:
  "checkHooke2Msgs (\<lambda>d. Fin (of_int d)) 20 5 (Hooke2DiagPublisher_new demo_diag_params 0 0) =
     Some (DIAG_ERROR, ''CAN reception timeout.'')"
  using message_diagnosis [OF diag_start [of "\<lambda>d. Fin (of_int d)" demo_diag_params 0 0], of 20 5]
  by (simp add: diagnosis_def reasons_def when_text_def isTimeoutCanMsgs_def isTimeoutHooke2Msgs_def
      Hooke2DiagPublisher_new_def demo_diag_params_def sys_fault_def)

text \<open>
  C18: With finite values in the queues, the acceleration check reports a brake fault exactly when it runs (all reports present and
  enabled, both queues old enough) and braking is too weak over the whole window, otherwise
  an accelerator fault exactly when accelerating is; it never reads an empty queue.
\<close>

theorem accel_brake_diagnosis:
  assumes "finite_diag s"
  shows "checkHooke2AccelBrake secs now1 now2 s =
     Some (if accel_brake_checked secs now1 now2 s \<and> braking_too_weak s
           then (DIAG_ERROR, ''Hooke2 Brake Fault. Not decelerating enough.'')
           else if accel_brake_checked secs now1 now2 s \<and> accelerating_too_weak s
           then (DIAG_ERROR, ''Hooke2 Accel Fault. Not accelerating enough.'')
           else (DIAG_OK, ''OK''))"
proof (cases "accel_brake_checked secs now1 now2 s")
  case True
  then have "acc_que s \<noteq> []" "acc_cmd_que s \<noteq> []"
    using enough_nonempty by (auto simp: accel_brake_checked_def)
  then show ?thesis
    unfolding accel_brake_result
    using checkBrakeFault_meaning [OF assms] checkAccelFault_meaning [OF assms] by simp
qed (simp add: accel_brake_result)

definition demo_rpt_float :: SystemRptFloat where
  "demo_rpt_float = SystemRptFloat_init\<lparr>rf_enabled := True\<rparr>"

definition demo_global :: GlobalRpt where
  "demo_global =
     \<lparr>gl_stamp_ns = 0, gl_enabled = True, gl_override_active = False, gl_sys_fault_active = True,
      gl_vehicle_vin = []\<rparr>"

definition demo_diag :: Hooke2DiagPublisher where
  "demo_diag =
     (Hooke2DiagPublisher_new demo_diag_params 0 0)
       \<lparr>dg_steer_wheel_rpt_ptr := Some demo_rpt_float, dg_accel_rpt_ptr := Some demo_rpt_float,
        dg_brake_rpt_ptr := Some demo_rpt_float, dg_global_rpt_ptr := Some demo_global, odom_ptr := Some (Fin 2),
        acc_que := [(0, Fin 0), (1, Fin 1)], acc_cmd_que := [(0, Fin (- 2)), (1, Fin (- 3))]\<rparr>"

theorem accel_brake_diagnosis_witness:
  "checkHooke2AccelBrake (\<lambda>d. Fin (of_int d)) 5 5 demo_diag =
     Some (DIAG_ERROR, ''Hooke2 Brake Fault. Not decelerating enough.'')"
proof -
  have "finite_diag demo_diag"
    by (simp add: finite_diag_def finite_que_def demo_diag_def Hooke2DiagPublisher_new_def demo_diag_params_def)
  moreover have "accel_brake_checked (\<lambda>d. Fin (of_int d)) 5 5 demo_diag"
    by (simp add: accel_brake_checked_def diag_reports_present_def reports_enabled_def checkEnoughDataStored_def
        demo_diag_def Hooke2DiagPublisher_new_def demo_diag_params_def demo_rpt_float_def SystemRptFloat_init_def demo_global_def)
  moreover have "d64 (- 2) = Fin (- 2)" "d64 (- 3) = Fin (- 3)" "d64 (- 4) = Fin (- 4)"
    using d64_int [of "- 2"] d64_int [of "- 3"] d64_int [of "- 4"] by simp_all
  then have "braking_too_weak demo_diag"
    by (simp add: braking_too_weak_def demo_diag_def Hooke2DiagPublisher_new_def demo_diag_params_def Fin_minus)
  ultimately show ?thesis
    using accel_brake_diagnosis [of demo_diag "\<lambda>d. Fin (of_int d)" 5 5] by simp
qed

end
