(* ===== verification/Hooke2_Monitoring.thy ===== *)
theory Hooke2_Monitoring
  imports Hooke2_Diag Hooke2_Properties
begin

text \<open>
  The two nodes together: \<open>Hooke2Interface\<close> turns the frames of the chassis into the reports on
  \<open>/hooke2/accel_rpt\<close> and \<open>/hooke2/brake_rpt\<close>, and \<open>Hooke2DiagPublisher\<close> subscribes to them and
  turns them into a diagnostic status.
\<close>

lemma sent_reports_unset:
  assumes "hooke_reachable w p y" "params_ok p" "Accel_rpt r \<in> set (sent (node y)) \<or> Brake_rpt r \<in> set (sent (node y))"
  shows "faults_unset r"
  using hooke_reachable_inv [OF assms(1,2)] assms(3) by (auto simp: hooke_inv_def)

text \<open>
  C39: Whatever frames the chassis sends, the accelerator and brake reports that \<open>Hooke2Interface\<close>
  publishes carry none of the three flags that the message check reads. On any of these reports the
  check never names a failure of the brake actuator, the brake wire or the accelerator: a system
  fault is the unknown error, and only without a timeout.
\<close>

theorem interface_faults_unnamed:
  assumes "hooke_reachable w p y" "params_ok p"
    and "Accel_rpt ac \<in> set (sent (node y))" "Brake_rpt br \<in> set (sent (node y))"
  shows "checkHooke2Msgs secs now1 now2 (diag_callbackHooke2Rpt now st wh ac br sh tu gl s) =
   Some (diagnosis
     (when_text (can_timeout_sec s < secs (now1 - last_can_received_time s)) ''CAN reception timeout.'' @
      when_text (wd_hooke2_msgs_timeout_sec s < secs (now2 - now)) ''Hooke2 msgs reception timeout.'')
     (gl_sys_fault_active gl))"
proof -
  let ?s = "diag_callbackHooke2Rpt now st wh ac br sh tu gl s"
  have unset: "faults_unset ac" "faults_unset br" using sent_reports_unset [OF assms(1,2)] assms(3,4) by blast+
  have "diag_inv ?s" by (simp add: diag_inv_def diag_callbackHooke2Rpt_def)
  moreover have "sys_fault ?s \<longleftrightarrow> gl_sys_fault_active gl" by (simp add: sys_fault_def diag_callbackHooke2Rpt_def)
  moreover have "reasons secs now1 now2 ?s =
      when_text (can_timeout_sec s < secs (now1 - last_can_received_time s)) ''CAN reception timeout.'' @
      when_text (wd_hooke2_msgs_timeout_sec s < secs (now2 - now)) ''Hooke2 msgs reception timeout.''"
    using unset by (simp add: reasons_def flagged_def diag_callbackHooke2Rpt_def faults_unset_def isTimeoutCanMsgs_def
        isTimeoutHooke2Msgs_def when_text_def)
  ultimately show ?thesis by (simp add: checkHooke2Msgs_reasons)
qed

text \<open>
  A throttle frame with both fault bytes set and a brake frame with every bit set, as they arrive
  and are reported.
\<close>

definition data_frame :: "u32 \<Rightarrow> bytes \<Rightarrow> CanFrame" where
  "data_frame i d = \<lparr>frame_id = i, frame_is_rtr = False, frame_is_error = False, frame_data = d\<rparr>"

definition faulty_frames :: "CanFrame list" where
  "faulty_frames = [data_frame 0x500 [1, 1, 1, 0, 0, 0, 0, 0], data_frame 0x501 (replicate 8 0xFF)]"

definition demo_faulty :: HookeSystem where
  "demo_faulty = demo_engaged\<lparr>node := fold canTxCallback faulty_frames (node demo_engaged)\<rparr>"

lemma reachable_frames:
  "hooke_reachable w p y \<Longrightarrow> hooke_reachable w p (y\<lparr>node := fold canTxCallback fs (node y)\<rparr>)"
proof (induction fs arbitrary: y)
  case (Cons f fs)
  have "hooke_reachable w p (y\<lparr>node := canTxCallback f (node y)\<rparr>)"
    by (rule hooke_step [OF Cons.prems, where ev = "Frame_received f"]) (simp add: handle_hooke_def)
  from Cons.IH [OF this] show ?case by simp
qed simp

lemma demo_faulty_sent:
  "Accel_rpt (accel_rpt_of [1, 1, 1, 0, 0, 0, 0, 0]) \<in> set (sent (node demo_faulty))"
  "Brake_rpt (brake_rpt_of (replicate 8 0xFF)) \<in> set (sent (node demo_faulty))"
  by (simp_all add: demo_faulty_def faulty_frames_def data_frame_def canTxCallback_def isTargetId_def message_ids
      onThrottleReport500_def onBrakeReport501_def publish_def Let_def)

theorem interface_faults_unnamed_witness:
  "Accel_rpt (accel_rpt_of [1, 1, 1, 0, 0, 0, 0, 0]) \<in> set (sent (node demo_faulty)) \<and>
   rf_communication_fault (accel_rpt_of [1, 1, 1, 0, 0, 0, 0, 0]) \<and>
   checkHooke2Msgs (\<lambda>d. Fin (of_int d)) 1 1
     (diag_callbackHooke2Rpt 0 demo_float_rpt demo_wheels (accel_rpt_of [1, 1, 1, 0, 0, 0, 0, 0])
       (brake_rpt_of (replicate 8 0xFF)) demo_int_rpt demo_int_rpt demo_global
       (Hooke2DiagPublisher_new demo_diag_params 0 0)) = Some (DIAG_ERROR, ''Unknown Hooke2 Error.'')"
proof -
  have r: "hooke_reachable hooke_demo_world Hooke2_default_params demo_faulty"
    unfolding demo_faulty_def by (rule reachable_frames [OF demo_engaged_reachable])
  have "rf_communication_fault (accel_rpt_of [1, 1, 1, 0, 0, 0, 0, 0])"
    by (simp add: accel_rpt_of_def get_byte_def BYTE_LENGTH_def RANG_MASK_1_L_def Let_def)
  then show ?thesis
    using demo_faulty_sent interface_faults_unnamed [OF r default_params_ok demo_faulty_sent, of "\<lambda>d. Fin (of_int d)" 1 1 0
        demo_float_rpt demo_wheels demo_int_rpt demo_int_rpt demo_global "Hooke2DiagPublisher_new demo_diag_params 0 0"]
    by (simp add: diagnosis_def when_text_def Hooke2DiagPublisher_new_def demo_diag_params_def demo_global_def)
qed

end
