(* ===== verification/Can_Client.thy ===== *)
theory Can_Client
  imports Prelude
begin

text \<open>
  The CAN driver node (\<open>can_driver.cpp\<close>) and the interface of the card clients (\<open>can_client.hpp\<close>). A virtual
  call is a function that takes the client and returns it changed; the client carries the state of
  its device. An access outside of an array is \<open>None\<close>. The contract that every client keeps is the
  locale \<open>can_client\<close>; the driver's lemmas are proved in it once for all cards.
\<close>

section \<open>Messages\<close>

record CanMsg =
  cm_stamp :: int
  cm_frame_id :: string
  cm_id :: u32
  cm_is_rtr :: bool
  cm_is_extended :: bool
  cm_is_error :: bool
  cm_dlc :: u8
  cm_data :: bytes

definition CanMsg_init :: CanMsg where
  "CanMsg_init =
     \<lparr>cm_stamp = 0, cm_frame_id = [], cm_id = 0, cm_is_rtr = False, cm_is_extended = False,
      cm_is_error = False, cm_dlc = 0, cm_data = replicate 8 0\<rparr>"

definition CAN_ID_MASK :: u32 where "CAN_ID_MASK = 0x1FFFF800"
definition MAX_CAN_RECV_FRAME_LEN :: int where "MAX_CAN_RECV_FRAME_LEN = 10"
definition MAX_CAN_SEND_FRAME_LEN :: int where "MAX_CAN_SEND_FRAME_LEN = 10"

text \<open>The loop \<open>for (j = 0; j < n; j++) dst[j] = src[j]\<close> on arrays of eight bytes.\<close>

definition copy_data :: "nat \<Rightarrow> bytes \<Rightarrow> bytes \<Rightarrow> bytes option" where
  "copy_data n src dst = (if n \<le> 8 then Some (take n src @ drop n dst) else None)"

text \<open>An element of an array.\<close>

definition array_at :: "'a list \<Rightarrow> nat \<Rightarrow> 'a option" where
  "array_at a i = (if i < length a then Some (a ! i) else None)"

text \<open>\<open>static_cast<int32_t>(frames.size())\<close>.\<close>

definition size_i32 :: "CanMsg list \<Rightarrow> int" where
  "size_i32 frames = sint (of_nat (length frames) :: 32 word)"

lemma size_i32_small: "length frames < 2 ^ 31 \<Longrightarrow> size_i32 frames = int (length frames)"
  by (simp add: size_i32_def signed_of_nat signed_take_bit_int_eq_self)

section \<open>Choice of the card\<close>

datatype CanCardBrand = SOCKET | INNODISK | ESD | KVASER

definition brand_code :: "CanCardBrand \<Rightarrow> u32" where
  "brand_code b = (case b of SOCKET \<Rightarrow> 0 | INNODISK \<Rightarrow> 1 | ESD \<Rightarrow> 2 | KVASER \<Rightarrow> 3)"

text \<open>
  The client that the constructor creates; \<open>build\<close> is the one brand, if any, that the build compiles in
  besides the socket client. With \<open>None\<close> the process exits.
\<close>

definition select_client :: "CanCardBrand option \<Rightarrow> u32 \<Rightarrow> CanCardBrand option" where
  "select_client build brand =
     (if brand = brand_code SOCKET then Some SOCKET
      else case build of None \<Rightarrow> None | Some b \<Rightarrow> if brand = brand_code b then Some b else None)"

section \<open>The driver\<close>

record 'c CanDriver =
  driver_client :: 'c
  driver_frame_id :: string
  driver_published :: "CanMsg list"

text \<open>The rest of the constructor: \<open>None\<close> is the exit after a failed \<open>init\<close>.\<close>

definition CanDriver_new :: "('c \<Rightarrow> bool \<times> 'c) \<Rightarrow> 'c \<Rightarrow> string \<Rightarrow> 'c CanDriver option" where
  "CanDriver_new init client frame_id =
     (case init client of (started, client) \<Rightarrow>
        if started then Some \<lparr>driver_client = client, driver_frame_id = frame_id, driver_published = []\<rparr>
        else None)"

text \<open>The subscription to the frames to send.\<close>

definition on_can_rx ::
  "(CanMsg list \<Rightarrow> int \<Rightarrow> 'c \<Rightarrow> (bool \<times> 'c) option) \<Rightarrow> CanMsg \<Rightarrow> 'c CanDriver \<Rightarrow> 'c CanDriver option" where
  "on_can_rx send msg d =
     map_option (\<lambda>(_, client). d\<lparr>driver_client := client\<rparr>) (send [msg] (size_i32 [msg]) (driver_client d))"

definition with_frame_id :: "string \<Rightarrow> CanMsg \<Rightarrow> CanMsg" where
  "with_frame_id fid m = (if cm_frame_id m = [] then m\<lparr>cm_frame_id := fid\<rparr> else m)"

text \<open>One pass of the receiving thread; \<open>frames\<close> is its local vector. Sleeping is left out.\<close>

definition rx_pass ::
  "(CanMsg list \<Rightarrow> int \<Rightarrow> 'c \<Rightarrow> (bool \<times> CanMsg list \<times> 'c) option) \<Rightarrow>
     CanMsg list \<Rightarrow> 'c CanDriver \<Rightarrow> (CanMsg list \<times> 'c CanDriver) option" where
  "rx_pass recv frames d =
     (case recv frames MAX_CAN_RECV_FRAME_LEN (driver_client d) of
        None \<Rightarrow> None
      | Some (_, frames, client) \<Rightarrow>
          let d = d\<lparr>driver_client := client\<rparr>
          in if frames = [] then Some (frames, d)
             else Some ([], d\<lparr>driver_published := driver_published d @ map (with_frame_id (driver_frame_id d)) frames\<rparr>))"

text \<open>
  The thread: \<open>running\<close> lists the values of the loop's condition \<open>rclcpp::ok() && is_running_\<close>, one for each test.
\<close>

fun can_rx_thread_callback ::
  "(CanMsg list \<Rightarrow> int \<Rightarrow> 'c \<Rightarrow> (bool \<times> CanMsg list \<times> 'c) option) \<Rightarrow>
     bool list \<Rightarrow> CanMsg list \<Rightarrow> 'c CanDriver \<Rightarrow> (CanMsg list \<times> 'c CanDriver) option" where
  "can_rx_thread_callback recv [] frames d = Some (frames, d)"
| "can_rx_thread_callback recv (False # _) frames d = Some (frames, d)"
| "can_rx_thread_callback recv (True # running) frames d =
     (case rx_pass recv frames d of
        None \<Rightarrow> None
      | Some (frames, d) \<Rightarrow> can_rx_thread_callback recv running frames d)"

text \<open>
  What the driver owes its topic on any run of the thread: it keeps nothing in the local vector, does not
  change whether the client is started, publishes after what was published at most ten frames
  for each test of the condition, none over a stopped client, and with a stopped client it returns.
\<close>

definition thread_ok ::
  "('c \<Rightarrow> bool) \<Rightarrow> (CanMsg list \<Rightarrow> int \<Rightarrow> 'c \<Rightarrow> (bool \<times> CanMsg list \<times> 'c) option) \<Rightarrow>
     bool list \<Rightarrow> 'c CanDriver \<Rightarrow> bool" where
  "thread_ok started recv running d \<longleftrightarrow>
     (case can_rx_thread_callback recv running [] d of
        None \<Rightarrow> started (driver_client d)
      | Some (fs, d') \<Rightarrow>
          fs = [] \<and> (started (driver_client d') \<longleftrightarrow> started (driver_client d)) \<and>
          (\<exists>new. driver_published d' = driver_published d @ new \<and>
             length new \<le> (if started (driver_client d) then 10 * length running else 0)))"

section \<open>The contract of a client\<close>

locale can_client =
  fixes started :: "'c \<Rightarrow> bool"
    and init :: "'c \<Rightarrow> bool \<times> 'c"
    and stop :: "'c \<Rightarrow> 'c"
    and send :: "CanMsg list \<Rightarrow> int \<Rightarrow> 'c \<Rightarrow> (bool \<times> 'c) option"
    and recv :: "CanMsg list \<Rightarrow> int \<Rightarrow> 'c \<Rightarrow> (bool \<times> CanMsg list \<times> 'c) option"
  assumes init_started: "init c = (b, c') \<Longrightarrow> started c' \<longleftrightarrow> b"
    and init_again: "started c \<Longrightarrow> init c = (True, c)"
    and stop_stops: "\<not> started (stop c)"
    and stop_again: "\<not> started c \<Longrightarrow> stop c = c"
    and send_stopped: "\<not> started c \<Longrightarrow> send fs n c = Some (False, c)"
    and send_keeps: "send fs n c = Some (b, c') \<Longrightarrow> started c' \<longleftrightarrow> started c"
    and recv_stopped: "\<not> started c \<Longrightarrow> recv fs n c = Some (False, fs, c)"
    and recv_keeps: "recv fs n c = Some (b, fs', c') \<Longrightarrow> started c' \<longleftrightarrow> started c"
    and recv_extends: "recv fs n c = Some (b, fs', c') \<Longrightarrow> \<exists>new. fs' = fs @ new"
    and recv_bound: "recv [] n c = Some (b, fs, c') \<Longrightarrow> length fs \<le> 10"
begin

lemma new_driver_started: "CanDriver_new init c fid = Some d \<Longrightarrow> started (driver_client d)"
  using init_started by (auto simp: CanDriver_new_def split: prod.splits if_splits)

lemma rx_pass_result:
  assumes "rx_pass recv [] d = Some (fs, d')"
  shows "fs = [] \<and> driver_frame_id d' = driver_frame_id d \<and>
    (started (driver_client d') \<longleftrightarrow> started (driver_client d)) \<and>
    (\<exists>b new. recv [] 10 (driver_client d) = Some (b, new, driver_client d') \<and> length new \<le> 10 \<and>
       driver_published d' = driver_published d @ map (with_frame_id (driver_frame_id d)) new)"
  using assms recv_keeps recv_bound
  by (fastforce simp: rx_pass_def MAX_CAN_RECV_FRAME_LEN_def Let_def split: option.splits if_splits)

lemma rx_thread_publishes:
  "can_rx_thread_callback recv running [] d = Some (fs, d') \<Longrightarrow>
   fs = [] \<and> driver_frame_id d' = driver_frame_id d \<and>
   (started (driver_client d') \<longleftrightarrow> started (driver_client d)) \<and>
   (\<exists>new. driver_published d' = driver_published d @ new \<and> length new \<le> 10 * length running)"
proof (induction running arbitrary: d)
  case (Cons b running)
  show ?case
  proof (cases b)
    case True
    then obtain fs1 d1 where p: "rx_pass recv [] d = Some (fs1, d1)"
      "can_rx_thread_callback recv running fs1 d1 = Some (fs, d')"
      using Cons.prems by (auto split: option.splits)
    note r = rx_pass_result [OF p(1)]
    then obtain new1 where n1: "length new1 \<le> 10"
      "driver_published d1 = driver_published d @ map (with_frame_id (driver_frame_id d)) new1" by blast
    have c: "can_rx_thread_callback recv running [] d1 = Some (fs, d')" using p(2) r by simp
    then obtain new2 where n2: "driver_published d' = driver_published d1 @ new2"
      "length new2 \<le> 10 * length running"
      using Cons.IH by blast
    have "driver_published d' = driver_published d @ (map (with_frame_id (driver_frame_id d)) new1 @ new2)"
      using n1(2) n2(1) by simp
    moreover have "length (map (with_frame_id (driver_frame_id d)) new1 @ new2) \<le> 10 * length (b # running)"
      using n1(1) n2(2) by simp
    moreover have "fs = [] \<and> driver_frame_id d' = driver_frame_id d \<and>
        (started (driver_client d') \<longleftrightarrow> started (driver_client d))"
      using Cons.IH [OF c] r by simp
    ultimately show ?thesis by blast
  next
    case False
    then show ?thesis using Cons.prems by simp
  qed
qed simp

lemma rx_thread_stopped:
  "\<not> started (driver_client d) \<Longrightarrow> can_rx_thread_callback recv running [] d = Some ([], d)"
proof (induction running)
  case (Cons b running)
  then show ?case
    by (cases b) (simp_all add: rx_pass_def recv_stopped Let_def)
qed simp

lemma thread_safe: "thread_ok started recv running d"
proof (cases "started (driver_client d)")
  case True
  then show ?thesis
    using rx_thread_publishes [of running d] by (auto simp: thread_ok_def split: option.split)
next
  case False
  then show ?thesis by (simp add: thread_ok_def rx_thread_stopped)
qed

lemma on_can_rx_stopped: "\<not> started (driver_client d) \<Longrightarrow> on_can_rx send m d = Some d"
  by (simp add: on_can_rx_def send_stopped)

end

end
