(* ===== verification/Can_Socket.thy ===== *)
theory Can_Socket
  imports Can_Client "HOL-Library.Sublist"
begin

text \<open>
  \<open>socket_can_client.hpp\<close>: the client of a SocketCAN interface. The kernel's calls are the parameter
  \<open>SocketOps\<close>, functions on a state of the device that the client carries.
\<close>

section \<open>State\<close>

record can_frame =
  can_id :: u32
  can_dlc :: u8
  can_data :: bytes

record 'w SocketOps =
  op_socket :: "'w \<Rightarrow> int \<times> 'w"
  op_set_filter :: "int \<Rightarrow> u32 \<Rightarrow> u32 \<Rightarrow> 'w \<Rightarrow> int \<times> 'w"
  op_set_fd_frames :: "int \<Rightarrow> 'w \<Rightarrow> int \<times> 'w"
  op_get_ifindex :: "int \<Rightarrow> string \<Rightarrow> 'w \<Rightarrow> (int \<times> int) \<times> 'w"
  op_bind :: "int \<Rightarrow> int \<Rightarrow> 'w \<Rightarrow> int \<times> 'w"
  op_close :: "int \<Rightarrow> 'w \<Rightarrow> int \<times> 'w"
  op_write :: "int \<Rightarrow> can_frame \<Rightarrow> 'w \<Rightarrow> int \<times> 'w"
  op_read :: "int \<Rightarrow> can_frame \<Rightarrow> 'w \<Rightarrow> (int \<times> can_frame) \<times> 'w"
  op_now :: "'w \<Rightarrow> int \<times> 'w"

record 'w SocketCanClient =
  so_interface :: u32
  so_channel_id :: u32
  so_started :: bool
  so_dev_handler :: int
  so_send_frames :: "can_frame list"
  so_recv_frames :: "can_frame list"
  so_device :: 'w

definition NATIVE :: u32 where "NATIVE = 0"
definition VIRTUAL :: u32 where "VIRTUAL = 1"
definition SLCAN :: u32 where "SLCAN = 2"

definition zero_frame :: can_frame where
  "zero_frame = \<lparr>can_id = 0, can_dlc = 0, can_data = replicate 8 0\<rparr>"

definition SocketCanClient_new :: "u32 \<Rightarrow> u32 \<Rightarrow> 'w \<Rightarrow> 'w SocketCanClient" where
  "SocketCanClient_new channel_id interface w =
     \<lparr>so_interface = interface, so_channel_id = channel_id, so_started = False, so_dev_handler = - 1,
      so_send_frames = replicate 10 zero_frame, so_recv_frames = replicate 10 zero_frame, so_device = w\<rparr>"

text \<open>A call to the kernel.\<close>

definition so_call :: "('w \<Rightarrow> 'a \<times> 'w) \<Rightarrow> 'w SocketCanClient \<Rightarrow> 'a \<times> 'w SocketCanClient" where
  "so_call f c = (case f (so_device c) of (a, w) \<Rightarrow> (a, c\<lparr>so_device := w\<rparr>))"

section \<open>Opening and closing\<close>

text \<open>\<open>std::to_string\<close>.\<close>

fun to_decimal :: "nat \<Rightarrow> string" where
  "to_decimal n =
     (if n < 10 then [char_of (48 + n)] else to_decimal (n div 10) @ [char_of (48 + n mod 10)])"

declare to_decimal.simps [simp del]

definition interface_name :: "u32 \<Rightarrow> u32 \<Rightarrow> string" where
  "interface_name interface channel_id =
     (if interface = VIRTUAL then ''vcan'' else if interface = SLCAN then ''slcan'' else ''can'') @
     to_decimal (unat channel_id)"

definition SocketCanClient_init :: "'w SocketOps \<Rightarrow> 'w SocketCanClient \<Rightarrow> bool \<times> 'w SocketCanClient" where
  "SocketCanClient_init ops c =
     (if so_started c then (True, c)
      else
        let (h, c) = so_call (op_socket ops) c;
            c = c\<lparr>so_dev_handler := h\<rparr>
        in if h < 0 then (False, c)
        else
          let (r, c) = (if so_interface c \<noteq> VIRTUAL then so_call (op_set_filter ops h 0 CAN_ID_MASK) c else (0, c))
          in if r < 0 then (False, c)
          else
            let (r, c) = so_call (op_set_fd_frames ops h) c
            in if r < 0 then (False, c)
            else
              let ((r, ifindex), c) = so_call (op_get_ifindex ops h (interface_name (so_interface c) (so_channel_id c))) c
              in if r < 0 then (False, c)
              else
                let (r, c) = so_call (op_bind ops h ifindex) c
                in if r < 0 then (False, c) else (True, c\<lparr>so_started := True\<rparr>))"

definition SocketCanClient_stop :: "'w SocketOps \<Rightarrow> 'w SocketCanClient \<Rightarrow> 'w SocketCanClient" where
  "SocketCanClient_stop ops c =
     (if so_started c then
        let c = c\<lparr>so_started := False\<rparr>;
            (r, c) = so_call (op_close ops (so_dev_handler c)) c
        in if r \<noteq> 0 then c else c\<lparr>so_dev_handler := - 1\<rparr>
      else c)"

section \<open>Sending\<close>

definition fill_frame :: "CanMsg \<Rightarrow> can_frame \<Rightarrow> can_frame option" where
  "fill_frame m f =
     map_option (\<lambda>d. \<lparr>can_id = cm_id m, can_dlc = cm_dlc m, can_data = d\<rparr>)
       (copy_data (unat (cm_dlc m)) (cm_data m) (can_data f))"

fun so_send_loop ::
  "'w SocketOps \<Rightarrow> nat \<Rightarrow> CanMsg list \<Rightarrow> 'w SocketCanClient \<Rightarrow> (bool \<times> 'w SocketCanClient) option" where
  "so_send_loop ops i [] c = Some (True, c)"
| "so_send_loop ops i (m # ms) c =
     (case Option.bind (array_at (so_send_frames c) i) (fill_frame m) of
        None \<Rightarrow> None
      | Some f \<Rightarrow>
          let c = c\<lparr>so_send_frames := (so_send_frames c)[i := f]\<rparr>;
              (r, c) = so_call (op_write ops (so_dev_handler c) f) c
          in if r < 0 then Some (False, c) else so_send_loop ops (Suc i) ms c)"

definition SocketCanClient_send ::
  "'w SocketOps \<Rightarrow> CanMsg list \<Rightarrow> int \<Rightarrow> 'w SocketCanClient \<Rightarrow> (bool \<times> 'w SocketCanClient) option" where
  "SocketCanClient_send ops frames frame_num c =
     (if \<not> so_started c then Some (False, c)
      else if frames = [] \<or> size_i32 frames \<noteq> frame_num then Some (False, c)
      else if MAX_CAN_SEND_FRAME_LEN < frame_num then Some (False, c)
      else so_send_loop ops 0 (take (nat frame_num) frames) c)"

section \<open>Receiving\<close>

fun so_recv_loop ::
  "'w SocketOps \<Rightarrow> nat \<Rightarrow> nat \<Rightarrow> CanMsg list \<Rightarrow> 'w SocketCanClient \<Rightarrow>
     (bool \<times> CanMsg list \<times> 'w SocketCanClient) option" where
  "so_recv_loop ops i 0 frames c = Some (True, frames, c)"
| "so_recv_loop ops i (Suc n) frames c =
     (case array_at (so_recv_frames c) i of
        None \<Rightarrow> None
      | Some buf \<Rightarrow>
          let ((r, f), c) = so_call (op_read ops (so_dev_handler c) buf) c;
              c = c\<lparr>so_recv_frames := (so_recv_frames c)[i := f]\<rparr>
          in if r < 0 then Some (False, frames, c)
             else
               let (now, c) = so_call (op_now ops) c
               in case copy_data (unat (can_dlc f)) (can_data f) (cm_data CanMsg_init) of
                    None \<Rightarrow> None
                  | Some d \<Rightarrow>
                      so_recv_loop ops (Suc i) n
                        (frames @ [CanMsg_init\<lparr>cm_stamp := now, cm_id := can_id f, cm_dlc := can_dlc f, cm_data := d\<rparr>]) c)"

definition SocketCanClient_recv ::
  "'w SocketOps \<Rightarrow> CanMsg list \<Rightarrow> int \<Rightarrow> 'w SocketCanClient \<Rightarrow>
     (bool \<times> CanMsg list \<times> 'w SocketCanClient) option" where
  "SocketCanClient_recv ops frames frame_num c =
     (if \<not> so_started c then Some (False, frames, c)
      else if frame_num \<le> 0 then Some (False, frames, c)
      else if MAX_CAN_RECV_FRAME_LEN < frame_num then Some (False, frames, c)
      else so_recv_loop ops 0 (nat frame_num) frames c)"

section \<open>The contract\<close>

definition so_ok :: "'w SocketCanClient \<Rightarrow> bool" where
  "so_ok c \<longleftrightarrow> length (so_send_frames c) = 10 \<and> length (so_recv_frames c) = 10"

text \<open>What no call changes: whether the client is started and the sizes of its arrays.\<close>

definition so_same :: "'w SocketCanClient \<Rightarrow> 'w SocketCanClient \<Rightarrow> bool" where
  "so_same c c' \<longleftrightarrow>
     so_started c' = so_started c \<and> length (so_send_frames c') = length (so_send_frames c) \<and>
     length (so_recv_frames c') = length (so_recv_frames c)"

lemma so_same_refl [simp]:
  "so_same c c" "so_same c (c\<lparr>so_device := w\<rparr>)" "so_same c (c\<lparr>so_dev_handler := h\<rparr>)"
  "so_same c (c\<lparr>so_send_frames := (so_send_frames c)[i := f]\<rparr>)"
  "so_same c (c\<lparr>so_recv_frames := (so_recv_frames c)[i := f]\<rparr>)"
  by (simp_all add: so_same_def)

lemma so_same_trans: "so_same c d \<Longrightarrow> so_same d e \<Longrightarrow> so_same c e"
  by (simp add: so_same_def)

lemma so_same_ok: "so_same c c' \<Longrightarrow> so_ok c' \<longleftrightarrow> so_ok c"
  by (simp add: so_same_def so_ok_def)

lemma so_same_started: "so_same c c' \<Longrightarrow> so_started c' \<longleftrightarrow> so_started c"
  by (simp add: so_same_def)

lemma so_call_same: "so_call f c = (a, c') \<Longrightarrow> so_same c c'"
  by (auto simp: so_call_def split: prod.splits)

lemma so_call_started: "so_call f c = (a, c') \<Longrightarrow> so_started c' = so_started c"
  by (rule so_same_started [OF so_call_same])

text \<open>One frame sent and one frame read, as steps of the two loops.\<close>

lemma so_send_loop_step:
  obtains (overrun) "so_send_loop ops i (m # ms) c = None"
      "length (so_send_frames c) \<le> i \<or> 8 < unat (cm_dlc m)"
  | (written) f r c' where "Option.bind (array_at (so_send_frames c) i) (fill_frame m) = Some f"
      "so_call (op_write ops (so_dev_handler c) f) (c\<lparr>so_send_frames := (so_send_frames c)[i := f]\<rparr>) = (r, c')"
      "so_same c c'" "unat (cm_dlc m) \<le> 8" "i < length (so_send_frames c)"
      "so_send_loop ops i (m # ms) c = (if r < 0 then Some (False, c') else so_send_loop ops (Suc i) ms c')"
proof (cases "Option.bind (array_at (so_send_frames c) i) (fill_frame m)")
  case None
  then show thesis
    by (intro overrun) (auto simp: array_at_def fill_frame_def copy_data_def split: if_splits)
next
  case (Some f)
  obtain r c' where c': "so_call (op_write ops (so_dev_handler c) f)
      (c\<lparr>so_send_frames := (so_send_frames c)[i := f]\<rparr>) = (r, c')" by (metis surj_pair)
  show thesis
  proof (rule written [OF Some c'])
    show "so_same c c'" using so_same_trans [OF so_same_refl(4) so_call_same [OF c']] .
    show "unat (cm_dlc m) \<le> 8" "i < length (so_send_frames c)"
      using Some by (auto simp: array_at_def fill_frame_def copy_data_def split: if_splits)
    show "so_send_loop ops i (m # ms) c = (if r < 0 then Some (False, c') else so_send_loop ops (Suc i) ms c')"
      using Some c' by (simp add: Let_def)
  qed
qed

lemma so_recv_loop_step:
  obtains (beyond) "so_recv_loop ops i (Suc n) fs c = None" "length (so_recv_frames c) \<le> i"
  | (failed) r f c' where "op_read ops (so_dev_handler c) (so_recv_frames c ! i) (so_device c) = ((r, f), so_device c')"
      "r < 0" "so_same c c'" "so_recv_loop ops i (Suc n) fs c = Some (False, fs, c')"
  | (overrun) r f w where "op_read ops (so_dev_handler c) (so_recv_frames c ! i) (so_device c) = ((r, f), w)"
      "0 \<le> r" "8 < unat (can_dlc f)" "so_recv_loop ops i (Suc n) fs c = None"
  | (received) r f w now m c' where
      "op_read ops (so_dev_handler c) (so_recv_frames c ! i) (so_device c) = ((r, f), w)" "0 \<le> r"
      "op_now ops w = (now, so_device c')" "unat (can_dlc f) \<le> 8" "i < length (so_recv_frames c)" "so_same c c'"
      "m = CanMsg_init\<lparr>cm_stamp := now, cm_id := can_id f, cm_dlc := can_dlc f,
         cm_data := take (unat (can_dlc f)) (can_data f) @ drop (unat (can_dlc f)) (cm_data CanMsg_init)\<rparr>"
      "so_recv_loop ops i (Suc n) fs c = so_recv_loop ops (Suc i) n (fs @ [m]) c'"
proof (cases "i < length (so_recv_frames c)")
  case False
  then show thesis by (intro beyond) (simp_all add: array_at_def)
next
  case inside: True
  obtain r f w where rd: "op_read ops (so_dev_handler c) (so_recv_frames c ! i) (so_device c) = ((r, f), w)"
    by (metis surj_pair)
  obtain now w' where nw: "op_now ops w = (now, w')" by (metis surj_pair)
  let ?c1 = "c\<lparr>so_device := w, so_recv_frames := (so_recv_frames c)[i := f]\<rparr>"
  show thesis
  proof (cases "r < 0")
    case True
    then show thesis
      using inside rd by (intro failed [of r f ?c1]) (simp_all add: array_at_def so_call_def so_same_def)
  next
    case False
    show thesis
    proof (cases "unat (can_dlc f) \<le> 8")
      case True
      then show thesis
        using inside rd nw False
        by (intro received [OF rd _ _ True inside, of now "?c1\<lparr>so_device := w'\<rparr>", OF _ _ _ refl])
          (simp_all add: array_at_def so_call_def copy_data_def so_same_def Let_def)
    qed (use inside rd nw False in \<open>intro overrun [OF rd], simp_all add: array_at_def so_call_def copy_data_def Let_def\<close>)
  qed
qed

declare so_send_loop.simps(2) [simp del] so_recv_loop.simps(2) [simp del]

lemma so_send_loop_same: "so_send_loop ops i ms c = Some (b, c') \<Longrightarrow> so_same c c'"
proof (induction ms arbitrary: i c)
  case (Cons m ms)
  from Cons.prems show ?case
    by (cases rule: so_send_loop_step [of ops i m ms c])
      (auto split: if_splits dest: Cons.IH so_same_trans)
qed simp

lemma so_recv_loop_result:
  "so_recv_loop ops i n fs c = Some (b, fs', c') \<Longrightarrow>
   so_same c c' \<and> (\<exists>new. fs' = fs @ new \<and> length new \<le> n)"
proof (induction n arbitrary: i fs c)
  case (Suc n)
  show ?case
  proof (cases rule: so_recv_loop_step [of ops i n fs c])
    case (received r f w now m d)
    then have "so_recv_loop ops (Suc i) n (fs @ [m]) d = Some (b, fs', c')" using Suc.prems by simp
    from Suc.IH [OF this] received(6) show ?thesis by (auto intro: so_same_trans)
  qed (use Suc.prems in auto)
qed simp

interpretation socket: can_client so_started "SocketCanClient_init ops" "SocketCanClient_stop ops"
  "SocketCanClient_send ops" "SocketCanClient_recv ops" for ops :: "'w SocketOps"
proof
  fix c c' :: "'w SocketCanClient" and b fs fs' n
  show "SocketCanClient_init ops c = (b, c') \<Longrightarrow> so_started c' \<longleftrightarrow> b"
    by (auto simp: SocketCanClient_init_def Let_def split: prod.splits if_splits dest!: so_call_started)
  show "so_started c \<Longrightarrow> SocketCanClient_init ops c = (True, c)"
    by (simp add: SocketCanClient_init_def)
  show "\<not> so_started (SocketCanClient_stop ops c)"
    by (auto simp: SocketCanClient_stop_def Let_def split: prod.splits dest!: so_call_started)
  show "\<not> so_started c \<Longrightarrow> SocketCanClient_stop ops c = c"
    by (simp add: SocketCanClient_stop_def)
  show "\<not> so_started c \<Longrightarrow> SocketCanClient_send ops fs n c = Some (False, c)"
    by (simp add: SocketCanClient_send_def)
  show "SocketCanClient_send ops fs n c = Some (b, c') \<Longrightarrow> so_started c' \<longleftrightarrow> so_started c"
    by (auto simp: SocketCanClient_send_def so_same_def split: if_splits dest!: so_send_loop_same)
  show "\<not> so_started c \<Longrightarrow> SocketCanClient_recv ops fs n c = Some (False, fs, c)"
    by (simp add: SocketCanClient_recv_def)
  show "SocketCanClient_recv ops fs n c = Some (b, fs', c') \<Longrightarrow> so_started c' \<longleftrightarrow> so_started c"
    by (auto simp: SocketCanClient_recv_def so_same_def split: if_splits dest!: so_recv_loop_result)
  show "SocketCanClient_recv ops fs n c = Some (b, fs', c') \<Longrightarrow> \<exists>new. fs' = fs @ new"
    by (auto simp: SocketCanClient_recv_def so_same_def split: if_splits dest!: so_recv_loop_result)
  show "SocketCanClient_recv ops [] n c = Some (b, fs, c') \<Longrightarrow> length fs \<le> 10"
    by (auto simp: SocketCanClient_recv_def MAX_CAN_RECV_FRAME_LEN_def split: if_splits dest!: so_recv_loop_result)
qed

section \<open>The bounds of the arrays\<close>

lemma to_decimal_length: "n < 10 ^ Suc k \<Longrightarrow> length (to_decimal n) \<le> Suc k"
proof (induction k arbitrary: n)
  case (Suc k)
  show ?case
  proof (cases "n < 10")
    case False
    then have "length (to_decimal (n div 10)) \<le> Suc k" using Suc.prems by (intro Suc.IH) simp
    then show ?thesis using False by (subst to_decimal.simps) simp
  qed (subst to_decimal.simps, simp)
qed (subst to_decimal.simps, simp)

text \<open>\<open>strcpy\<close> into \<open>ifr_name\<close>: at most fifteen characters and the final zero.\<close>

lemma interface_name_fits: "length (interface_name i n) < 16"
proof -
  have "unat n < 2 ^ 32" using unsigned_less [of n] by simp
  then have "unat n < 10 ^ Suc 9" by simp
  then have "length (to_decimal (unat n)) \<le> 10" using to_decimal_length [of "unat n" 9] by simp
  then show ?thesis by (simp add: interface_name_def)
qed

definition classical_reads :: "'w SocketOps \<Rightarrow> bool" where
  "classical_reads ops \<longleftrightarrow> (\<forall>h b w. unat (can_dlc (snd (fst (op_read ops h b w)))) \<le> 8)"

lemma so_recv_loop_defined:
  "classical_reads ops \<Longrightarrow> i + n \<le> length (so_recv_frames c) \<Longrightarrow> so_recv_loop ops i n fs c \<noteq> None"
proof (induction n arbitrary: i fs c)
  case (Suc n)
  show ?case
  proof (cases rule: so_recv_loop_step [of ops i n fs c])
    case (overrun r f w)
    have "unat (can_dlc (snd (fst (op_read ops (so_dev_handler c) (so_recv_frames c ! i) (so_device c))))) \<le> 8"
      using Suc.prems(1) by (simp add: classical_reads_def)
    then show ?thesis using overrun by simp
  next
    case (received r f w now m c')
    then have "Suc i + n \<le> length (so_recv_frames c')" using Suc.prems(2) by (simp add: so_same_def)
    from Suc.IH [OF Suc.prems(1) this] received(8) show ?thesis by simp
  qed (use Suc.prems in auto)
qed simp

lemma so_send_loop_defined:
  "list_all (\<lambda>m. unat (cm_dlc m) \<le> 8) ms \<Longrightarrow> i + length ms \<le> length (so_send_frames c) \<Longrightarrow>
   so_send_loop ops i ms c \<noteq> None"
proof (induction ms arbitrary: i c)
  case (Cons m ms)
  show ?case
  proof (cases rule: so_send_loop_step [of ops i m ms c])
    case (written f r c')
    then have "Suc i + length ms \<le> length (so_send_frames c')" using Cons.prems(2) by (simp add: so_same_def)
    then have "so_send_loop ops (Suc i) ms c' \<noteq> None" using Cons.IH Cons.prems(1) by simp
    then show ?thesis using written(6) by (simp del: not_None_eq)
  qed (use Cons.prems in auto)
qed simp

text \<open>The clients that the driver can have: any calls after the constructor, as long as they are defined.\<close>

inductive so_reachable :: "'w SocketOps \<Rightarrow> 'w SocketCanClient \<Rightarrow> bool" for ops where
  so_new: "so_reachable ops (SocketCanClient_new channel_id interface w)"
| so_init: "so_reachable ops c \<Longrightarrow> SocketCanClient_init ops c = (b, c') \<Longrightarrow> so_reachable ops c'"
| so_stop: "so_reachable ops c \<Longrightarrow> so_reachable ops (SocketCanClient_stop ops c)"
| so_send: "so_reachable ops c \<Longrightarrow> SocketCanClient_send ops fs n c = Some (b, c') \<Longrightarrow> so_reachable ops c'"
| so_recv: "so_reachable ops c \<Longrightarrow> SocketCanClient_recv ops fs n c = Some (b, fs', c') \<Longrightarrow> so_reachable ops c'"

lemma so_call_ok: "so_call f c = (a, c') \<Longrightarrow> so_ok c' \<longleftrightarrow> so_ok c"
  by (rule so_same_ok [OF so_call_same])

lemma so_ok_updates [simp]:
  "so_ok (c\<lparr>so_dev_handler := h\<rparr>) \<longleftrightarrow> so_ok c" "so_ok (c\<lparr>so_started := b\<rparr>) \<longleftrightarrow> so_ok c"
  by (simp_all add: so_ok_def)

lemma so_reachable_ok: "so_reachable ops c \<Longrightarrow> so_ok c"
proof (induction rule: so_reachable.induct)
  case (so_new channel_id interface w)
  show ?case by (simp add: so_ok_def SocketCanClient_new_def)
next
  case (so_init c b c')
  then show ?case
    by (auto simp: SocketCanClient_init_def Let_def split: prod.splits if_splits dest!: so_call_ok)
next
  case (so_stop c)
  then show ?case by (auto simp: SocketCanClient_stop_def Let_def split: prod.splits dest!: so_call_ok)
next
  case (so_send c fs n b c')
  then show ?case
    by (auto simp: SocketCanClient_send_def split: if_splits dest!: so_send_loop_same so_same_ok)
next
  case (so_recv c fs n b fs' c')
  then show ?case
    by (auto simp: SocketCanClient_recv_def split: if_splits dest!: so_recv_loop_result so_same_ok)
qed

lemma socket_send_defined:
  assumes "so_ok c" "\<forall>m\<in>set fs. unat (cm_dlc m) \<le> 8"
  shows "SocketCanClient_send ops fs n c \<noteq> None"
proof -
  have "so_send_loop ops 0 (take (nat n) fs) c \<noteq> None" if "\<not> 10 < n"
    by (rule so_send_loop_defined) (use assms that in \<open>auto simp: list_all_iff so_ok_def dest: in_set_takeD\<close>)
  then show ?thesis by (simp add: SocketCanClient_send_def MAX_CAN_SEND_FRAME_LEN_def del: not_None_eq)
qed

lemma socket_recv_defined:
  assumes "so_ok c" "classical_reads ops"
  shows "SocketCanClient_recv ops fs n c \<noteq> None"
proof (cases "so_started c \<and> 0 < n \<and> n \<le> 10")
  case True
  then have "SocketCanClient_recv ops fs n c = so_recv_loop ops 0 (nat n) fs c"
    by (simp add: SocketCanClient_recv_def MAX_CAN_RECV_FRAME_LEN_def)
  moreover have "so_recv_loop ops 0 (nat n) fs c \<noteq> None"
    by (rule so_recv_loop_defined [OF assms(2)]) (use assms(1) True in \<open>simp add: so_ok_def nat_le_iff\<close>)
  ultimately show ?thesis by simp
next
  case False
  then have "SocketCanClient_recv ops fs n c = Some (False, fs, c)"
    by (auto simp: SocketCanClient_recv_def MAX_CAN_RECV_FRAME_LEN_def)
  then show ?thesis by simp
qed

text \<open>
  C26: Whatever was called before and whatever number of frames is asked for, the socket client stays inside its
  two arrays of ten frames and inside the eight bytes of a frame, unless a length code above eight
  is involved: sending runs out of an array only when some message has one, and does so when the
  only message has; receiving never does as long as no frame read has one, and does when the
  first frame has, as a flexible-data-rate frame may.
\<close>

theorem socket_array_bounds:
  assumes "so_reachable ops c"
  shows "(SocketCanClient_send ops fs n c = None \<longrightarrow> (\<exists>m\<in>set fs. 8 < unat (cm_dlc m))) \<and>
    (so_started c \<longrightarrow> (SocketCanClient_send ops [m] 1 c = None \<longleftrightarrow> 8 < unat (cm_dlc m))) \<and>
    (classical_reads ops \<longrightarrow> SocketCanClient_recv ops fs n c \<noteq> None) \<and>
    (so_started c \<and> 0 < n \<and> n \<le> 10 \<longrightarrow>
       fst (op_read ops (so_dev_handler c) (so_recv_frames c ! 0) (so_device c)) = (r, f) \<longrightarrow>
       0 \<le> r \<longrightarrow> 8 < unat (can_dlc f) \<longrightarrow> SocketCanClient_recv ops fs n c = None)"
proof (intro conjI impI)
  have ok: "so_ok c" by (rule so_reachable_ok [OF assms])
  show "\<exists>m\<in>set fs. 8 < unat (cm_dlc m)" if "SocketCanClient_send ops fs n c = None"
    using socket_send_defined [OF ok, of fs ops n] that by (meson not_le)
  show "SocketCanClient_send ops [m] 1 c = None \<longleftrightarrow> 8 < unat (cm_dlc m)" if "so_started c"
  proof -
    have "SocketCanClient_send ops [m] 1 c = so_send_loop ops 0 [m] c"
      using that by (simp add: SocketCanClient_send_def size_i32_small MAX_CAN_SEND_FRAME_LEN_def)
    then show ?thesis
      using ok by (cases rule: so_send_loop_step [of ops 0 m "[]" c]) (auto simp: so_ok_def)
  qed
  show "SocketCanClient_recv ops fs n c \<noteq> None" if "classical_reads ops"
    by (rule socket_recv_defined [OF ok that])
  show "SocketCanClient_recv ops fs n c = None" if "so_started c \<and> 0 < n \<and> n \<le> 10"
    "fst (op_read ops (so_dev_handler c) (so_recv_frames c ! 0) (so_device c)) = (r, f)"
    "0 \<le> r" "8 < unat (can_dlc f)"
  proof -
    have "SocketCanClient_recv ops fs n c = so_recv_loop ops 0 (nat n) fs c"
      using that(1) by (simp add: SocketCanClient_recv_def MAX_CAN_RECV_FRAME_LEN_def)
    moreover have "nat n = Suc (nat (n - 1))" using that(1) by linarith
    moreover have "so_recv_loop ops 0 (Suc (nat (n - 1))) fs c = None"
      by (cases rule: so_recv_loop_step [of ops 0 "nat (n - 1)" fs c]) (use that in auto)
    ultimately show ?thesis by metis
  qed
qed

section \<open>Two drivers on a bus\<close>

text \<open>
  What SocketCAN documents of a raw socket. Sending: a write fails, or puts its frame on the bus behind those
  before; \<open>sent\<close> are the frames that the device has put there.
\<close>

definition bus_writes :: "'v SocketOps \<Rightarrow> ('v \<Rightarrow> can_frame list) \<Rightarrow> bool" where
  "bus_writes ops sent \<longleftrightarrow>
     (\<forall>h f v. sent (snd (op_write ops h f v)) = (if fst (op_write ops h f v) < 0 then sent v else sent v @ [f]))"

text \<open>
  Receiving: \<open>traffic\<close> are the frames that pass by on the bus from now on and that this socket has not taken yet.
  A new socket takes every frame, a filter \<open>(i, m)\<close> only those with \<open>can_id AND m = i AND m\<close>. The socket is
  not opened with \<open>O_NONBLOCK\<close>: a read waits for the next frame that passes its filter and takes
  it, or fails and takes none. Nothing is said of a read when no such frame ever comes, for it
  does not return.
\<close>

definition passes :: "u32 \<times> u32 \<Rightarrow> can_frame \<Rightarrow> bool" where
  "passes flt f \<longleftrightarrow> can_id f AND snd flt = fst flt AND snd flt"

definition raw_socket ::
  "'w SocketOps \<Rightarrow> ('w \<Rightarrow> u32 \<times> u32) \<Rightarrow> ('w \<Rightarrow> can_frame list) \<Rightarrow> bool" where
  "raw_socket ops flt traffic \<longleftrightarrow>
     (\<forall>w. flt (snd (op_socket ops w)) = (0, 0) \<and> traffic (snd (op_socket ops w)) = traffic w) \<and>
     (\<forall>h i m w. traffic (snd (op_set_filter ops h i m w)) = traffic w \<and>
        (0 \<le> fst (op_set_filter ops h i m w) \<longrightarrow> flt (snd (op_set_filter ops h i m w)) = (i, m))) \<and>
     (\<forall>h w. flt (snd (op_set_fd_frames ops h w)) = flt w \<and> traffic (snd (op_set_fd_frames ops h w)) = traffic w) \<and>
     (\<forall>h n w. flt (snd (op_get_ifindex ops h n w)) = flt w \<and> traffic (snd (op_get_ifindex ops h n w)) = traffic w) \<and>
     (\<forall>h n w. flt (snd (op_bind ops h n w)) = flt w \<and> traffic (snd (op_bind ops h n w)) = traffic w) \<and>
     (\<forall>w. flt (snd (op_now ops w)) = flt w \<and> traffic (snd (op_now ops w)) = traffic w) \<and>
     (\<forall>h b w r f w' g q. op_read ops h b w = ((r, f), w') \<longrightarrow> filter (passes (flt w)) (traffic w) = g # q \<longrightarrow>
        flt w' = flt w \<and>
        (if r < 0 then filter (passes (flt w)) (traffic w') = g # q
         else f = g \<and> filter (passes (flt w)) (traffic w') = q))"

definition reads_succeed ::
  "'w SocketOps \<Rightarrow> ('w \<Rightarrow> u32 \<times> u32) \<Rightarrow> ('w \<Rightarrow> can_frame list) \<Rightarrow> bool" where
  "reads_succeed ops flt traffic \<longleftrightarrow>
     (\<forall>h b w. filter (passes (flt w)) (traffic w) \<noteq> [] \<longrightarrow> 0 \<le> fst (fst (op_read ops h b w)))"

definition writes_succeed :: "'v SocketOps \<Rightarrow> bool" where
  "writes_succeed ops \<longleftrightarrow> (\<forall>h f v. 0 \<le> fst (op_write ops h f v))"

abbreviation pending :: "('w \<Rightarrow> u32 \<times> u32) \<Rightarrow> ('w \<Rightarrow> can_frame list) \<Rightarrow> 'w SocketCanClient \<Rightarrow> can_frame list" where
  "pending flt traffic c \<equiv> filter (passes (flt (so_device c))) (traffic (so_device c))"

type_synonym frame_view = "u32 \<times> u8 \<times> bytes"

definition msg_view :: "CanMsg \<Rightarrow> frame_view" where
  "msg_view m = (cm_id m, cm_dlc m, take (unat (cm_dlc m)) (cm_data m))"

definition frame_view :: "can_frame \<Rightarrow> frame_view" where
  "frame_view f = (can_id f, can_dlc f, take (unat (can_dlc f)) (can_data f))"

definition valid_msg :: "CanMsg \<Rightarrow> bool" where
  "valid_msg m \<longleftrightarrow> unat (cm_dlc m) \<le> 8 \<and> length (cm_data m) = 8"

abbreviation short_frames :: "can_frame list \<Rightarrow> bool" where
  "short_frames fs \<equiv> list_all (\<lambda>f. unat (can_dlc f) \<le> 8 \<and> length (can_data f) \<ge> unat (can_dlc f)) fs"

subsection \<open>The sending driver\<close>

lemma send_one:
  assumes "bus_writes ops sent" "so_ok c" "so_started c" "valid_msg m"
  obtains b c' f where "SocketCanClient_send ops [m] (size_i32 [m]) c = Some (b, c')" "so_same c c'"
    "frame_view f = msg_view m" "short_frames [f]" "writes_succeed ops \<longrightarrow> b"
    "sent (so_device c') = sent (so_device c) @ (if b then [f] else [])"
proof -
  have v: "unat (cm_dlc m) \<le> 8" "length (cm_data m) = 8" using assms(4) by (simp_all add: valid_msg_def)
  have s: "SocketCanClient_send ops [m] (size_i32 [m]) c = so_send_loop ops 0 [m] c"
    using assms(3) by (simp add: SocketCanClient_send_def size_i32_small MAX_CAN_SEND_FRAME_LEN_def)
  show thesis
  proof (cases rule: so_send_loop_step [of ops 0 m "[]" c])
    case overrun
    then show thesis using v(1) assms(2) by (simp add: so_ok_def)
  next
    case (written f r c')
    then have f: "frame_view f = msg_view m" "short_frames [f]"
      using v by (auto simp: array_at_def fill_frame_def copy_data_def frame_view_def msg_view_def split: if_splits)
    have w: "op_write ops (so_dev_handler c) f (so_device c) = (r, so_device c')"
      using written(2) by (auto simp: so_call_def split: prod.splits)
    have "sent (snd (op_write ops (so_dev_handler c) f (so_device c))) =
        (if fst (op_write ops (so_dev_handler c) f (so_device c)) < 0 then sent (so_device c)
         else sent (so_device c) @ [f])"
      using assms(1) unfolding bus_writes_def by blast
    then have "sent (so_device c') = sent (so_device c) @ (if \<not> r < 0 then [f] else [])" by (simp add: w)
    moreover have "0 \<le> fst (op_write ops (so_dev_handler c) f (so_device c))" if "writes_succeed ops"
      using that unfolding writes_succeed_def by blast
    then have "writes_succeed ops \<longrightarrow> \<not> r < 0" unfolding w fst_conv by linarith
    moreover have "SocketCanClient_send ops [m] (size_i32 [m]) c = Some (\<not> r < 0, c')"
      unfolding s written(6) by simp
    ultimately show thesis using that [OF _ written(3) f] by blast
  qed
qed

text \<open>The messages that arrive at the subscription, one after the other.\<close>

fun send_all :: "'w SocketOps \<Rightarrow> CanMsg list \<Rightarrow> 'w SocketCanClient CanDriver \<Rightarrow> 'w SocketCanClient CanDriver option" where
  "send_all ops [] d = Some d"
| "send_all ops (m # ms) d =
     (case on_can_rx (SocketCanClient_send ops) m d of None \<Rightarrow> None | Some d \<Rightarrow> send_all ops ms d)"

lemma send_all_bus:
  assumes "bus_writes ops sent" "so_ok (driver_client d)" "so_started (driver_client d)" "list_all valid_msg ms"
  shows "\<exists>d' fs. send_all ops ms d = Some d' \<and> short_frames fs \<and> subseq (map frame_view fs) (map msg_view ms) \<and>
    (writes_succeed ops \<longrightarrow> map frame_view fs = map msg_view ms) \<and>
    sent (so_device (driver_client d')) = sent (so_device (driver_client d)) @ fs"
  using assms(2-4)
proof (induction ms arbitrary: d)
  case (Cons m ms)
  have "valid_msg m" using Cons.prems(3) by simp
  obtain b c' f where s:
    "SocketCanClient_send ops [m] (size_i32 [m]) (driver_client d) = Some (b, c')" "so_same (driver_client d) c'"
    "frame_view f = msg_view m" "short_frames [f]" "writes_succeed ops \<longrightarrow> b"
    "sent (so_device c') = sent (so_device (driver_client d)) @ (if b then [f] else [])"
    by (rule send_one [OF assms(1) Cons.prems(1,2) \<open>valid_msg m\<close>])
  have "so_ok c'" "so_started c'" "list_all valid_msg ms"
    using Cons.prems so_same_ok [OF s(2)] so_same_started [OF s(2)] by simp_all
  then obtain d' fs where r: "send_all ops ms (d\<lparr>driver_client := c'\<rparr>) = Some d'" "short_frames fs"
    "subseq (map frame_view fs) (map msg_view ms)" "writes_succeed ops \<longrightarrow> map frame_view fs = map msg_view ms"
    "sent (so_device (driver_client d')) = sent (so_device c') @ fs"
    using Cons.IH [of "d\<lparr>driver_client := c'\<rparr>"] by auto
  show ?case
    by (rule exI [of _ d'], rule exI [of _ "(if b then [f] else []) @ fs"])
      (use r s in \<open>auto simp: on_can_rx_def\<close>)
qed simp

subsection \<open>The receiving driver\<close>

lemma read_pending:
  assumes "raw_socket ops flt traffic" "op_read ops h b w = ((r, f), w')" "filter (passes (flt w)) (traffic w) = g # q"
  shows "flt w' = flt w"
    "filter (passes (flt w)) (traffic w') = (if r < 0 then g # q else q)" "0 \<le> r \<Longrightarrow> f = g"
  using assms unfolding raw_socket_def by (metis not_less)+

lemma now_pending:
  assumes "raw_socket ops flt traffic" "op_now ops w = (now, w')"
  shows "flt w' = flt w" "traffic w' = traffic w"
  using assms unfolding raw_socket_def by (metis snd_conv)+

text \<open>The loop takes the next frames; with reads that succeed, as many as it is asked for.\<close>

lemma recv_loop_socket:
  assumes "raw_socket ops flt traffic"
  shows "i + n \<le> length (so_recv_frames c) \<Longrightarrow> n \<le> length (pending flt traffic c) \<Longrightarrow>
    short_frames (pending flt traffic c) \<Longrightarrow>
    \<exists>b new c'. so_recv_loop ops i n fs c = Some (b, fs @ new, c') \<and> so_same c c' \<and> length new \<le> n \<and>
      (reads_succeed ops flt traffic \<longrightarrow> length new = n) \<and>
      map msg_view new = map frame_view (take (length new) (pending flt traffic c)) \<and>
      pending flt traffic c' = drop (length new) (pending flt traffic c)"
proof (induction n arbitrary: i fs c)
  case (Suc n)
  obtain g q where gq: "pending flt traffic c = g # q" using Suc.prems(2) by (cases "pending flt traffic c") auto
  show ?case
  proof (cases rule: so_recv_loop_step [of ops i n fs c])
    case beyond
    then show ?thesis using Suc.prems(1) by simp
  next
    case (failed r f c')
    note rd = read_pending [OF assms failed(1) gq]
    have "\<not> reads_succeed ops flt traffic" using failed(1,2) gq unfolding reads_succeed_def by (metis fst_conv list.distinct(1) not_less)
    moreover have "pending flt traffic c' = g # q" using rd failed(2) by simp
    ultimately show ?thesis using failed gq by (intro exI [of _ False] exI [of _ "[]"] exI [of _ c']) simp
  next
    case (overrun r f w)
    then show ?thesis using read_pending(3) [OF assms overrun(1) gq] Suc.prems(3) gq by simp
  next
    case (received r f w now m c')
    note rd = read_pending [OF assms received(1) gq] and nw = now_pending [OF assms received(3)]
    have p: "pending flt traffic c' = q" using rd nw received(2) by simp
    have k: "f = g" "unat (can_dlc f) \<le> length (can_data f)" "short_frames q"
      using rd(3) received(2) Suc.prems(3) gq by simp_all
    have "Suc i + n \<le> length (so_recv_frames c')" using received(6) Suc.prems(1) by (simp add: so_same_def)
    moreover have "n \<le> length (pending flt traffic c')" "short_frames (pending flt traffic c')"
      using p gq k(3) Suc.prems(2) by simp_all
    ultimately obtain b new d where n: "so_recv_loop ops (Suc i) n (fs @ [m]) c' = Some (b, (fs @ [m]) @ new, d)"
      "so_same c' d" "length new \<le> n" "reads_succeed ops flt traffic \<longrightarrow> length new = n"
      "map msg_view new = map frame_view (take (length new) (pending flt traffic c'))"
      "pending flt traffic d = drop (length new) (pending flt traffic c')"
      using Suc.IH [of "Suc i" c' "fs @ [m]"] by blast
    have "msg_view m = frame_view f"
      using k(2) by (simp add: received(7) msg_view_def frame_view_def)
    then show ?thesis
      using n p gq k(1) received(8) so_same_trans [OF received(6) n(2)]
      by (intro exI [of _ b] exI [of _ "m # new"] exI [of _ d]) simp
  qed
qed auto

lemma rx_pass_socket:
  assumes "raw_socket ops flt traffic" "so_ok (driver_client d)" "so_started (driver_client d)"
    and "10 \<le> length (pending flt traffic (driver_client d))" "short_frames (pending flt traffic (driver_client d))"
  obtains d' j where "rx_pass (SocketCanClient_recv ops) [] d = Some ([], d')"
    "so_same (driver_client d) (driver_client d')" "j \<le> 10" "reads_succeed ops flt traffic \<longrightarrow> j = 10"
    "pending flt traffic (driver_client d') = drop j (pending flt traffic (driver_client d))"
    "map msg_view (driver_published d') =
      map msg_view (driver_published d) @ map frame_view (take j (pending flt traffic (driver_client d)))"
proof -
  have "0 + 10 \<le> length (so_recv_frames (driver_client d))" using assms(2) by (simp add: so_ok_def)
  from recv_loop_socket [OF assms(1) this assms(4,5), of "[]"] obtain b new c' where r:
    "so_recv_loop ops 0 10 [] (driver_client d) = Some (b, new, c')" "so_same (driver_client d) c'"
    "length new \<le> 10" "reads_succeed ops flt traffic \<longrightarrow> length new = 10"
    "map msg_view new = map frame_view (take (length new) (pending flt traffic (driver_client d)))"
    "pending flt traffic c' = drop (length new) (pending flt traffic (driver_client d))"
    unfolding append_Nil by blast
  have v: "map msg_view (map (with_frame_id fid) ms) = map msg_view ms" for fid ms
    by (simp add: with_frame_id_def msg_view_def)
  have rc: "SocketCanClient_recv ops [] MAX_CAN_RECV_FRAME_LEN (driver_client d) = Some (b, new, c')"
    using assms(3) r(1) by (simp add: SocketCanClient_recv_def MAX_CAN_RECV_FRAME_LEN_def)
  show thesis
    by (rule that [of "d\<lparr>driver_client := c', driver_published := driver_published d @
          map (with_frame_id (driver_frame_id d)) new\<rparr>" "length new"])
      (use rc r(2-6) v in \<open>simp_all add: rx_pass_def Let_def del: map_map\<close>)
qed

lemma rx_thread_socket:
  assumes "raw_socket ops flt traffic"
  shows "so_ok (driver_client d) \<Longrightarrow> so_started (driver_client d) \<Longrightarrow>
    10 * k \<le> length (pending flt traffic (driver_client d)) \<Longrightarrow>
    short_frames (pending flt traffic (driver_client d)) \<Longrightarrow>
    \<exists>d' j. can_rx_thread_callback (SocketCanClient_recv ops) (replicate k True) [] d = Some ([], d') \<and>
      j \<le> 10 * k \<and> (reads_succeed ops flt traffic \<longrightarrow> j = 10 * k) \<and>
      map msg_view (driver_published d') =
        map msg_view (driver_published d) @ map frame_view (take j (pending flt traffic (driver_client d)))"
proof (induction k arbitrary: d)
  case (Suc k)
  let ?p = "pending flt traffic (driver_client d)"
  have ten: "10 \<le> length ?p" using Suc.prems(3) by simp
  obtain d1 i where d1: "rx_pass (SocketCanClient_recv ops) [] d = Some ([], d1)"
    "so_same (driver_client d) (driver_client d1)" "i \<le> 10" "reads_succeed ops flt traffic \<longrightarrow> i = 10"
    "pending flt traffic (driver_client d1) = drop i ?p"
    "map msg_view (driver_published d1) = map msg_view (driver_published d) @ map frame_view (take i ?p)"
    by (rule rx_pass_socket [OF assms Suc.prems(1,2) ten Suc.prems(4)])
  have "short_frames (pending flt traffic (driver_client d1))"
    using Suc.prems(4) set_drop_subset [of i ?p] unfolding d1(5) by (auto simp: list_all_iff)
  moreover have "10 * k \<le> length (pending flt traffic (driver_client d1))"
    using Suc.prems(3) d1(3) unfolding d1(5) by simp
  moreover have "so_ok (driver_client d1)" "so_started (driver_client d1)"
    using Suc.prems(1,2) so_same_ok [OF d1(2)] so_same_started [OF d1(2)] by simp_all
  ultimately obtain d2 j where d2:
    "can_rx_thread_callback (SocketCanClient_recv ops) (replicate k True) [] d1 = Some ([], d2)"
    "j \<le> 10 * k" "reads_succeed ops flt traffic \<longrightarrow> j = 10 * k"
    "map msg_view (driver_published d2) = map msg_view (driver_published d1) @ map frame_view (take j (drop i ?p))"
    using Suc.IH [of d1] unfolding d1(5) by blast
  have "map frame_view (take i ?p) @ map frame_view (take j (drop i ?p)) = map frame_view (take (i + j) ?p)"
    by (simp only: take_add map_append)
  then have "map msg_view (driver_published d2) = map msg_view (driver_published d) @ map frame_view (take (i + j) ?p)"
    unfolding d2(4) d1(6) by (simp only: append_assoc)
  moreover have "can_rx_thread_callback (SocketCanClient_recv ops) (replicate (Suc k) True) [] d = Some ([], d2)"
    using d1(1) d2(1) by simp
  ultimately show ?case using d1(3,4) d2(2,3) by (intro exI [of _ d2] exI [of _ "i + j"]) simp
qed simp

text \<open>The filter that \<open>init\<close> leaves: all frames on a virtual interface, the eleven-bit identifiers on the others.\<close>

definition taken :: "u32 \<Rightarrow> can_frame \<Rightarrow> bool" where
  "taken interface f \<longleftrightarrow> interface = VIRTUAL \<or> can_id f AND CAN_ID_MASK = 0"

lemma so_call_snd: "so_call f c = (a, c') \<Longrightarrow> so_device c' = snd (f (so_device c)) \<and> a = fst (f (so_device c)) \<and>
    so_interface c' = so_interface c"
  by (auto simp: so_call_def split: prod.splits)

lemma init_filter:
  assumes raw: "raw_socket ops flt traffic"
    and init: "SocketCanClient_init ops (SocketCanClient_new channel_id interface w) = (True, c)"
  shows "traffic (so_device c) = traffic w"
    "flt (so_device c) = (if interface = VIRTUAL then (0, 0) else (0, CAN_ID_MASK))"
proof -
  let ?c0 = "SocketCanClient_new channel_id interface w"
  have c0: "so_device ?c0 = w" "\<not> so_started ?c0" "so_interface ?c0 = interface"
    by (simp_all add: SocketCanClient_new_def)
  have laws: "flt (snd (op_socket ops v)) = (0, 0)" "traffic (snd (op_socket ops v)) = traffic v"
    "traffic (snd (op_set_filter ops h i m v)) = traffic v"
    "0 \<le> fst (op_set_filter ops h i m v) \<Longrightarrow> flt (snd (op_set_filter ops h i m v)) = (i, m)"
    "flt (snd (op_set_fd_frames ops h v)) = flt v" "traffic (snd (op_set_fd_frames ops h v)) = traffic v"
    "flt (snd (op_get_ifindex ops h n v)) = flt v" "traffic (snd (op_get_ifindex ops h n v)) = traffic v"
    "flt (snd (op_bind ops h e v)) = flt v" "traffic (snd (op_bind ops h e v)) = traffic v" for v h i m n e
    using raw by (simp_all add: raw_socket_def)
  show "traffic (so_device c) = traffic w"
    "flt (so_device c) = (if interface = VIRTUAL then (0, 0) else (0, CAN_ID_MASK))"
    using init c0
    by (auto simp: SocketCanClient_init_def Let_def laws split: prod.splits if_splits dest!: so_call_snd)
qed

text \<open>
  C17: Two started drivers on a bus, the receiving one on a socket client of any interface, with what SocketCAN
  documents of a raw socket. The frames that the sender puts on the bus are, in order, those of
  the messages of its subscription whose write succeeded. Let \<open>more\<close> be the frames that follow them
  on the bus, and consider of all these the ones that the filter of the receiver lets through. As
  long as ten times \<open>k\<close> of them come, \<open>k\<close> passes of the receiving thread publish the first of them, each once,
  in their order, with the same identifier, length and data, and all ten times \<open>k\<close> when no read
  fails: frames are published in batches of ten, an incomplete one waits for later frames.
\<close>

theorem can_bus_delivery:
  assumes "bus_writes tx sent" "raw_socket rx flt traffic"
    and "so_reachable tx (driver_client d1)" "so_started (driver_client d1)"
    and "list_all valid_msg ms" "sent (so_device (driver_client d1)) = []"
    and "SocketCanClient_init rx (SocketCanClient_new channel_id interface w) = (True, driver_client d2)"
    and "10 * k \<le> length (filter (taken interface) (traffic w))"
  shows "\<exists>d1' fs. send_all tx ms d1 = Some d1' \<and> sent (so_device (driver_client d1')) = fs \<and>
     subseq (map frame_view fs) (map msg_view ms) \<and>
     (writes_succeed tx \<longrightarrow> map frame_view fs = map msg_view ms) \<and>
     (\<forall>more. traffic w = fs @ more \<longrightarrow> short_frames more \<longrightarrow>
       (\<exists>d2' j. can_rx_thread_callback (SocketCanClient_recv rx) (replicate k True) [] d2 = Some ([], d2') \<and>
          j \<le> 10 * k \<and> (reads_succeed rx flt traffic \<longrightarrow> j = 10 * k) \<and>
          map msg_view (driver_published d2') = map msg_view (driver_published d2) @
            map frame_view (take j (filter (taken interface) (fs @ more)))))"
proof -
  obtain d1' fs where s: "send_all tx ms d1 = Some d1'" "short_frames fs"
    "subseq (map frame_view fs) (map msg_view ms)" "writes_succeed tx \<longrightarrow> map frame_view fs = map msg_view ms"
    "sent (so_device (driver_client d1')) = fs"
    using send_all_bus [OF assms(1) so_reachable_ok [OF assms(3)] assms(4,5)] assms(6) by auto
  have p: "passes (flt (so_device (driver_client d2))) = taken interface"
    using init_filter(2) [OF assms(2,7)] by (auto simp: passes_def taken_def fun_eq_iff)
  have q: "pending flt traffic (driver_client d2) = filter (taken interface) (traffic w)"
    unfolding p using init_filter(1) [OF assms(2,7)] by simp
  have ok: "so_ok (driver_client d2)" "so_started (driver_client d2)"
    using so_reachable_ok [OF so_init [OF so_new assms(7)]] socket.init_started [OF assms(7)] by simp_all
  have "\<exists>d2' j. can_rx_thread_callback (SocketCanClient_recv rx) (replicate k True) [] d2 = Some ([], d2') \<and>
      j \<le> 10 * k \<and> (reads_succeed rx flt traffic \<longrightarrow> j = 10 * k) \<and>
      map msg_view (driver_published d2') = map msg_view (driver_published d2) @
        map frame_view (take j (filter (taken interface) (fs @ more)))"
    if "traffic w = fs @ more" "short_frames more" for more
  proof -
    have "short_frames (pending flt traffic (driver_client d2))"
      unfolding q that(1) using s(2) that(2) by (auto simp: list_all_iff)
    then show ?thesis
      using rx_thread_socket [OF assms(2) ok, of k] assms(8) unfolding q that(1) by blast
  qed
  then show ?thesis using s by blast
qed

text \<open>A device that keeps its filter and the traffic of the bus, and one that collects what it sends.\<close>

definition queue_ops :: "((u32 \<times> u32) \<times> can_frame list) SocketOps" where
  "queue_ops =
     \<lparr>op_socket = \<lambda>w. (3, ((0, 0), snd w)), op_set_filter = \<lambda>_ i m w. (0, ((i, m), snd w)),
      op_set_fd_frames = \<lambda>_ w. (0, w), op_get_ifindex = \<lambda>_ _ w. ((0, 1), w), op_bind = \<lambda>_ _ w. (0, w),
      op_close = \<lambda>_ w. (0, w), op_write = \<lambda>_ f w. (16, (fst w, snd w @ [f])),
      op_read = \<lambda>_ b w. (case dropWhile (\<lambda>f. \<not> passes (fst w) f) (snd w) of
         [] \<Rightarrow> ((- 1, b), w) | f # q \<Rightarrow> ((16, f), (fst w, q))),
      op_now = \<lambda>w. (0, w)\<rparr>"

lemma filter_dropWhile: "filter P xs = g # q \<Longrightarrow> \<exists>ys. dropWhile (\<lambda>x. \<not> P x) xs = g # ys \<and> filter P ys = q"
  by (induction xs) (auto split: if_splits)

lemma queue_ops_raw: "raw_socket queue_ops fst snd"
  by (auto simp: raw_socket_def queue_ops_def dest!: filter_dropWhile split: list.splits)

lemma queue_ops_writes: "bus_writes queue_ops snd"
  by (simp add: bus_writes_def queue_ops_def)

definition demo_msg :: "u32 \<Rightarrow> CanMsg" where
  "demo_msg i = CanMsg_init\<lparr>cm_id := i, cm_dlc := 2, cm_data := [7, 9, 0, 0, 0, 0, 0, 0]\<rparr>"

text \<open>A driver just started on a bus with the given traffic to come.\<close>

definition demo_driver :: "can_frame list \<Rightarrow> ((u32 \<times> u32) \<times> can_frame list) SocketCanClient CanDriver" where
  "demo_driver q =
     \<lparr>driver_client = snd (SocketCanClient_init queue_ops (SocketCanClient_new 0 NATIVE ((0, 0), q))),
      driver_frame_id = ''can'', driver_published = []\<rparr>"

lemma demo_driver_ready:
  "SocketCanClient_init queue_ops (SocketCanClient_new 0 NATIVE ((0, 0), q)) = (True, driver_client (demo_driver q))"
  "so_started (driver_client (demo_driver q))" "snd (so_device (driver_client (demo_driver q))) = q"
  "driver_published (demo_driver q) = []"
  by (simp_all add: demo_driver_def SocketCanClient_init_def SocketCanClient_new_def so_call_def queue_ops_def
      Let_def NATIVE_def VIRTUAL_def)

lemma demo_driver_reachable: "so_reachable queue_ops (driver_client (demo_driver q))"
  by (rule so_init [OF so_new demo_driver_ready(1)])

lemma views_taken:
  "map frame_view (filter (taken i) fs) = filter (\<lambda>v. i = VIRTUAL \<or> fst v AND CAN_ID_MASK = 0) (map frame_view fs)"
  by (simp add: filter_map comp_def taken_def [abs_def] frame_view_def)

text \<open>
  The sender sends a frame with a long identifier and ten with a short one; the receiver publishes the ten.
\<close>

theorem can_bus_delivery_witness:
  "\<exists>d1 d2. send_all queue_ops (demo_msg 0x800 # replicate 10 (demo_msg 0x101)) (demo_driver []) = Some d1 \<and>
     can_rx_thread_callback (SocketCanClient_recv queue_ops) [True] []
       (demo_driver (snd (so_device (driver_client d1)))) = Some ([], d2) \<and>
     map msg_view (driver_published d2) = replicate 10 (0x101, 2, [7, 9])"
proof -
  let ?ms = "demo_msg 0x800 # replicate 10 (demo_msg 0x101)"
  have valid: "list_all valid_msg ?ms" by (simp add: demo_msg_def valid_msg_def list_all_iff)
  have ok: "writes_succeed queue_ops" "reads_succeed queue_ops fst snd"
    by (auto simp: writes_succeed_def reads_succeed_def queue_ops_def filter_empty_conv split: list.split)
  note law = can_bus_delivery [OF queue_ops_writes queue_ops_raw demo_driver_reachable demo_driver_ready(2) valid
      demo_driver_ready(3) demo_driver_ready(1)]
  obtain d1 fs where d1: "send_all queue_ops ?ms (demo_driver []) = Some d1" "snd (so_device (driver_client d1)) = fs"
    "map frame_view fs = map msg_view ?ms"
    using law [of 0 "[]"] ok(1) by auto
  have view: "msg_view (demo_msg i) = (i, 2, [7, 9])" for i by (simp add: msg_view_def demo_msg_def)
  have ten: "map frame_view (filter (taken NATIVE) fs) = replicate 10 (0x101, 2, [7, 9])"
    unfolding views_taken d1(3) by (simp add: view NATIVE_def VIRTUAL_def CAN_ID_MASK_def)
  have "10 * 1 \<le> length (filter (taken NATIVE) fs)" using arg_cong [OF ten, of length] by simp
  then obtain d2 where "can_rx_thread_callback (SocketCanClient_recv queue_ops) (replicate 1 True) []
      (demo_driver fs) = Some ([], d2)"
    "map msg_view (driver_published d2) = map msg_view (driver_published (demo_driver fs)) @
       map frame_view (take 10 (filter (taken NATIVE) fs))"
    using law [of 1 fs] ok(2) d1(1,2) by fastforce
  then show ?thesis
    using d1(1,2) ten by (auto simp: demo_driver_ready(4) simp flip: take_map)
qed

theorem socket_array_bounds_witness:
  "SocketCanClient_send queue_ops [CanMsg_init\<lparr>cm_dlc := 9\<rparr>] 1 (driver_client (demo_driver [])) = None"
  using socket_array_bounds [OF demo_driver_reachable [of "[]"], of _ _ "CanMsg_init\<lparr>cm_dlc := 9\<rparr>"]
    demo_driver_ready(2) by simp

end
