(* ===== verification/Can_Cards.thy ===== *)
theory Can_Cards
  imports Can_Client
begin

text \<open>
  The clients of the vendors' cards: \<open>kvaser_can_client.hpp\<close>, \<open>esd_can_client.hpp\<close> and
  \<open>innodisk_can_client.hpp\<close>. The vendors' libraries are parameters, functions on a state of the device;
  their constants are those of the vendored headers. Each client is shown to keep the contract
  \<open>can_client\<close>.
\<close>

section \<open>Kvaser\<close>

record BusParams =
  bp_bitrate :: int
  bp_tseg1 :: u32
  bp_tseg2 :: u32
  bp_sjw :: u32

record 'w KvaserOps =
  kv_canInitializeLibrary :: "'w \<Rightarrow> 'w"
  kv_canOpenChannel :: "int \<Rightarrow> int \<Rightarrow> 'w \<Rightarrow> int \<times> 'w"
  kv_canTranslateBaud :: "int \<Rightarrow> 'w \<Rightarrow> (int \<times> BusParams) \<times> 'w"
  kv_canSetBusParams :: "int \<Rightarrow> BusParams \<Rightarrow> 'w \<Rightarrow> int \<times> 'w"
  kv_canBusOn :: "int \<Rightarrow> 'w \<Rightarrow> int \<times> 'w"
  kv_canClose :: "int \<Rightarrow> 'w \<Rightarrow> int \<times> 'w"
  kv_canWrite :: "int \<Rightarrow> int \<Rightarrow> bytes \<Rightarrow> u8 \<Rightarrow> int \<Rightarrow> 'w \<Rightarrow> int \<times> 'w"
  kv_canReadWait :: "int \<Rightarrow> bytes \<Rightarrow> int \<Rightarrow> 'w \<Rightarrow> (int \<times> int \<times> bytes \<times> u32) \<times> 'w"
  kv_now :: "'w \<Rightarrow> int \<times> 'w"

record 'w KvaserCanClient =
  kv_channel_id :: u32
  kv_baudrate :: u32
  kv_started :: bool
  kvaser_hnd :: int
  kv_send_buf :: bytes
  kv_recv_buf :: bytes
  kv_device :: 'w

definition canOK :: int where "canOK = 0"
definition canBITRATE_1M :: int where "canBITRATE_1M = - 1"
definition canBITRATE_500K :: int where "canBITRATE_500K = - 2"
definition canBITRATE_250K :: int where "canBITRATE_250K = - 3"
definition canBITRATE_125K :: int where "canBITRATE_125K = - 4"
definition canBITRATE_100K :: int where "canBITRATE_100K = - 5"
definition canBITRATE_62K :: int where "canBITRATE_62K = - 6"
definition canBITRATE_50K :: int where "canBITRATE_50K = - 7"
definition canBITRATE_83K :: int where "canBITRATE_83K = - 8"
definition canOPEN_EXCLUSIVE :: int where "canOPEN_EXCLUSIVE = 0x0008"
definition canOPEN_REQUIRE_EXTENDED :: int where "canOPEN_REQUIRE_EXTENDED = 0x0010"
definition canOPEN_ACCEPT_VIRTUAL :: int where "canOPEN_ACCEPT_VIRTUAL = 0x0020"
definition canMSG_STD :: int where "canMSG_STD = 0x0002"
definition canMSG_EXT :: int where "canMSG_EXT = 0x0004"

definition kv_call :: "('w \<Rightarrow> 'a \<times> 'w) \<Rightarrow> 'w KvaserCanClient \<Rightarrow> 'a \<times> 'w KvaserCanClient" where
  "kv_call f c = (case f (kv_device c) of (a, w) \<Rightarrow> (a, c\<lparr>kv_device := w\<rparr>))"

text \<open>The buffers are not initialised: their contents are arguments.\<close>

definition KvaserCanClient_new :: "u32 \<Rightarrow> u32 \<Rightarrow> bytes \<Rightarrow> bytes \<Rightarrow> 'w \<Rightarrow> 'w KvaserCanClient" where
  "KvaserCanClient_new channel_id bitrate sbuf rbuf w =
     \<lparr>kv_channel_id = channel_id, kv_baudrate = bitrate, kv_started = False, kvaser_hnd = - 1,
      kv_send_buf = sbuf, kv_recv_buf = rbuf, kv_device = w\<rparr>"

definition KvaserCanClient_stop :: "'w KvaserOps \<Rightarrow> 'w KvaserCanClient \<Rightarrow> 'w KvaserCanClient" where
  "KvaserCanClient_stop ops c =
     (if kv_started c then snd (kv_call (kv_canClose ops (kvaser_hnd c)) (c\<lparr>kv_started := False\<rparr>)) else c)"

definition kvaser_bitrate :: "int \<Rightarrow> int" where
  "kvaser_bitrate bitrate =
     (if 0 < bitrate then
        if bitrate = 1000000 then canBITRATE_1M
        else if bitrate = 500000 then canBITRATE_500K
        else if bitrate = 250000 then canBITRATE_250K
        else if bitrate = 125000 then canBITRATE_125K
        else if bitrate = 100000 then canBITRATE_100K
        else if bitrate = 83333 then canBITRATE_83K
        else if bitrate = 62500 then canBITRATE_62K
        else if bitrate = 50000 then canBITRATE_50K
        else - 100
      else bitrate)"

text \<open>The status of the translation and the values that the four variables then have.\<close>

definition calcBusParams :: "'w KvaserOps \<Rightarrow> int \<Rightarrow> 'w KvaserCanClient \<Rightarrow> (int \<times> BusParams) \<times> 'w KvaserCanClient" where
  "calcBusParams ops bitrate c = kv_call (kv_canTranslateBaud ops (kvaser_bitrate bitrate)) c"

definition canSetBitrate :: "'w KvaserOps \<Rightarrow> u32 \<Rightarrow> 'w KvaserCanClient \<Rightarrow> bool \<times> 'w KvaserCanClient" where
  "canSetBitrate ops baudrate c =
     (let ((_, bp), c) = calcBusParams ops (uint baudrate) c;
          (status, c) = kv_call (kv_canSetBusParams ops (kvaser_hnd c) bp) c
      in (status = canOK, c))"

definition KvaserCanClient_init :: "'w KvaserOps \<Rightarrow> 'w KvaserCanClient \<Rightarrow> bool \<times> 'w KvaserCanClient" where
  "KvaserCanClient_init ops c =
     (if kv_started c then (True, c)
      else
        let c = c\<lparr>kv_device := kv_canInitializeLibrary ops (kv_device c)\<rparr>;
            (h, c) = kv_call (kv_canOpenChannel ops (sint (kv_channel_id c))
                       (canOPEN_EXCLUSIVE + canOPEN_REQUIRE_EXTENDED + canOPEN_ACCEPT_VIRTUAL)) c;
            c = c\<lparr>kvaser_hnd := h\<rparr>
        in if h < 0 then (False, c)
           else
             let (ok, c) = canSetBitrate ops (kv_baudrate c) c
             in if \<not> ok then (False, c)
                else
                  let (status, c) = kv_call (kv_canBusOn ops (kvaser_hnd c)) c
                  in if status \<noteq> canOK then (False, c) else (True, c\<lparr>kv_started := True\<rparr>))"

fun kv_send_loop ::
  "'w KvaserOps \<Rightarrow> nat \<Rightarrow> CanMsg list \<Rightarrow> 'w KvaserCanClient \<Rightarrow> (bool \<times> 'w KvaserCanClient) option" where
  "kv_send_loop ops 0 frames c = Some (True, c)"
| "kv_send_loop ops (Suc n) [] c = None"
| "kv_send_loop ops (Suc n) (m # ms) c =
     (case copy_data (unat (cm_dlc m)) (cm_data m) (kv_send_buf c) of
        None \<Rightarrow> None
      | Some buf \<Rightarrow>
          let c = c\<lparr>kv_send_buf := buf\<rparr>;
              (status, c) = kv_call (kv_canWrite ops (kvaser_hnd c) (uint (cm_id m)) buf (cm_dlc m)
                              (canMSG_STD + canMSG_EXT)) c
          in if status \<noteq> canOK then Some (False, c) else kv_send_loop ops n ms c)"

definition KvaserCanClient_send ::
  "'w KvaserOps \<Rightarrow> CanMsg list \<Rightarrow> int \<Rightarrow> 'w KvaserCanClient \<Rightarrow> (bool \<times> 'w KvaserCanClient) option" where
  "KvaserCanClient_send ops frames frame_num c =
     (if \<not> kv_started c then Some (False, c)
      else if MAX_CAN_SEND_FRAME_LEN < frame_num \<or> frame_num < 0 then Some (False, c)
      else kv_send_loop ops (nat frame_num) frames c)"

text \<open>The local \<open>frame\<close> is declared before the loop, so a pass starts from the frame of the pass before.\<close>

fun kv_recv_loop ::
  "'w KvaserOps \<Rightarrow> nat \<Rightarrow> CanMsg \<Rightarrow> CanMsg list \<Rightarrow> 'w KvaserCanClient \<Rightarrow>
     (bool \<times> CanMsg list \<times> 'w KvaserCanClient) option" where
  "kv_recv_loop ops 0 frame frames c = Some (True, frames, c)"
| "kv_recv_loop ops (Suc n) frame frames c =
     (let ((status, i, buf, len), c) = kv_call (kv_canReadWait ops (kvaser_hnd c) (replicate 8 0) 1000) c;
          c = c\<lparr>kv_recv_buf := buf\<rparr>
      in if status \<noteq> canOK then Some (False, frames, c)
         else
           case copy_data (unat len) buf (cm_data frame) of
             None \<Rightarrow> None
           | Some d \<Rightarrow>
               let (now, c) = kv_call (kv_now ops) c;
                   frame = frame\<lparr>cm_data := d, cm_id := word_of_int i, cm_dlc := ucast len, cm_stamp := now\<rparr>
               in kv_recv_loop ops n frame (frames @ [frame]) c)"

definition KvaserCanClient_recv ::
  "'w KvaserOps \<Rightarrow> CanMsg list \<Rightarrow> int \<Rightarrow> 'w KvaserCanClient \<Rightarrow>
     (bool \<times> CanMsg list \<times> 'w KvaserCanClient) option" where
  "KvaserCanClient_recv ops frames frame_num c =
     (if \<not> kv_started c then Some (False, frames, c)
      else if MAX_CAN_RECV_FRAME_LEN < frame_num \<or> frame_num < 0 then Some (False, frames, c)
      else kv_recv_loop ops (nat frame_num) CanMsg_init frames c)"

lemma kv_call_started: "kv_call f c = (a, c') \<Longrightarrow> kv_started c' = kv_started c"
  by (auto simp: kv_call_def split: prod.splits)

lemma kv_send_loop_started: "kv_send_loop ops n ms c = Some (b, c') \<Longrightarrow> kv_started c' = kv_started c"
proof (induction ms arbitrary: n c)
  case Nil
  then show ?case by (cases n) simp_all
next
  case (Cons m ms)
  show ?case
  proof (cases n)
    case (Suc k)
    then obtain buf where buf: "copy_data (unat (cm_dlc m)) (cm_data m) (kv_send_buf c) = Some buf"
      using Cons.prems by (auto split: option.splits)
    obtain st c1 where c1: "kv_call (kv_canWrite ops (kvaser_hnd c) (uint (cm_id m)) buf (cm_dlc m)
        (canMSG_STD + canMSG_EXT)) (c\<lparr>kv_send_buf := buf\<rparr>) = (st, c1)"
      by (metis surj_pair)
    have "kv_started c1 = kv_started c" using kv_call_started [OF c1] by simp
    moreover have "st \<noteq> canOK \<and> c' = c1 \<or> kv_send_loop ops k ms c1 = Some (b, c')"
      using Cons.prems Suc by (auto simp: buf c1 Let_def split: if_splits)
    ultimately show ?thesis using Cons.IH by auto
  qed (use Cons.prems in simp)
qed

lemma kv_recv_loop_result:
  "kv_recv_loop ops n fr fs c = Some (b, fs', c') \<Longrightarrow>
   kv_started c' = kv_started c \<and> (\<exists>new. fs' = fs @ new \<and> length new \<le> n)"
proof (induction n arbitrary: fr fs c)
  case (Suc n)
  obtain st i buf len c1 where c1:
    "kv_call (kv_canReadWait ops (kvaser_hnd c) (replicate 8 0) 1000) c = ((st, i, buf, len), c1)"
    by (metis surj_pair)
  obtain now c2 where c2: "kv_call (kv_now ops) (c1\<lparr>kv_recv_buf := buf\<rparr>) = (now, c2)" by (metis surj_pair)
  have s: "kv_started c1 = kv_started c" "kv_started c2 = kv_started c"
    using kv_call_started [OF c1] kv_call_started [OF c2] by simp_all
  show ?case
  proof (cases "st \<noteq> canOK")
    case True
    then show ?thesis using Suc.prems s by (auto simp: c1 Let_def)
  next
    case False
    then obtain m where "kv_recv_loop ops n m (fs @ [m]) c2 = Some (b, fs', c')"
      using Suc.prems by (auto simp: c1 c2 Let_def split: option.splits)
    from Suc.IH [OF this] s show ?thesis by auto
  qed
qed simp

interpretation kvaser: can_client kv_started "KvaserCanClient_init ops" "KvaserCanClient_stop ops"
  "KvaserCanClient_send ops" "KvaserCanClient_recv ops" for ops :: "'w KvaserOps"
proof
  fix c c' :: "'w KvaserCanClient" and b fs fs' n
  show "KvaserCanClient_init ops c = (b, c') \<Longrightarrow> kv_started c' \<longleftrightarrow> b"
    by (auto simp: KvaserCanClient_init_def canSetBitrate_def calcBusParams_def Let_def
        split: prod.splits if_splits dest!: kv_call_started)
  show "kv_started c \<Longrightarrow> KvaserCanClient_init ops c = (True, c)"
    by (simp add: KvaserCanClient_init_def)
  show "\<not> kv_started (KvaserCanClient_stop ops c)"
    by (simp add: KvaserCanClient_stop_def kv_call_def split: prod.split)
  show "\<not> kv_started c \<Longrightarrow> KvaserCanClient_stop ops c = c"
    by (simp add: KvaserCanClient_stop_def)
  show "\<not> kv_started c \<Longrightarrow> KvaserCanClient_send ops fs n c = Some (False, c)"
    by (simp add: KvaserCanClient_send_def)
  show "KvaserCanClient_send ops fs n c = Some (b, c') \<Longrightarrow> kv_started c' \<longleftrightarrow> kv_started c"
    by (auto simp: KvaserCanClient_send_def split: if_splits dest!: kv_send_loop_started)
  show "\<not> kv_started c \<Longrightarrow> KvaserCanClient_recv ops fs n c = Some (False, fs, c)"
    by (simp add: KvaserCanClient_recv_def)
  show "KvaserCanClient_recv ops fs n c = Some (b, fs', c') \<Longrightarrow> kv_started c' \<longleftrightarrow> kv_started c"
    by (auto simp: KvaserCanClient_recv_def split: if_splits dest!: kv_recv_loop_result)
  show "KvaserCanClient_recv ops fs n c = Some (b, fs', c') \<Longrightarrow> \<exists>new. fs' = fs @ new"
    by (auto simp: KvaserCanClient_recv_def split: if_splits dest!: kv_recv_loop_result)
  show "KvaserCanClient_recv ops [] n c = Some (b, fs, c') \<Longrightarrow> length fs \<le> 10"
    by (auto simp: KvaserCanClient_recv_def MAX_CAN_RECV_FRAME_LEN_def split: if_splits dest!: kv_recv_loop_result)
qed

section \<open>ESD\<close>

record CMSG =
  cmsg_id :: "32 word"
  cmsg_len :: u8
  cmsg_data :: bytes

record 'w EsdOps =
  esd_canOpen :: "u32 \<Rightarrow> u32 \<Rightarrow> int \<Rightarrow> int \<Rightarrow> int \<Rightarrow> int \<Rightarrow> int \<Rightarrow> 'w \<Rightarrow> (int \<times> int) \<times> 'w"
  esd_canIdRegionAdd :: "int \<Rightarrow> int \<Rightarrow> int \<Rightarrow> 'w \<Rightarrow> int \<times> 'w"
  esd_canSetBaudrate :: "int \<Rightarrow> u32 \<Rightarrow> 'w \<Rightarrow> int \<times> 'w"
  esd_canClose :: "int \<Rightarrow> 'w \<Rightarrow> int \<times> 'w"
  esd_canWrite :: "int \<Rightarrow> CMSG list \<Rightarrow> int \<Rightarrow> 'w \<Rightarrow> int \<times> 'w"
  esd_canRead :: "int \<Rightarrow> CMSG list \<Rightarrow> int \<Rightarrow> 'w \<Rightarrow> (int \<times> CMSG list \<times> int) \<times> 'w"
  esd_now :: "'w \<Rightarrow> int \<times> 'w"

record 'w EsdCanClient =
  esd_channel_id :: u32
  esd_baudrate :: u32
  esd_started :: bool
  esd_dev_handler :: int
  esd_send_msgs :: "CMSG list"
  esd_recv_msgs :: "CMSG list"
  esd_device :: 'w

definition NTCAN_SUCCESS :: int where "NTCAN_SUCCESS = 0"
definition NTCAN_MAX_TX_QUEUESIZE :: int where "NTCAN_MAX_TX_QUEUESIZE = 0x4000"
definition NTCAN_BAUD_1000 :: u32 where "NTCAN_BAUD_1000 = 0x00"
definition NTCAN_BAUD_800 :: u32 where "NTCAN_BAUD_800 = 0x0E"
definition NTCAN_BAUD_500 :: u32 where "NTCAN_BAUD_500 = 0x02"
definition NTCAN_BAUD_250 :: u32 where "NTCAN_BAUD_250 = 0x04"
definition NTCAN_BAUD_125 :: u32 where "NTCAN_BAUD_125 = 0x06"
definition NTCAN_BAUD_100 :: u32 where "NTCAN_BAUD_100 = 0x07"
definition NTCAN_BAUD_50 :: u32 where "NTCAN_BAUD_50 = 0x09"
definition NTCAN_BAUD_20 :: u32 where "NTCAN_BAUD_20 = 0x0B"
definition NTCAN_BAUD_10 :: u32 where "NTCAN_BAUD_10 = 0x0D"

definition esd_call :: "('w \<Rightarrow> 'a \<times> 'w) \<Rightarrow> 'w EsdCanClient \<Rightarrow> 'a \<times> 'w EsdCanClient" where
  "esd_call f c = (case f (esd_device c) of (a, w) \<Rightarrow> (a, c\<lparr>esd_device := w\<rparr>))"

definition zero_cmsg :: CMSG where
  "zero_cmsg = \<lparr>cmsg_id = 0, cmsg_len = 0, cmsg_data = replicate 8 0\<rparr>"

definition EsdCanClient_new :: "u32 \<Rightarrow> u32 \<Rightarrow> 'w \<Rightarrow> 'w EsdCanClient" where
  "EsdCanClient_new channel_id bitrate w =
     \<lparr>esd_channel_id = channel_id, esd_baudrate = bitrate, esd_started = False, esd_dev_handler = - 1,
      esd_send_msgs = replicate 10 zero_cmsg, esd_recv_msgs = replicate 10 zero_cmsg, esd_device = w\<rparr>"

definition EsdCanClient_stop :: "'w EsdOps \<Rightarrow> 'w EsdCanClient \<Rightarrow> 'w EsdCanClient" where
  "EsdCanClient_stop ops c =
     (if esd_started c then snd (esd_call (esd_canClose ops (esd_dev_handler c)) (c\<lparr>esd_started := False\<rparr>)) else c)"

definition baudRateSelect :: "u32 \<Rightarrow> u32" where
  "baudRateSelect baudrate =
     (if baudrate = 10000 then NTCAN_BAUD_10
      else if baudrate = 20000 then NTCAN_BAUD_20
      else if baudrate = 50000 then NTCAN_BAUD_50
      else if baudrate = 100000 then NTCAN_BAUD_100
      else if baudrate = 125000 then NTCAN_BAUD_125
      else if baudrate = 250000 then NTCAN_BAUD_250
      else if baudrate = 500000 then NTCAN_BAUD_500
      else if baudrate = 800000 then NTCAN_BAUD_800
      else if baudrate = 1000000 then NTCAN_BAUD_1000
      else NTCAN_BAUD_500)"

text \<open>\<open>ESD_CAN_EXTENDED_FRAME\<close> is 0: the branches for extended frames are not compiled in.\<close>

definition EsdCanClient_init :: "'w EsdOps \<Rightarrow> 'w EsdCanClient \<Rightarrow> bool \<times> 'w EsdCanClient" where
  "EsdCanClient_init ops c =
     (if esd_started c then (True, c)
      else
        let ((ret, h), c) = esd_call (esd_canOpen ops (esd_channel_id c) 0 NTCAN_MAX_TX_QUEUESIZE
                              NTCAN_MAX_TX_QUEUESIZE 5 5 (esd_dev_handler c)) c;
            c = c\<lparr>esd_dev_handler := h\<rparr>
        in if ret \<noteq> NTCAN_SUCCESS then (False, c)
           else
             let (ret, c) = esd_call (esd_canIdRegionAdd ops h 0 0x800) c
             in if ret \<noteq> NTCAN_SUCCESS then (False, c)
                else
                  let (ret, c) = esd_call (esd_canSetBaudrate ops h (baudRateSelect (esd_baudrate c))) c
                  in if ret \<noteq> NTCAN_SUCCESS then (False, c) else (True, c\<lparr>esd_started := True\<rparr>))"

definition cmsg_of :: "CanMsg \<Rightarrow> CMSG" where
  "cmsg_of m = \<lparr>cmsg_id = cm_id m, cmsg_len = cm_dlc m, cmsg_data = take 8 (cm_data m)\<rparr>"

definition EsdCanClient_send ::
  "'w EsdOps \<Rightarrow> CanMsg list \<Rightarrow> int \<Rightarrow> 'w EsdCanClient \<Rightarrow> (bool \<times> 'w EsdCanClient) option" where
  "EsdCanClient_send ops frames frame_num c =
     (if \<not> esd_started c then Some (False, c)
      else if frames = [] \<or> size_i32 frames \<noteq> frame_num then Some (False, c)
      else if MAX_CAN_SEND_FRAME_LEN < frame_num then Some (False, c)
      else
        let filled = map cmsg_of (take (nat frame_num) frames)
        in if length (esd_send_msgs c) < length filled then None
        else
        let c = c\<lparr>esd_send_msgs := filled @ drop (length filled) (esd_send_msgs c)\<rparr>;
            (ret, c) = esd_call (esd_canWrite ops (esd_dev_handler c) (esd_send_msgs c) frame_num) c
        in Some (ret = NTCAN_SUCCESS, c))"

fun esd_take_msgs :: "'w EsdOps \<Rightarrow> CMSG list \<Rightarrow> CanMsg list \<Rightarrow> 'w EsdCanClient \<Rightarrow> CanMsg list \<times> 'w EsdCanClient" where
  "esd_take_msgs ops [] frames c = (frames, c)"
| "esd_take_msgs ops (r # rs) frames c =
     (let (now, c) = esd_call (esd_now ops) c
      in esd_take_msgs ops rs
           (frames @ [CanMsg_init\<lparr>cm_stamp := now, cm_id := cmsg_id r, cm_dlc := cmsg_len r, cm_data := cmsg_data r\<rparr>]) c)"

text \<open>
  \<open>canRead\<close> fills an array of \<open>frame_num\<close> messages and stores the number of messages read in \<open>frame_num\<close>, through a pointer from which the \<open>const\<close> was
  cast away; the loop after it runs to the number stored.
\<close>

definition EsdCanClient_recv ::
  "'w EsdOps \<Rightarrow> CanMsg list \<Rightarrow> int \<Rightarrow> 'w EsdCanClient \<Rightarrow> (bool \<times> CanMsg list \<times> 'w EsdCanClient) option" where
  "EsdCanClient_recv ops frames frame_num c =
     (if \<not> esd_started c then Some (False, frames, c)
      else if frame_num \<le> 0 then Some (False, frames, c)
      else if MAX_CAN_RECV_FRAME_LEN < frame_num then Some (False, frames, c)
      else if length (esd_recv_msgs c) < nat frame_num then None
      else
        let ((ret, msgs, frame_num), c) = esd_call (esd_canRead ops (esd_dev_handler c) (esd_recv_msgs c) frame_num) c;
            c = c\<lparr>esd_recv_msgs := msgs\<rparr>
        in if ret \<noteq> NTCAN_SUCCESS then Some (False, frames, c)
           else if 10 < frame_num then None
           else case esd_take_msgs ops (take (nat frame_num) msgs) frames c of (frames, c) \<Rightarrow> Some (True, frames, c))"

lemma esd_call_started: "esd_call f c = (a, c') \<Longrightarrow> esd_started c' = esd_started c"
  by (auto simp: esd_call_def split: prod.splits)

lemma esd_take_msgs_result:
  "esd_take_msgs ops rs fs c = (fs', c') \<Longrightarrow>
   esd_started c' = esd_started c \<and> (\<exists>new. fs' = fs @ new \<and> length new = length rs)"
proof (induction rs arbitrary: fs c)
  case (Cons r rs)
  obtain now c1 where c1: "esd_call (esd_now ops) c = (now, c1)" by (metis surj_pair)
  from Cons.prems obtain m where "esd_take_msgs ops rs (fs @ [m]) c1 = (fs', c')" by (simp add: c1)
  from Cons.IH [OF this] esd_call_started [OF c1] show ?case by auto
qed simp

lemma esd_recv_result:
  "EsdCanClient_recv ops fs n c = Some (b, fs', c') \<Longrightarrow>
   esd_started c' = esd_started c \<and> (\<exists>new. fs' = fs @ new \<and> length new \<le> 10)"
  by (auto simp: EsdCanClient_recv_def Let_def split: if_splits prod.splits
      dest!: esd_call_started esd_take_msgs_result)

interpretation esd: can_client esd_started "EsdCanClient_init ops" "EsdCanClient_stop ops"
  "EsdCanClient_send ops" "EsdCanClient_recv ops" for ops :: "'w EsdOps"
proof
  fix c c' :: "'w EsdCanClient" and b fs fs' n
  show "EsdCanClient_init ops c = (b, c') \<Longrightarrow> esd_started c' \<longleftrightarrow> b"
    by (auto simp: EsdCanClient_init_def Let_def split: prod.splits if_splits dest!: esd_call_started)
  show "esd_started c \<Longrightarrow> EsdCanClient_init ops c = (True, c)"
    by (simp add: EsdCanClient_init_def)
  show "\<not> esd_started (EsdCanClient_stop ops c)"
    by (simp add: EsdCanClient_stop_def esd_call_def split: prod.split)
  show "\<not> esd_started c \<Longrightarrow> EsdCanClient_stop ops c = c"
    by (simp add: EsdCanClient_stop_def)
  show "\<not> esd_started c \<Longrightarrow> EsdCanClient_send ops fs n c = Some (False, c)"
    by (simp add: EsdCanClient_send_def)
  show "EsdCanClient_send ops fs n c = Some (b, c') \<Longrightarrow> esd_started c' \<longleftrightarrow> esd_started c"
    by (auto simp: EsdCanClient_send_def Let_def split: if_splits prod.splits dest!: esd_call_started)
  show "\<not> esd_started c \<Longrightarrow> EsdCanClient_recv ops fs n c = Some (False, fs, c)"
    by (simp add: EsdCanClient_recv_def)
  show "EsdCanClient_recv ops fs n c = Some (b, fs', c') \<Longrightarrow> esd_started c' \<longleftrightarrow> esd_started c"
    using esd_recv_result by blast
  show "EsdCanClient_recv ops fs n c = Some (b, fs', c') \<Longrightarrow> \<exists>new. fs' = fs @ new"
    using esd_recv_result by blast
  show "EsdCanClient_recv ops [] n c = Some (b, fs, c') \<Longrightarrow> length fs \<le> 10"
    using esd_recv_result by fastforce
qed

section \<open>Innodisk\<close>

record EmucFrame =
  em_CAN_port :: int
  em_id_type :: int
  em_rtr :: int
  em_dlc :: int
  em_msg_type :: int
  em_id :: u32
  em_data :: bytes

record 'w EmucOps =
  em_EMUCOpenSocketCAN :: "u32 \<Rightarrow> 'w \<Rightarrow> int \<times> 'w"
  em_EMUCInitCAN :: "u32 \<Rightarrow> int \<Rightarrow> int \<Rightarrow> 'w \<Rightarrow> int \<times> 'w"
  em_EMUCShowVer :: "u32 \<Rightarrow> 'w \<Rightarrow> int \<times> 'w"
  em_EMUCSetBaudRate :: "u32 \<Rightarrow> u32 \<Rightarrow> u32 \<Rightarrow> 'w \<Rightarrow> int \<times> 'w"
  em_EMUCGetCfg :: "u32 \<Rightarrow> 'w \<Rightarrow> int \<times> 'w"
  em_EMUCSend :: "u32 \<Rightarrow> EmucFrame \<Rightarrow> 'w \<Rightarrow> int \<times> 'w"
  em_EMUCReceive :: "u32 \<Rightarrow> EmucFrame \<Rightarrow> 'w \<Rightarrow> (int \<times> EmucFrame) \<times> 'w"
  em_EMUCCloseDevice :: "u32 \<Rightarrow> 'w \<Rightarrow> 'w"
  em_now :: "'w \<Rightarrow> int \<times> 'w"

record 'w InnodiskCanClient =
  in_channel_id :: u32
  in_baudrate :: u32
  in_dev_id :: u32
  in_started :: bool
  in_send_frame :: EmucFrame
  in_recv_frame :: EmucFrame
  in_device :: 'w

definition SUCCESS :: int where "SUCCESS = 0"
definition EMUC_INACTIVE :: int where "EMUC_INACTIVE = 0"
definition EMUC_ACTIVE :: int where "EMUC_ACTIVE = 1"
definition EMUC_SID :: int where "EMUC_SID = 1"
definition EMUC_EID :: int where "EMUC_EID = 2"
definition EMUC_DATA_TYPE :: int where "EMUC_DATA_TYPE = 0"

definition in_call :: "('w \<Rightarrow> 'a \<times> 'w) \<Rightarrow> 'w InnodiskCanClient \<Rightarrow> 'a \<times> 'w InnodiskCanClient" where
  "in_call f c = (case f (in_device c) of (a, w) \<Rightarrow> (a, c\<lparr>in_device := w\<rparr>))"

definition zero_emuc :: EmucFrame where
  "zero_emuc =
     \<lparr>em_CAN_port = 0, em_id_type = 0, em_rtr = 0, em_dlc = 0, em_msg_type = 0, em_id = 0, em_data = replicate 8 0\<rparr>"

definition InnodiskCanClient_new :: "u32 \<Rightarrow> u32 \<Rightarrow> u32 \<Rightarrow> 'w \<Rightarrow> 'w InnodiskCanClient" where
  "InnodiskCanClient_new channel_id bitrate dev_id w =
     \<lparr>in_channel_id = channel_id, in_baudrate = bitrate, in_dev_id = dev_id, in_started = False,
      in_send_frame = zero_emuc, in_recv_frame = zero_emuc, in_device = w\<rparr>"

definition InnodiskCanClient_stop :: "'w EmucOps \<Rightarrow> 'w InnodiskCanClient \<Rightarrow> 'w InnodiskCanClient" where
  "InnodiskCanClient_stop ops c =
     (if in_started c
      then c\<lparr>in_device := em_EMUCCloseDevice ops (in_dev_id c) (in_device c), in_started := False\<rparr> else c)"

text \<open>A failed query of the version or of the configuration is only logged.\<close>

definition InnodiskCanClient_init :: "'w EmucOps \<Rightarrow> 'w InnodiskCanClient \<Rightarrow> bool \<times> 'w InnodiskCanClient" where
  "InnodiskCanClient_init ops c =
     (if in_started c then (True, c)
      else
        let (ret, c) = in_call (em_EMUCOpenSocketCAN ops (in_dev_id c)) c
        in if ret \<noteq> SUCCESS then (False, c)
        else
          let (ret, c) = in_call (em_EMUCInitCAN ops (in_dev_id c) EMUC_INACTIVE EMUC_INACTIVE) c
          in if ret \<noteq> SUCCESS then (False, c)
          else
            let (_, c) = in_call (em_EMUCShowVer ops (in_dev_id c)) c;
                (ret, c) = in_call (em_EMUCSetBaudRate ops (in_dev_id c) (in_baudrate c) (in_baudrate c)) c
            in if ret \<noteq> SUCCESS then (False, c)
            else
              let (_, c) = in_call (em_EMUCGetCfg ops (in_dev_id c)) c;
                  (ret, c) = in_call (em_EMUCInitCAN ops (in_dev_id c) EMUC_ACTIVE EMUC_ACTIVE) c
              in if ret \<noteq> SUCCESS then (False, c) else (True, c\<lparr>in_started := True\<rparr>))"

definition emuc_fill :: "u32 \<Rightarrow> CanMsg \<Rightarrow> EmucFrame \<Rightarrow> EmucFrame option" where
  "emuc_fill channel_id m f =
     map_option (\<lambda>d. f\<lparr>em_id := cm_id m, em_dlc := uint (cm_dlc m), em_CAN_port := sint channel_id,
         em_rtr := of_bool (cm_is_rtr m), em_id_type := of_bool (cm_is_extended m), em_data := d\<rparr>)
       (copy_data (unat (cm_dlc m)) (cm_data m) (em_data f))"

fun in_send_loop ::
  "'w EmucOps \<Rightarrow> CanMsg list \<Rightarrow> 'w InnodiskCanClient \<Rightarrow> (bool \<times> 'w InnodiskCanClient) option" where
  "in_send_loop ops [] c = Some (True, c)"
| "in_send_loop ops (m # ms) c =
     (case emuc_fill (in_channel_id c) m (in_send_frame c) of
        None \<Rightarrow> None
      | Some f \<Rightarrow>
          let c = c\<lparr>in_send_frame := f\<rparr>;
              (ret, c) = in_call (em_EMUCSend ops (in_dev_id c) f) c
          in if ret \<noteq> SUCCESS then Some (False, c) else in_send_loop ops ms c)"

definition InnodiskCanClient_send ::
  "'w EmucOps \<Rightarrow> CanMsg list \<Rightarrow> int \<Rightarrow> 'w InnodiskCanClient \<Rightarrow> (bool \<times> 'w InnodiskCanClient) option" where
  "InnodiskCanClient_send ops frames frame_num c =
     (if \<not> in_started c then Some (False, c)
      else if frames = [] \<or> size_i32 frames \<noteq> frame_num then Some (False, c)
      else if MAX_CAN_SEND_FRAME_LEN < frame_num then Some (False, c)
      else in_send_loop ops (take (nat frame_num) frames) c)"

text \<open>
  The message of a received frame. The length code is cut to eight bits; a greater one than eight reads and
  writes outside of the arrays.
\<close>

definition emuc_msg :: "int \<Rightarrow> EmucFrame \<Rightarrow> CanMsg option" where
  "emuc_msg now f =
     (let dlc = word_of_int (em_dlc f) :: u8
      in map_option (\<lambda>d. CanMsg_init\<lparr>cm_stamp := now, cm_id := em_id f, cm_dlc := dlc,
             cm_is_rtr := (em_rtr f \<noteq> 0), cm_is_extended := (em_id_type f \<noteq> 0), cm_data := d\<rparr>)
           (copy_data (unat dlc) (em_data f) (cm_data CanMsg_init)))"

text \<open>
  The loop of \<open>recv\<close>; the number is that of the passes left until \<open>--recv_time\<close> gives zero.
\<close>

fun in_recv_loop ::
  "'w EmucOps \<Rightarrow> nat \<Rightarrow> int \<Rightarrow> CanMsg list \<Rightarrow> 'w InnodiskCanClient \<Rightarrow>
     (bool \<times> CanMsg list \<times> 'w InnodiskCanClient) option" where
  "in_recv_loop ops 0 frame_num frames c = Some (False, frames, c)"
| "in_recv_loop ops (Suc recv_time) frame_num frames c =
     (let ((num, f), c) = in_call (em_EMUCReceive ops (in_dev_id c) (in_recv_frame c)) c;
          c = c\<lparr>in_recv_frame := f\<rparr>
      in if num \<noteq> 1 then in_recv_loop ops recv_time frame_num frames c
         else if em_msg_type f \<noteq> EMUC_DATA_TYPE then in_recv_loop ops recv_time frame_num frames c
         else
           let (now, c) = in_call (em_now ops) c
           in case emuc_msg now f of
                None \<Rightarrow> None
              | Some m \<Rightarrow>
                  if size_i32 (frames @ [m]) = frame_num then Some (True, frames @ [m], c)
                  else in_recv_loop ops recv_time frame_num (frames @ [m]) c)"

definition InnodiskCanClient_recv ::
  "'w EmucOps \<Rightarrow> CanMsg list \<Rightarrow> int \<Rightarrow> 'w InnodiskCanClient \<Rightarrow>
     (bool \<times> CanMsg list \<times> 'w InnodiskCanClient) option" where
  "InnodiskCanClient_recv ops frames frame_num c =
     (if \<not> in_started c then Some (False, frames, c)
      else if frame_num \<le> 0 then Some (False, frames, c)
      else if MAX_CAN_RECV_FRAME_LEN < frame_num then Some (False, frames, c)
      else in_recv_loop ops 9999 frame_num frames c)"

lemma in_call_started: "in_call f c = (a, c') \<Longrightarrow> in_started c' = in_started c"
  by (auto simp: in_call_def split: prod.splits)

lemma in_send_loop_started: "in_send_loop ops ms c = Some (b, c') \<Longrightarrow> in_started c' = in_started c"
proof (induction ms arbitrary: c)
  case (Cons m ms)
  then show ?case
    by (auto simp: Let_def split: option.splits prod.splits if_splits dest!: in_call_started Cons.IH)
qed simp

lemma in_recv_loop_result:
  "in_recv_loop ops t n fs c = Some (b, fs', c') \<Longrightarrow>
   in_started c' = in_started c \<and> (\<exists>new. fs' = fs @ new) \<and>
   (int (length fs) < n \<longrightarrow> n \<le> 10 \<longrightarrow> int (length fs') \<le> n)"
proof (induction t arbitrary: fs c)
  case (Suc t)
  obtain num f c1 where c1: "in_call (em_EMUCReceive ops (in_dev_id c) (in_recv_frame c)) c = ((num, f), c1)"
    by (metis surj_pair)
  obtain now c2 where c2: "in_call (em_now ops) (c1\<lparr>in_recv_frame := f\<rparr>) = (now, c2)" by (metis surj_pair)
  have s: "in_started c1 = in_started c" "in_started c2 = in_started c"
    using in_call_started [OF c1] in_call_started [OF c2] by simp_all
  show ?case
  proof (cases "num \<noteq> 1 \<or> em_msg_type f \<noteq> EMUC_DATA_TYPE")
    case True
    then have "in_recv_loop ops t n fs (c1\<lparr>in_recv_frame := f\<rparr>) = Some (b, fs', c')"
      using Suc.prems by (cases "num = 1") (simp_all add: c1 Let_def)
    from Suc.IH [OF this] s show ?thesis by simp
  next
    case False
    then obtain m where m: "emuc_msg now f = Some m" using Suc.prems by (auto simp: c1 c2 Let_def split: option.splits)
    have sz: "size_i32 (fs @ [m]) = int (length fs) + 1" if "int (length fs) < n" "n \<le> 10"
      using that by (subst size_i32_small) simp_all
    show ?thesis
    proof (cases "size_i32 (fs @ [m]) = n")
      case True
      then show ?thesis using False Suc.prems s sz by (auto simp: c1 c2 m Let_def)
    next
      case ne: False
      then have "in_recv_loop ops t n (fs @ [m]) c2 = Some (b, fs', c')"
        using False Suc.prems by (simp add: c1 c2 m Let_def)
      from Suc.IH [OF this] s sz ne show ?thesis by auto
    qed
  qed
qed simp

interpretation innodisk: can_client in_started "InnodiskCanClient_init ops" "InnodiskCanClient_stop ops"
  "InnodiskCanClient_send ops" "InnodiskCanClient_recv ops" for ops :: "'w EmucOps"
proof
  fix c c' :: "'w InnodiskCanClient" and b fs fs' n
  show "InnodiskCanClient_init ops c = (b, c') \<Longrightarrow> in_started c' \<longleftrightarrow> b"
    by (auto simp: InnodiskCanClient_init_def Let_def split: prod.splits if_splits dest!: in_call_started)
  show "in_started c \<Longrightarrow> InnodiskCanClient_init ops c = (True, c)"
    by (simp add: InnodiskCanClient_init_def)
  show "\<not> in_started (InnodiskCanClient_stop ops c)"
    by (simp add: InnodiskCanClient_stop_def)
  show "\<not> in_started c \<Longrightarrow> InnodiskCanClient_stop ops c = c"
    by (simp add: InnodiskCanClient_stop_def)
  show "\<not> in_started c \<Longrightarrow> InnodiskCanClient_send ops fs n c = Some (False, c)"
    by (simp add: InnodiskCanClient_send_def)
  show "InnodiskCanClient_send ops fs n c = Some (b, c') \<Longrightarrow> in_started c' \<longleftrightarrow> in_started c"
    by (auto simp: InnodiskCanClient_send_def split: if_splits dest!: in_send_loop_started)
  show "\<not> in_started c \<Longrightarrow> InnodiskCanClient_recv ops fs n c = Some (False, fs, c)"
    by (simp add: InnodiskCanClient_recv_def)
  show "InnodiskCanClient_recv ops fs n c = Some (b, fs', c') \<Longrightarrow> in_started c' \<longleftrightarrow> in_started c"
    by (auto simp: InnodiskCanClient_recv_def split: if_splits dest!: in_recv_loop_result)
  show "InnodiskCanClient_recv ops fs n c = Some (b, fs', c') \<Longrightarrow> \<exists>new. fs' = fs @ new"
    by (auto simp: InnodiskCanClient_recv_def split: if_splits dest!: in_recv_loop_result)
  show "InnodiskCanClient_recv ops [] n c = Some (b, fs, c') \<Longrightarrow> length fs \<le> 10"
    by (auto simp: InnodiskCanClient_recv_def MAX_CAN_RECV_FRAME_LEN_def split: if_splits dest!: in_recv_loop_result)
qed

section \<open>Properties\<close>

text \<open>
  Whatever the vendor's card, a run of the driver's receiving thread keeps no received frame back, takes nothing back that
  is published, adds at most ten frames for each test of its condition and none over a stopped
  client; it never starts or stops the client, and over a stopped one it reads outside no array.
\<close>

theorem receiving_threads:
  "thread_ok kv_started (KvaserCanClient_recv kops) running dk \<and>
   thread_ok esd_started (EsdCanClient_recv eops) running de \<and>
   thread_ok in_started (InnodiskCanClient_recv iops) running di"
  by (intro conjI kvaser.thread_safe esd.thread_safe innodisk.thread_safe)

text \<open>What \<open>canReadWait\<close> leaves in the buffer has the buffer's length.\<close>

definition keeps_buffer :: "'w KvaserOps \<Rightarrow> bool" where
  "keeps_buffer ops \<longleftrightarrow>
     (\<forall>h buf t w. length buf = 8 \<longrightarrow> length (fst (snd (snd (fst (kv_canReadWait ops h buf t w))))) = 8)"

definition stale_tail :: "CanMsg \<Rightarrow> CanMsg \<Rightarrow> bool" where
  "stale_tail a b \<longleftrightarrow> drop (unat (cm_dlc b)) (cm_data b) = drop (unat (cm_dlc b)) (cm_data a)"

lemma kv_recv_loop_stale:
  assumes "keeps_buffer ops"
  shows "kv_recv_loop ops n fr fs c = Some (b, fs', c') \<Longrightarrow>
     \<exists>new. fs' = fs @ new \<and> successively stale_tail (fr # new)"
proof (induction n arbitrary: fr fs c)
  case (Suc n)
  obtain st i buf len c1 where c1:
    "kv_call (kv_canReadWait ops (kvaser_hnd c) (replicate 8 0) 1000) c = ((st, i, buf, len), c1)"
    by (metis surj_pair)
  obtain now c2 where c2: "kv_call (kv_now ops) (c1\<lparr>kv_recv_buf := buf\<rparr>) = (now, c2)" by (metis surj_pair)
  have "fst (kv_canReadWait ops (kvaser_hnd c) (replicate 8 0) 1000 (kv_device c)) = (st, i, buf, len)"
    using c1 by (auto simp: kv_call_def split: prod.splits)
  then have buf: "length buf = 8"
    using assms [unfolded keeps_buffer_def, rule_format, of "replicate 8 0" "kvaser_hnd c" 1000 "kv_device c"] by simp
  show ?case
  proof (cases "st \<noteq> canOK")
    case True
    then show ?thesis using Suc.prems by (auto simp: c1 Let_def)
  next
    case False
    then obtain d where d: "copy_data (unat len) buf (cm_data fr) = Some d"
      using Suc.prems by (auto simp: c1 c2 Let_def split: option.splits)
    define m where "m = fr\<lparr>cm_data := d, cm_id := word_of_int i, cm_dlc := ucast len, cm_stamp := now\<rparr>"
    have "kv_recv_loop ops n m (fs @ [m]) c2 = Some (b, fs', c')"
      using Suc.prems False by (simp add: c1 c2 d m_def Let_def)
    from Suc.IH [OF this] obtain new where new: "fs' = fs @ m # new" "successively stale_tail (m # new)" by auto
    have k: "unat len \<le> 8" "d = take (unat len) buf @ drop (unat len) (cm_data fr)"
      using d by (simp_all add: copy_data_def split: if_splits)
    then have "unat (ucast len :: u8) = unat len" by (simp add: unsigned_ucast_eq take_bit_nat_eq_self)
    then have "stale_tail fr m" using k buf by (simp add: stale_tail_def m_def)
    then show ?thesis using new by (intro exI [of _ "m # new"]) simp
  qed
qed simp

text \<open>
  In one call of the Kvaser client's \<open>recv\<close>, the bytes of a frame beyond its length are those of the frame received
  before it in the call, not zeros: only the first frame is padded with zeros.
\<close>

theorem kvaser_stale_data:
  assumes "keeps_buffer ops" "KvaserCanClient_recv ops [] n c = Some (b, fs, c')"
  shows "successively stale_tail (CanMsg_init # fs)"
proof (cases "kv_started c \<and> 0 \<le> n \<and> n \<le> 10")
  case True
  then have "kv_recv_loop ops (nat n) CanMsg_init [] c = Some (b, fs, c')"
    using assms(2) by (simp add: KvaserCanClient_recv_def MAX_CAN_RECV_FRAME_LEN_def)
  from kv_recv_loop_stale [OF assms(1) this] show ?thesis by simp
next
  case False
  then have "fs = []" using assms(2) by (auto simp: KvaserCanClient_recv_def MAX_CAN_RECV_FRAME_LEN_def split: if_splits)
  then show ?thesis by simp
qed

text \<open>A device that delivers two frames, of two bytes and of one.\<close>

definition two_frames :: "nat KvaserOps" where
  "two_frames =
     \<lparr>kv_canInitializeLibrary = \<lambda>w. w, kv_canOpenChannel = \<lambda>_ _ w. (1, w),
      kv_canTranslateBaud = \<lambda>b w. ((0, \<lparr>bp_bitrate = b, bp_tseg1 = 5, bp_tseg2 = 2, bp_sjw = 1\<rparr>), w),
      kv_canSetBusParams = \<lambda>_ _ w. (0, w), kv_canBusOn = \<lambda>_ w. (0, w), kv_canClose = \<lambda>_ w. (0, w),
      kv_canWrite = \<lambda>_ _ _ _ _ w. (0, w),
      kv_canReadWait = \<lambda>_ buf _ w.
        (if w = 0 then (0, 0x501, [17, 34] @ drop 2 buf, 2)
         else if w = 1 then (0, 0x502, [51] @ drop 1 buf, 1) else (- 2, 0, buf, 0), w + 1),
      kv_now = \<lambda>w. (0, w)\<rparr>"

theorem kvaser_stale_data_witness:
  "\<exists>c. KvaserCanClient_recv two_frames [] 3
      (snd (KvaserCanClient_init two_frames (KvaserCanClient_new 0 500000 [] [] 0))) =
    Some (False,
      [CanMsg_init\<lparr>cm_id := 0x501, cm_dlc := 2, cm_data := [17, 34, 0, 0, 0, 0, 0, 0]\<rparr>,
       CanMsg_init\<lparr>cm_id := 0x502, cm_dlc := 1, cm_data := [51, 34, 0, 0, 0, 0, 0, 0]\<rparr>], c)"
proof -
  let ?c = "snd (KvaserCanClient_init two_frames (KvaserCanClient_new 0 500000 [] [] 0))"
  let ?fs = "[CanMsg_init\<lparr>cm_id := 0x501, cm_dlc := 2, cm_data := [17, 34, 0, 0, 0, 0, 0, 0]\<rparr>,
       CanMsg_init\<lparr>cm_id := 0x502, cm_dlc := 1, cm_data := [51, 34, 0, 0, 0, 0, 0, 0]\<rparr>]"
  have "keeps_buffer two_frames" by (simp add: keeps_buffer_def two_frames_def)
  moreover have "replicate 8 (0 :: u8) = [0, 0, 0, 0, 0, 0, 0, 0]"
    by (simp add: eval_nat_numeral)
  then have "\<exists>c. KvaserCanClient_recv two_frames [] 3 ?c = Some (False, ?fs, c)"
    by (simp add: KvaserCanClient_recv_def KvaserCanClient_init_def KvaserCanClient_new_def canSetBitrate_def
        calcBusParams_def kv_call_def two_frames_def canOK_def MAX_CAN_RECV_FRAME_LEN_def copy_data_def CanMsg_init_def
        numeral_3_eq_3 Let_def)
  ultimately show ?thesis using kvaser_stale_data [of two_frames 3 ?c] by blast
qed

end
