(* ===== verification/Message_Manager.thy ===== *)
theory Message_Manager
  imports Can_Protocol
begin

text \<open>
  \<open>message_manager.hpp\<close> and \<open>hooke2_message_manager.cpp\<close>: the registry of the protocol data objects, which
  supervises the periods of received messages. An object is a value of any type \<open>'p\<close>; its virtual
  functions are the parameter \<open>ProtocolOps\<close>. The map from identifiers to objects holds positions in the two
  lists that own them. Allocation does not fail, and the lock is left out.
\<close>

section \<open>State\<close>

record ('p, 's) ProtocolOps =
  op_GetPeriod :: "'p \<Rightarrow> u32"
  op_Parse :: "'p \<Rightarrow> bytes \<Rightarrow> int \<Rightarrow> 's \<Rightarrow> 's"
  op_Reset :: "'p \<Rightarrow> 'p"

record CheckIdArg =
  period :: int
  real_period :: int
  last_time :: int
  error_count :: int

datatype pointer = Send_data nat | Recv_data nat

datatype ErrorCode = MM_OK | CANBUS_ERROR

record ('p, 's) MessageManager =
  send_protocol_data :: "'p list"
  recv_protocol_data :: "'p list"
  protocol_data_map :: "u32 \<Rightarrow> pointer option"
  check_ids :: "u32 \<Rightarrow> CheckIdArg option"
  received_ids :: "u32 set"
  sensor_data :: 's

definition MessageManager_new :: "'s \<Rightarrow> ('p, 's) MessageManager" where
  "MessageManager_new s0 =
     \<lparr>send_protocol_data = [], recv_protocol_data = [], protocol_data_map = (\<lambda>_. None), check_ids = (\<lambda>_. None),
      received_ids = {}, sensor_data = s0\<rparr>"

section \<open>Operations\<close>

text \<open>\<open>check_ids_[T::ID]\<close> with its four members assigned.\<close>

definition fresh_check :: "u32 \<Rightarrow> CheckIdArg" where
  "fresh_check p = \<lparr>period = uint p, real_period = 0, last_time = 0, error_count = 0\<rparr>"

definition AddRecvProtocolData ::
  "('p, 's) ProtocolOps \<Rightarrow> bool \<Rightarrow> u32 \<Rightarrow> 'p \<Rightarrow> ('p, 's) MessageManager \<Rightarrow> ('p, 's) MessageManager" where
  "AddRecvProtocolData ops need_check i dt m =
     (let m = m\<lparr>protocol_data_map := (protocol_data_map m)(i \<mapsto> Recv_data (length (recv_protocol_data m))),
                recv_protocol_data := recv_protocol_data m @ [dt]\<rparr>
      in if need_check then m\<lparr>check_ids := (check_ids m)(i \<mapsto> fresh_check (op_GetPeriod ops dt))\<rparr> else m)"

definition AddSendProtocolData ::
  "('p, 's) ProtocolOps \<Rightarrow> bool \<Rightarrow> u32 \<Rightarrow> 'p \<Rightarrow> ('p, 's) MessageManager \<Rightarrow> ('p, 's) MessageManager" where
  "AddSendProtocolData ops need_check i dt m =
     (let m = m\<lparr>protocol_data_map := (protocol_data_map m)(i \<mapsto> Send_data (length (send_protocol_data m))),
                send_protocol_data := send_protocol_data m @ [dt]\<rparr>
      in if need_check then m\<lparr>check_ids := (check_ids m)(i \<mapsto> fresh_check (op_GetPeriod ops dt))\<rparr> else m)"

definition deref :: "('p, 's) MessageManager \<Rightarrow> pointer \<Rightarrow> 'p" where
  "deref m q = (case q of Send_data k \<Rightarrow> send_protocol_data m ! k | Recv_data k \<Rightarrow> recv_protocol_data m ! k)"

definition GetMutableProtocolDataById :: "u32 \<Rightarrow> ('p, 's) MessageManager \<Rightarrow> pointer option" where
  "GetMutableProtocolDataById message_id m = protocol_data_map m message_id"

text \<open>\<open>rclcpp::Clock().now().nanoseconds() / 1e3\<close>, converted to \<open>int64_t\<close>.\<close>

definition micros :: "int \<Rightarrow> int" where
  "micros ns = (case d64_of_int ns / Fin 1000 of Fin x \<Rightarrow> trunc_rat x | _ \<Rightarrow> 0)"

definition late :: "int \<Rightarrow> int \<Rightarrow> bool" where
  "late base elapsed = (d64_of_int base * Fin (3 / 2) < d64_of_int elapsed)"

definition check_period :: "int \<Rightarrow> CheckIdArg \<Rightarrow> CheckIdArg" where
  "check_period time a =
     (let a = a\<lparr>real_period := time - last_time a\<rparr>;
          a = (if late (period a) (real_period a) then a\<lparr>error_count := error_count a + 1\<rparr>
               else a\<lparr>error_count := 0\<rparr>)
      in a\<lparr>last_time := time\<rparr>)"

definition MessageManager_Parse ::
  "('p, 's) ProtocolOps \<Rightarrow> int \<Rightarrow> u32 \<Rightarrow> bytes \<Rightarrow> int \<Rightarrow> ('p, 's) MessageManager \<Rightarrow> ('p, 's) MessageManager" where
  "MessageManager_Parse ops now_ns message_id data len m =
     (case GetMutableProtocolDataById message_id m of
        None \<Rightarrow> m
      | Some q \<Rightarrow>
          let m = m\<lparr>sensor_data := op_Parse ops (deref m q) data len (sensor_data m),
                    received_ids := insert message_id (received_ids m)\<rparr>
          in case check_ids m message_id of
               None \<Rightarrow> m
             | Some a \<Rightarrow> m\<lparr>check_ids := (check_ids m)(message_id \<mapsto> check_period (micros now_ns) a)\<rparr>)"

definition ClearSensorData :: "('s \<Rightarrow> 's) \<Rightarrow> ('p, 's) MessageManager \<Rightarrow> ('p, 's) MessageManager" where
  "ClearSensorData clear m = m\<lparr>sensor_data := clear (sensor_data m)\<rparr>"

text \<open>The argument is \<open>None\<close> for a null pointer.\<close>

definition GetSensorData :: "'s option \<Rightarrow> ('p, 's) MessageManager \<Rightarrow> ErrorCode \<times> 's option" where
  "GetSensorData target m = (case target of None \<Rightarrow> (CANBUS_ERROR, None) | Some _ \<Rightarrow> (MM_OK, Some (sensor_data m)))"

definition ResetSendMessages :: "('p, 's) ProtocolOps \<Rightarrow> ('p, 's) MessageManager \<Rightarrow> ('p, 's) MessageManager" where
  "ResetSendMessages ops m = m\<lparr>send_protocol_data := map (op_Reset ops) (send_protocol_data m)\<rparr>"

section \<open>The manager of the Hooke2\<close>

text \<open>The throttle command does not override \<open>Parse\<close>, which does nothing in the base class.\<close>

definition throttle_ops :: "(Throttlecommand100, 's) ProtocolOps" where
  "throttle_ops =
     \<lparr>op_GetPeriod = \<lambda>_. Throttlecommand100_GetPeriod, op_Parse = \<lambda>_ _ _ s. s,
      op_Reset = \<lambda>_. Throttlecommand100_Reset\<rparr>"

definition Hooke2MessageManager_new :: "'s \<Rightarrow> (Throttlecommand100, 's) MessageManager" where
  "Hooke2MessageManager_new s0 =
     AddSendProtocolData throttle_ops True Throttlecommand100_ID Throttlecommand100_Reset (MessageManager_new s0)"

section \<open>Periods\<close>

lemma late_exact:
  assumes "\<bar>base\<bar> \<le> 2 ^ 51" "\<bar>elapsed\<bar> \<le> 2 ^ 53"
  shows "late base elapsed \<longleftrightarrow> 3 * base < 2 * elapsed"
proof -
  have "\<bar>3 * base\<bar> \<le> 2 ^ 53" using assms(1) by simp
  then have "d64 (of_int (3 * base) / 2 ^ 1) = Fin (of_int (3 * base) / 2 ^ 1)" by (rule d64_dyadic) simp
  then have m: "d64_of_int base * Fin (3 / 2) = Fin (3 * of_int base / 2)"
    using assms(1) by (simp add: d64_of_int_eq mult.commute)
  have "late base elapsed \<longleftrightarrow> 3 * of_int base < (2 * of_int elapsed :: rat)"
    using assms(2) unfolding late_def m by (simp add: d64_of_int_eq divide_less_eq mult.commute)
  also have "\<dots> \<longleftrightarrow> of_int (3 * base) < (of_int (2 * elapsed) :: rat)" by simp
  also have "\<dots> \<longleftrightarrow> 3 * base < 2 * elapsed" by (simp only: of_int_less_iff)
  finally show ?thesis .
qed

text \<open>The times between the receipts, the first one since time 0, and the late ones at the end.\<close>

fun gaps :: "int \<Rightarrow> int list \<Rightarrow> int list" where
  "gaps t0 [] = []"
| "gaps t0 (t # ts) = (t - t0) # gaps t ts"

definition late_run :: "int \<Rightarrow> int list \<Rightarrow> nat" where
  "late_run base gs = length (takeWhile (\<lambda>g. 3 * base < 2 * g) (rev gs))"

lemma gaps_snoc: "gaps t0 (ts @ [t]) = gaps t0 ts @ [t - last (t0 # ts)]"
  by (induction ts arbitrary: t0) auto

definition receive :: "('p, 's) ProtocolOps \<Rightarrow> u32 \<Rightarrow> (int \<times> bytes) list \<Rightarrow> ('p, 's) MessageManager \<Rightarrow>
    ('p, 's) MessageManager" where
  "receive ops i rs m = fold (\<lambda>(ns, data). MessageManager_Parse ops ns i data (int (length data))) rs m"

definition arrivals :: "(int \<times> bytes) list \<Rightarrow> int list" where
  "arrivals rs = map (\<lambda>r. micros (fst r)) rs"

lemma arrivals_snoc: "arrivals (rs @ [(ns, data)]) = arrivals rs @ [micros ns]"
  by (simp add: arrivals_def)

lemma Parse_known:
  assumes "protocol_data_map m i = Some q" "check_ids m i = Some a"
  shows "protocol_data_map (MessageManager_Parse ops ns i data len m) i = Some q"
    "check_ids (MessageManager_Parse ops ns i data len m) i = Some (check_period (micros ns) a)"
  using assms by (simp_all add: MessageManager_Parse_def GetMutableProtocolDataById_def Let_def)

lemma receive_checks:
  assumes "protocol_data_map m i = Some q" "check_ids m i = Some a" "last_time a = 0" "error_count a = 0"
    and "\<bar>period a\<bar> \<le> 2 ^ 51"
    and "list_all (\<lambda>g. \<bar>g\<bar> \<le> 2 ^ 53) (gaps 0 (arrivals rs))"
  shows "protocol_data_map (receive ops i rs m) i = Some q \<and>
    (\<exists>b. check_ids (receive ops i rs m) i = Some b \<and> period b = period a \<and>
      last_time b = last (0 # arrivals rs) \<and>
      error_count b = int (late_run (period a) (gaps 0 (arrivals rs))))"
  using assms(6)
proof (induction rs rule: rev_induct)
  case Nil
  then show ?case using assms by (simp add: receive_def late_run_def arrivals_def)
next
  case (snoc r rs)
  obtain ns data where r: "r = (ns, data)" by (cases r)
  define ts where "ts = arrivals rs"
  let ?g = "micros ns - last (0 # ts)"
  have gs: "gaps 0 (arrivals (rs @ [r])) = gaps 0 ts @ [?g]"
    by (simp only: r arrivals_snoc gaps_snoc ts_def)
  have small: "\<bar>?g\<bar> \<le> 2 ^ 53" using snoc.prems unfolding gs by simp
  obtain b where b: "protocol_data_map (receive ops i rs m) i = Some q" "check_ids (receive ops i rs m) i = Some b"
    "period b = period a" "last_time b = last (0 # ts)" "error_count b = int (late_run (period a) (gaps 0 ts))"
    using snoc.IH snoc.prems unfolding gs ts_def [symmetric] by auto
  have step: "receive ops i (rs @ [r]) m = MessageManager_Parse ops ns i data (int (length data)) (receive ops i rs m)"
    by (simp add: receive_def r)
  have "error_count (check_period (micros ns) b) = int (late_run (period a) (gaps 0 ts @ [?g]))"
    using b(3-5) late_exact [OF assms(5) small] by (simp add: check_period_def Let_def late_run_def)
  moreover have "period (check_period (micros ns) b) = period a" "last_time (check_period (micros ns) b) = micros ns"
    using b(3) by (simp_all add: check_period_def Let_def)
  ultimately show ?case
    using Parse_known [OF b(1,2)] unfolding step gs by (simp add: r arrivals_snoc)
qed

text \<open>
  After any receipts of the throttle identifier, the manager's error count is the number of receipts at the
  end of them that came more than 30 ms after the one before, the first one measured from time
  0; its last time is that of the last receipt, and the sensor data is untouched.
\<close>

theorem period_errors:
  fixes s :: 's
  assumes "list_all (\<lambda>g. \<bar>g\<bar> \<le> 2 ^ 53) (gaps 0 (arrivals rs))"
  shows "(\<exists>a. check_ids (receive throttle_ops 0x100 rs (Hooke2MessageManager_new s)) 0x100 = Some a \<and>
      error_count a = int (length (takeWhile (\<lambda>g. 30000 < g) (rev (gaps 0 (arrivals rs))))) \<and>
      last_time a = last (0 # arrivals rs)) \<and>
    sensor_data (receive throttle_ops 0x100 rs (Hooke2MessageManager_new s)) = s"
proof -
  let ?m = "Hooke2MessageManager_new s :: (Throttlecommand100, 's) MessageManager"
  have m: "protocol_data_map ?m 0x100 = Some (Send_data 0)"
    "check_ids ?m 0x100 = Some (fresh_check 20000)" "sensor_data ?m = s"
    by (simp_all add: Hooke2MessageManager_new_def AddSendProtocolData_def MessageManager_new_def Throttlecommand100_ID_def
        throttle_ops_def Throttlecommand100_GetPeriod_def Let_def)
  have f: "last_time (fresh_check 20000) = 0" "error_count (fresh_check 20000) = 0" "period (fresh_check 20000) = 20000"
    by (simp_all add: fresh_check_def)
  have "\<bar>period (fresh_check 20000)\<bar> \<le> 2 ^ 51" by (simp add: f)
  note r = receive_checks [OF m(1,2) f(1,2) this assms, of throttle_ops]
  have "(\<lambda>g. 3 * 20000 < 2 * g) = (\<lambda>g :: int. 30000 < g)" by auto
  then have "late_run 20000 gs = length (takeWhile (\<lambda>g. 30000 < g) (rev gs))" for gs
    by (simp only: late_run_def)
  moreover have "sensor_data (receive throttle_ops 0x100 rs n) = sensor_data n" for n :: "(Throttlecommand100, 's) MessageManager"
    unfolding receive_def
    by (induction rs arbitrary: n)
      (auto simp: MessageManager_Parse_def throttle_ops_def Let_def split: option.split)
  ultimately show ?thesis using r f(3) m(3) by auto
qed

theorem period_errors_witness:
  "\<exists>a. check_ids (receive throttle_ops 0x100 [(20000000, []), (80000000, []), (120000000, [])]
      (Hooke2MessageManager_new ())) 0x100 = Some a \<and> error_count a = 2"
proof -
  have "d64 20000000 = Fin 20000000" "d64 80000000 = Fin 80000000" "d64 120000000 = Fin 120000000"
    "d64 20000 = Fin 20000" "d64 80000 = Fin 80000" "d64 120000 = Fin 120000"
    by (simp_all add: d64_numeral)
  then have m: "micros 20000000 = 20000" "micros 80000000 = 80000" "micros 120000000 = 120000"
    by (simp_all add: micros_def d64_of_int_def trunc_rat_def)
  show ?thesis
    using period_errors [of "[(20000000, []), (80000000, []), (120000000, [])]" "()"] by (auto simp: m arrivals_def)
qed

end
