(* ===== verification/Param_Monitor.thy ===== *)
theory Param_Monitor
  imports Prelude "HOL-Library.Char_ord" "HOL-Library.List_Lexorder"
begin

text \<open>
  \<open>param_monitor.hpp\<close>: the table of parameters on the terminal and the thread that redraws it. The steps of
  the thread and of its clients interleave; what happens under the mutex is one step. The styling of
  a cell by the library \<open>fmt\<close> is the parameter \<open>styled\<close>; sleeping times are left out.
\<close>

section \<open>State\<close>

record ParamData =
  current_value :: string
  current_color :: u32
  command_value :: string
  command_color :: u32

definition ParamData_init :: ParamData where
  "ParamData_init = \<lparr>current_value = [], current_color = 0, command_value = [], command_color = 0\<rparr>"

text \<open>The ordered map; \<open>params_[name]\<close> creates a missing entry.\<close>

type_synonym param_map = "(string \<times> ParamData) list"

fun at_name :: "string \<Rightarrow> (ParamData \<Rightarrow> ParamData) \<Rightarrow> param_map \<Rightarrow> param_map" where
  "at_name name f [] = [(name, f ParamData_init)]"
| "at_name name f ((k, d) # ps) =
     (if name = k then (k, f d) # ps
      else if name < k then (name, f ParamData_init) # (k, d) # ps
      else (k, d) # at_name name f ps)"

text \<open>
  Where the refresh thread is: before the test of \<open>running_\<close>, before the test of \<open>need_refresh_\<close>, before
  \<open>refreshDisplay\<close>, before the reset of \<open>need_refresh_\<close>, asleep, or at its end and not joined yet.
\<close>

datatype refresh_pc = No_thread | At_running | At_need | At_display | At_clear | Asleep | Finished

record ParamMonitor =
  pm_params :: param_map
  need_refresh :: bool
  running :: bool
  refresh_thread :: refresh_pc
  last_shown :: param_map
  terminal :: "string list"

section \<open>Drawing\<close>

definition esc :: string where "esc = [CHR 0x1B]"
definition newline :: string where "newline = [CHR 0x0A]"

definition padded :: "string \<Rightarrow> string" where
  "padded s = s @ replicate (18 - length s) (CHR '' '')"

definition separator :: string where
  "separator =
     (let dashes = replicate 20 (CHR ''-'')
      in esc @ ''[37m+'' @ dashes @ ''+'' @ dashes @ ''+'' @ dashes @ ''+'' @ esc @ ''[0m'' @ newline)"

definition print :: "string \<Rightarrow> ParamMonitor \<Rightarrow> ParamMonitor" where
  "print text s = s\<lparr>terminal := terminal s @ [text]\<rparr>"

definition printHeader :: "ParamMonitor \<Rightarrow> ParamMonitor" where
  "printHeader s =
     (let header = ''| '' @ padded ''Param'' @ '' | '' @ padded ''Current'' @ '' | '' @ padded ''Command'' @ '' |'' @ newline
      in print (esc @ ''[s'') (print (separator @ header @ separator)
           (print (''printHeader called'' @ newline) s)))"

definition ParamMonitor_new :: ParamMonitor where
  "ParamMonitor_new =
     printHeader (print (esc @ ''[?25l'') (print (''ParamMonitor constructor called'' @ newline)
       \<lparr>pm_params = [], need_refresh = False, running = False, refresh_thread = No_thread,
        last_shown = [], terminal = []\<rparr>))"

definition table_row :: "(u32 \<Rightarrow> string \<Rightarrow> string) \<Rightarrow> string \<times> ParamData \<Rightarrow> string" where
  "table_row styled p =
     (case p of (name, data) \<Rightarrow>
        ''| '' @ padded name @ '' | '' @ styled (current_color data) (padded (current_value data)) @ esc @ ''[0m'' @
        '' | '' @ styled (command_color data) (padded (command_value data)) @ esc @ ''[0m'' @ '' |'' @ newline)"

text \<open>\<open>last_shown\<close> records the table on the terminal; the code keeps only its number of lines and never reads it.\<close>

definition refreshDisplay :: "(u32 \<Rightarrow> string \<Rightarrow> string) \<Rightarrow> ParamMonitor \<Rightarrow> ParamMonitor" where
  "refreshDisplay styled s =
     (print (concat (map (table_row styled) (pm_params s)) @ separator) (print (esc @ ''[u'') s))
       \<lparr>last_shown := pm_params s\<rparr>"

section \<open>Updates\<close>

definition updateCurrent :: "string \<Rightarrow> string \<Rightarrow> u32 \<Rightarrow> ParamMonitor \<Rightarrow> ParamMonitor" where
  "updateCurrent name value color s =
     s\<lparr>pm_params := at_name name (\<lambda>d. d\<lparr>current_value := value, current_color := color\<rparr>) (pm_params s),
       need_refresh := True\<rparr>"

definition updateCommand :: "string \<Rightarrow> string \<Rightarrow> u32 \<Rightarrow> ParamMonitor \<Rightarrow> ParamMonitor" where
  "updateCommand name value color s =
     s\<lparr>pm_params := at_name name (\<lambda>d. d\<lparr>command_value := value, command_color := color\<rparr>) (pm_params s),
       need_refresh := True\<rparr>"

section \<open>The thread\<close>

text \<open>Assigning to a joinable \<open>std::thread\<close> ends the process: \<open>None\<close>.\<close>

definition startAutoRefresh :: "ParamMonitor \<Rightarrow> ParamMonitor option" where
  "startAutoRefresh s =
     (if running s then Some s
      else if refresh_thread s = No_thread then Some (s\<lparr>running := True, refresh_thread := At_running\<rparr>)
      else None)"

text \<open>The two parts of \<open>stopAutoRefresh\<close>; \<open>None\<close> while the thread has not ended.\<close>

definition stop_running :: "ParamMonitor \<Rightarrow> ParamMonitor" where
  "stop_running s = s\<lparr>running := False\<rparr>"

definition join_thread :: "ParamMonitor \<Rightarrow> ParamMonitor option" where
  "join_thread s =
     (if refresh_thread s = No_thread then Some s
      else if refresh_thread s = Finished then Some (s\<lparr>refresh_thread := No_thread\<rparr>) else None)"

definition refresh_step :: "(u32 \<Rightarrow> string \<Rightarrow> string) \<Rightarrow> ParamMonitor \<Rightarrow> ParamMonitor option" where
  "refresh_step styled s =
     (case refresh_thread s of
        No_thread \<Rightarrow> None
      | At_running \<Rightarrow> Some (s\<lparr>refresh_thread := if running s then At_need else Finished\<rparr>)
      | At_need \<Rightarrow> Some (s\<lparr>refresh_thread := if need_refresh s then At_display else Asleep\<rparr>)
      | At_display \<Rightarrow> Some ((refreshDisplay styled s)\<lparr>refresh_thread := At_clear\<rparr>)
      | At_clear \<Rightarrow> Some (s\<lparr>need_refresh := False, refresh_thread := Asleep\<rparr>)
      | Asleep \<Rightarrow> Some (s\<lparr>refresh_thread := At_running\<rparr>)
      | Finished \<Rightarrow> None)"

fun refresh_steps :: "(u32 \<Rightarrow> string \<Rightarrow> string) \<Rightarrow> nat \<Rightarrow> ParamMonitor \<Rightarrow> ParamMonitor option" where
  "refresh_steps styled 0 s = Some s"
| "refresh_steps styled (Suc k) s =
     (case refresh_step styled s of None \<Rightarrow> None | Some s \<Rightarrow> refresh_steps styled k s)"

section \<open>Properties\<close>

lemma at_name_keys: "fst ` set (at_name name f ps) = insert name (fst ` set ps)"
  by (induction name f ps rule: at_name.induct) auto

lemma at_name_sorted: "sorted (map fst ps) \<Longrightarrow> distinct (map fst ps) \<Longrightarrow>
    sorted (map fst (at_name name f ps)) \<and> distinct (map fst (at_name name f ps)) \<and>
    map_of (at_name name f ps) =
      (map_of ps)(name \<mapsto> f (case map_of ps name of None \<Rightarrow> ParamData_init | Some d \<Rightarrow> d))"
proof (induction ps)
  case (Cons p ps)
  obtain k d where p: "p = (k, d)" by (cases p)
  have later: "map_of ps name = None" if "name < k"
    using that Cons.prems by (fastforce simp: p map_of_eq_None_iff)
  show ?case
    using Cons at_name_keys [of name f ps] later by (auto simp: p fun_eq_iff)
qed auto

text \<open>A quiet thread: nothing to draw and not about to clear the flag.\<close>

lemma quiet_steps:
  assumes "\<not> need_refresh s" "running s" "refresh_thread s \<in> {At_running, At_need, Asleep}"
  shows "\<exists>s'. refresh_steps styled k s = Some s' \<and> last_shown s' = last_shown s \<and> pm_params s' = pm_params s"
  using assms
proof (induction k arbitrary: s)
  case (Suc k)
  obtain s1 where s1: "refresh_step styled s = Some s1" "last_shown s1 = last_shown s" "pm_params s1 = pm_params s"
    "\<not> need_refresh s1" "running s1" "refresh_thread s1 \<in> {At_running, At_need, Asleep}"
    using Suc.prems by (auto simp: refresh_step_def)
  from Suc.IH [OF s1(4-6)] s1(1-3) show ?case by simp
qed simp

definition steps_to_shown :: "refresh_pc \<Rightarrow> nat" where
  "steps_to_shown pc = (case pc of At_display \<Rightarrow> 1 | At_need \<Rightarrow> 2 | At_running \<Rightarrow> 3 | Asleep \<Rightarrow> 4 | _ \<Rightarrow> 0)"

text \<open>
  While the thread runs, an update is on the terminal after at most four steps of the thread, unless it
  falls between the drawing of the table and the reset of the flag: then the flag is cleared with
  the update, and no number of steps of the thread shows it.
\<close>

theorem refresh_race:
  assumes "running s" "refresh_thread s \<noteq> No_thread" "refresh_thread s \<noteq> Finished"
  shows "(refresh_thread s \<noteq> At_clear \<longrightarrow>
       (\<exists>s'. refresh_steps styled (steps_to_shown (refresh_thread s)) (updateCurrent name v col s) = Some s' \<and>
          last_shown s' = pm_params (updateCurrent name v col s))) \<and>
    (refresh_thread s = At_clear \<longrightarrow>
       (\<exists>s'. refresh_steps styled (Suc k) (updateCurrent name v col s) = Some s' \<and> last_shown s' = last_shown s \<and>
          pm_params s' = pm_params (updateCurrent name v col s)))"
proof (intro conjI impI)
  assume "refresh_thread s \<noteq> At_clear"
  then show "\<exists>s'. refresh_steps styled (steps_to_shown (refresh_thread s)) (updateCurrent name v col s) = Some s' \<and>
      last_shown s' = pm_params (updateCurrent name v col s)"
    using assms
    by (cases "refresh_thread s")
      (simp_all add: steps_to_shown_def refresh_step_def updateCurrent_def refreshDisplay_def print_def eval_nat_numeral)
next
  assume c: "refresh_thread s = At_clear"
  let ?s = "(updateCurrent name v col s)\<lparr>need_refresh := False, refresh_thread := Asleep\<rparr>"
  have "\<exists>s'. refresh_steps styled k ?s = Some s' \<and> last_shown s' = last_shown ?s \<and> pm_params s' = pm_params ?s"
    by (rule quiet_steps) (use assms in \<open>simp_all add: updateCurrent_def\<close>)
  then show "\<exists>s'. refresh_steps styled (Suc k) (updateCurrent name v col s) = Some s' \<and> last_shown s' = last_shown s \<and>
      pm_params s' = pm_params (updateCurrent name v col s)"
    using c by (simp add: refresh_step_def updateCurrent_def)
qed

definition demo_monitor :: ParamMonitor where
  "demo_monitor = ParamMonitor_new\<lparr>running := True, refresh_thread := At_clear, need_refresh := True\<rparr>"

theorem refresh_race_witness:
  "\<exists>s. refresh_steps (\<lambda>_ t. t) 100 (updateCurrent ''speed'' ''3'' 0 demo_monitor) = Some s \<and> last_shown s = [] \<and>
     pm_params s = [(''speed'', ParamData_init\<lparr>current_value := ''3''\<rparr>)]"
proof -
  have m: "running demo_monitor" "refresh_thread demo_monitor = At_clear" "last_shown demo_monitor = []"
    "pm_params demo_monitor = []"
    by (simp_all add: demo_monitor_def ParamMonitor_new_def printHeader_def print_def Let_def)
  then have "pm_params (updateCurrent ''speed'' ''3'' 0 demo_monitor) = [(''speed'', ParamData_init\<lparr>current_value := ''3''\<rparr>)]"
    by (simp add: updateCurrent_def ParamData_init_def)
  moreover have "Suc 99 = (100 :: nat)" by simp
  ultimately show ?thesis
    using refresh_race [of demo_monitor "\<lambda>_ t. t" "''speed''" "''3''" 0 99] m by (simp del: refresh_steps.simps)
qed

end
