(* ===== verification/Race_Contract.thy ===== *)
theory Race_Contract
  imports Binary_Float
begin

text \<open>
  The timed inputs of the race stack (\<open>autoracer_safety/race_contract.py\<close>): stamps in seconds, the
  tracker that keeps the last accepted message of a topic, and its freshness. Python's \<open>float\<close> is
  the binary64 format of \<open>Binary_Float\<close>, its \<open>int\<close> counters are naturals. The last
  part bounds the age of a fresh input over the reals.
\<close>

section \<open>Stamps\<close>

record Stamp =
  stamp_seconds :: "32 word"
  stamp_nanosec :: u32

definition nano :: fp where "nano = d64 (1 / 10 ^ 9)"

definition stamp_to_sec :: "Stamp \<Rightarrow> fp" where
  "stamp_to_sec stamp =
     d64_of_int (sint (stamp_seconds stamp)) + d64_of_int (uint (stamp_nanosec stamp)) * nano"

definition finite_stamp :: "Stamp \<Rightarrow> bool" where
  "finite_stamp stamp =
     (let value = stamp_to_sec stamp in isfinite value \<and> Fin 0 \<le> value)"

section \<open>The tracker\<close>

record 'm TimedInput =
  message :: "'m option"
  receipt_sec :: fp
  source_stamp_sec :: fp
  sequence :: nat
  rejected_out_of_order :: nat
  rejected_future :: nat

definition TimedInput_init :: "'m TimedInput" where
  "TimedInput_init =
     \<lparr>message = None, receipt_sec = Fin (- 1), source_stamp_sec = Fin (- 1), sequence = 0,
      rejected_out_of_order = 0, rejected_future = 0\<rparr>"

text \<open>\<open>update\<close> pairs its result with the new tracker; without a source stamp the receipt counts.\<close>

definition timed_update ::
  "'m \<Rightarrow> fp \<Rightarrow> Stamp option \<Rightarrow> 'm TimedInput \<Rightarrow> bool \<times> 'm TimedInput" where
  "timed_update m receipt source_stamp tr =
     (let stamp = (case source_stamp of None \<Rightarrow> receipt | Some st \<Rightarrow> stamp_to_sec st)
      in if \<not> isfinite stamp \<or> stamp < Fin 0 then (False, tr)
         else if stamp + nano < source_stamp_sec tr
         then (False, tr\<lparr>rejected_out_of_order := rejected_out_of_order tr + 1\<rparr>)
         else if receipt + d64 (1 / 20) < stamp
         then (False, tr\<lparr>rejected_future := rejected_future tr + 1\<rparr>)
         else (True, tr\<lparr>message := Some m, receipt_sec := receipt, source_stamp_sec := stamp,
                 sequence := sequence tr + 1\<rparr>))"

definition fresh :: "'m TimedInput \<Rightarrow> fp \<Rightarrow> fp \<Rightarrow> bool" where
  "fresh tr now_sec timeout_sec \<longleftrightarrow>
     message tr \<noteq> None \<and>
     receipt_sec tr \<le> now_sec + d64 (1 / 20) \<and>
     source_stamp_sec tr \<le> now_sec + d64 (1 / 20) \<and>
     now_sec - receipt_sec tr \<le> timeout_sec \<and>
     now_sec - source_stamp_sec tr \<le> timeout_sec"

definition timed_clear :: "'m TimedInput \<Rightarrow> 'm TimedInput" where
  "timed_clear tr =
     tr\<lparr>message := None, receipt_sec := Fin (- 1), source_stamp_sec := Fin (- 1), sequence := 0\<rparr>"

lemma fresh_message: "fresh tr t d \<Longrightarrow> \<exists>m. message tr = Some m"
  by (auto simp: fresh_def)

lemma fresh_cleared [simp]: "\<not> fresh (timed_clear tr) t d"
  by (simp add: fresh_def timed_clear_def)

section \<open>Age of a fresh input\<close>

lemma minus_Fin: "Fin x - Fin y = d64 (x - y)"
  by (simp add: minus_fp_def)

text \<open>Rounding errors of at most a quarter of a millisecond on times below \<open>2\<^sup>41\<close> seconds.\<close>

lemma d64_near:
  assumes "\<bar>x\<bar> \<le> 2 ^ 41"
  obtains r where "d64 x = Fin r" "\<bar>r - x\<bar> \<le> 1 / 4000"
proof -
  have "\<bar>x\<bar> \<le> 2 ^ 100" using assms by (rule order_trans) simp
  then obtain r where r: "d64 x = Fin r" "\<bar>r - x\<bar> \<le> \<bar>x\<bar> / 2 ^ 53 + 1 / 2 ^ 100"
    by (rule d64_abs_error)
  have "\<bar>x\<bar> / 2 ^ 53 \<le> 2 ^ 41 / 2 ^ 53" using assms by (rule divide_right_mono) simp
  also have "(2 :: rat) ^ 41 / 2 ^ 53 + 1 / 2 ^ 100 \<le> 1 / 4000" by simp
  finally have "\<bar>r - x\<bar> \<le> 1 / 4000" using r(2) by linarith
  with r(1) show ?thesis by (rule that)
qed

lemma age_bound:
  assumes "Fin n - Fin r \<le> Fin d" "Fin r \<le> Fin n + d64 (1 / 20)"
    and "0 \<le> n" "n \<le> 2 ^ 40" "\<bar>r\<bar> \<le> 2 ^ 40"
  shows "n - r \<le> d + 1 / 1000 \<and> r - n \<le> 51 / 1000"
proof -
  have "\<bar>n - r\<bar> \<le> 2 ^ 41" using assms(3-5) by simp
  then obtain a where a: "d64 (n - r) = Fin a" "\<bar>a - (n - r)\<bar> \<le> 1 / 4000" by (rule d64_near)
  obtain e where e: "d64 (1 / 20) = Fin e" "\<bar>e - 1 / 20\<bar> \<le> 1 / 4000" by (rule d64_near [of "1 / 20"]) simp
  have "- 1 \<le> e" "e \<le> 1" using e(2) by linarith+
  moreover have "(2 :: rat) ^ 40 + 1 \<le> 2 ^ 41" by simp
  ultimately have "\<bar>n + e\<bar> \<le> 2 ^ 41" using assms(3,4) by linarith
  then obtain b where b: "d64 (n + e) = Fin b" "\<bar>b - (n + e)\<bar> \<le> 1 / 4000" by (rule d64_near)
  have "a \<le> d" "r \<le> b" using assms(1,2) a(1) b(1) by (simp_all add: minus_Fin e(1))
  with a(2) b(2) e(2) show ?thesis by linarith
qed

text \<open>
  Times of a receipt and of a source stamp are \<open>t\<close>-recent when they are not older than the timeout
  and not more than the tolerance in the future, to the millisecond.
\<close>

definition recent :: "rat \<Rightarrow> rat \<Rightarrow> rat \<Rightarrow> bool" where
  "recent n d r \<longleftrightarrow> n - r \<le> d + 1 / 1000 \<and> r - n \<le> 51 / 1000"

text \<open>Every literal of the code is finite, and the tolerance is not negative.\<close>

lemma tolerance_nonneg: "Fin 0 \<le> Fin 0 + d64 (1 / 20)"
proof -
  obtain e where e: "d64 (1 / 20) = Fin e" "0 \<le> e" "e \<le> 1"
    by (rule d64_between [of 0 1 "1 / 20"]) (simp_all add: d64_int [of 1, simplified])
  have "d64 0 \<le> d64 (0 + e)" using e(2) by (intro d64_mono) simp
  then show ?thesis by (simp add: e(1))
qed

lemma nano_finite: "\<exists>x. nano = Fin x \<and> 0 < x"
proof -
  obtain x where x: "d64 (1 / 10 ^ 9) = Fin x" "\<bar>x - 1 / 10 ^ 9\<bar> \<le> \<bar>1 / 10 ^ 9\<bar> / 2 ^ 53 + 1 / 2 ^ 100"
    by (rule d64_abs_error [of "1 / 10 ^ 9"]) simp_all
  have "\<bar>1 / 10 ^ 9 :: rat\<bar> / 2 ^ 53 + 1 / 2 ^ 100 < 1 / 10 ^ 9" by simp
  with x(2) have "0 < x" by linarith
  with x(1) show ?thesis by (simp add: nano_def)
qed


lemma zero_nano: "Fin 0 * nano = Fin 0"
proof -
  obtain x where x: "nano = Fin x" using nano_finite by blast
  show ?thesis unfolding x by simp
qed

text \<open>
  C29: An input is fresh only if it was received, and stamped by its source, not longer ago than the
  timeout and not more than 50 ms in the future, to the millisecond; the bound is over the real
  numbers and holds for all clocks of the next thirty thousand years.
\<close>

theorem fresh_input_age:
  assumes "fresh tr (Fin n) (Fin d)" "0 \<le> n" "n \<le> 2 ^ 40"
    and "receipt_sec tr = Fin r" "\<bar>r\<bar> \<le> 2 ^ 40" "source_stamp_sec tr = Fin q" "\<bar>q\<bar> \<le> 2 ^ 40"
  shows "recent n d r \<and> recent n d q"
  using age_bound [of n r d] age_bound [of n q d] assms by (simp add: fresh_def recent_def)

theorem fresh_input_age_witness:
  "let tr = \<lparr>message = Some (), receipt_sec = Fin 0, source_stamp_sec = Fin 0, sequence = 1,
       rejected_out_of_order = 0, rejected_future = 0\<rparr>
   in fresh tr (Fin 0) (Fin 1) \<and> recent 0 1 0"
proof -
  let ?tr = "\<lparr>message = Some (), receipt_sec = Fin 0, source_stamp_sec = Fin 0, sequence = 1,
       rejected_out_of_order = 0, rejected_future = 0\<rparr>"
  have f: "fresh ?tr (Fin 0) (Fin 1)" using tolerance_nonneg by (simp add: fresh_def minus_Fin)
  from fresh_input_age [OF f, of 0 0] f show ?thesis by (simp add: Let_def)
qed

end
