(* ===== verification/Race_Runtime.thy ===== *)
theory Race_Runtime
  imports Race_Contract
begin

text \<open>
  The race runtime manager (\<open>autoracer_safety/race_runtime_manager.py\<close>), the node that decides when
  the vehicle may drive: it supervises the inputs of the stack, asks the vehicle interface for
  autonomous mode and the command gate for engagement, and publishes the operation mode and the
  emergency state.

  The clock and the readiness of the services are the parameter \<open>RaceWorld\<close>: the answer to each
  call is a function of the call's number, so two readings in one callback may differ. A future is
  known by the number of its request; its result arrives as an event. Effects visible outside are
  recorded, newest first, in \<open>effects\<close>; an exception is \<open>Inl\<close>. Log messages are left out. The
  constants of the message definitions are kept symbolic.
\<close>

section \<open>Messages and parameters\<close>

datatype RuntimePhase = IDLE | READY | ARMING | ACTIVE | STOPPING | FINISHED | FAULT

fun phase_id :: "RuntimePhase \<Rightarrow> nat" where
  "phase_id IDLE = 0"
| "phase_id READY = 1"
| "phase_id ARMING = 2"
| "phase_id ACTIVE = 3"
| "phase_id STOPPING = 4"
| "phase_id FINISHED = 5"
| "phase_id FAULT = 6"

fun phase_name :: "RuntimePhase \<Rightarrow> string" where
  "phase_name IDLE = ''IDLE''"
| "phase_name READY = ''READY''"
| "phase_name ARMING = ''ARMING''"
| "phase_name ACTIVE = ''ACTIVE''"
| "phase_name STOPPING = ''STOPPING''"
| "phase_name FINISHED = ''FINISHED''"
| "phase_name FAULT = ''FAULT''"

datatype localization_code = LOC_INITIALIZED | LOC_other u8
datatype route_code = ROUTE_ARRIVED | ROUTE_other u8
datatype mode_code = MODE_AUTONOMOUS | MODE_MANUAL | MODE_NO_COMMAND | MODE_other u8
datatype gear_code = GEAR_DRIVE | GEAR_PARK | GEAR_NEUTRAL | GEAR_other u8

record LongitudinalCommand =
  command_velocity :: fp
  command_acceleration :: fp

datatype service = CONTROL_MODE | ENGAGE
datatype race_request = Ask_autonomous | Ask_manual | Set_engage bool
datatype future_result = Waiting | Done "bool option"

record Future =
  future_id :: nat
  future_request :: race_request
  future_result :: future_result

record RaceParams =
  update_rate_hz :: fp
  auto_start :: bool
  startup_timeout_sec :: fp
  localization_timeout_sec :: fp
  trajectory_timeout_sec :: fp
  control_timeout_sec :: fp
  velocity_status_timeout_sec :: fp
  vehicle_status_timeout_sec :: fp
  stop_speed_mps :: fp
  service_retry_sec :: fp
  emergency_acceleration_mps2 :: fp

definition RaceParams_default :: RaceParams where
  "RaceParams_default =
     \<lparr>update_rate_hz = Fin 20, auto_start = True, startup_timeout_sec = Fin 90,
      localization_timeout_sec = d64 (2 / 10), trajectory_timeout_sec = d64 (35 / 100),
      control_timeout_sec = d64 (2 / 10), velocity_status_timeout_sec = Fin (1 / 4),
      vehicle_status_timeout_sec = Fin (1 / 4), stop_speed_mps = d64 (1 / 10),
      service_retry_sec = Fin (1 / 4), emergency_acceleration_mps2 = d64 (- 24 / 10)\<rparr>"

text \<open>What one run of \<open>_publish\<close> sends, in the order of the code.\<close>

datatype gear_out = OUT_DRIVE | OUT_PARK
datatype hazard_out = HAZARD_ENABLE | HAZARD_DISABLE
datatype turn_out = TURN_DISABLE | TURN_NO_COMMAND
datatype gate_out = GATE_AUTO
datatype operation_mode = OP_AUTONOMOUS | OP_STOP
datatype mrm_state = MRM_OPERATING | MRM_NORMAL
datatype mrm_behavior = MRM_EMERGENCY_STOP | MRM_NONE

record OperationModeState =
  op_mode :: operation_mode
  is_autoware_control_enabled :: bool
  is_in_transition :: bool
  is_stop_mode_available :: bool
  is_autonomous_mode_available :: bool

record EmergencyControl =
  steering_tire_angle :: fp
  steering_tire_rotation_rate :: fp
  is_defined_steering_tire_rotation_rate :: bool
  emergency_velocity :: fp
  emergency_acceleration :: fp
  emergency_jerk :: fp
  is_defined_acceleration :: bool
  is_defined_jerk :: bool

record StateReport =
  report_state :: string
  report_state_id :: nat
  report_ready :: bool
  report_reason :: string
  report_control_enabled :: bool
  report_control_mode :: "mode_code option"
  report_gear :: "gear_code option"
  report_engaged :: bool
  report_raw_control_fresh :: bool
  report_final_control_fresh :: bool
  report_stamp :: fp

record Published =
  pub_stamp_ns :: int
  pub_gate_mode :: gate_out
  pub_gear :: gear_out
  pub_turn :: turn_out
  pub_hazard :: hazard_out
  pub_operation :: OperationModeState
  pub_mrm_state :: mrm_state
  pub_mrm_behavior :: mrm_behavior
  pub_emergency_control :: EmergencyControl
  pub_emergency_gear :: gear_out
  pub_emergency_turn :: turn_out
  pub_emergency_hazard :: hazard_out
  pub_report :: StateReport

datatype race_effect =
  Called nat race_request | Answered bool string | Sent Published

datatype py_error = AttributeError | ZeroDivisionError

section \<open>The node\<close>

record RaceWorld =
  clock_ns :: "nat \<Rightarrow> int"
  service_ready :: "nat \<Rightarrow> service \<Rightarrow> bool"

record RaceRuntime =
  race_params :: RaceParams
  timer_period_sec :: fp
  phase :: RuntimePhase
  phase_since :: fp
  start_sec :: fp
  last_now :: fp
  start_requested :: bool
  stop_requested :: bool
  activation_armed :: bool
  activation_stamp :: fp
  last_service_call :: "service \<Rightarrow> fp"
  pending :: "service \<Rightarrow> Future option"
  reason :: string
  localization_state :: "localization_code TimedInput"
  odometry :: "unit TimedInput"
  trajectory :: "nat TimedInput"
  route_state :: "route_code TimedInput"
  raw_control :: "LongitudinalCommand TimedInput"
  final_control :: "LongitudinalCommand TimedInput"
  control_mode :: "mode_code TimedInput"
  gear :: "gear_code TimedInput"
  velocity :: "fp TimedInput"
  steering :: "fp TimedInput"
  engage :: "bool TimedInput"
  reads :: nat
  requests_made :: nat
  effects :: "race_effect list"

definition emit_effect :: "race_effect \<Rightarrow> RaceRuntime \<Rightarrow> RaceRuntime" where
  "emit_effect e s = s\<lparr>effects := e # effects s\<rparr>"

text \<open>One question to the outside: the answer, and the state with the question counted.\<close>

definition ask :: "(nat \<Rightarrow> 'a) \<Rightarrow> RaceRuntime \<Rightarrow> 'a \<times> RaceRuntime" where
  "ask answer s = (answer (reads s), s\<lparr>reads := Suc (reads s)\<rparr>)"

definition clock_sec :: "RaceWorld \<Rightarrow> nat \<Rightarrow> fp" where
  "clock_sec w i = d64_of_int (clock_ns w i) * nano"

definition now :: "RaceWorld \<Rightarrow> RaceRuntime \<Rightarrow> fp \<times> RaceRuntime" where
  "now w s = ask (clock_sec w) s"

definition speed_mps :: "RaceRuntime \<Rightarrow> fp" where
  "speed_mps s = (case message (velocity s) of None \<Rightarrow> Fin 0 | Some v \<Rightarrow> v)"

definition desired_gear_command :: "RuntimePhase \<Rightarrow> fp \<Rightarrow> fp \<Rightarrow> gear_out" where
  "desired_gear_command ph speed stop_speed =
     (let driving = ph \<in> {ARMING, ACTIVE} \<or> stop_speed \<le> fp_abs speed
      in if driving then OUT_DRIVE else OUT_PARK)"

section \<open>Construction\<close>

definition RaceRuntimeManager_new :: "RaceWorld \<Rightarrow> RaceParams \<Rightarrow> py_error + RaceRuntime" where
  "RaceRuntimeManager_new w p =
     (let since = clock_sec w 0
      in if fp_eq (update_rate_hz p) (Fin 0) then Inl ZeroDivisionError
         else Inr \<lparr>race_params = p, timer_period_sec = Fin 1 div update_rate_hz p, phase = IDLE,
           phase_since = since, start_sec = since, last_now = Fin (- 1),
           start_requested = auto_start p, stop_requested = False, activation_armed = False,
           activation_stamp = Fin (- 1), last_service_call = (\<lambda>_. Fin (- 1)),
           pending = (\<lambda>_. None), reason = ''WAITING_FOR_START'',
           localization_state = TimedInput_init, odometry = TimedInput_init,
           trajectory = TimedInput_init, route_state = TimedInput_init,
           raw_control = TimedInput_init, final_control = TimedInput_init,
           control_mode = TimedInput_init, gear = TimedInput_init, velocity = TimedInput_init,
           steering = TimedInput_init, engage = TimedInput_init, reads = 1, requests_made = 0,
           effects = []\<rparr>)"

section \<open>Transitions\<close>

definition clear_inputs :: "RaceRuntime \<Rightarrow> RaceRuntime" where
  "clear_inputs s =
     s\<lparr>localization_state := timed_clear (localization_state s), odometry := timed_clear (odometry s),
       trajectory := timed_clear (trajectory s), route_state := timed_clear (route_state s),
       raw_control := timed_clear (raw_control s), final_control := timed_clear (final_control s),
       control_mode := timed_clear (control_mode s), gear := timed_clear (gear s),
       velocity := timed_clear (velocity s), steering := timed_clear (steering s),
       engage := timed_clear (engage s)\<rparr>"

definition reset_state :: "RaceWorld \<Rightarrow> bool \<Rightarrow> RaceRuntime \<Rightarrow> RaceRuntime" where
  "reset_state w clearing s =
     (let s = s\<lparr>phase := IDLE\<rparr>;
          (t, s) = now w s;
          s = s\<lparr>phase_since := t, start_sec := t, start_requested := auto_start (race_params s),
                stop_requested := False, activation_armed := False,
                activation_stamp := Fin (- 1), pending := (\<lambda>_. None), reason := ''RESET''\<rparr>
      in if clearing then clear_inputs s else s)"

definition transition :: "RaceWorld \<Rightarrow> RuntimePhase \<Rightarrow> string \<Rightarrow> RaceRuntime \<Rightarrow> RaceRuntime" where
  "transition w ph why s =
     (let s = (if ph \<noteq> phase s
               then let (t, s) = now w (s\<lparr>phase := ph\<rparr>) in s\<lparr>phase_since := t\<rparr>
               else s)
      in s\<lparr>reason := why\<rparr>)"

definition fault :: "RaceWorld \<Rightarrow> string \<Rightarrow> RaceRuntime \<Rightarrow> RaceRuntime" where
  "fault w why s = (if phase s = FAULT then s else transition w FAULT why s)"

section \<open>Services offered\<close>

definition on_start :: "RaceRuntime \<Rightarrow> (bool \<times> string) \<times> RaceRuntime" where
  "on_start s =
     (if phase s \<notin> {IDLE, READY} then ((False, ''cannot start from '' @ phase_name (phase s)), s)
      else ((True, ''start accepted''), s\<lparr>start_requested := True\<rparr>))"

definition on_stop :: "RaceRuntime \<Rightarrow> (bool \<times> string) \<times> RaceRuntime" where
  "on_stop s = ((True, ''stop accepted''), s\<lparr>stop_requested := True\<rparr>)"

definition on_reset :: "RaceWorld \<Rightarrow> RaceRuntime \<Rightarrow> (bool \<times> string) \<times> RaceRuntime" where
  "on_reset w s =
     (if stop_speed_mps (race_params s) \<le> fp_abs (speed_mps s)
      then ((False, ''vehicle must be stopped before reset''), s)
      else if (case message (control_mode s) of None \<Rightarrow> False
               | Some m \<Rightarrow> m \<notin> {MODE_MANUAL, MODE_NO_COMMAND})
      then ((False, ''control must be manual before reset''), s)
      else if message (engage s) = Some True
      then ((False, ''vehicle must be disengaged before reset''), s)
      else ((True, ''reset accepted''), reset_state w False s))"

section \<open>Supervision of the inputs\<close>

definition input_fresh :: "RaceWorld \<Rightarrow> 'm TimedInput \<Rightarrow> fp \<Rightarrow> RaceRuntime \<Rightarrow> bool \<times> RaceRuntime" where
  "input_fresh w tr timeout s = (let (t, s) = now w s in (fresh tr t timeout, s))"

text \<open>The loop over the vehicle status trackers: each is its test at a time with its reason.\<close>

fun first_stale ::
  "RaceWorld \<Rightarrow> ((fp \<Rightarrow> bool) \<times> string) list \<Rightarrow> RaceRuntime \<Rightarrow> string option \<times> RaceRuntime" where
  "first_stale w [] s = (None, s)"
| "first_stale w ((is_fresh, why) # rest) s =
     (let (t, s) = now w s in if \<not> is_fresh t then (Some why, s) else first_stale w rest s)"

definition base_failure :: "RaceWorld \<Rightarrow> RaceRuntime \<Rightarrow> string option \<times> RaceRuntime" where
  "base_failure w s =
     (let p = race_params s
      in if message (localization_state s) \<noteq> Some LOC_INITIALIZED
         then (Some ''LOCALIZATION_NOT_INITIALIZED'', s)
         else let (ok, s) = input_fresh w (odometry s) (localization_timeout_sec p) s
      in if \<not> ok then (Some ''LOCALIZATION_STALE'', s)
         else let (ok, s) = input_fresh w (trajectory s) (trajectory_timeout_sec p) s
      in if \<not> ok then (Some ''TRAJECTORY_STALE'', s)
         else if (case message (trajectory s) of None \<Rightarrow> True | Some points \<Rightarrow> points < 2)
         then (Some ''TRAJECTORY_INVALID'', s)
         else let (ok, s) = input_fresh w (velocity s) (velocity_status_timeout_sec p) s
      in if \<not> ok then (Some ''VELOCITY_STALE'', s)
         else first_stale w
           [(\<lambda>t. fresh (steering s) t (vehicle_status_timeout_sec p), ''STEERING_STALE''),
            (\<lambda>t. fresh (gear s) t (vehicle_status_timeout_sec p), ''GEAR_STALE''),
            (\<lambda>t. fresh (control_mode s) t (vehicle_status_timeout_sec p), ''CONTROL_MODE_STALE'')] s)"

definition expected_control_handover :: "RaceRuntime \<Rightarrow> bool" where
  "expected_control_handover s \<longleftrightarrow>
     phase s \<in> {STOPPING, FAULT} \<and> fp_abs (speed_mps s) < stop_speed_mps (race_params s)"

definition active_failure :: "RaceWorld \<Rightarrow> RaceRuntime \<Rightarrow> (py_error + string option) \<times> RaceRuntime" where
  "active_failure w s =
     (let p = race_params s; (failure, s) = base_failure w s
      in if failure \<noteq> None then (Inr failure, s)
         else let (ok, s) = input_fresh w (raw_control s) (control_timeout_sec p) s
      in if \<not> ok then (Inr (Some ''RAW_CONTROL_STALE''), s)
         else let (ok, s) = input_fresh w (final_control s) (control_timeout_sec p) s
      in if \<not> ok then (Inr (Some ''FINAL_CONTROL_STALE''), s)
         else case message (control_mode s) of
             None \<Rightarrow> (Inl AttributeError, s)
           | Some m \<Rightarrow>
               (Inr (if m \<noteq> MODE_AUTONOMOUS \<and> \<not> expected_control_handover s
                     then Some ''AUTONOMOUS_CONTROL_LOST'' else None), s))"

definition is_stop_command :: "LongitudinalCommand \<Rightarrow> bool" where
  "is_stop_command c \<longleftrightarrow>
     command_velocity c \<le> d64 (1 / 20) \<and> command_acceleration c \<le> d64 (1 / 10)"

definition final_is_stop :: "RaceWorld \<Rightarrow> RaceRuntime \<Rightarrow> (py_error + bool) \<times> RaceRuntime" where
  "final_is_stop w s =
     (let (ok, s) = input_fresh w (final_control s) (control_timeout_sec (race_params s)) s
      in if \<not> ok then (Inr False, s)
         else case message (final_control s) of
             None \<Rightarrow> (Inl AttributeError, s)
           | Some c \<Rightarrow> (Inr (is_stop_command c), s))"

section \<open>Services used\<close>

fun future_done :: "Future \<Rightarrow> bool" where
  "future_done f = (future_result f \<noteq> Waiting)"

definition call_service :: "RaceWorld \<Rightarrow> service \<Rightarrow> race_request \<Rightarrow> RaceRuntime \<Rightarrow> RaceRuntime" where
  "call_service w key request s =
     (let (t, s) = now w s
      in if (case pending s key of None \<Rightarrow> False | Some f \<Rightarrow> \<not> future_done f) then s
         else if t - last_service_call s key < service_retry_sec (race_params s) then s
         else let (is_ready, s) = ask (\<lambda>i. service_ready w i key) s
      in if \<not> is_ready then s
         else let n = requests_made s;
                  s = emit_effect (Called n request) (s\<lparr>requests_made := Suc n\<rparr>);
                  f = \<lparr>future_id = n, future_request = request, future_result = Waiting\<rparr>
      in s\<lparr>pending := (pending s)(key := Some f),
            last_service_call := (last_service_call s)(key := t)\<rparr>)"

definition call_control_mode :: "RaceWorld \<Rightarrow> race_request \<Rightarrow> RaceRuntime \<Rightarrow> RaceRuntime" where
  "call_control_mode w mode s = call_service w CONTROL_MODE mode s"

definition call_engage :: "RaceWorld \<Rightarrow> bool \<Rightarrow> RaceRuntime \<Rightarrow> RaceRuntime" where
  "call_engage w b s = call_service w ENGAGE (Set_engage b) s"

section \<open>The timer\<close>

definition timer_idle :: "RaceWorld \<Rightarrow> fp \<Rightarrow> string option \<Rightarrow> RaceRuntime \<Rightarrow> RaceRuntime" where
  "timer_idle w t bf s =
     (if \<not> start_requested s then s\<lparr>reason := ''WAITING_FOR_START''\<rparr>
      else case bf of
          None \<Rightarrow> transition w READY ''READINESS_COMPLETE'' s
        | Some why \<Rightarrow>
            if startup_timeout_sec (race_params s) < t - start_sec s then fault w why s
            else s\<lparr>reason := why\<rparr>)"

definition request_accepted :: "Future option \<Rightarrow> bool" where
  "request_accepted f =
     (case f of None \<Rightarrow> False | Some f \<Rightarrow> future_done f \<and> future_result f = Done (Some True))"

definition timer_ready :: "RaceWorld \<Rightarrow> string option \<Rightarrow> RaceRuntime \<Rightarrow> RaceRuntime" where
  "timer_ready w bf s =
     (case bf of
        Some why \<Rightarrow> fault w why s
      | None \<Rightarrow>
          let s = call_control_mode w Ask_autonomous s
          in if request_accepted (pending s CONTROL_MODE)
             then transition w ARMING ''AUTO_REQUEST_ACCEPTED'' s else s)"

text \<open>The part of ARMING after the freshness of the raw control: wait for the vehicle, then engage.\<close>

definition arming_conditions :: "RaceWorld \<Rightarrow> RaceRuntime \<Rightarrow> (py_error + bool) \<times> RaceRuntime" where
  "arming_conditions w s =
     (case message (control_mode s) of
        None \<Rightarrow> (Inl AttributeError, s)
      | Some m \<Rightarrow>
          if m \<noteq> MODE_AUTONOMOUS then (Inr False, s)
          else case message (gear s) of
              None \<Rightarrow> (Inl AttributeError, s)
            | Some g \<Rightarrow> if g \<noteq> GEAR_DRIVE then (Inr False, s) else final_is_stop w s)"

definition timer_arming ::
  "RaceWorld \<Rightarrow> fp \<Rightarrow> string option \<Rightarrow> RaceRuntime \<Rightarrow> py_error + RaceRuntime" where
  "timer_arming w t bf s =
     (case bf of
        Some why \<Rightarrow> Inr (fault w why s)
      | None \<Rightarrow>
          let (ok, s) = input_fresh w (raw_control s) (control_timeout_sec (race_params s)) s
          in if \<not> ok then Inr (s\<lparr>reason := ''WAITING_RAW_CONTROL''\<rparr>)
             else if activation_armed s \<and> message (engage s) = Some True
             then Inr (transition w ACTIVE ''ENGAGE_CONFIRMED'' s)
             else case arming_conditions w s of
                 (Inl e, s) \<Rightarrow> Inl e
               | (Inr False, s) \<Rightarrow> Inr (s\<lparr>reason := ''WAITING_AUTO_GEAR_STOP''\<rparr>)
               | (Inr True, s) \<Rightarrow>
                   if \<not> activation_armed s
                   then Inr (s\<lparr>activation_armed := True, activation_stamp := t,
                               reason := ''WAITING_POST_ENABLE_CONTROL''\<rparr>)
                   else if activation_stamp s < receipt_sec (raw_control s)
                   then Inr (call_engage w True s)
                   else Inr s)"

definition timer_active :: "RaceWorld \<Rightarrow> RaceRuntime \<Rightarrow> py_error + RaceRuntime" where
  "timer_active w s =
     (case active_failure w s of
        (Inl e, s) \<Rightarrow> Inl e
      | (Inr (Some why), s) \<Rightarrow> Inr (fault w why s)
      | (Inr None, s) \<Rightarrow>
          if stop_requested s \<or> message (route_state s) = Some ROUTE_ARRIVED
          then Inr (transition w STOPPING ''STOP_REQUESTED_OR_ARRIVED'' s)
          else Inr s)"

definition stop_confirmed :: "RaceRuntime \<Rightarrow> bool" where
  "stop_confirmed s \<longleftrightarrow>
     message (control_mode s) \<in> {Some MODE_MANUAL, Some MODE_NO_COMMAND} \<and>
     message (gear s) \<in> {Some GEAR_PARK, Some GEAR_NEUTRAL} \<and>
     message (engage s) = Some False"

definition timer_stopping :: "RaceWorld \<Rightarrow> RaceRuntime \<Rightarrow> py_error + RaceRuntime" where
  "timer_stopping w s =
     (if stop_speed_mps (race_params s) \<le> fp_abs (speed_mps s)
      then case active_failure w s of
          (Inl e, s) \<Rightarrow> Inl e
        | (Inr (Some why), s) \<Rightarrow> Inr (fault w why s)
        | (Inr None, s) \<Rightarrow> Inr s
      else let s = call_engage w False s; s = call_control_mode w Ask_manual s
           in Inr (if stop_confirmed s then transition w FINISHED ''STOP_CONFIRMED'' s else s))"

definition timer_fault :: "RaceWorld \<Rightarrow> RaceRuntime \<Rightarrow> RaceRuntime" where
  "timer_fault w s =
     (if fp_abs (speed_mps s) < stop_speed_mps (race_params s)
      then call_control_mode w Ask_manual (call_engage w False s) else s)"

definition timer_phase ::
  "RaceWorld \<Rightarrow> fp \<Rightarrow> string option \<Rightarrow> RaceRuntime \<Rightarrow> py_error + RaceRuntime" where
  "timer_phase w t bf s =
     (case phase s of
        IDLE \<Rightarrow> Inr (timer_idle w t bf s)
      | READY \<Rightarrow> Inr (timer_ready w bf s)
      | ARMING \<Rightarrow> timer_arming w t bf s
      | ACTIVE \<Rightarrow> timer_active w s
      | STOPPING \<Rightarrow> timer_stopping w s
      | FAULT \<Rightarrow> Inr (timer_fault w s)
      | FINISHED \<Rightarrow> Inr s)"

section \<open>Publication\<close>

definition operation_state :: "bool \<Rightarrow> RaceRuntime \<Rightarrow> OperationModeState" where
  "operation_state is_ready s =
     \<lparr>op_mode = (if phase s \<in> {READY, ARMING, ACTIVE, STOPPING} then OP_AUTONOMOUS else OP_STOP),
      is_autoware_control_enabled =
        (phase s \<in> {ACTIVE, STOPPING} \<or> phase s = ARMING \<and> activation_armed s),
      is_in_transition = (phase s \<in> {READY, ARMING, STOPPING}),
      is_stop_mode_available = True,
      is_autonomous_mode_available = (is_ready \<and> phase s \<noteq> FAULT)\<rparr>"

definition emergency_control_command :: "RaceRuntime \<Rightarrow> EmergencyControl" where
  "emergency_control_command s =
     \<lparr>steering_tire_angle = (case message (steering s) of None \<Rightarrow> Fin 0 | Some a \<Rightarrow> a),
      steering_tire_rotation_rate = Fin 0,
      is_defined_steering_tire_rotation_rate = True,
      emergency_velocity = Fin 0,
      emergency_acceleration = to_float (emergency_acceleration_mps2 (race_params s)),
      emergency_jerk = Fin (- 4),
      is_defined_acceleration = True,
      is_defined_jerk = True\<rparr>"

text \<open>The messages; \<open>stamp\<close>, the two freshness tests and \<open>t\<close> are the readings of the clock.\<close>

definition runtime_messages :: "bool \<Rightarrow> int \<Rightarrow> bool \<Rightarrow> bool \<Rightarrow> fp \<Rightarrow> RaceRuntime \<Rightarrow> Published" where
  "runtime_messages is_ready stamp raw_ok final_ok t s =
     (let p = race_params s; speed = speed_mps s; faulted = (phase s = FAULT);
          operation = operation_state is_ready s
      in \<lparr>pub_stamp_ns = stamp,
          pub_gate_mode = GATE_AUTO,
          pub_gear = desired_gear_command (phase s) speed (stop_speed_mps p),
          pub_turn = TURN_DISABLE,
          pub_hazard = (if faulted then HAZARD_ENABLE else HAZARD_DISABLE),
          pub_operation = operation,
          pub_mrm_state = (if faulted then MRM_OPERATING else MRM_NORMAL),
          pub_mrm_behavior = (if faulted then MRM_EMERGENCY_STOP else MRM_NONE),
          pub_emergency_control = emergency_control_command s,
          pub_emergency_gear = (if stop_speed_mps p \<le> fp_abs speed then OUT_DRIVE else OUT_PARK),
          pub_emergency_turn = TURN_NO_COMMAND,
          pub_emergency_hazard = (if faulted then HAZARD_ENABLE else HAZARD_DISABLE),
          pub_report =
            \<lparr>report_state = phase_name (phase s), report_state_id = phase_id (phase s),
             report_ready = (is_ready \<and> \<not> faulted), report_reason = reason s,
             report_control_enabled = is_autoware_control_enabled operation,
             report_control_mode = message (control_mode s), report_gear = message (gear s),
             report_engaged = (message (engage s) = Some True),
             report_raw_control_fresh = raw_ok, report_final_control_fresh = final_ok,
             report_stamp = t\<rparr>\<rparr>)"

definition publish :: "RaceWorld \<Rightarrow> bool \<Rightarrow> RaceRuntime \<Rightarrow> RaceRuntime" where
  "publish w is_ready s =
     (let p = race_params s;
          (stamp, s) = ask (clock_ns w) s;
          (raw_ok, s) = input_fresh w (raw_control s) (control_timeout_sec p) s;
          (final_ok, s) = input_fresh w (final_control s) (control_timeout_sec p) s;
          (t, s) = now w s
      in emit_effect (Sent (runtime_messages is_ready stamp raw_ok final_ok t s)) s)"

definition roll_back :: "RaceWorld \<Rightarrow> fp \<Rightarrow> RaceRuntime \<Rightarrow> RaceRuntime" where
  "roll_back w t s =
     (if Fin 0 \<le> last_now s \<and> t + d64 (1 / 20) < last_now s
      then (reset_state w True s)\<lparr>reason := ''TIME_ROLLBACK_RESET''\<rparr> else s)"

definition on_timer :: "RaceWorld \<Rightarrow> RaceRuntime \<Rightarrow> py_error + RaceRuntime" where
  "on_timer w s =
     (let (t, s) = now w s;
          s = roll_back w t s;
          s = s\<lparr>last_now := t\<rparr>;
          (bf, s) = base_failure w s
      in case timer_phase w t bf s of
           Inl e \<Rightarrow> Inl e
         | Inr s \<Rightarrow> Inr (publish w (bf = None) s))"

section \<open>The executor\<close>

text \<open>
  The events of the executor: a message of each subscription with its stamp, the three services
  offered, the result of a request made before, a change of the parameters, the timer.
\<close>

datatype race_event =
  LocalizationEv Stamp localization_code | OdometryEv Stamp | TrajectoryEv Stamp nat
| RouteEv Stamp route_code | RawControlEv Stamp LongitudinalCommand
| FinalControlEv Stamp LongitudinalCommand | ControlModeEv Stamp mode_code | GearEv Stamp gear_code
| VelocityEv Stamp fp | SteeringEv Stamp fp | EngageEv Stamp bool
| StartEv | StopEv | ResetEv | ReplyEv service nat "bool option" | ParametersEv RaceParams | TimerEv

definition receive :: "RaceWorld \<Rightarrow> 'm \<Rightarrow> Stamp \<Rightarrow> 'm TimedInput \<Rightarrow> RaceRuntime \<Rightarrow>
    'm TimedInput \<times> RaceRuntime" where
  "receive w m stamp tr s = (let (t, s) = now w s in (snd (timed_update m t (Some stamp) tr), s))"

definition answered :: "(bool \<times> string) \<times> RaceRuntime \<Rightarrow> RaceRuntime" where
  "answered r = emit_effect (Answered (fst (fst r)) (snd (fst r))) (snd r)"

definition complete_future :: "nat \<Rightarrow> bool option \<Rightarrow> Future \<Rightarrow> Future" where
  "complete_future n result f =
     (if future_id f = n \<and> \<not> future_done f then f\<lparr>future_result := Done result\<rparr> else f)"

fun handle_race :: "RaceWorld \<Rightarrow> race_event \<Rightarrow> RaceRuntime \<Rightarrow> py_error + RaceRuntime" where
  "handle_race w (LocalizationEv st m) s =
     (let (tr, s) = receive w m st (localization_state s) s in Inr (s\<lparr>localization_state := tr\<rparr>))"
| "handle_race w (OdometryEv st) s =
     (let (tr, s) = receive w () st (odometry s) s in Inr (s\<lparr>odometry := tr\<rparr>))"
| "handle_race w (TrajectoryEv st n) s =
     (let (tr, s) = receive w n st (trajectory s) s in Inr (s\<lparr>trajectory := tr\<rparr>))"
| "handle_race w (RouteEv st m) s =
     (let (tr, s) = receive w m st (route_state s) s in Inr (s\<lparr>route_state := tr\<rparr>))"
| "handle_race w (RawControlEv st m) s =
     (let (tr, s) = receive w m st (raw_control s) s in Inr (s\<lparr>raw_control := tr\<rparr>))"
| "handle_race w (FinalControlEv st m) s =
     (let (tr, s) = receive w m st (final_control s) s in Inr (s\<lparr>final_control := tr\<rparr>))"
| "handle_race w (ControlModeEv st m) s =
     (let (tr, s) = receive w m st (control_mode s) s in Inr (s\<lparr>control_mode := tr\<rparr>))"
| "handle_race w (GearEv st m) s =
     (let (tr, s) = receive w m st (gear s) s in Inr (s\<lparr>gear := tr\<rparr>))"
| "handle_race w (VelocityEv st v) s =
     (let (tr, s) = receive w v st (velocity s) s in Inr (s\<lparr>velocity := tr\<rparr>))"
| "handle_race w (SteeringEv st a) s =
     (let (tr, s) = receive w a st (steering s) s in Inr (s\<lparr>steering := tr\<rparr>))"
| "handle_race w (EngageEv st b) s =
     (let (tr, s) = receive w b st (engage s) s in Inr (s\<lparr>engage := tr\<rparr>))"
| "handle_race w StartEv s = Inr (answered (on_start s))"
| "handle_race w StopEv s = Inr (answered (on_stop s))"
| "handle_race w ResetEv s = Inr (answered (on_reset w s))"
| "handle_race w (ReplyEv key n result) s =
     Inr (s\<lparr>pending := (pending s)(key := map_option (complete_future n result) (pending s key))\<rparr>)"
| "handle_race w (ParametersEv p) s = Inr (s\<lparr>race_params := p\<rparr>)"
| "handle_race w TimerEv s = on_timer w s"

inductive race_reachable :: "RaceWorld \<Rightarrow> RaceParams \<Rightarrow> RaceRuntime \<Rightarrow> bool" for w p where
  start: "RaceRuntimeManager_new w p = Inr s \<Longrightarrow> race_reachable w p s"
| continue: "race_reachable w p s \<Longrightarrow> handle_race w e s = Inr s' \<Longrightarrow> race_reachable w p s'"

end
