(* ===== verification/Race_Facts.thy ===== *)
theory Race_Facts
  imports Race_Runtime
begin

text \<open>
  Facts about the operations of the race runtime manager: which parts of the state each of them
  leaves alone, what the supervision of the inputs decides, and what a run of the timer does in
  each phase. The rewrite rules of single questions to the outside are collected in \<open>race_simps\<close>.
\<close>

named_theorems race_simps

section \<open>Frames\<close>

lemma ask_eq [race_simps]: "ask f s = (f (reads s), s\<lparr>reads := Suc (reads s)\<rparr>)"
  by (simp add: ask_def)

lemma now_eq [race_simps]: "now w s = (clock_sec w (reads s), s\<lparr>reads := Suc (reads s)\<rparr>)"
  by (simp add: now_def ask_eq)

lemma input_fresh_eq [race_simps]:
  "input_fresh w tr d s = (fresh tr (clock_sec w (reads s)) d, s\<lparr>reads := Suc (reads s)\<rparr>)"
  by (simp add: input_fresh_def now_eq)

text \<open>Only the number of questions changes.\<close>

definition only_reads :: "RaceRuntime \<Rightarrow> RaceRuntime \<Rightarrow> bool" where
  "only_reads s s' \<longleftrightarrow> (\<exists>n. s' = s\<lparr>reads := n\<rparr>)"

lemma only_reads_refl [simp, intro]: "only_reads s s"
  unfolding only_reads_def by (rule exI [of _ "reads s"]) simp

lemma only_reads_upd [simp, intro]: "only_reads s (s\<lparr>reads := n\<rparr>)"
  unfolding only_reads_def by blast

lemma only_reads_trans: "only_reads s t \<Longrightarrow> only_reads t u \<Longrightarrow> only_reads s u"
  by (auto simp: only_reads_def)

lemma only_reads_from [simp]: "only_reads (s\<lparr>reads := n\<rparr>) t \<longleftrightarrow> only_reads s t"
  by (simp add: only_reads_def)

lemma first_stale_reads: "only_reads s (snd (first_stale w fs s))"
proof (induction fs arbitrary: s)
  case (Cons f fs)
  from Cons [of "s\<lparr>reads := Suc (reads s)\<rparr>"] show ?case by (cases f) (simp add: race_simps)
qed simp

lemma first_stale_reads_from [simp]: "only_reads s (snd (first_stale w fs (s\<lparr>reads := n\<rparr>)))"
  using first_stale_reads [of "s\<lparr>reads := n\<rparr>"] by simp

lemma base_failure_reads: "only_reads s (snd (base_failure w s))"
  by (simp add: base_failure_def race_simps Let_def del: first_stale.simps)

lemma base_failureE:
  assumes "base_failure w s = (r, s')"
  obtains n where "s' = s\<lparr>reads := n\<rparr>"
  using base_failure_reads [of s w] assms by (auto simp: only_reads_def)

text \<open>
  The inputs of the stack are complete and fresh, tested from the reading \<open>i\<close> of the clock on; and
  the inputs a driving vehicle needs on top of them.
\<close>

definition base_ok :: "RaceWorld \<Rightarrow> nat \<Rightarrow> RaceRuntime \<Rightarrow> bool" where
  "base_ok w i s \<longleftrightarrow>
     message (localization_state s) = Some LOC_INITIALIZED \<and>
     fresh (odometry s) (clock_sec w i) (localization_timeout_sec (race_params s)) \<and>
     fresh (trajectory s) (clock_sec w (i + 1)) (trajectory_timeout_sec (race_params s)) \<and>
     (\<exists>points. message (trajectory s) = Some points \<and> 2 \<le> points) \<and>
     fresh (velocity s) (clock_sec w (i + 2)) (velocity_status_timeout_sec (race_params s)) \<and>
     fresh (steering s) (clock_sec w (i + 3)) (vehicle_status_timeout_sec (race_params s)) \<and>
     fresh (gear s) (clock_sec w (i + 4)) (vehicle_status_timeout_sec (race_params s)) \<and>
     fresh (control_mode s) (clock_sec w (i + 5)) (vehicle_status_timeout_sec (race_params s))"

definition driving_ok :: "RaceWorld \<Rightarrow> nat \<Rightarrow> RaceRuntime \<Rightarrow> bool" where
  "driving_ok w i s \<longleftrightarrow>
     base_ok w i s \<and>
     fresh (raw_control s) (clock_sec w (i + 6)) (control_timeout_sec (race_params s)) \<and>
     fresh (final_control s) (clock_sec w (i + 7)) (control_timeout_sec (race_params s)) \<and>
     message (control_mode s) = Some MODE_AUTONOMOUS"

lemma base_ok_reads [simp]: "base_ok w i (s\<lparr>reads := n\<rparr>) = base_ok w i s"
  by (simp add: base_ok_def)

lemma driving_ok_reads [simp]: "driving_ok w i (s\<lparr>reads := n\<rparr>) = driving_ok w i s"
  by (simp add: driving_ok_def)

lemma base_failure_result:
  "base_failure w s = (None, s\<lparr>reads := reads s + 6\<rparr>) \<and> base_ok w (reads s) s \<or>
   (\<exists>why n. base_failure w s = (Some why, s\<lparr>reads := n\<rparr>)) \<and> \<not> base_ok w (reads s) s"
proof (cases "base_ok w (reads s) s")
  case True
  then have "base_failure w s = (None, s\<lparr>reads := reads s + 6\<rparr>)"
    by (auto simp: base_ok_def base_failure_def race_simps Let_def eval_nat_numeral)
  with True show ?thesis by simp
next
  case False
  have "fst (base_failure w s) \<noteq> None"
    using False by (auto simp: base_ok_def base_failure_def race_simps Let_def eval_nat_numeral split: option.splits)
  with False base_failure_reads [of s w] show ?thesis
    by (cases "base_failure w s") (auto simp: only_reads_def)
qed

lemma base_failure_None:
  "base_failure w s = (None, s') \<longleftrightarrow> base_ok w (reads s) s \<and> s' = s\<lparr>reads := reads s + 6\<rparr>"
  using base_failure_result [of w s] by auto

lemma base_failure_Some:
  assumes "base_failure w s = (Some why, s')"
  obtains n where "\<not> base_ok w (reads s) s" "s' = s\<lparr>reads := n\<rparr>"
  using base_failure_result [of w s] assms by auto

lemma base_ok_messages:
  "base_ok w i s \<Longrightarrow> (\<exists>m. message (control_mode s) = Some m) \<and> (\<exists>g. message (gear s) = Some g)"
  by (auto simp: base_ok_def dest: fresh_message)

lemma active_failure_result:
  assumes "\<not> expected_control_handover s"
  shows "active_failure w s = (Inr None, s\<lparr>reads := reads s + 8\<rparr>) \<and> driving_ok w (reads s) s \<or>
     (\<exists>why n. active_failure w s = (Inr (Some why), s\<lparr>reads := n\<rparr>)) \<and> \<not> driving_ok w (reads s) s"
proof -
  have handover: "\<not> expected_control_handover (s\<lparr>reads := n\<rparr>)" for n
    using assms by (simp add: expected_control_handover_def speed_mps_def)
  consider "base_failure w s = (None, s\<lparr>reads := reads s + 6\<rparr>)" "base_ok w (reads s) s"
    | why n where "base_failure w s = (Some why, s\<lparr>reads := n\<rparr>)" "\<not> base_ok w (reads s) s"
    using base_failure_result [of w s] by blast
  then show ?thesis
  proof cases
    case 1
    then obtain m where "message (control_mode s) = Some m" using base_ok_messages by blast
    with 1 handover show ?thesis
      by (auto simp: active_failure_def driving_ok_def race_simps Let_def eval_nat_numeral)
  next
    case 2
    then show ?thesis by (auto simp: active_failure_def driving_ok_def Let_def)
  qed
qed

section \<open>Transitions and requests\<close>

lemma transition_frame [simp]:
  "race_params (transition w ph why s) = race_params s"
  "timer_period_sec (transition w ph why s) = timer_period_sec s"
  "start_sec (transition w ph why s) = start_sec s"
  "last_now (transition w ph why s) = last_now s"
  "start_requested (transition w ph why s) = start_requested s"
  "stop_requested (transition w ph why s) = stop_requested s"
  "activation_armed (transition w ph why s) = activation_armed s"
  "activation_stamp (transition w ph why s) = activation_stamp s"
  "last_service_call (transition w ph why s) = last_service_call s"
  "pending (transition w ph why s) = pending s"
  "localization_state (transition w ph why s) = localization_state s"
  "odometry (transition w ph why s) = odometry s"
  "trajectory (transition w ph why s) = trajectory s"
  "route_state (transition w ph why s) = route_state s"
  "raw_control (transition w ph why s) = raw_control s"
  "final_control (transition w ph why s) = final_control s"
  "control_mode (transition w ph why s) = control_mode s"
  "gear (transition w ph why s) = gear s"
  "velocity (transition w ph why s) = velocity s"
  "steering (transition w ph why s) = steering s"
  "engage (transition w ph why s) = engage s"
  "requests_made (transition w ph why s) = requests_made s"
  "effects (transition w ph why s) = effects s"
  by (simp_all add: transition_def race_simps Let_def)

lemma transition_phase [simp]: "phase (transition w ph why s) = ph"
  "reason (transition w ph why s) = why"
  by (simp_all add: transition_def race_simps Let_def)

lemma fault_frame [simp]:
  "race_params (fault w why s) = race_params s"
  "timer_period_sec (fault w why s) = timer_period_sec s"
  "start_sec (fault w why s) = start_sec s"
  "last_now (fault w why s) = last_now s"
  "start_requested (fault w why s) = start_requested s"
  "stop_requested (fault w why s) = stop_requested s"
  "activation_armed (fault w why s) = activation_armed s"
  "activation_stamp (fault w why s) = activation_stamp s"
  "last_service_call (fault w why s) = last_service_call s"
  "pending (fault w why s) = pending s"
  "localization_state (fault w why s) = localization_state s"
  "odometry (fault w why s) = odometry s"
  "trajectory (fault w why s) = trajectory s"
  "route_state (fault w why s) = route_state s"
  "raw_control (fault w why s) = raw_control s"
  "final_control (fault w why s) = final_control s"
  "control_mode (fault w why s) = control_mode s"
  "gear (fault w why s) = gear s"
  "velocity (fault w why s) = velocity s"
  "steering (fault w why s) = steering s"
  "engage (fault w why s) = engage s"
  "requests_made (fault w why s) = requests_made s"
  "effects (fault w why s) = effects s"
  by (simp_all add: fault_def)

lemma fault_phase [simp]: "phase (fault w why s) = FAULT"
  by (simp add: fault_def)

text \<open>When a service is asked, and the state after the request.\<close>

fun awaiting :: "Future option \<Rightarrow> bool" where
  "awaiting None = False"
| "awaiting (Some f) = (\<not> future_done f)"

definition may_call :: "RaceWorld \<Rightarrow> service \<Rightarrow> RaceRuntime \<Rightarrow> bool" where
  "may_call w key s \<longleftrightarrow>
     \<not> awaiting (pending s key) \<and>
     \<not> clock_sec w (reads s) - last_service_call s key < service_retry_sec (race_params s) \<and>
     service_ready w (Suc (reads s)) key"

definition issued :: "RaceWorld \<Rightarrow> service \<Rightarrow> race_request \<Rightarrow> RaceRuntime \<Rightarrow> RaceRuntime" where
  "issued w key request s =
     s\<lparr>reads := reads s + 2, requests_made := Suc (requests_made s),
       effects := Called (requests_made s) request # effects s,
       pending := (pending s)(key := Some \<lparr>future_id = requests_made s, future_request = request,
         future_result = Waiting\<rparr>),
       last_service_call := (last_service_call s)(key := clock_sec w (reads s))\<rparr>"

lemma call_service_eq:
  "call_service w key request s =
     (if awaiting (pending s key) then s\<lparr>reads := Suc (reads s)\<rparr>
      else if clock_sec w (reads s) - last_service_call s key < service_retry_sec (race_params s)
      then s\<lparr>reads := Suc (reads s)\<rparr>
      else if \<not> service_ready w (Suc (reads s)) key then s\<lparr>reads := Suc (Suc (reads s))\<rparr>
      else issued w key request s)"
  by (cases "pending s key")
    (simp_all add: call_service_def race_simps Let_def issued_def emit_effect_def split: if_split)

lemma call_service_cases:
  obtains (issued) "may_call w key s" "call_service w key request s = issued w key request s"
  | (blocked) n where "\<not> may_call w key s" "call_service w key request s = s\<lparr>reads := n\<rparr>"
proof (cases "may_call w key s")
  case True
  then show ?thesis by (intro that(1)) (simp_all add: may_call_def call_service_eq)
next
  case False
  moreover from False have "\<exists>n. call_service w key request s = s\<lparr>reads := n\<rparr>"
    by (simp add: may_call_def call_service_eq) blast
  ultimately show ?thesis using that(2) by blast
qed

lemma call_frame [simp]:
  "phase (call_service w key request s) = phase s"
  "phase_since (call_service w key request s) = phase_since s"
  "reason (call_service w key request s) = reason s"
  "race_params (call_service w key request s) = race_params s"
  "timer_period_sec (call_service w key request s) = timer_period_sec s"
  "start_sec (call_service w key request s) = start_sec s"
  "last_now (call_service w key request s) = last_now s"
  "start_requested (call_service w key request s) = start_requested s"
  "stop_requested (call_service w key request s) = stop_requested s"
  "activation_armed (call_service w key request s) = activation_armed s"
  "activation_stamp (call_service w key request s) = activation_stamp s"
  "localization_state (call_service w key request s) = localization_state s"
  "odometry (call_service w key request s) = odometry s"
  "trajectory (call_service w key request s) = trajectory s"
  "route_state (call_service w key request s) = route_state s"
  "raw_control (call_service w key request s) = raw_control s"
  "final_control (call_service w key request s) = final_control s"
  "control_mode (call_service w key request s) = control_mode s"
  "gear (call_service w key request s) = gear s"
  "velocity (call_service w key request s) = velocity s"
  "steering (call_service w key request s) = steering s"
  "engage (call_service w key request s) = engage s"
  by (rule call_service_cases [of w key s request]; simp add: issued_def)+

lemma publish_frame [simp]:
  "phase (publish w b s) = phase s"
  "phase_since (publish w b s) = phase_since s"
  "reason (publish w b s) = reason s"
  "race_params (publish w b s) = race_params s"
  "timer_period_sec (publish w b s) = timer_period_sec s"
  "start_sec (publish w b s) = start_sec s"
  "last_now (publish w b s) = last_now s"
  "start_requested (publish w b s) = start_requested s"
  "stop_requested (publish w b s) = stop_requested s"
  "activation_armed (publish w b s) = activation_armed s"
  "activation_stamp (publish w b s) = activation_stamp s"
  "last_service_call (publish w b s) = last_service_call s"
  "pending (publish w b s) = pending s"
  "localization_state (publish w b s) = localization_state s"
  "odometry (publish w b s) = odometry s"
  "trajectory (publish w b s) = trajectory s"
  "route_state (publish w b s) = route_state s"
  "raw_control (publish w b s) = raw_control s"
  "final_control (publish w b s) = final_control s"
  "control_mode (publish w b s) = control_mode s"
  "gear (publish w b s) = gear s"
  "velocity (publish w b s) = velocity s"
  "steering (publish w b s) = steering s"
  "engage (publish w b s) = engage s"
  "requests_made (publish w b s) = requests_made s"
  by (simp_all add: publish_def race_simps Let_def emit_effect_def)

lemma reset_frame [simp]:
  "phase (reset_state w b s) = IDLE" "activation_armed (reset_state w b s) = False"
  "pending (reset_state w b s) = (\<lambda>_. None)" "effects (reset_state w b s) = effects s"
  "requests_made (reset_state w b s) = requests_made s"
  "last_service_call (reset_state w b s) = last_service_call s"
  "race_params (reset_state w b s) = race_params s"
  "start_requested (reset_state w b s) = auto_start (race_params s)"
  "stop_requested (reset_state w b s) = False"
  "start_sec (reset_state w b s) = clock_sec w (reads s)"
  by (simp_all add: reset_state_def clear_inputs_def race_simps Let_def)

lemma reset_cleared: "\<not> base_ok w i (reset_state w True s)"
  by (simp add: reset_state_def clear_inputs_def race_simps Let_def base_ok_def timed_clear_def)

section \<open>The timer as a list of guarded transitions\<close>

definition moving :: "RaceRuntime \<Rightarrow> bool" where
  "moving s \<longleftrightarrow> stop_speed_mps (race_params s) \<le> fp_abs (speed_mps s)"

definition standing :: "RaceRuntime \<Rightarrow> bool" where
  "standing s \<longleftrightarrow> fp_abs (speed_mps s) < stop_speed_mps (race_params s)"

text \<open>In autonomous mode and drive, with a fresh stop command at the gate (tested at reading \<open>i\<close>).\<close>

definition vehicle_ready :: "RaceWorld \<Rightarrow> nat \<Rightarrow> RaceRuntime \<Rightarrow> bool" where
  "vehicle_ready w i s \<longleftrightarrow>
     message (control_mode s) = Some MODE_AUTONOMOUS \<and> message (gear s) = Some GEAR_DRIVE \<and>
     fresh (final_control s) (clock_sec w i) (control_timeout_sec (race_params s)) \<and>
     (\<exists>c. message (final_control s) = Some c \<and> is_stop_command c)"

definition raw_fresh :: "RaceWorld \<Rightarrow> nat \<Rightarrow> RaceRuntime \<Rightarrow> bool" where
  "raw_fresh w i s \<longleftrightarrow> fresh (raw_control s) (clock_sec w i) (control_timeout_sec (race_params s))"

definition engage_confirmed :: "RaceRuntime \<Rightarrow> bool" where
  "engage_confirmed s \<longleftrightarrow> activation_armed s \<and> message (engage s) = Some True"

definition stop_wanted :: "RaceRuntime \<Rightarrow> bool" where
  "stop_wanted s \<longleftrightarrow> stop_requested s \<or> message (route_state s) = Some ROUTE_ARRIVED"

definition halt_requests :: "RaceWorld \<Rightarrow> RaceRuntime \<Rightarrow> RaceRuntime" where
  "halt_requests w s = call_service w CONTROL_MODE Ask_manual (call_service w ENGAGE (Set_engage False) s)"

text \<open>
  One run of the timer between the roll-back test and the publication, at time \<open>t\<close>; the guards
  test the inputs from the reading on at which the run arrives.
\<close>

inductive race_tick :: "RaceWorld \<Rightarrow> fp \<Rightarrow> RaceRuntime \<Rightarrow> RaceRuntime \<Rightarrow> bool" for w t s where
  idle_unstarted: "phase s = IDLE \<Longrightarrow> \<not> start_requested s \<Longrightarrow>
    race_tick w t s (s\<lparr>reads := n, reason := why\<rparr>)"
| idle_ready: "phase s = IDLE \<Longrightarrow> start_requested s \<Longrightarrow> base_ok w (reads s) s \<Longrightarrow>
    race_tick w t s (transition w READY why (s\<lparr>reads := n\<rparr>))"
| idle_expired: "phase s = IDLE \<Longrightarrow> start_requested s \<Longrightarrow> \<not> base_ok w (reads s) s \<Longrightarrow>
    startup_timeout_sec (race_params s) < t - start_sec s \<Longrightarrow>
    race_tick w t s (fault w why (s\<lparr>reads := n\<rparr>))"
| idle_waiting: "phase s = IDLE \<Longrightarrow> start_requested s \<Longrightarrow> \<not> base_ok w (reads s) s \<Longrightarrow>
    \<not> startup_timeout_sec (race_params s) < t - start_sec s \<Longrightarrow>
    race_tick w t s (s\<lparr>reads := n, reason := why\<rparr>)"
| base_lost: "phase s \<in> {READY, ARMING} \<Longrightarrow> \<not> base_ok w (reads s) s \<Longrightarrow>
    race_tick w t s (fault w why (s\<lparr>reads := n\<rparr>))"
| ready_waiting: "phase s = READY \<Longrightarrow> base_ok w (reads s) s \<Longrightarrow>
    u = call_service w CONTROL_MODE Ask_autonomous (s\<lparr>reads := reads s + 6\<rparr>) \<Longrightarrow>
    \<not> request_accepted (pending u CONTROL_MODE) \<Longrightarrow> race_tick w t s u"
| ready_accepted: "phase s = READY \<Longrightarrow> base_ok w (reads s) s \<Longrightarrow>
    u = call_service w CONTROL_MODE Ask_autonomous (s\<lparr>reads := reads s + 6\<rparr>) \<Longrightarrow>
    request_accepted (pending u CONTROL_MODE) \<Longrightarrow> race_tick w t s (transition w ARMING why u)"
| arming_stale: "phase s = ARMING \<Longrightarrow> base_ok w (reads s) s \<Longrightarrow> \<not> raw_fresh w (reads s + 6) s \<Longrightarrow>
    race_tick w t s (s\<lparr>reads := n, reason := why\<rparr>)"
| arming_confirmed: "phase s = ARMING \<Longrightarrow> base_ok w (reads s) s \<Longrightarrow> raw_fresh w (reads s + 6) s \<Longrightarrow>
    engage_confirmed s \<Longrightarrow> race_tick w t s (transition w ACTIVE why (s\<lparr>reads := n\<rparr>))"
| arming_waiting: "phase s = ARMING \<Longrightarrow> base_ok w (reads s) s \<Longrightarrow> raw_fresh w (reads s + 6) s \<Longrightarrow>
    \<not> engage_confirmed s \<Longrightarrow> \<not> vehicle_ready w (reads s + 7) s \<Longrightarrow>
    race_tick w t s (s\<lparr>reads := n, reason := why\<rparr>)"
| arming_armed: "phase s = ARMING \<Longrightarrow> base_ok w (reads s) s \<Longrightarrow> raw_fresh w (reads s + 6) s \<Longrightarrow>
    vehicle_ready w (reads s + 7) s \<Longrightarrow> \<not> activation_armed s \<Longrightarrow>
    race_tick w t s (s\<lparr>reads := n, activation_armed := True, activation_stamp := t, reason := why\<rparr>)"
| arming_engages: "phase s = ARMING \<Longrightarrow> base_ok w (reads s) s \<Longrightarrow> raw_fresh w (reads s + 6) s \<Longrightarrow>
    \<not> engage_confirmed s \<Longrightarrow> vehicle_ready w (reads s + 7) s \<Longrightarrow> activation_armed s \<Longrightarrow>
    activation_stamp s < receipt_sec (raw_control s) \<Longrightarrow>
    race_tick w t s (call_service w ENGAGE (Set_engage True) (s\<lparr>reads := reads s + 8\<rparr>))"
| arming_holds: "phase s = ARMING \<Longrightarrow> base_ok w (reads s) s \<Longrightarrow> raw_fresh w (reads s + 6) s \<Longrightarrow>
    \<not> engage_confirmed s \<Longrightarrow> vehicle_ready w (reads s + 7) s \<Longrightarrow> activation_armed s \<Longrightarrow>
    \<not> activation_stamp s < receipt_sec (raw_control s) \<Longrightarrow> race_tick w t s (s\<lparr>reads := n\<rparr>)"
| driving_lost: "phase s = ACTIVE \<or> phase s = STOPPING \<and> moving s \<Longrightarrow> \<not> driving_ok w i s \<Longrightarrow>
    reads s \<le> i \<Longrightarrow> race_tick w t s (fault w why (s\<lparr>reads := n\<rparr>))"
| active_stops: "phase s = ACTIVE \<Longrightarrow> driving_ok w i s \<Longrightarrow> reads s \<le> i \<Longrightarrow> stop_wanted s \<Longrightarrow>
    race_tick w t s (transition w STOPPING why (s\<lparr>reads := n\<rparr>))"
| active_stays: "phase s = ACTIVE \<Longrightarrow> driving_ok w i s \<Longrightarrow> reads s \<le> i \<Longrightarrow> \<not> stop_wanted s \<Longrightarrow>
    race_tick w t s (s\<lparr>reads := n\<rparr>)"
| stopping_moves: "phase s = STOPPING \<Longrightarrow> moving s \<Longrightarrow> driving_ok w i s \<Longrightarrow> reads s \<le> i \<Longrightarrow>
    race_tick w t s (s\<lparr>reads := n\<rparr>)"
| stopping_halted: "phase s = STOPPING \<Longrightarrow> \<not> moving s \<Longrightarrow> \<not> stop_confirmed s \<Longrightarrow> reads s \<le> n \<Longrightarrow>
    race_tick w t s (halt_requests w (s\<lparr>reads := n\<rparr>))"
| stopping_finished: "phase s = STOPPING \<Longrightarrow> \<not> moving s \<Longrightarrow> stop_confirmed s \<Longrightarrow> reads s \<le> n \<Longrightarrow>
    race_tick w t s (transition w FINISHED why (halt_requests w (s\<lparr>reads := n\<rparr>)))"
| fault_halted: "phase s = FAULT \<Longrightarrow> standing s \<Longrightarrow> reads s \<le> n \<Longrightarrow>
    race_tick w t s (halt_requests w (s\<lparr>reads := n\<rparr>))"
| fault_moving: "phase s = FAULT \<Longrightarrow> \<not> standing s \<Longrightarrow> race_tick w t s (s\<lparr>reads := n\<rparr>)"
| finished: "phase s = FINISHED \<Longrightarrow> race_tick w t s (s\<lparr>reads := n\<rparr>)"

lemma base_failure_mono: "reads s \<le> reads (snd (base_failure w s))"
  by (simp add: base_failure_def race_simps Let_def)

lemma fp_le_not_less: "(a :: fp) \<le> b \<Longrightarrow> \<not> b < a"
  by (cases a; cases b; auto simp: less_eq_fp_def fp_eq_def)

lemma moving_no_handover: "moving s \<Longrightarrow> \<not> expected_control_handover s"
  by (simp add: moving_def expected_control_handover_def fp_le_not_less)

text \<open>The exemption of the handover can never apply: it asks for standing still, the caller for motion.\<close>

lemma handover_unused: "phase s = ACTIVE \<or> phase s = STOPPING \<and> moving s \<Longrightarrow> \<not> expected_control_handover s"
  using moving_no_handover by (auto simp: expected_control_handover_def)

lemma reads_irrelevant [simp]:
  "speed_mps (s\<lparr>reads := n\<rparr>) = speed_mps s" "moving (s\<lparr>reads := n\<rparr>) = moving s"
  "standing (s\<lparr>reads := n\<rparr>) = standing s" "raw_fresh w i (s\<lparr>reads := n\<rparr>) = raw_fresh w i s"
  "vehicle_ready w i (s\<lparr>reads := n\<rparr>) = vehicle_ready w i s"
  "engage_confirmed (s\<lparr>reads := n\<rparr>) = engage_confirmed s"
  "stop_wanted (s\<lparr>reads := n\<rparr>) = stop_wanted s" "stop_confirmed (s\<lparr>reads := n\<rparr>) = stop_confirmed s"
  "expected_control_handover (s\<lparr>reads := n\<rparr>) = expected_control_handover s"
  by (simp_all add: speed_mps_def moving_def standing_def raw_fresh_def vehicle_ready_def
      engage_confirmed_def stop_wanted_def stop_confirmed_def expected_control_handover_def)

text \<open>Each phase of the timer runs without exception and follows one of the transitions.\<close>

lemma final_is_stop_result:
  "final_is_stop w s =
     (Inr (fresh (final_control s) (clock_sec w (reads s)) (control_timeout_sec (race_params s)) \<and>
        (\<exists>c. message (final_control s) = Some c \<and> is_stop_command c)), s\<lparr>reads := Suc (reads s)\<rparr>)"
  by (auto simp: final_is_stop_def race_simps Let_def dest!: fresh_message)

lemma arming_conditions_result:
  assumes "message (control_mode s) = Some m" "message (gear s) = Some g"
  obtains n where "arming_conditions w s = (Inr (vehicle_ready w (reads s) s), s\<lparr>reads := n\<rparr>)"
proof -
  have "\<exists>n. arming_conditions w s = (Inr (vehicle_ready w (reads s) s), s\<lparr>reads := n\<rparr>)"
  proof (cases "m = MODE_AUTONOMOUS \<and> g = GEAR_DRIVE")
    case True
    with assms show ?thesis
      by (auto simp: arming_conditions_def vehicle_ready_def final_is_stop_result)
  next
    case False
    then have "arming_conditions w s = (Inr (vehicle_ready w (reads s) s), s\<lparr>reads := reads s\<rparr>)"
      using assms by (auto simp: arming_conditions_def vehicle_ready_def)
    then show ?thesis by blast
  qed
  with that show ?thesis by blast
qed

lemma tick_idle:
  assumes "phase s = IDLE" "base_failure w s = (bf, u)"
  shows "race_tick w t s (timer_idle w t bf u)"
proof (cases bf)
  case None
  with assms have "base_ok w (reads s) s" "u = s\<lparr>reads := reads s + 6\<rparr>"
    by (simp_all add: base_failure_None)
  with None assms show ?thesis
    by (auto simp: timer_idle_def intro: race_tick.idle_unstarted race_tick.idle_ready)
next
  case (Some why)
  with assms obtain n where "\<not> base_ok w (reads s) s" "u = s\<lparr>reads := n\<rparr>"
    by (auto elim: base_failure_Some)
  with Some assms show ?thesis
    by (auto simp: timer_idle_def
        intro: race_tick.idle_unstarted race_tick.idle_expired race_tick.idle_waiting)
qed

lemma tick_ready:
  assumes "phase s = READY" "base_failure w s = (bf, u)"
  shows "race_tick w t s (timer_ready w bf u)"
proof (cases bf)
  case None
  with assms have "base_ok w (reads s) s" "u = s\<lparr>reads := reads s + 6\<rparr>"
    by (simp_all add: base_failure_None)
  with None assms show ?thesis
    using race_tick.ready_waiting [OF assms(1) _ refl] race_tick.ready_accepted [OF assms(1) _ refl]
    by (simp add: timer_ready_def call_control_mode_def Let_def)
next
  case (Some why)
  with assms obtain n where "\<not> base_ok w (reads s) s" "u = s\<lparr>reads := n\<rparr>"
    by (auto elim: base_failure_Some)
  with Some assms show ?thesis by (auto simp: timer_ready_def intro: race_tick.base_lost)
qed

lemma tick_arming:
  assumes "phase s = ARMING" "base_failure w s = (bf, u)"
  shows "\<exists>v. timer_arming w t bf u = Inr v \<and> race_tick w t s v"
proof (cases bf)
  case (Some why)
  with assms obtain n where "\<not> base_ok w (reads s) s" "u = s\<lparr>reads := n\<rparr>"
    by (auto elim: base_failure_Some)
  with Some assms show ?thesis by (auto simp: timer_arming_def intro: race_tick.base_lost)
next
  case None
  with assms have ok: "base_ok w (reads s) s" and u: "u = s\<lparr>reads := reads s + 6\<rparr>"
    by (simp_all add: base_failure_None)
  let ?s7 = "s\<lparr>reads := Suc (reads s + 6)\<rparr>"
  have raw: "input_fresh w (raw_control u) (control_timeout_sec (race_params u)) u =
      (raw_fresh w (reads s + 6) s, ?s7)"
    by (simp add: u race_simps raw_fresh_def)
  show ?thesis
  proof (cases "raw_fresh w (reads s + 6) s \<and> \<not> engage_confirmed s")
    case False
    with None raw ok show ?thesis
      by (auto simp: timer_arming_def engage_confirmed_def Let_def
          intro: race_tick.arming_stale [OF assms(1)] race_tick.arming_confirmed [OF assms(1)])
  next
    case True
    obtain m g where mg: "message (control_mode s) = Some m" "message (gear s) = Some g"
      using base_ok_messages [OF ok] by blast
    obtain n where cond: "arming_conditions w ?s7 = (Inr (vehicle_ready w (reads s + 7) s), s\<lparr>reads := n\<rparr>)"
      using arming_conditions_result [of ?s7 m g w] mg by (auto simp: eval_nat_numeral)
    show ?thesis
    proof (cases "vehicle_ready w (reads s + 7) s")
      case ready: True
      then have "arming_conditions w ?s7 = (Inr True, s\<lparr>reads := reads s + 8\<rparr>)"
        using mg by (simp add: arming_conditions_def vehicle_ready_def final_is_stop_result eval_nat_numeral)
      with True None raw ok ready show ?thesis
        by (auto simp: timer_arming_def Let_def engage_confirmed_def call_engage_def
            intro: race_tick.arming_armed [OF assms(1)] race_tick.arming_engages [OF assms(1)]
              race_tick.arming_holds [OF assms(1)])
    next
      case False
      with True None raw ok cond show ?thesis
        by (auto simp: timer_arming_def Let_def engage_confirmed_def
            intro: race_tick.arming_waiting [OF assms(1)])
    qed
  qed
qed

lemma active_failure_from:
  assumes "phase s = ACTIVE \<or> phase s = STOPPING \<and> moving s" "u = s\<lparr>reads := k\<rparr>"
  obtains (fine) n where "active_failure w u = (Inr None, s\<lparr>reads := n\<rparr>)" "driving_ok w k s"
  | (lost) why n where "active_failure w u = (Inr (Some why), s\<lparr>reads := n\<rparr>)" "\<not> driving_ok w k s"
  using active_failure_result [of u w] handover_unused [OF assms(1)] assms(2) that
  by (auto simp del: base_ok_reads)

lemma timer_stopping_moving:
  "moving u \<Longrightarrow> timer_stopping w u =
     (case active_failure w u of
        (Inl e, s) \<Rightarrow> Inl e
      | (Inr (Some why), s) \<Rightarrow> Inr (fault w why s)
      | (Inr None, s) \<Rightarrow> Inr s)"
  by (simp add: timer_stopping_def moving_def)

lemma tick_driving:
  assumes "phase s = ACTIVE \<or> phase s = STOPPING \<and> moving s" "base_failure w s = (bf, u)"
  shows "\<exists>v. (if phase s = ACTIVE then timer_active w u else timer_stopping w u) = Inr v \<and>
    race_tick w t s v"
proof -
  obtain k where u: "u = s\<lparr>reads := k\<rparr>" by (rule base_failureE [OF assms(2)])
  have k: "reads s \<le> k" using base_failure_mono [of s w] assms(2) u by simp
  from assms(1) u show ?thesis
  proof (cases rule: active_failure_from [of s u k w, case_names fine lost])
    case (fine n)
    show ?thesis
    proof (cases "phase s = ACTIVE")
      case True
      have stops: "timer_active w u = Inr (if stop_wanted s
          then transition w STOPPING ''STOP_REQUESTED_OR_ARRIVED'' (s\<lparr>reads := n\<rparr>) else s\<lparr>reads := n\<rparr>)"
        by (simp add: timer_active_def fine(1) stop_wanted_def)
      show ?thesis
        using race_tick.active_stops [OF True fine(2) k] race_tick.active_stays [OF True fine(2) k]
        by (simp add: True stops)
    next
      case False
      with assms(1) have st: "phase s = STOPPING" "moving s" by simp_all
      then have "timer_stopping w u = Inr (s\<lparr>reads := n\<rparr>)"
        by (simp add: timer_stopping_moving u) (simp add: fine(1) [unfolded u])
      with race_tick.stopping_moves [OF st fine(2) k] False show ?thesis by simp
    qed
  next
    case (lost why n)
    have "(if phase s = ACTIVE then timer_active w u else timer_stopping w u) =
        Inr (fault w why (s\<lparr>reads := n\<rparr>))"
      using assms(1) lost(1) u by (auto simp: timer_active_def timer_stopping_moving)
    with race_tick.driving_lost [OF assms(1) lost(2) k] show ?thesis by simp
  qed
qed

lemma halted_eq:
  "call_control_mode w Ask_manual (call_engage w False s) = halt_requests w s"
  by (simp add: call_control_mode_def call_engage_def halt_requests_def)

lemma halt_frame [simp]:
  "phase (halt_requests w s) = phase s" "stop_confirmed (halt_requests w s) = stop_confirmed s"
  "activation_armed (halt_requests w s) = activation_armed s"
  by (simp_all add: halt_requests_def stop_confirmed_def)

lemma tick_halted:
  assumes "phase s = STOPPING" "\<not> moving s" "base_failure w s = (bf, u)"
  shows "\<exists>v. timer_stopping w u = Inr v \<and> race_tick w t s v"
proof -
  obtain n where u: "u = s\<lparr>reads := n\<rparr>" by (rule base_failureE [OF assms(3)])
  have n: "reads s \<le> n" using base_failure_mono [of s w] assms(3) u by simp
  have "\<not> moving u" using assms(2) u by simp
  then have "timer_stopping w u = Inr (if stop_confirmed s
      then transition w FINISHED ''STOP_CONFIRMED'' (halt_requests w u) else halt_requests w u)"
    using u by (simp add: timer_stopping_def moving_def Let_def halted_eq)
  then show ?thesis
    using race_tick.stopping_halted [OF assms(1,2) _ n] race_tick.stopping_finished [OF assms(1,2) _ n] u
    by simp
qed

lemma tick_fault:
  assumes "phase s = FAULT" "base_failure w s = (bf, u)"
  shows "race_tick w t s (timer_fault w u)"
proof -
  obtain n where u: "u = s\<lparr>reads := n\<rparr>" by (rule base_failureE [OF assms(2)])
  have n: "reads s \<le> n" using base_failure_mono [of s w] assms(2) u by simp
  have "timer_fault w u = (if standing s then halt_requests w u else u)"
    using u by (simp add: timer_fault_def halted_eq standing_def)
  then show ?thesis
    using race_tick.fault_halted [OF assms(1) _ n] race_tick.fault_moving [OF assms(1)] u by simp
qed

lemma timer_phase_tick:
  assumes "base_failure w s = (bf, u)"
  shows "\<exists>v. timer_phase w t bf u = Inr v \<and> race_tick w t s v"
proof -
  obtain n where u: "u = s\<lparr>reads := n\<rparr>" by (rule base_failureE [OF assms])
  show ?thesis
  proof (cases "phase s")
    case IDLE
    with tick_idle [OF IDLE assms] u show ?thesis by (simp add: timer_phase_def)
  next
    case READY
    with tick_ready [OF READY assms] u show ?thesis by (simp add: timer_phase_def)
  next
    case ARMING
    with tick_arming [OF ARMING assms] u show ?thesis by (simp add: timer_phase_def)
  next
    case ACTIVE
    with tick_driving [OF disjI1 assms] u show ?thesis by (simp add: timer_phase_def)
  next
    case STOPPING
    with tick_driving [OF disjI2 assms] tick_halted [OF STOPPING _ assms] u show ?thesis
      by (cases "moving s") (simp_all add: timer_phase_def)
  next
    case FINISHED
    with u show ?thesis by (auto simp: timer_phase_def intro: race_tick.finished)
  next
    case FAULT
    with tick_fault [OF FAULT assms] u show ?thesis by (simp add: timer_phase_def)
  qed
qed

end
