(* ===== verification/Race_Invariant.thy ===== *)
theory Race_Invariant
  imports Race_Facts
begin

text \<open>
  The steps of the race runtime manager as a whole: every handler returns, a run of the timer is a
  roll-back test, one guarded transition and a publication, and the invariant of the reachable
  states, which ties the phase to the activation and to the requests made.
\<close>

section \<open>The readings are taken in order\<close>

lemma transition_mono: "reads s \<le> reads (transition w ph why s)" "reads s \<le> reads (fault w why s)"
  by (simp_all add: transition_def fault_def race_simps Let_def)

lemma call_mono: "reads s < reads (call_service w key request s)"
  by (simp add: call_service_eq issued_def)

lemma halt_mono: "reads s < reads (halt_requests w s)"
  unfolding halt_requests_def by (rule less_trans [OF call_mono call_mono])

lemma tick_run_mono:
  assumes "base_failure w s = (bf, u)" "timer_phase w t bf u = Inr v"
  shows "reads s \<le> reads v"
proof -
  have u: "reads s \<le> reads u" using base_failure_mono [of s w] assms(1) by simp
  have active: "reads u \<le> reads (snd (active_failure w u))" for u
    using base_failure_mono [of u w] by (auto simp: active_failure_def race_simps Let_def
        split: prod.splits option.splits)
  have arm: "reads u \<le> reads (snd (arming_conditions w u))" for u
    by (simp add: arming_conditions_def final_is_stop_result split: option.splits)
  have "reads u \<le> reads v"
  proof (cases "phase u")
    case ARMING
    with assms(2) arm [of "u\<lparr>reads := Suc (reads u)\<rparr>"] transition_mono
      call_mono [THEN less_imp_le, of _ w ENGAGE "Set_engage True"]
    show ?thesis
      by (auto simp: timer_phase_def timer_arming_def call_engage_def race_simps Let_def
          split: option.splits if_splits prod.splits sum.splits bool.splits
          intro: order_trans [OF _ transition_mono(1)] order_trans [OF _ transition_mono(2)]
            order_trans [OF _ call_mono [THEN less_imp_le]])
  next
    case READY
    with assms(2) show ?thesis
      by (auto simp: timer_phase_def timer_ready_def call_control_mode_def Let_def
          split: option.splits if_splits intro: transition_mono
            order_trans [OF _ transition_mono(1)] call_mono [THEN less_imp_le])
  next
    case IDLE
    with assms(2) show ?thesis
      by (auto simp: timer_phase_def timer_idle_def transition_mono split: option.splits if_splits)
  next
    case ACTIVE
    with assms(2) active [of u] show ?thesis
      by (auto simp: timer_phase_def timer_active_def
          split: prod.splits sum.splits option.splits if_splits
          intro: order_trans [OF _ transition_mono(1)] order_trans [OF _ transition_mono(2)])
  next
    case STOPPING
    with assms(2) active [of u] show ?thesis
      by (auto simp: timer_phase_def timer_stopping_def halted_eq Let_def
          split: prod.splits sum.splits option.splits if_splits
          intro: order_trans [OF _ transition_mono(1)] order_trans [OF _ transition_mono(2)]
            halt_mono [THEN less_imp_le])
  next
    case FAULT
    with assms(2) show ?thesis
      by (auto simp: timer_phase_def timer_fault_def halted_eq intro: halt_mono [THEN less_imp_le])
  next
    case FINISHED
    with assms(2) show ?thesis by (simp add: timer_phase_def)
  qed
  with u show ?thesis by simp
qed

section \<open>The timer as a whole\<close>

text \<open>The clock has gone back by more than the tolerance since the last run of the timer.\<close>

definition clock_went_back :: "RaceWorld \<Rightarrow> RaceRuntime \<Rightarrow> bool" where
  "clock_went_back w s \<longleftrightarrow>
     Fin 0 \<le> last_now s \<and> clock_sec w (reads s) + d64 (1 / 20) < last_now s"

text \<open>The state in which a run of the timer tests its inputs.\<close>

definition tick_start :: "RaceWorld \<Rightarrow> RaceRuntime \<Rightarrow> RaceRuntime" where
  "tick_start w s =
     (roll_back w (clock_sec w (reads s)) (s\<lparr>reads := Suc (reads s)\<rparr>))
       \<lparr>last_now := clock_sec w (reads s)\<rparr>"

lemma tick_start_forward:
  "\<not> clock_went_back w s \<Longrightarrow>
     tick_start w s = s\<lparr>reads := Suc (reads s), last_now := clock_sec w (reads s)\<rparr>"
  by (auto simp: tick_start_def roll_back_def clock_went_back_def)

lemma tick_start_back:
  "clock_went_back w s \<Longrightarrow>
     tick_start w s = (reset_state w True (s\<lparr>reads := Suc (reads s)\<rparr>))
       \<lparr>reason := ''TIME_ROLLBACK_RESET'', last_now := clock_sec w (reads s)\<rparr>"
  by (simp add: tick_start_def roll_back_def clock_went_back_def)

lemma on_timer_result:
  obtains v where "race_tick w (clock_sec w (reads s)) (tick_start w s) v"
    "reads (tick_start w s) \<le> reads v"
    "on_timer w s = Inr (publish w (base_ok w (reads (tick_start w s)) (tick_start w s)) v)"
proof -
  let ?u = "tick_start w s"
  obtain bf u where bf: "base_failure w ?u = (bf, u)" by fastforce
  have none: "bf = None \<longleftrightarrow> base_ok w (reads ?u) ?u"
    using base_failure_result [of w ?u] bf by auto
  obtain v where v: "timer_phase w (clock_sec w (reads s)) bf u = Inr v"
    "race_tick w (clock_sec w (reads s)) ?u v"
    using timer_phase_tick [OF bf] by blast
  have "on_timer w s = Inr (publish w (bf = None) v)"
    using bf v(1) by (simp add: on_timer_def race_simps Let_def tick_start_def)
  with v(2) tick_run_mono [OF bf v(1)] none that show ?thesis by simp
qed

lemma handle_race_total: "\<exists>s'. handle_race w e s = Inr s'"
  by (cases e) (auto simp: receive_def race_simps Let_def intro: on_timer_result [of w s])

lemma tick_start_reads: "reads s < reads (tick_start w s)"
  by (simp add: tick_start_def roll_back_def reset_state_def clear_inputs_def race_simps Let_def)

lemma publish_reads: "reads s < reads (publish w b s)"
  by (simp add: publish_def race_simps Let_def emit_effect_def)

lemma handle_mono:
  assumes "handle_race w e s = Inr s'"
  shows "reads s \<le> reads s'"
proof (cases "e = TimerEv")
  case True
  obtain v where v: "reads (tick_start w s) \<le> reads v"
      "on_timer w s = Inr (publish w (base_ok w (reads (tick_start w s)) (tick_start w s)) v)"
    by (rule on_timer_result [of w s])
  then have "s' = publish w (base_ok w (reads (tick_start w s)) (tick_start w s)) v"
    using True assms by simp
  with v(1) tick_start_reads [of s w]
    publish_reads [of v w "base_ok w (reads (tick_start w s)) (tick_start w s)"]
  show ?thesis by simp
next
  case False
  with assms show ?thesis
    by (cases e) (auto simp: receive_def race_simps Let_def answered_def emit_effect_def on_start_def
        on_stop_def on_reset_def reset_state_def clear_inputs_def split: if_splits)
qed

lemma publish_effects: "\<exists>p. effects (publish w b s) = Sent p # effects s"
  by (simp add: publish_def race_simps Let_def emit_effect_def)

text \<open>What a message, a service call, a reply or a change of parameters may touch.\<close>

lemma handle_frame:
  assumes "handle_race w e s = Inr s'" "e \<noteq> TimerEv" "e \<noteq> ResetEv"
  shows "phase s' = phase s \<and> activation_armed s' = activation_armed s \<and>
    activation_stamp s' = activation_stamp s \<and> requests_made s' = requests_made s \<and>
    last_service_call s' = last_service_call s \<and> last_now s' = last_now s \<and>
    (\<forall>n r. Called n r \<in> set (effects s') \<longleftrightarrow> Called n r \<in> set (effects s))"
  using assms
  by (cases e) (auto simp: receive_def race_simps Let_def answered_def emit_effect_def on_start_def
      on_stop_def split: if_splits)

definition completed_from :: "Future option \<Rightarrow> Future option \<Rightarrow> bool" where
  "completed_from f f' \<longleftrightarrow> f' = f \<or> (\<exists>n r. f' = map_option (complete_future n r) f)"

lemma completed_simps [simp]: "completed_from f f" "completed_from f (map_option (complete_future n r) f)"
  unfolding completed_from_def by blast+

lemma handle_pending:
  assumes "handle_race w e s = Inr s'" "e \<noteq> TimerEv" "e \<noteq> ResetEv"
  shows "completed_from (pending s k) (pending s' k)"
  using assms
  by (cases e) (auto simp: receive_def race_simps Let_def answered_def emit_effect_def on_start_def
      on_stop_def split: if_splits)

text \<open>A reset that is granted: the vehicle stands, is not in autonomous mode and not engaged.\<close>

definition reset_granted :: "RaceRuntime \<Rightarrow> bool" where
  "reset_granted s \<longleftrightarrow>
     \<not> moving s \<and> message (control_mode s) \<in> {None, Some MODE_MANUAL, Some MODE_NO_COMMAND} \<and>
     message (engage s) \<noteq> Some True"

lemma on_reset_cases:
  obtains (granted) "reset_granted s"
      "on_reset w s = ((True, ''reset accepted''), reset_state w False s)"
  | (refused) why where "\<not> reset_granted s" "on_reset w s = ((False, why), s)"
proof (cases "reset_granted s")
  case True
  then show ?thesis
    by (intro granted) (auto simp: reset_granted_def moving_def on_reset_def)
next
  case False
  then have "\<exists>why. on_reset w s = ((False, why), s)"
    by (auto simp: reset_granted_def moving_def on_reset_def split: option.splits)
  with False refused show ?thesis by blast
qed

lemma tick_start_trackers:
  "\<not> clock_went_back w s \<Longrightarrow> base_ok w i (tick_start w s) = base_ok w i s"
  "\<not> clock_went_back w s \<Longrightarrow> driving_ok w i (tick_start w s) = driving_ok w i s"
  by (simp_all add: tick_start_forward base_ok_def driving_ok_def)

lemma tick_start_back_phase:
  "clock_went_back w s \<Longrightarrow> phase (tick_start w s) = IDLE \<and> \<not> base_ok w i (tick_start w s)"
  by (simp add: tick_start_back base_ok_def reset_state_def clear_inputs_def race_simps Let_def timed_clear_def)

section \<open>The invariant\<close>

definition race_inv :: "RaceRuntime \<Rightarrow> bool" where
  "race_inv s \<longleftrightarrow>
     (activation_armed s \<longrightarrow> phase s \<notin> {IDLE, READY}) \<and>
     (phase s \<in> {ACTIVE, STOPPING, FINISHED} \<longrightarrow> activation_armed s) \<and>
     (phase s = IDLE \<longrightarrow> (\<forall>k. pending s k = None)) \<and>
     (phase s \<in> {READY, ARMING, ACTIVE} \<longrightarrow>
        (\<forall>f. pending s CONTROL_MODE = Some f \<longrightarrow> future_request f = Ask_autonomous)) \<and>
     (phase s \<in> {ARMING, ACTIVE} \<longrightarrow> request_accepted (pending s CONTROL_MODE)) \<and>
     (\<forall>k f. pending s k = Some f \<longrightarrow> Called (future_id f) (future_request f) \<in> set (effects s)) \<and>
     (\<forall>n r. Called n r \<in> set (effects s) \<longrightarrow> n < requests_made s) \<and>
     (\<forall>n r r'. Called n r \<in> set (effects s) \<longrightarrow> Called n r' \<in> set (effects s) \<longrightarrow> r = r')"

lemma race_inv_new: "RaceRuntimeManager_new w p = Inr s \<Longrightarrow> race_inv s"
  by (auto simp: RaceRuntimeManager_new_def race_inv_def Let_def split: if_splits)

lemma complete_keeps [simp]: "future_request (complete_future n r f) = future_request f"
  "future_id (complete_future n r f) = future_id f"
  by (simp_all add: complete_future_def)

lemma completed_Some:
  "completed_from f (Some f') \<Longrightarrow>
     \<exists>f0. f = Some f0 \<and> future_request f' = future_request f0 \<and> future_id f' = future_id f0"
  by (cases f) (auto simp: completed_from_def)

lemma completed_None: "completed_from None f' \<Longrightarrow> f' = None"
  by (auto simp: completed_from_def)

lemma completed_accepted: "completed_from f f' \<Longrightarrow> request_accepted f \<Longrightarrow> request_accepted f'"
  by (cases f) (auto simp: completed_from_def request_accepted_def complete_future_def)

lemma inv_frame:
  assumes "race_inv s" "phase s' = phase s" "activation_armed s' = activation_armed s"
    "requests_made s' = requests_made s"
    "\<And>n r. Called n r \<in> set (effects s') \<longleftrightarrow> Called n r \<in> set (effects s)"
    "\<And>k. completed_from (pending s k) (pending s' k)"
  shows "race_inv s'"
proof -
  have pend: "\<exists>f. pending s k = Some f \<and> future_request f' = future_request f \<and> future_id f' = future_id f"
    if "pending s' k = Some f'" for k f'
    using assms(6) [of k] that completed_Some by simp
  have none: "pending s' k = None" if "pending s k = None" for k
    using assms(6) [of k] that completed_None by simp
  have acc: "request_accepted (pending s' k)" if "request_accepted (pending s k)" for k
    using assms(6) [of k] that completed_accepted by blast
  show ?thesis
    using assms(1) pend none acc unfolding race_inv_def assms(2-5) by metis
qed

lemma race_inv_publish: "race_inv s \<Longrightarrow> race_inv (publish w b s)"
  using publish_effects [of w b s] by (auto intro: inv_frame)

lemma inv_reset: "race_inv s \<Longrightarrow> race_inv (reset_state w b s)"
  by (auto simp: race_inv_def)

lemma inv_call:
  assumes "race_inv s" "phase s \<notin> {IDLE}"
    and "key = CONTROL_MODE \<Longrightarrow>
      phase s \<notin> {ARMING, ACTIVE} \<and> (phase s = READY \<longrightarrow> request = Ask_autonomous)"
  shows "race_inv (call_service w key request s)"
proof (cases rule: call_service_cases [of w key s request])
  case issued
  have fresh_id: "Called (requests_made s) r \<notin> set (effects s)" for r
    using assms(1) by (auto simp: race_inv_def)
  show ?thesis
    using assms fresh_id unfolding issued(2)
    by (cases key) (auto simp: race_inv_def issued_def less_Suc_eq)
next
  case (blocked n)
  then show ?thesis using assms(1) by (auto intro: inv_frame)
qed

lemma race_inv_simps [simp]:
  "race_inv (s\<lparr>reads := n\<rparr>) = race_inv s" "race_inv (s\<lparr>reason := why\<rparr>) = race_inv s"
  "race_inv (s\<lparr>last_now := t\<rparr>) = race_inv s" "race_inv (s\<lparr>reads := n, reason := why\<rparr>) = race_inv s"
  by (simp_all add: race_inv_def)

lemma inv_enter:
  assumes "race_inv s"
    and "ph = READY \<Longrightarrow> phase s = IDLE"
    and "ph = ARMING \<Longrightarrow> phase s = READY \<and> request_accepted (pending s CONTROL_MODE)"
    and "ph = ACTIVE \<Longrightarrow> phase s = ARMING \<and> activation_armed s"
    and "ph \<in> {STOPPING, FINISHED} \<Longrightarrow> phase s \<in> {ACTIVE, STOPPING}"
    and "ph \<noteq> IDLE"
  shows "race_inv (transition w ph why s)"
  using assms by (cases ph) (auto simp: race_inv_def)

lemma inv_fault: "race_inv s \<Longrightarrow> race_inv (fault w why s)"
  unfolding fault_def by (cases "phase s = FAULT") (auto intro!: inv_enter)

lemma inv_halt: "race_inv s \<Longrightarrow> phase s \<in> {STOPPING, FAULT} \<Longrightarrow> race_inv (halt_requests w s)"
  unfolding halt_requests_def by (intro inv_call) auto

lemma inv_tick: "race_tick w t s v \<Longrightarrow> race_inv s \<Longrightarrow> race_inv v"
proof (induction rule: race_tick.induct)
  case (arming_armed n why)
  then show ?case by (auto simp: race_inv_def)
qed (auto intro!: inv_fault inv_halt inv_call inv_enter simp: engage_confirmed_def)

lemma inv_tick_start: "race_inv s \<Longrightarrow> race_inv (tick_start w s)"
  by (cases "clock_went_back w s") (simp_all add: tick_start_back tick_start_forward inv_reset)

lemma inv_handle:
  assumes "handle_race w e s = Inr s'" "race_inv s"
  shows "race_inv s'"
proof (cases "e = TimerEv \<or> e = ResetEv")
  case False
  with handle_frame [OF assms(1)] handle_pending [OF assms(1)] assms(2) show ?thesis
    by (intro inv_frame [of s s']) auto
next
  case True
  then show ?thesis
  proof
    assume "e = TimerEv"
    moreover obtain v where v: "race_tick w (clock_sec w (reads s)) (tick_start w s) v"
      "reads (tick_start w s) \<le> reads v"
      "on_timer w s = Inr (publish w (base_ok w (reads (tick_start w s)) (tick_start w s)) v)"
      by (rule on_timer_result [of w s])
    moreover have "race_inv v" by (rule inv_tick [OF v(1) inv_tick_start [OF assms(2)]])
    ultimately show ?thesis using assms(1) race_inv_publish by auto
  next
    assume "e = ResetEv"
    then have s': "s' = answered (on_reset w s)" using assms(1) by simp
    have ans: "race_inv u \<Longrightarrow> race_inv (answered (r, u))" for r u
      by (rule inv_frame [of u]) (simp_all add: answered_def emit_effect_def)
    show ?thesis
      by (rule on_reset_cases [of s w]) (simp_all only: s' ans assms(2) inv_reset)
  qed
qed

lemma reachable_race_inv: "race_reachable w p s \<Longrightarrow> race_inv s"
  by (induction rule: race_reachable.induct) (auto intro: race_inv_new inv_handle)

lemma accepted_iff: "request_accepted p \<longleftrightarrow> (\<exists>f. p = Some f \<and> future_result f = Done (Some True))"
  by (cases p) (auto simp: request_accepted_def)

lemma accepted_pending:
  assumes "race_inv s" "phase s \<in> {ARMING, ACTIVE}"
  obtains f where "pending s CONTROL_MODE = Some f" "future_request f = Ask_autonomous"
    "future_result f = Done (Some True)" "Called (future_id f) Ask_autonomous \<in> set (effects s)"
proof -
  from assms obtain f where f: "pending s CONTROL_MODE = Some f" "future_result f = Done (Some True)"
    unfolding race_inv_def accepted_iff by blast
  moreover from assms f(1) have r: "future_request f = Ask_autonomous"
    unfolding race_inv_def by blast
  moreover from assms(1) f(1) have "Called (future_id f) (future_request f) \<in> set (effects s)"
    unfolding race_inv_def by blast
  ultimately show ?thesis using that by simp
qed

end
