(* ===== verification/Race_Steps.thy ===== *)
theory Race_Steps
  imports Race_Invariant
begin

text \<open>
  Single steps and runs of the race runtime manager: how the phase may change, when each request is
  made (\<open>request_gate\<close>), how a fault ends, what a driving vehicle and a waiting one do in a run of
  the timer, what is published, and the runs in which the clock stays behind the retry time of a
  service (\<open>silent\<close>).
\<close>

section \<open>One run of the timer\<close>

lemma call_effects:
  "effects (call_service w key request s) =
     (if may_call w key s then Called (requests_made s) request # effects s else effects s)"
  by (rule call_service_cases [of w key s request]) (simp_all add: issued_def)

text \<open>When each request is made.\<close>

definition engage_gate :: "RaceWorld \<Rightarrow> RaceRuntime \<Rightarrow> bool" where
  "engage_gate w s \<longleftrightarrow>
     phase s = ARMING \<and> base_ok w (reads s) s \<and> raw_fresh w (reads s + 6) s \<and>
     vehicle_ready w (reads s + 7) s \<and> activation_armed s \<and>
     activation_stamp s < receipt_sec (raw_control s)"

fun request_gate :: "RaceWorld \<Rightarrow> race_request \<Rightarrow> RaceRuntime \<Rightarrow> bool" where
  "request_gate w Ask_autonomous s = (phase s = READY \<and> base_ok w (reads s) s)"
| "request_gate w (Set_engage True) s = engage_gate w s"
| "request_gate w Ask_manual s = (phase s = STOPPING \<and> \<not> moving s \<or> phase s = FAULT \<and> standing s)"
| "request_gate w (Set_engage False) s =
     (phase s = STOPPING \<and> \<not> moving s \<or> phase s = FAULT \<and> standing s)"

lemma tick_requests:
  assumes "race_tick w t s v" "Called n r \<in> set (effects v)" "Called n r \<notin> set (effects s)"
  shows "request_gate w r s"
  using assms
  by (induction rule: race_tick.induct)
    (auto simp: call_effects halt_requests_def engage_gate_def split: if_splits)

lemma fault_timer:
  assumes "phase s = FAULT" "\<not> clock_went_back w s" "race_tick w t (tick_start w s) v"
  shows "phase v = FAULT"
  using assms(3) by (cases rule: race_tick.cases) (simp_all add: assms tick_start_forward)

lemma idle_timer:
  assumes "phase s = IDLE" "\<And>i. \<not> base_ok w i s" "race_tick w t s v"
  shows "phase v \<in> {IDLE, FAULT}"
  using assms(3) by (cases rule: race_tick.cases) (simp_all add: assms)

definition published_of :: "Published \<Rightarrow> RaceRuntime \<Rightarrow> bool" where
  "published_of p s \<longleftrightarrow>
     (pub_mrm_state p = MRM_OPERATING \<longleftrightarrow> phase s = FAULT) \<and>
     (pub_mrm_behavior p = MRM_EMERGENCY_STOP \<longleftrightarrow> phase s = FAULT) \<and>
     (is_autoware_control_enabled (pub_operation p) \<longleftrightarrow>
        activation_armed s \<and> phase s \<in> {ARMING, ACTIVE, STOPPING}) \<and>
     (pub_gear p = OUT_PARK \<longleftrightarrow> phase s \<notin> {ARMING, ACTIVE} \<and> \<not> moving s) \<and>
     emergency_velocity (pub_emergency_control p) = Fin 0 \<and>
     report_state (pub_report p) = phase_name (phase s)"

lemma publish_fields:
  "\<exists>p. effects (publish w b s) = Sent p # effects s \<and>
     pub_mrm_state p = (if phase s = FAULT then MRM_OPERATING else MRM_NORMAL) \<and>
     pub_mrm_behavior p = (if phase s = FAULT then MRM_EMERGENCY_STOP else MRM_NONE) \<and>
     pub_operation p = operation_state b s \<and>
     pub_gear p = desired_gear_command (phase s) (speed_mps s) (stop_speed_mps (race_params s)) \<and>
     emergency_velocity (pub_emergency_control p) = Fin 0 \<and>
     report_state (pub_report p) = phase_name (phase s)"
  by (simp add: publish_def runtime_messages_def race_simps Let_def emit_effect_def
      emergency_control_command_def operation_state_def speed_mps_def)

lemma published_of_publish [simp]: "published_of p (publish w b s) = published_of p s"
  by (simp add: published_of_def moving_def speed_mps_def)

lemma publish_published:
  assumes "race_inv s"
  obtains p where "effects (publish w b s) = Sent p # effects s" "published_of p s"
proof -
  obtain p where p: "effects (publish w b s) = Sent p # effects s"
     "pub_mrm_state p = (if phase s = FAULT then MRM_OPERATING else MRM_NORMAL)"
     "pub_mrm_behavior p = (if phase s = FAULT then MRM_EMERGENCY_STOP else MRM_NONE)"
     "pub_operation p = operation_state b s"
     "pub_gear p = desired_gear_command (phase s) (speed_mps s) (stop_speed_mps (race_params s))"
     "emergency_velocity (pub_emergency_control p) = Fin 0"
     "report_state (pub_report p) = phase_name (phase s)"
    using publish_fields [of w b s] by blast
  have "is_autoware_control_enabled (operation_state b s) \<longleftrightarrow>
      activation_armed s \<and> phase s \<in> {ARMING, ACTIVE, STOPPING}"
    using assms by (auto simp: operation_state_def race_inv_def)
  moreover have "pub_gear p = OUT_PARK \<longleftrightarrow> phase s \<notin> {ARMING, ACTIVE} \<and> \<not> moving s"
    by (simp add: p(5) desired_gear_command_def moving_def)
  ultimately have "published_of p s" using p by (simp add: published_of_def)
  with p(1) show ?thesis by (rule that)
qed

section \<open>Steps\<close>

lemma called_published [simp]:
  "Called n r \<in> set (effects (publish w b s)) \<longleftrightarrow> Called n r \<in> set (effects s)"
  using publish_effects [of w b s] by auto

lemma tick_start_effects [simp]: "effects (tick_start w s) = effects s"
  by (cases "clock_went_back w s") (simp_all add: tick_start_back tick_start_forward)

lemma step_requests:
  assumes "handle_race w e s = Inr s'" "Called n r \<in> set (effects s')" "Called n r \<notin> set (effects s)"
  shows "e = TimerEv \<and> \<not> clock_went_back w s \<and> request_gate w r (tick_start w s)"
proof -
  have "e \<noteq> ResetEv"
  proof
    assume "e = ResetEv"
    with assms show False
      by (cases rule: on_reset_cases [of s w]) (auto simp: answered_def emit_effect_def)
  qed
  with handle_frame [OF assms(1)] assms(2,3) have e: "e = TimerEv" by blast
  obtain v where v: "race_tick w (clock_sec w (reads s)) (tick_start w s) v"
      "on_timer w s = Inr (publish w (base_ok w (reads (tick_start w s)) (tick_start w s)) v)"
    by (rule on_timer_result [of w s])
  with e assms have gate: "request_gate w r (tick_start w s)"
    by (auto intro: tick_requests [OF v(1)])
  moreover have "\<not> clock_went_back w s"
  proof
    assume "clock_went_back w s"
    with gate tick_start_back_phase [of w s] show False
      by (cases "(w, r, tick_start w s)" rule: request_gate.cases) (auto simp: engage_gate_def)
  qed
  ultimately show ?thesis using e by simp
qed

lemma step_from_fault:
  assumes "handle_race w e s = Inr s'" "phase s = FAULT" "phase s' \<noteq> FAULT"
  shows "(e = ResetEv \<and> reset_granted s \<or> e = TimerEv \<and> clock_went_back w s) \<and> phase s' = IDLE"
proof -
  consider "e = TimerEv" | "e = ResetEv" using handle_frame [OF assms(1)] assms by metis
  then show ?thesis
  proof cases
    case 1
    obtain v where v: "race_tick w (clock_sec w (reads s)) (tick_start w s) v"
      "on_timer w s = Inr (publish w (base_ok w (reads (tick_start w s)) (tick_start w s)) v)"
      by (rule on_timer_result [of w s])
    with 1 assms have s': "phase s' = phase v" by auto
    have went: "clock_went_back w s"
    proof (rule ccontr)
      assume "\<not> clock_went_back w s"
      with fault_timer [OF assms(2) _ v(1)] assms(3) s' show False by simp
    qed
    have "phase v \<in> {IDLE, FAULT}"
      by (rule idle_timer [OF _ _ v(1)]) (simp_all add: tick_start_back_phase [OF went])
    with s' assms(3) have "phase s' = IDLE" by simp
    with 1 went show ?thesis by simp
  next
    case 2
    with assms show ?thesis
      by (cases rule: on_reset_cases [of s w]) (auto simp: answered_def emit_effect_def)
  qed
qed

lemma driving_tick:
  assumes "phase s = ACTIVE \<or> phase s = STOPPING \<and> moving s" "race_tick w t s v"
  obtains i where "reads s \<le> i" "phase v = FAULT \<longleftrightarrow> \<not> driving_ok w i s"
  using assms(2,1) by (cases rule: race_tick.cases) (auto intro: that)

lemma ready_tick:
  assumes "phase s = READY" "base_ok w (reads s) s" "request_accepted (pending s CONTROL_MODE)"
    "race_tick w t s v"
  shows "if may_call w CONTROL_MODE (s\<lparr>reads := reads s + 6\<rparr>)
     then v = issued w CONTROL_MODE Ask_autonomous (s\<lparr>reads := reads s + 6\<rparr>)
     else phase v = ARMING \<and> effects v = effects s"
proof -
  let ?s6 = "s\<lparr>reads := reads s + 6\<rparr>"
  let ?u = "call_service w CONTROL_MODE Ask_autonomous ?s6"
  have v: "v = (if request_accepted (pending ?u CONTROL_MODE) then v else ?u)"
    "request_accepted (pending ?u CONTROL_MODE) \<Longrightarrow> phase v = ARMING \<and> effects v = effects ?u"
    using assms(4) by (cases rule: race_tick.cases; simp add: assms(1,2))+
  show ?thesis
  proof (cases rule: call_service_cases [of w CONTROL_MODE ?s6 Ask_autonomous])
    case issued
    with v(1) show ?thesis by (simp add: request_accepted_def issued_def)
  next
    case (blocked n)
    with v(2) assms(3) show ?thesis by simp
  qed
qed

lemma forward_ok:
  assumes "\<not> clock_went_back w s"
  shows "phase (tick_start w s) = phase s" "moving (tick_start w s) = moving s"
    "reads (tick_start w s) = Suc (reads s)" "pending (tick_start w s) = pending s"
    "requests_made (tick_start w s) = requests_made s"
  using assms by (simp_all add: tick_start_forward moving_def speed_mps_def)

section \<open>Requests while the clock is behind\<close>

fun service_of :: "race_request \<Rightarrow> service" where
  "service_of Ask_autonomous = CONTROL_MODE"
| "service_of Ask_manual = CONTROL_MODE"
| "service_of (Set_engage b) = ENGAGE"

fun race_run :: "RaceWorld \<Rightarrow> race_event list \<Rightarrow> RaceRuntime \<Rightarrow> py_error + RaceRuntime" where
  "race_run w [] s = Inr s"
| "race_run w (e # es) s = (case handle_race w e s of Inl err \<Rightarrow> Inl err | Inr s' \<Rightarrow> race_run w es s')"

text \<open>At the readings from \<open>i\<close> to before \<open>j\<close> the clock does not pass the retry time of the service.\<close>

definition clock_behind :: "RaceWorld \<Rightarrow> service \<Rightarrow> RaceRuntime \<Rightarrow> nat \<Rightarrow> nat \<Rightarrow> bool" where
  "clock_behind w key s i j \<longleftrightarrow>
     (\<forall>k. i \<le> k \<longrightarrow> k < j \<longrightarrow>
        clock_sec w k - last_service_call s key < service_retry_sec (race_params s))"

definition silent :: "service \<Rightarrow> RaceRuntime \<Rightarrow> RaceRuntime \<Rightarrow> bool" where
  "silent key s s' \<longleftrightarrow>
     last_service_call s' key = last_service_call s key \<and> race_params s' = race_params s \<and>
     (\<forall>n r. service_of r = key \<longrightarrow> Called n r \<in> set (effects s') \<longrightarrow> Called n r \<in> set (effects s))"

lemma silent_refl [simp]: "silent key s s"
  by (simp add: silent_def)

lemma silent_trans: "silent key s t \<Longrightarrow> silent key t u \<Longrightarrow> silent key s u"
  by (simp add: silent_def)

lemma silent_reads [simp]: "silent key (s\<lparr>reads := n\<rparr>) v = silent key s v"
  by (simp add: silent_def)

lemma behind_silent: "silent key s t \<Longrightarrow> clock_behind w key t i j = clock_behind w key s i j"
  by (simp add: clock_behind_def silent_def)

lemma behind_within: "clock_behind w key s i j \<Longrightarrow> i \<le> i' \<Longrightarrow> j' \<le> j \<Longrightarrow> clock_behind w key s i' j'"
  by (simp add: clock_behind_def)

lemma call_silent:
  assumes "clock_behind w key s (reads s) (Suc (reads s))" "service_of r = key'"
  shows "silent key s (call_service w key' r s)"
proof (cases rule: call_service_cases [of w key' s r])
  case issued
  with assms have "key' \<noteq> key" by (auto simp: may_call_def clock_behind_def)
  with issued assms(2) show ?thesis by (auto simp: silent_def issued_def)
next
  case (blocked n)
  then show ?thesis by (simp add: silent_def)
qed

lemma halt_silent:
  assumes "clock_behind w key s (reads s) (reads (halt_requests w s))"
  shows "silent key s (halt_requests w s)"
proof -
  let ?u = "call_service w ENGAGE (Set_engage False) s"
  let ?v = "call_service w CONTROL_MODE Ask_manual ?u"
  have lt: "reads s < reads ?u" "reads ?u < reads ?v" by (rule call_mono)+
  have b: "clock_behind w key s (reads s) (reads ?v)" using assms by (simp add: halt_requests_def)
  have 1: "silent key s ?u"
    by (rule call_silent [OF behind_within [OF b]]) (use lt in auto)
  have "clock_behind w key ?u (reads ?u) (Suc (reads ?u))"
    unfolding behind_silent [OF 1] by (rule behind_within [OF b]) (use lt in auto)
  then have "silent key ?u ?v" by (rule call_silent) simp
  with 1 show ?thesis unfolding halt_requests_def by (rule silent_trans)
qed

lemma silent_frames [simp]:
  "silent key s (transition w ph why u) = silent key s u" "silent key s (fault w why u) = silent key s u"
  "silent key s (u\<lparr>reads := n\<rparr>) = silent key s u" "silent key s (u\<lparr>reason := why\<rparr>) = silent key s u"
  "silent key s (publish w b u) = silent key s u"
  by (simp_all add: silent_def)

lemma halt_silent_from:
  assumes "clock_behind w key s (reads s) j" "reads s \<le> n" "reads (halt_requests w (s\<lparr>reads := n\<rparr>)) \<le> j"
  shows "silent key s (halt_requests w (s\<lparr>reads := n\<rparr>))"
proof -
  have "silent key (s\<lparr>reads := n\<rparr>) s" by simp
  then have "clock_behind w key (s\<lparr>reads := n\<rparr>) n (reads (halt_requests w (s\<lparr>reads := n\<rparr>)))"
    using behind_within [OF assms(1)] assms(2,3) by (simp add: clock_behind_def)
  then show ?thesis using halt_silent [of w key "s\<lparr>reads := n\<rparr>"] by simp
qed

lemma call_silent_from:
  assumes "clock_behind w key s (reads s) j" "reads s \<le> n"
    "reads (call_service w key' r (s\<lparr>reads := n\<rparr>)) \<le> j" "service_of r = key'"
  shows "silent key s (call_service w key' r (s\<lparr>reads := n\<rparr>))"
proof -
  have "n < j" using call_mono [of "s\<lparr>reads := n\<rparr>" w key' r] assms(3) by simp
  then have "clock_behind w key (s\<lparr>reads := n\<rparr>) n (Suc n)"
    using assms(1,2) by (auto simp: clock_behind_def)
  then show ?thesis using call_silent [of w key "s\<lparr>reads := n\<rparr>" r key'] assms(4) by simp
qed

lemma tick_silent:
  assumes "race_tick w t s v" "clock_behind w key s (reads s) j" "reads v \<le> j"
  shows "silent key s v"
  using assms(1)
proof (cases rule: race_tick.cases)
  case (ready_waiting)
  then show ?thesis using assms(2,3) by (auto intro!: call_silent_from [OF assms(2)])
next
  case (ready_accepted u why)
  then have "reads u \<le> j" using assms(3) transition_mono(1) [of u w ARMING why] by simp
  with ready_accepted show ?thesis by (auto intro!: call_silent_from [OF assms(2)])
next
  case arming_engages
  with assms(3) show ?thesis by (auto intro!: call_silent_from [OF assms(2)])
next
  case (stopping_halted n)
  with assms(3) show ?thesis by (auto intro!: halt_silent_from [OF assms(2)])
next
  case (stopping_finished n why)
  then have "reads (halt_requests w (s\<lparr>reads := n\<rparr>)) \<le> j"
    using assms(3) transition_mono(1) [of "halt_requests w (s\<lparr>reads := n\<rparr>)" w FINISHED why] by simp
  with stopping_finished show ?thesis by (auto intro!: halt_silent_from [OF assms(2)])
next
  case (fault_halted n)
  with assms(3) show ?thesis by (auto intro!: halt_silent_from [OF assms(2)])
qed (simp_all add: silent_def)

lemma tick_start_silent: "silent key s (tick_start w s)"
  by (cases "clock_went_back w s") (simp_all add: silent_def tick_start_back tick_start_forward)

lemma handle_silent:
  assumes "handle_race w e s = Inr s'" "\<And>p. e \<noteq> ParametersEv p"
    "clock_behind w key s (reads s) (reads s')"
  shows "silent key s s'"
proof (cases "e = TimerEv")
  case False
  with assms(1,2) show ?thesis
    by (cases e) (auto simp: silent_def receive_def race_simps Let_def answered_def emit_effect_def
        on_start_def on_stop_def on_reset_def split: if_splits)
next
  case True
  let ?u = "tick_start w s"
  obtain v where v: "race_tick w (clock_sec w (reads s)) ?u v"
      "on_timer w s = Inr (publish w (base_ok w (reads ?u) ?u) v)"
    by (rule on_timer_result [of w s])
  with True assms(1) have s': "s' = publish w (base_ok w (reads ?u) ?u) v" by simp
  have "clock_behind w key ?u (reads ?u) (reads s')"
    unfolding behind_silent [OF tick_start_silent]
    by (rule behind_within [OF assms(3)]) (use tick_start_reads [of s w] in auto)
  then have "silent key ?u v"
    by (rule tick_silent [OF v(1)]) (use publish_reads [of v w "base_ok w (reads ?u) ?u"] s' in simp)
  with tick_start_silent [of key s w] have "silent key s v" by (rule silent_trans)
  with s' show ?thesis by simp
qed

lemma run_mono: "race_run w es s = Inr s' \<Longrightarrow> reads s \<le> reads s'"
  by (induction es arbitrary: s) (auto split: sum.splits dest!: handle_mono intro: order_trans)

lemma run_silent:
  assumes "race_run w es s = Inr s'" "\<And>p. ParametersEv p \<notin> set es"
    "clock_behind w key s (reads s) (reads s')"
  shows "silent key s s'"
  using assms
proof (induction es arbitrary: s)
  case (Cons e es)
  obtain t where t: "handle_race w e s = Inr t" "race_run w es t = Inr s'"
    using Cons.prems(1) by (auto split: sum.splits)
  have le: "reads s \<le> reads t" "reads t \<le> reads s'" using handle_mono [OF t(1)] run_mono [OF t(2)] .
  have 1: "silent key s t"
    by (rule handle_silent [OF t(1)])
      (use Cons.prems(2) behind_within [OF Cons.prems(3)] le in auto)
  have "silent key t s'"
    by (rule Cons.IH [OF t(2)])
      (use Cons.prems(2) behind_silent [OF 1] behind_within [OF Cons.prems(3)] le in auto)
  with 1 show ?case by (rule silent_trans)
qed simp

end
