(* ===== verification/Race_Run.thy ===== *)
theory Race_Run
  imports Race_Steps
begin

text \<open>
  A run of the race runtime manager, computed from its definitions: the inputs arrive, the timer
  finds them complete, asks for autonomous mode, the request is accepted, and the manager arms. Its
  states instantiate the theorems about reachable states. The clock stands at zero.
\<close>

definition race_world :: RaceWorld where
  "race_world = \<lparr>clock_ns = (\<lambda>i. 0), service_ready = (\<lambda>i k. True)\<rparr>"

definition race_demo_params :: RaceParams where
  "race_demo_params =
     \<lparr>update_rate_hz = Fin 20, auto_start = True, startup_timeout_sec = Fin 90,
      localization_timeout_sec = Fin 1, trajectory_timeout_sec = Fin 1, control_timeout_sec = Fin 1,
      velocity_status_timeout_sec = Fin 1, vehicle_status_timeout_sec = Fin 1,
      stop_speed_mps = Fin 1, service_retry_sec = Fin (1 / 4),
      emergency_acceleration_mps2 = Fin (- 2)\<rparr>"

definition zero_stamp :: Stamp where
  "zero_stamp = \<lparr>stamp_seconds = 0, stamp_nanosec = 0\<rparr>"

definition received :: "'m \<Rightarrow> 'm TimedInput" where
  "received m = \<lparr>message = Some m, receipt_sec = Fin 0, source_stamp_sec = Fin 0, sequence = 1,
     rejected_out_of_order = 0, rejected_future = 0\<rparr>"

definition manager0 :: RaceRuntime where
  "manager0 =
     \<lparr>race_params = race_demo_params, timer_period_sec = Fin 1 div Fin 20, phase = IDLE,
      phase_since = Fin 0, start_sec = Fin 0, last_now = Fin (- 1), start_requested = True,
      stop_requested = False, activation_armed = False, activation_stamp = Fin (- 1),
      last_service_call = (\<lambda>_. Fin (- 1)), pending = (\<lambda>_. None), reason = ''WAITING_FOR_START'',
      localization_state = TimedInput_init, odometry = TimedInput_init,
      trajectory = TimedInput_init, route_state = TimedInput_init,
      raw_control = TimedInput_init, final_control = TimedInput_init,
      control_mode = TimedInput_init, gear = TimedInput_init, velocity = TimedInput_init,
      steering = TimedInput_init, engage = TimedInput_init, reads = 1, requests_made = 0, effects = []\<rparr>"

definition manager1 :: RaceRuntime where
  "manager1 = manager0
     \<lparr>localization_state := received LOC_INITIALIZED, odometry := received (),
      trajectory := received 2, control_mode := received MODE_NO_COMMAND,
      gear := received GEAR_PARK, velocity := received (Fin 0), steering := received (Fin 0),
      reads := 8\<rparr>"

definition sent_state :: "RaceRuntime \<Rightarrow> RaceRuntime" where
  "sent_state s = emit_effect (Sent (runtime_messages True 0 False False (Fin 0) s)) s"

definition manager2 :: RaceRuntime where
  "manager2 = sent_state (manager1\<lparr>phase := READY, reason := ''READINESS_COMPLETE'',
     last_now := Fin 0, reads := 20\<rparr>)"

definition demo_future :: "future_result \<Rightarrow> Future" where
  "demo_future r = \<lparr>future_id = 0, future_request = Ask_autonomous, future_result = r\<rparr>"

definition manager3 :: RaceRuntime where
  "manager3 = sent_state ((issued race_world CONTROL_MODE Ask_autonomous
     (manager2\<lparr>last_now := Fin 0, reads := 27\<rparr>))\<lparr>reads := 33\<rparr>)"

definition manager4 :: RaceRuntime where
  "manager4 = manager3
     \<lparr>pending := (\<lambda>_. None)(CONTROL_MODE := Some (demo_future (Done (Some True))))\<rparr>"

definition manager5 :: RaceRuntime where
  "manager5 = sent_state ((transition race_world ARMING ''AUTO_REQUEST_ACCEPTED''
     (manager4\<lparr>last_now := Fin 0, reads := 41\<rparr>))\<lparr>reads := 46\<rparr>)"

lemmas manager_defs = manager0_def manager1_def manager2_def manager3_def manager4_def manager5_def
  sent_state_def emit_effect_def race_demo_params_def

lemma race_world_simps [simp]:
  "clock_ns race_world i = 0" "service_ready race_world i k = True" "clock_sec race_world i = Fin 0"
  by (simp_all add: race_world_def clock_sec_def d64_of_int_def zero_nano)

lemma small_ints: "d64 1 = Fin 1" "d64 (- 1) = Fin (- 1)"
  using d64_int [of 1] d64_int [of "- 1"] by simp_all

lemma stamp_zero: "stamp_to_sec zero_stamp = Fin 0"
  by (simp add: stamp_to_sec_def zero_stamp_def d64_of_int_def zero_nano)

lemma received_first [simp]:
  "snd (timed_update m (Fin 0) (Some zero_stamp) TimedInput_init) = received m"
proof -
  obtain x where x: "nano = Fin x" "0 < x" using nano_finite by blast
  have "\<not> d64 x < Fin (- 1)"
    using fp_le_not_less [OF d64_mono [of "- 1" x]] x(2) small_ints by simp
  moreover have "\<not> Fin 0 + d64 (1 / 20) < Fin 0" by (rule fp_le_not_less [OF tolerance_nonneg])
  ultimately show ?thesis
    by (simp add: timed_update_def stamp_zero TimedInput_init_def received_def x(1) Let_def)
qed

lemma received_fresh [simp]: "fresh (received m) (Fin 0) (Fin 1)"
  using tolerance_nonneg by (simp add: fresh_def received_def minus_Fin)

lemma received_message [simp]: "message (received m) = Some m"
  by (simp add: received_def)

lemma init_not_fresh [simp]: "\<not> fresh TimedInput_init t d"
  by (simp add: fresh_def TimedInput_init_def)

lemma manager_start: "RaceRuntimeManager_new race_world race_demo_params = Inr manager0"
  by (simp add: RaceRuntimeManager_new_def Let_def manager0_def race_demo_params_def)

definition demo_events :: "race_event list" where
  "demo_events = [LocalizationEv zero_stamp LOC_INITIALIZED, OdometryEv zero_stamp,
     TrajectoryEv zero_stamp 2, ControlModeEv zero_stamp MODE_NO_COMMAND, GearEv zero_stamp GEAR_PARK,
     VelocityEv zero_stamp (Fin 0), SteeringEv zero_stamp (Fin 0)]"

lemma manager_inputs: "race_run race_world demo_events manager0 = Inr manager1"
  by (simp add: demo_events_def receive_def race_simps Let_def manager0_def manager1_def
      eval_nat_numeral)

lemma run_reachable: "race_reachable w p s \<Longrightarrow> race_run w es s = Inr s' \<Longrightarrow> race_reachable w p s'"
  by (induction es arbitrary: s) (auto split: sum.splits intro: race_reachable.continue)

lemma base_failure_ok: "base_ok w (reads s) s \<Longrightarrow> base_failure w s = (None, s\<lparr>reads := reads s + 6\<rparr>)"
  by (simp add: base_failure_None)

lemma publish_sent:
  assumes "reads s = n"
    "\<not> fresh (raw_control s) (Fin 0) (control_timeout_sec (race_params s))"
    "\<not> fresh (final_control s) (Fin 0) (control_timeout_sec (race_params s))"
  shows "publish race_world True s = sent_state (s\<lparr>reads := n + 4\<rparr>)"
  using assms by (simp add: publish_def sent_state_def race_simps Let_def eval_nat_numeral)

text \<open>The inputs of the demo states are complete, whatever the other parts of the state are.\<close>

lemma inputs_complete:
  assumes "localization_state s = received LOC_INITIALIZED" "odometry s = received ()"
    "trajectory s = received 2" "control_mode s = received MODE_NO_COMMAND" "gear s = received GEAR_PARK"
    "velocity s = received (Fin 0)" "steering s = received (Fin 0)" "race_params s = race_demo_params"
  shows "base_ok race_world i s"
  using assms by (simp add: base_ok_def race_demo_params_def)

lemma no_rollback: "last_now s = Fin 0 \<or> last_now s = Fin (- 1) \<Longrightarrow> \<not> clock_went_back race_world s"
  using fp_le_not_less [OF tolerance_nonneg] by (auto simp: clock_went_back_def)

lemma on_timer_ok:
  assumes "\<not> clock_went_back w s" "base_ok w (Suc (reads s)) s"
  shows "on_timer w s = map_sum id (publish w True)
     (timer_phase w (clock_sec w (reads s)) None
        (s\<lparr>last_now := clock_sec w (reads s), reads := reads s + 7\<rparr>))"
proof -
  have "base_ok w (Suc (reads s)) (tick_start w s)"
    using assms(2) by (simp add: tick_start_trackers(1) [OF assms(1)])
  moreover have "reads (tick_start w s) = Suc (reads s)"
    by (simp add: tick_start_forward [OF assms(1)])
  ultimately have "base_failure w (tick_start w s) = (None, tick_start w s\<lparr>reads := reads s + 7\<rparr>)"
    by (simp add: base_failure_None)
  moreover have "on_timer w s =
      (case base_failure w (tick_start w s) of (bf, u) \<Rightarrow>
        case timer_phase w (clock_sec w (reads s)) bf u of
          Inl e \<Rightarrow> Inl e | Inr u \<Rightarrow> Inr (publish w (bf = None) u))"
    by (simp add: on_timer_def race_simps Let_def tick_start_def)
  ultimately show ?thesis
    using tick_start_forward [OF assms(1)] by (simp add: map_sum_def split: sum.split)
qed

lemma manager_ready: "handle_race race_world TimerEv manager1 = Inr manager2"
proof -
  have "\<not> clock_went_back race_world manager1" by (rule no_rollback) (simp add: manager_defs)
  moreover have "base_ok race_world (Suc (reads manager1)) manager1"
    by (rule inputs_complete) (simp_all add: manager_defs)
  ultimately show ?thesis
    using publish_sent [of "manager1\<lparr>phase := READY, reason := ''READINESS_COMPLETE'',
       last_now := Fin 0, reads := 16\<rparr>" 16]
    by (simp add: on_timer_ok timer_phase_def timer_idle_def transition_def race_simps Let_def manager1_def
        manager0_def race_demo_params_def manager2_def)
qed

lemma no_small_wait: "\<not> d64 1 < Fin (1 / 4)" "d64 0 < Fin (1 / 4)"
  by (simp_all add: small_ints)

lemma manager2_fields [simp]:
  "phase manager2 = READY" "pending manager2 = (\<lambda>_. None)" "reads manager2 = 20"
  "last_service_call manager2 = (\<lambda>_. Fin (- 1))" "requests_made manager2 = 0"
  "race_params manager2 = race_demo_params" "last_now manager2 = Fin 0"
  "localization_state manager2 = received LOC_INITIALIZED" "odometry manager2 = received ()"
  "trajectory manager2 = received 2" "control_mode manager2 = received MODE_NO_COMMAND"
  "gear manager2 = received GEAR_PARK" "velocity manager2 = received (Fin 0)"
  "steering manager2 = received (Fin 0)" "raw_control manager2 = TimedInput_init"
  "final_control manager2 = TimedInput_init"
  by (simp_all add: manager2_def manager1_def manager0_def sent_state_def emit_effect_def)

lemma sent_fields [simp]:
  "phase (sent_state s) = phase s" "pending (sent_state s) = pending s" "reads (sent_state s) = reads s"
  "last_service_call (sent_state s) = last_service_call s" "requests_made (sent_state s) = requests_made s"
  "race_params (sent_state s) = race_params s" "last_now (sent_state s) = last_now s"
  "localization_state (sent_state s) = localization_state s" "odometry (sent_state s) = odometry s"
  "trajectory (sent_state s) = trajectory s" "control_mode (sent_state s) = control_mode s"
  "gear (sent_state s) = gear s" "velocity (sent_state s) = velocity s"
  "steering (sent_state s) = steering s" "raw_control (sent_state s) = raw_control s"
  "final_control (sent_state s) = final_control s" "activation_armed (sent_state s) = activation_armed s"
  by (simp_all add: sent_state_def emit_effect_def)

lemma issued_fields [simp]:
  "phase (issued w k r s) = phase s" "race_params (issued w k r s) = race_params s"
  "reads (issued w k r s) = reads s + 2" "last_now (issued w k r s) = last_now s"
  "localization_state (issued w k r s) = localization_state s" "odometry (issued w k r s) = odometry s"
  "trajectory (issued w k r s) = trajectory s" "control_mode (issued w k r s) = control_mode s"
  "gear (issued w k r s) = gear s" "velocity (issued w k r s) = velocity s"
  "steering (issued w k r s) = steering s" "raw_control (issued w k r s) = raw_control s"
  "final_control (issued w k r s) = final_control s"
  by (simp_all add: issued_def)

lemma demo_params_fields [simp]:
  "service_retry_sec race_demo_params = Fin (1 / 4)" "control_timeout_sec race_demo_params = Fin 1"
  by (simp_all add: race_demo_params_def)

lemma manager_asks: "handle_race race_world TimerEv manager2 = Inr manager3"
proof -
  let ?u = "manager2\<lparr>last_now := Fin 0, reads := 27\<rparr>"
  have "may_call race_world CONTROL_MODE ?u"
    using no_small_wait by (simp add: may_call_def minus_Fin)
  then have call: "call_service race_world CONTROL_MODE Ask_autonomous ?u =
      issued race_world CONTROL_MODE Ask_autonomous ?u"
    by (cases rule: call_service_cases [of race_world CONTROL_MODE ?u Ask_autonomous]) simp_all
  have "\<not> request_accepted (pending (issued race_world CONTROL_MODE Ask_autonomous ?u) CONTROL_MODE)"
    by (simp add: issued_def request_accepted_def)
  then have ready: "timer_ready race_world None ?u = issued race_world CONTROL_MODE Ask_autonomous ?u"
    by (simp add: timer_ready_def call_control_mode_def call Let_def)
  have "\<not> clock_went_back race_world manager2" by (rule no_rollback) simp
  moreover have "base_ok race_world (Suc (reads manager2)) manager2"
    by (rule inputs_complete) simp_all
  ultimately show ?thesis
    using publish_sent [of "issued race_world CONTROL_MODE Ask_autonomous ?u" 29]
    by (simp add: on_timer_ok timer_phase_def ready manager3_def)
qed

lemma manager3_pending:
  "pending manager3 = (\<lambda>_. None)(CONTROL_MODE := Some (demo_future Waiting))"
  "last_service_call manager3 = (\<lambda>_. Fin (- 1))(CONTROL_MODE := Fin 0)"
  "requests_made manager3 = 1"
  by (simp_all add: manager3_def issued_def demo_future_def)

lemma manager_replied:
  "handle_race race_world (ReplyEv CONTROL_MODE 0 (Some True)) manager3 = Inr manager4"
  by (simp add: manager4_def manager3_pending complete_future_def demo_future_def)

lemma manager4_fields [simp]:
  "phase manager4 = READY" "reads manager4 = 33" "last_now manager4 = Fin 0"
  "pending manager4 = (\<lambda>_. None)(CONTROL_MODE := Some (demo_future (Done (Some True))))"
  "last_service_call manager4 = (\<lambda>_. Fin (- 1))(CONTROL_MODE := Fin 0)" "requests_made manager4 = 1"
  "race_params manager4 = race_demo_params"
  "localization_state manager4 = received LOC_INITIALIZED" "odometry manager4 = received ()"
  "trajectory manager4 = received 2" "control_mode manager4 = received MODE_NO_COMMAND"
  "gear manager4 = received GEAR_PARK" "velocity manager4 = received (Fin 0)"
  "steering manager4 = received (Fin 0)" "raw_control manager4 = TimedInput_init"
  "final_control manager4 = TimedInput_init"
  by (simp_all add: manager4_def manager3_pending) (simp_all add: manager3_def)

lemma manager_arms: "handle_race race_world TimerEv manager4 = Inr manager5"
proof -
  let ?u = "manager4\<lparr>last_now := Fin 0, reads := 40\<rparr>"
  have call: "call_service race_world CONTROL_MODE Ask_autonomous ?u = ?u\<lparr>reads := 41\<rparr>"
    using no_small_wait by (simp add: call_service_eq demo_future_def minus_Fin)
  have "request_accepted (pending (?u\<lparr>reads := 41\<rparr>) CONTROL_MODE)"
    by (simp add: demo_future_def request_accepted_def)
  then have ready: "timer_ready race_world None ?u =
      transition race_world ARMING ''AUTO_REQUEST_ACCEPTED'' (manager4\<lparr>last_now := Fin 0, reads := 41\<rparr>)"
    by (simp add: timer_ready_def call_control_mode_def call Let_def)
  have "reads (transition race_world ARMING ''AUTO_REQUEST_ACCEPTED''
      (manager4\<lparr>last_now := Fin 0, reads := 41\<rparr>)) = 42"
    by (simp add: transition_def race_simps Let_def)
  note sent = publish_sent [OF this]
  have "\<not> clock_went_back race_world manager4" by (rule no_rollback) simp
  moreover have "base_ok race_world (Suc (reads manager4)) manager4"
    by (rule inputs_complete) simp_all
  ultimately show ?thesis
    using sent by (simp add: on_timer_ok timer_phase_def ready manager5_def)
qed

lemma manager5_fields [simp]:
  "phase manager5 = ARMING"
  "pending manager5 = (\<lambda>_. None)(CONTROL_MODE := Some (demo_future (Done (Some True))))"
  by (simp_all add: manager5_def)

lemma manager_reachable:
  "race_reachable race_world race_demo_params manager1"
  "race_reachable race_world race_demo_params manager2"
  "race_reachable race_world race_demo_params manager3"
  "race_reachable race_world race_demo_params manager4"
  "race_reachable race_world race_demo_params manager5"
proof -
  show 1: "race_reachable race_world race_demo_params manager1"
    by (rule run_reachable [OF race_reachable.start [OF manager_start] manager_inputs])
  show 2: "race_reachable race_world race_demo_params manager2"
    by (rule race_reachable.continue [OF 1 manager_ready])
  show 3: "race_reachable race_world race_demo_params manager3"
    by (rule race_reachable.continue [OF 2 manager_asks])
  show 4: "race_reachable race_world race_demo_params manager4"
    by (rule race_reachable.continue [OF 3 manager_replied])
  show "race_reachable race_world race_demo_params manager5"
    by (rule race_reachable.continue [OF 4 manager_arms])
qed

lemma manager_effects:
  "Called 0 Ask_autonomous \<notin> set (effects manager2)" "Called 0 Ask_autonomous \<in> set (effects manager3)"
  by (simp_all add: manager3_def issued_def sent_state_def emit_effect_def manager2_def manager1_def
      manager0_def)

lemma run_append:
  "race_run w (es @ es') s = (case race_run w es s of Inl err \<Rightarrow> Inl err | Inr u \<Rightarrow> race_run w es' u)"
  by (induction es arbitrary: s) (simp_all split: sum.split)

end
