(* ===== verification/Race_Properties.thy ===== *)
theory Race_Properties
  imports Race_Run
begin

text \<open>
  What the race runtime manager guarantees: its timer follows the list of guarded transitions, the
  invariant of the reachable states, how a fault ends, when each request is made, what the loss of
  an input does and what is published; and two weaknesses of the requests: an acceptance that comes
  after the retry time is thrown away, and after the clock was set back nothing is requested until
  it has caught up. The witnesses are states of the run of \<open>Race_Run\<close>.
\<close>

section \<open>The state machine\<close>

text \<open>
  C14: Every run of the timer returns without an exception. It is the roll-back test, one of the
  twenty-two guarded transitions of \<open>race_tick\<close>, and one publication, whose readiness flag is the
  completeness of the inputs.
\<close>

theorem timer_follows_transitions:
  "\<exists>v. race_tick w (clock_sec w (reads s)) (tick_start w s) v \<and>
     on_timer w s = Inr (publish w (base_ok w (reads (tick_start w s)) (tick_start w s)) v)"
  by (rule on_timer_result [of w s]) blast

text \<open>
  C20: In every reachable state: nothing is pending while the manager is idle; while it is arming or
  active the request for autonomous mode that it made last was answered with success; the vehicle
  was armed before it is driven, stopped or finished, and it is not armed before arming begins; no
  two requests share a number.
\<close>

theorem race_states_consistent:
  assumes "race_reachable w p s"
  shows "(phase s = IDLE \<longrightarrow> (\<forall>k. pending s k = None)) \<and>
     (phase s \<in> {ARMING, ACTIVE} \<longrightarrow>
        (\<exists>f. pending s CONTROL_MODE = Some f \<and> future_request f = Ask_autonomous \<and>
           future_result f = Done (Some True) \<and> Called (future_id f) Ask_autonomous \<in> set (effects s))) \<and>
     (phase s \<in> {ACTIVE, STOPPING, FINISHED} \<longrightarrow> activation_armed s) \<and>
     (phase s \<in> {IDLE, READY} \<longrightarrow> \<not> activation_armed s) \<and>
     (\<forall>n r r'. Called n r \<in> set (effects s) \<and> Called n r' \<in> set (effects s) \<longrightarrow> r = r')"
proof -
  have inv: "race_inv s" by (rule reachable_race_inv [OF assms])
  have "\<exists>f. pending s CONTROL_MODE = Some f \<and> future_request f = Ask_autonomous \<and>
      future_result f = Done (Some True) \<and> Called (future_id f) Ask_autonomous \<in> set (effects s)"
    if "phase s \<in> {ARMING, ACTIVE}"
    by (rule accepted_pending [OF inv that]) blast
  with inv show ?thesis unfolding race_inv_def by blast
qed

theorem race_states_consistent_witness:
  "phase manager5 = ARMING \<and> (\<exists>f. pending manager5 CONTROL_MODE = Some f \<and>
     future_result f = Done (Some True) \<and> Called (future_id f) Ask_autonomous \<in> set (effects manager5))"
  using race_states_consistent [OF manager_reachable(5)] by auto

text \<open>
  C8: A fault is latched: it ends only by a reset, granted while the reported speed is below the stop
  speed, the reported mode is not autonomous and the vehicle is not engaged, or when the clock goes
  back. Either way the manager is then idle and disarmed.
\<close>

theorem fault_latched:
  assumes "handle_race w e s = Inr s'" "phase s = FAULT" "phase s' \<noteq> FAULT"
  shows "(e = ResetEv \<and> reset_granted s \<or> e = TimerEv \<and> clock_went_back w s) \<and> phase s' = IDLE"
  by (rule step_from_fault [OF assms])

theorem fault_latched_witness:
  "\<exists>s'. handle_race race_world ResetEv (manager1\<lparr>phase := FAULT\<rparr>) = Inr s' \<and> phase s' = IDLE \<and>
     reset_granted (manager1\<lparr>phase := FAULT\<rparr>)"
proof -
  let ?s = "manager1\<lparr>phase := FAULT\<rparr>"
  have granted: "on_reset race_world ?s = ((True, ''reset accepted''), reset_state race_world False ?s)"
    by (simp add: on_reset_def speed_mps_def manager1_def manager0_def TimedInput_init_def
        race_demo_params_def)
  let ?s' = "answered (on_reset race_world ?s)"
  have "phase ?s' = IDLE" by (simp add: granted answered_def emit_effect_def)
  with fault_latched [of race_world ResetEv ?s ?s'] show ?thesis by simp
qed

section \<open>Requests\<close>

text \<open>
  C7: The services are asked only by the timer, and each request has its gate: autonomous mode while
  waiting for it with all inputs complete; engagement while arming, in autonomous mode and drive,
  with a fresh stop command at the gate and a control command received after the arming, and only
  after the request for autonomous mode was answered with success; manual mode and disengagement
  while stopping or after a fault, and never at or above the stop speed.
\<close>

theorem requests_gated:
  assumes "race_reachable w p s" "handle_race w e s = Inr s'"
    and "Called n r \<in> set (effects s')" "Called n r \<notin> set (effects s)"
  shows "e = TimerEv \<and> \<not> clock_went_back w s \<and> request_gate w r (tick_start w s) \<and>
     (r = Set_engage True \<longrightarrow> request_accepted (pending s CONTROL_MODE))"
proof -
  have step: "e = TimerEv \<and> \<not> clock_went_back w s \<and> request_gate w r (tick_start w s)"
    by (rule step_requests [OF assms(2-4)])
  moreover have "request_accepted (pending s CONTROL_MODE)" if "r = Set_engage True"
    using step that reachable_race_inv [OF assms(1)]
    by (auto simp: engage_gate_def race_inv_def forward_ok)
  ultimately show ?thesis by blast
qed

theorem requests_gated_witness:
  "request_gate race_world Ask_autonomous (tick_start race_world manager2) \<and>
   Called 0 Ask_autonomous \<in> set (effects manager3)"
  using requests_gated [OF manager_reachable(2) manager_asks manager_effects(2,1)] manager_effects
  by simp

text \<open>
  C21: A vehicle that accepts autonomous mode in time is armed, one that answers after the retry time
  never is: in the run of the timer that finds the acceptance, if the service may be asked again the
  manager asks again, replaces the accepted request by the new one and stays; otherwise it arms.
\<close>

theorem ready_handshake:
  assumes "phase s = READY" "\<not> clock_went_back w s" "base_ok w (Suc (reads s)) s"
    and "request_accepted (pending s CONTROL_MODE)" "on_timer w s = Inr s'"
  shows "if may_call w CONTROL_MODE (s\<lparr>reads := reads s + 7\<rparr>)
     then phase s' = READY \<and> \<not> request_accepted (pending s' CONTROL_MODE) \<and>
       Called (requests_made s) Ask_autonomous \<in> set (effects s')
     else phase s' = ARMING"
proof -
  let ?u = "tick_start w s"
  have u: "?u = s\<lparr>reads := Suc (reads s), last_now := clock_sec w (reads s)\<rparr>"
    by (rule tick_start_forward [OF assms(2)])
  obtain v where v: "race_tick w (clock_sec w (reads s)) ?u v"
      "on_timer w s = Inr (publish w (base_ok w (reads ?u) ?u) v)"
    by (rule on_timer_result [of w s])
  have ok: "base_ok w (reads ?u) ?u"
    using assms(3) forward_ok(3) [OF assms(2)] by (simp add: tick_start_trackers(1) [OF assms(2)])
  have may: "may_call w CONTROL_MODE (?u\<lparr>reads := reads ?u + 6\<rparr>) =
      may_call w CONTROL_MODE (s\<lparr>reads := reads s + 7\<rparr>)"
    by (simp add: may_call_def u add.commute)
  have "if may_call w CONTROL_MODE (s\<lparr>reads := reads s + 7\<rparr>)
     then v = issued w CONTROL_MODE Ask_autonomous (?u\<lparr>reads := reads ?u + 6\<rparr>)
     else phase v = ARMING \<and> effects v = effects ?u"
    using ready_tick [OF _ ok _ v(1)] assms(1,4) forward_ok [OF assms(2)] may by simp
  moreover have "s' = publish w (base_ok w (reads ?u) ?u) v" using v(2) assms(5) by simp
  ultimately show ?thesis
    using assms(1) forward_ok [OF assms(2)]
    by (auto simp: issued_def request_accepted_def split: if_splits)
qed

lemma on_timer_total: "\<exists>s'. on_timer w s = Inr s'"
  by (rule on_timer_result [of w s]) blast

theorem ready_handshake_witness:
  "\<exists>s'. on_timer race_world (manager4\<lparr>last_service_call := (\<lambda>_. Fin (- 1))\<rparr>) = Inr s' \<and>
     phase s' = READY \<and> \<not> request_accepted (pending s' CONTROL_MODE) \<and>
     Called 1 Ask_autonomous \<in> set (effects s')"
proof -
  let ?s = "manager4\<lparr>last_service_call := (\<lambda>_. Fin (- 1))\<rparr>"
  obtain s' where s': "on_timer race_world ?s = Inr s'" using on_timer_total by blast
  have "\<not> clock_went_back race_world ?s" by (rule no_rollback) simp
  moreover have "base_ok race_world (Suc (reads ?s)) ?s" by (rule inputs_complete) simp_all
  moreover have "request_accepted (pending ?s CONTROL_MODE)"
    by (simp add: request_accepted_def demo_future_def)
  moreover have "may_call race_world CONTROL_MODE (?s\<lparr>reads := reads ?s + 7\<rparr>)"
    using no_small_wait by (simp add: may_call_def demo_future_def minus_Fin)
  ultimately show ?thesis using ready_handshake [of ?s race_world s'] s' by simp
qed

text \<open>
  C27: As long as the clock stays behind the time of the last request to a service plus the retry
  time, that service is not asked again, whatever happens in between: the time of the last request
  survives resets and the roll-back that follows when the clock is set back.
\<close>

theorem clock_behind_blocks_requests:
  assumes "race_run w es s = Inr s'" "\<forall>p. ParametersEv p \<notin> set es"
    and "\<forall>k. reads s \<le> k \<and> k < reads s' \<longrightarrow>
      clock_sec w k - last_service_call s key < service_retry_sec (race_params s)"
    and "service_of r = key" "Called n r \<in> set (effects s')"
  shows "Called n r \<in> set (effects s)"
proof -
  have "silent key s s'"
    by (rule run_silent [OF assms(1)]) (use assms(2,3) in \<open>auto simp: clock_behind_def\<close>)
  with assms(4,5) show ?thesis by (simp add: silent_def)
qed

lemma demo_hundred: "d64 (- 100) < Fin (1 / 4)"
  using d64_int [of "- 100"] by simp

theorem clock_behind_blocks_requests_witness:
  "\<exists>s'. race_run race_world [TimerEv] (manager2\<lparr>last_service_call := (\<lambda>_. Fin 100)\<rparr>) = Inr s' \<and>
     Called 0 Ask_autonomous \<notin> set (effects s')"
proof -
  let ?s = "manager2\<lparr>last_service_call := (\<lambda>_. Fin 100)\<rparr>"
  obtain s' where s': "on_timer race_world ?s = Inr s'" using on_timer_total by blast
  have "Called 0 Ask_autonomous \<notin> set (effects s')"
    using clock_behind_blocks_requests [of race_world "[TimerEv]" ?s s' CONTROL_MODE Ask_autonomous 0]
      s' demo_hundred manager_effects(1) by (auto simp: minus_Fin)
  with s' show ?thesis by simp
qed

section \<open>Loss of an input, and publication\<close>

lemma driving_requests:
  assumes "phase s = ACTIVE \<or> phase s = STOPPING \<and> moving s" "race_tick w t s v"
  shows "effects v = effects s"
  using assms(2,1) by (cases rule: race_tick.cases) auto

text \<open>
  C13: A moving vehicle that lost an input: when, from the run of the timer on, the inputs are not
  complete, fresh and in autonomous mode, this very run latches the fault and publishes the
  emergency stop, with the control disabled; and while they are, no run latches a fault.
\<close>

theorem lost_input_stops:
  assumes "phase s = ACTIVE \<or> phase s = STOPPING \<and> moving s" "\<not> clock_went_back w s"
    and "on_timer w s = Inr s'"
  shows "((\<forall>i. reads s < i \<longrightarrow> \<not> driving_ok w i s) \<longrightarrow> phase s' = FAULT \<and>
        (\<exists>p. effects s' = Sent p # effects s \<and> pub_mrm_behavior p = MRM_EMERGENCY_STOP \<and>
           pub_mrm_state p = MRM_OPERATING \<and> \<not> is_autoware_control_enabled (pub_operation p))) \<and>
     ((\<forall>i. reads s < i \<longrightarrow> driving_ok w i s) \<longrightarrow> phase s' \<in> {ACTIVE, STOPPING})"
proof -
  let ?u = "tick_start w s"
  obtain v where v: "race_tick w (clock_sec w (reads s)) ?u v"
      "on_timer w s = Inr (publish w (base_ok w (reads ?u) ?u) v)"
    by (rule on_timer_result [of w s])
  have s': "s' = publish w (base_ok w (reads ?u) ?u) v" using v(2) assms(3) by simp
  have u: "phase ?u = ACTIVE \<or> phase ?u = STOPPING \<and> moving ?u"
    using assms(1) forward_ok [OF assms(2)] by simp
  obtain i where i: "reads ?u \<le> i" "phase v = FAULT \<longleftrightarrow> \<not> driving_ok w i ?u"
    by (rule driving_tick [OF u v(1)])
  then have "reads s < i" using tick_start_reads [of s w] by simp
  moreover have "phase v = FAULT \<longleftrightarrow> \<not> driving_ok w i s"
    using i(2) tick_start_trackers(2) [OF assms(2)] by simp
  moreover have "phase v \<in> {ACTIVE, STOPPING, FAULT}"
    using v(1) u by (cases rule: race_tick.cases) auto
  moreover obtain p where "effects s' = Sent p # effects v"
     "pub_mrm_state p = (if phase v = FAULT then MRM_OPERATING else MRM_NORMAL)"
     "pub_mrm_behavior p = (if phase v = FAULT then MRM_EMERGENCY_STOP else MRM_NONE)"
     "pub_operation p = operation_state (base_ok w (reads ?u) ?u) v"
    using publish_fields [of w "base_ok w (reads ?u) ?u" v] s' by blast
  moreover have "effects v = effects s" using driving_requests [OF u v(1)] by simp
  ultimately show ?thesis by (auto simp: s' operation_state_def)
qed

theorem lost_input_stops_witness:
  "\<exists>s'. on_timer race_world (manager5\<lparr>phase := ACTIVE\<rparr>) = Inr s' \<and> phase s' = FAULT"
proof -
  let ?s = "manager5\<lparr>phase := ACTIVE\<rparr>"
  obtain s' where s': "on_timer race_world ?s = Inr s'" using on_timer_total by blast
  have fields: "last_now manager5 = Fin 0" "raw_control manager5 = TimedInput_init"
    by (simp_all add: manager5_def)
  then have "\<not> clock_went_back race_world ?s" by (intro no_rollback) simp
  moreover have "\<not> driving_ok race_world i ?s" for i by (simp add: driving_ok_def fields)
  ultimately show ?thesis using lost_input_stops [of ?s race_world s'] s' by auto
qed

text \<open>
  C28: Every run of the timer of a reachable manager publishes exactly one set of messages, the last
  thing it does, and they tell the phase it ends in: the emergency stop exactly after a fault,
  control enabled exactly while armed and not yet finished, the gear PARK exactly when the vehicle
  is neither armed for driving nor moving.
\<close>

theorem timer_publishes:
  assumes "race_reachable w p s" "on_timer w s = Inr s'"
  shows "\<exists>m rest. effects s' = Sent m # rest \<and> (\<forall>x. Sent x \<in> set rest \<longrightarrow> Sent x \<in> set (effects s)) \<and>
     (pub_mrm_behavior m = MRM_EMERGENCY_STOP \<longleftrightarrow> phase s' = FAULT) \<and>
     (is_autoware_control_enabled (pub_operation m) \<longleftrightarrow>
        activation_armed s' \<and> phase s' \<in> {ARMING, ACTIVE, STOPPING}) \<and>
     (pub_gear m = OUT_PARK \<longleftrightarrow> phase s' \<notin> {ARMING, ACTIVE} \<and> \<not> moving s') \<and>
     report_state (pub_report m) = phase_name (phase s')"
proof -
  let ?u = "tick_start w s"
  obtain v where v: "race_tick w (clock_sec w (reads s)) ?u v"
      "on_timer w s = Inr (publish w (base_ok w (reads ?u) ?u) v)"
    by (rule on_timer_result [of w s])
  have s': "s' = publish w (base_ok w (reads ?u) ?u) v" using v(2) assms(2) by simp
  have "race_inv v" by (rule inv_tick [OF v(1) inv_tick_start [OF reachable_race_inv [OF assms(1)]]])
  then obtain m where m: "effects s' = Sent m # effects v" "published_of m v"
    using publish_published s' by blast
  have "\<forall>x. Sent x \<in> set (effects v) \<longrightarrow> Sent x \<in> set (effects ?u)"
    using v(1) by (cases rule: race_tick.cases) (auto simp: call_effects halt_requests_def split: if_splits)
  moreover have "published_of m s'" using m(2) s' by simp
  ultimately show ?thesis using m(1) by (auto simp: published_of_def)
qed

theorem timer_publishes_witness:
  "on_timer race_world manager4 = Inr manager5 \<and>
   (\<exists>m rest. effects manager5 = Sent m # rest \<and> pub_mrm_behavior m \<noteq> MRM_EMERGENCY_STOP \<and>
      report_state (pub_report m) = ''ARMING'')"
  using timer_publishes [OF manager_reachable(4), of manager5] manager_arms by auto

section \<open>Weaknesses\<close>

text \<open>
  The startup timeout counts from the launch, not from the request to start: a manager started later
  than that faults at the first run of the timer that finds an input missing.
\<close>

lemma late_start_faults:
  assumes "phase s = IDLE" "\<not> clock_went_back w s" "\<not> base_ok w (Suc (reads s)) s"
    and "startup_timeout_sec (race_params s) < clock_sec w (reads s) - start_sec s"
    and "handle_race w StartEv s = Inr s1" "on_timer w s1 = Inr s'"
  shows "phase s' = FAULT"
proof -
  have s1: "s1 = emit_effect (Answered True ''start accepted'') (s\<lparr>start_requested := True\<rparr>)"
    using assms(1,5) by (simp add: on_start_def answered_def)
  have fw: "\<not> clock_went_back w s1" using assms(2) by (simp add: s1 clock_went_back_def emit_effect_def)
  obtain v where v: "race_tick w (clock_sec w (reads s1)) (tick_start w s1) v"
      "on_timer w s1 = Inr (publish w (base_ok w (reads (tick_start w s1)) (tick_start w s1)) v)"
    by (rule on_timer_result [of w s1])
  let ?u = "tick_start w s1"
  have f: "phase ?u = IDLE" "start_requested ?u" "race_params ?u = race_params s" "start_sec ?u = start_sec s"
    "reads s1 = reads s"
    using assms(1) unfolding tick_start_forward [OF fw] by (simp_all add: s1 emit_effect_def)
  have lost: "\<not> base_ok w (reads ?u) ?u"
    using assms(3) unfolding tick_start_forward [OF fw] by (simp add: s1 emit_effect_def base_ok_def)
  have "phase v = FAULT"
    using v(1) by (cases rule: race_tick.cases) (use f lost assms(4) in simp_all)
  with v(2) assms(6) show ?thesis by auto
qed

text \<open>A stop accepted while arming does not keep the manager from asking for engagement.\<close>

lemma stop_does_not_disarm:
  assumes "engage_gate w (tick_start w s)" "\<not> engage_confirmed s" "\<not> clock_went_back w s"
    and "may_call w ENGAGE (s\<lparr>reads := reads s + 9\<rparr>)" "stop_requested s" "on_timer w s = Inr s'"
  shows "Called (requests_made s) (Set_engage True) \<in> set (effects s')"
proof -
  let ?u = "tick_start w s"
  obtain v where v: "race_tick w (clock_sec w (reads s)) ?u v"
      "on_timer w s = Inr (publish w (base_ok w (reads ?u) ?u) v)"
    by (rule on_timer_result [of w s])
  have may: "may_call w ENGAGE (?u\<lparr>reads := reads ?u + 8\<rparr>)"
    using assms(4) by (simp add: may_call_def tick_start_forward [OF assms(3)] add.commute)
  have "\<not> engage_confirmed ?u"
    using assms(2) by (simp add: engage_confirmed_def tick_start_forward [OF assms(3)])
  with v(1) assms(1) have "v = call_service w ENGAGE (Set_engage True) (?u\<lparr>reads := reads ?u + 8\<rparr>)"
    by (cases rule: race_tick.cases) (auto simp: engage_gate_def)
  with may have "Called (requests_made ?u) (Set_engage True) \<in> set (effects v)"
    by (simp add: call_effects)
  with v(2) assms(6) forward_ok(5) [OF assms(3)] show ?thesis by auto
qed

text \<open>A command to reverse counts as a stop command, and a speed that is no number as standing.\<close>

lemma reverse_is_stop:
  assumes "v \<le> 0" "a \<le> 0"
  shows "is_stop_command \<lparr>command_velocity = Fin v, command_acceleration = Fin a\<rparr>"
proof -
  have le: "Fin x \<le> d64 q" if q: "x \<le> 0" "0 \<le> q" "q \<le> 1" for x q
  proof -
    obtain e where "d64 q = Fin e" "0 \<le> e"
      by (rule d64_between [of 0 1 q]) (use q small_ints(1) in simp_all)
    with q(1) show ?thesis by simp
  qed
  show ?thesis using assms by (simp add: is_stop_command_def le)
qed

lemma no_number_is_not_moving: "message (velocity s) = Some NaN \<Longrightarrow> \<not> moving s \<and> \<not> standing s"
  by (simp add: moving_def standing_def speed_mps_def less_eq_fp_def fp_eq_def)

end
