(* ===== verification/Race_System.thy ===== *)
theory Race_System
  imports Hooke2_Node Rc_Node_Safety Rc_Node_Run Race_Run
begin

text \<open>
  The race runtime manager together with a vehicle interface: the manager's requests for a control
  mode reach the vehicle's service, its answers return as replies, at any time and in any order,
  and between them both nodes take any steps of their own. The locale \<open>mode_server\<close> states what
  the composition needs of a vehicle interface; both interfaces of the repository provide it.
\<close>

section \<open>The composition\<close>

text \<open>
  \<open>grants\<close> logs the accepted requests for autonomous mode with the states of the vehicle interface
  before and after; no step reads it.
\<close>

record 'v RaceSystem =
  manager :: RaceRuntime
  vehicle :: 'v
  replies :: "(nat \<times> bool) list"
  grants :: "(nat \<times> 'v \<times> 'v) list"

inductive system_step ::
  "RaceWorld \<Rightarrow> ('v \<Rightarrow> 'v \<Rightarrow> bool) \<Rightarrow> ('v \<Rightarrow> race_request \<Rightarrow> bool \<Rightarrow> 'v \<Rightarrow> bool) \<Rightarrow>
   'v RaceSystem \<Rightarrow> 'v RaceSystem \<Rightarrow> bool" for w own serve where
  manager_moves: "handle_race w e (manager y) = Inr m \<Longrightarrow>
    \<forall>n b. e \<noteq> ReplyEv CONTROL_MODE n (Some b) \<Longrightarrow> system_step w own serve y (y\<lparr>manager := m\<rparr>)"
| vehicle_moves: "own (vehicle y) v \<Longrightarrow> system_step w own serve y (y\<lparr>vehicle := v\<rparr>)"
| request_served: "Called n r \<in> set (effects (manager y)) \<Longrightarrow> r \<in> {Ask_autonomous, Ask_manual} \<Longrightarrow>
    serve (vehicle y) r ok v \<Longrightarrow>
    system_step w own serve y (y\<lparr>vehicle := v, replies := (n, ok) # replies y,
      grants := (if r = Ask_autonomous \<and> ok then (n, vehicle y, v) # grants y else grants y)\<rparr>)"
| reply_arrives: "(n, ok) \<in> set (replies y) \<Longrightarrow>
    handle_race w (ReplyEv CONTROL_MODE n (Some ok)) (manager y) = Inr m \<Longrightarrow>
    system_step w own serve y (y\<lparr>manager := m\<rparr>)"

inductive system_reachable ::
  "RaceWorld \<Rightarrow> RaceParams \<Rightarrow> ('v \<Rightarrow> 'v \<Rightarrow> bool) \<Rightarrow> ('v \<Rightarrow> race_request \<Rightarrow> bool \<Rightarrow> 'v \<Rightarrow> bool) \<Rightarrow>
   ('v \<Rightarrow> bool) \<Rightarrow> 'v RaceSystem \<Rightarrow> bool" for w p own serve init where
  start: "RaceRuntimeManager_new w p = Inr m \<Longrightarrow> init v \<Longrightarrow>
    system_reachable w p own serve init \<lparr>manager = m, vehicle = v, replies = [], grants = []\<rparr>"
| continue: "system_reachable w p own serve init y \<Longrightarrow> system_step w own serve y y' \<Longrightarrow>
    system_reachable w p own serve init y'"

section \<open>What the manager's steps do to its requests\<close>

lemma call_pending:
  assumes "pending (call_service w key request s) k = Some f" "future_result f = Done r"
  shows "pending s k = Some f"
  using assms by (cases rule: call_service_cases [of w key s request])
    (auto simp: issued_def split: if_splits)

lemma tick_pending:
  assumes "race_tick w t s v" "pending v k = Some f" "future_result f = Done r"
  shows "pending s k = Some f"
  using assms by (induction rule: race_tick.induct) (auto simp: halt_requests_def dest!: call_pending)

lemma tick_effects:
  assumes "race_tick w t s v" "x \<in> set (effects s)"
  shows "x \<in> set (effects v)"
  using assms by (induction rule: race_tick.induct) (auto simp: halt_requests_def call_effects)

lemma tick_start_pending: "pending (tick_start w s) k = Some f \<Longrightarrow> pending s k = Some f"
  by (cases "clock_went_back w s") (simp_all add: tick_start_back tick_start_forward)

lemma handle_effects:
  assumes "handle_race w e s = Inr s'" "Called n r \<in> set (effects s)"
  shows "Called n r \<in> set (effects s')"
proof (cases "e = TimerEv \<or> e = ResetEv")
  case False
  with handle_frame [OF assms(1)] assms(2) show ?thesis by blast
next
  case True
  then show ?thesis
  proof
    assume "e = TimerEv"
    moreover obtain v where "race_tick w (clock_sec w (reads s)) (tick_start w s) v"
      "on_timer w s = Inr (publish w (base_ok w (reads (tick_start w s)) (tick_start w s)) v)"
      by (rule on_timer_result [of w s])
    ultimately show ?thesis using assms tick_effects [of w _ "tick_start w s" v] by auto
  next
    assume "e = ResetEv"
    with assms show ?thesis
      by (cases rule: on_reset_cases [of s w]) (auto simp: answered_def emit_effect_def)
  qed
qed

lemma handle_accepted:
  assumes "handle_race w e s = Inr s'" "\<forall>n b. e \<noteq> ReplyEv CONTROL_MODE n (Some b)"
    and "pending s' CONTROL_MODE = Some f" "future_result f = Done (Some True)"
  shows "pending s CONTROL_MODE = Some f"
proof (cases "e = TimerEv \<or> e = ResetEv")
  case False
  with assms show ?thesis
    by (cases e) (auto simp: receive_def race_simps Let_def answered_def emit_effect_def on_start_def
        on_stop_def complete_future_def split: if_splits)
next
  case True
  then show ?thesis
  proof
    assume "e = TimerEv"
    moreover obtain v where v: "race_tick w (clock_sec w (reads s)) (tick_start w s) v"
      "on_timer w s = Inr (publish w (base_ok w (reads (tick_start w s)) (tick_start w s)) v)"
      by (rule on_timer_result [of w s])
    ultimately have "pending v CONTROL_MODE = Some f" using assms(1,3) by auto
    then show ?thesis using tick_pending [OF v(1) _ assms(4)] tick_start_pending by blast
  next
    assume "e = ResetEv"
    with assms show ?thesis
      by (cases rule: on_reset_cases [of s w]) (auto simp: answered_def emit_effect_def)
  qed
qed

lemma reply_pending:
  assumes "handle_race w (ReplyEv CONTROL_MODE n (Some ok)) s = Inr s'"
    and "pending s' CONTROL_MODE = Some f" "future_result f = Done (Some True)"
  shows "pending s CONTROL_MODE = Some f \<or>
    ok \<and> future_id f = n \<and> (\<exists>g. pending s CONTROL_MODE = Some g \<and> future_id g = n \<and>
      future_request g = future_request f)"
  using assms by (auto simp: complete_future_def split: if_splits)

section \<open>What the composition needs of a vehicle interface\<close>

text \<open>
  \<open>valid\<close> holds of the states of the interface, and an accepted request for autonomous mode takes
  a state to another as \<open>granted\<close> says.
\<close>

locale mode_server =
  fixes own :: "'v \<Rightarrow> 'v \<Rightarrow> bool"
    and serve :: "'v \<Rightarrow> race_request \<Rightarrow> bool \<Rightarrow> 'v \<Rightarrow> bool"
    and init :: "'v \<Rightarrow> bool"
    and valid :: "'v \<Rightarrow> bool"
    and granted :: "'v \<Rightarrow> 'v \<Rightarrow> bool"
  assumes valid_init: "init v \<Longrightarrow> valid v"
    and valid_own: "valid v \<Longrightarrow> own v v' \<Longrightarrow> valid v'"
    and valid_serve: "valid v \<Longrightarrow> r \<in> {Ask_autonomous, Ask_manual} \<Longrightarrow> serve v r ok v' \<Longrightarrow> valid v'"
    and grant: "valid v \<Longrightarrow> serve v Ask_autonomous True v' \<Longrightarrow> granted v v'"
begin

definition system_inv :: "'v RaceSystem \<Rightarrow> bool" where
  "system_inv y \<longleftrightarrow>
     race_inv (manager y) \<and> valid (vehicle y) \<and>
     (\<forall>n. (n, True) \<in> set (replies y) \<longrightarrow> Called n Ask_autonomous \<in> set (effects (manager y)) \<longrightarrow>
        (\<exists>v v'. (n, v, v') \<in> set (grants y))) \<and>
     (\<forall>n b. (n, b) \<in> set (replies y) \<longrightarrow> (\<exists>r. Called n r \<in> set (effects (manager y)))) \<and>
     (\<forall>f. pending (manager y) CONTROL_MODE = Some f \<longrightarrow> future_request f = Ask_autonomous \<longrightarrow>
        future_result f = Done (Some True) \<longrightarrow> (\<exists>v v'. (future_id f, v, v') \<in> set (grants y))) \<and>
     (\<forall>n v v'. (n, v, v') \<in> set (grants y) \<longrightarrow> valid v \<and> granted v v')"

lemma inv_start:
  assumes "RaceRuntimeManager_new w p = Inr m" "init v"
  shows "system_inv \<lparr>manager = m, vehicle = v, replies = [], grants = []\<rparr>"
proof -
  have "pending m CONTROL_MODE = None"
    using assms(1) by (auto simp: RaceRuntimeManager_new_def Let_def split: if_splits)
  then show ?thesis
    using race_inv_new [OF assms(1)] valid_init [OF assms(2)] by (simp add: system_inv_def)
qed

lemma inv_manager:
  assumes "system_inv y" "handle_race w e (manager y) = Inr m"
    and "\<And>f. pending m CONTROL_MODE = Some f \<Longrightarrow> future_request f = Ask_autonomous \<Longrightarrow>
      future_result f = Done (Some True) \<Longrightarrow> \<exists>v v'. (future_id f, v, v') \<in> set (grants y)"
  shows "system_inv (y\<lparr>manager := m\<rparr>)"
proof -
  have inv: "race_inv m" using inv_handle [OF assms(2)] assms(1) by (simp add: system_inv_def)
  have mono: "Called n r \<in> set (effects m)" if "Called n r \<in> set (effects (manager y))" for n r
    using handle_effects [OF assms(2) that] .
  have old: "Called n Ask_autonomous \<in> set (effects (manager y))"
    if "(n, b) \<in> set (replies y)" "Called n Ask_autonomous \<in> set (effects m)" for n b
  proof -
    from assms(1) that(1) obtain r where r: "Called n r \<in> set (effects (manager y))"
      unfolding system_inv_def by blast
    with mono inv that(2) have "r = Ask_autonomous" unfolding race_inv_def by blast
    with r show ?thesis by simp
  qed
  show ?thesis using assms(1,3) inv mono old unfolding system_inv_def by simp blast
qed

lemma inv_step:
  assumes "system_step w own serve y y'" "system_inv y"
  shows "system_inv y'"
  using assms(1)
proof cases
  case (manager_moves e m)
  have "\<exists>v v'. (future_id f, v, v') \<in> set (grants y)"
    if "pending m CONTROL_MODE = Some f" "future_request f = Ask_autonomous"
      "future_result f = Done (Some True)" for f
    using handle_accepted [OF manager_moves(2,3) that(1,3)] that assms(2)
    unfolding system_inv_def by blast
  with manager_moves inv_manager [OF assms(2) manager_moves(2)] show ?thesis by blast
next
  case (vehicle_moves v)
  have "valid v"
    by (rule valid_own [OF _ vehicle_moves(2)]) (use assms(2) in \<open>simp add: system_inv_def\<close>)
  with assms(2) vehicle_moves(1) show ?thesis by (simp add: system_inv_def)
next
  case (request_served n r ok v)
  have m: "race_inv (manager y)" and v: "valid (vehicle y)"
    using assms(2) by (simp_all add: system_inv_def)
  have only: "r' = r" if "Called n r' \<in> set (effects (manager y))" for r'
    using m that request_served(2) unfolding race_inv_def by blast
  have ok: "valid v" by (rule valid_serve [OF v request_served(3,4)])
  show ?thesis
  proof (cases "r = Ask_autonomous \<and> ok")
    case True
    then have g: "granted (vehicle y) v" using grant [OF v] request_served(4) by simp
    from True request_served(1) have y': "y' = y\<lparr>vehicle := v, replies := (n, True) # replies y,
        grants := (n, vehicle y, v) # grants y\<rparr>" by simp
    show ?thesis
      using assms(2) g v ok request_served(2) unfolding system_inv_def y' by simp blast
  next
    case False
    with request_served(1) have y': "y' = y\<lparr>vehicle := v, replies := (n, ok) # replies y\<rparr>"
      by (cases y) auto
    have "ok \<longrightarrow> Called n Ask_autonomous \<notin> set (effects (manager y))" using only False by blast
    then show ?thesis
      using assms(2) ok request_served(2) unfolding system_inv_def y' by simp blast
  qed
next
  case (reply_arrives n ok m)
  have "\<exists>v v'. (future_id f, v, v') \<in> set (grants y)"
    if f: "pending m CONTROL_MODE = Some f" "future_request f = Ask_autonomous"
      "future_result f = Done (Some True)" for f
  proof -
    from reply_pending [OF reply_arrives(3) f(1,3)] show ?thesis
    proof
      assume "pending (manager y) CONTROL_MODE = Some f"
      with f assms(2) show ?thesis unfolding system_inv_def by blast
    next
      assume *: "ok \<and> future_id f = n \<and> (\<exists>g. pending (manager y) CONTROL_MODE = Some g \<and>
        future_id g = n \<and> future_request g = future_request f)"
      then have "Called n Ask_autonomous \<in> set (effects (manager y))"
        using assms(2) f(2) unfolding system_inv_def race_inv_def by metis
      moreover have "(n, True) \<in> set (replies y)" using * reply_arrives(2) by simp
      ultimately have "\<exists>v v'. (n, v, v') \<in> set (grants y)"
        using assms(2) unfolding system_inv_def by blast
      with * show ?thesis by simp
    qed
  qed
  with reply_arrives inv_manager [OF assms(2) reply_arrives(3)] show ?thesis by blast
qed

lemma reachable_system_inv: "system_reachable w p own serve init y \<Longrightarrow> system_inv y"
  by (induction rule: system_reachable.induct) (auto intro: inv_start inv_step)

lemma arming_granted:
  assumes "system_reachable w p own serve init y" "phase (manager y) \<in> {ARMING, ACTIVE}"
  shows "valid (vehicle y) \<and> (\<exists>n v v'. (n, v, v') \<in> set (grants y) \<and>
     Called n Ask_autonomous \<in> set (effects (manager y)) \<and> valid v \<and> granted v v')"
proof -
  have inv: "system_inv y" by (rule reachable_system_inv [OF assms(1)])
  then have m: "race_inv (manager y)" by (simp add: system_inv_def)
  obtain f where f: "pending (manager y) CONTROL_MODE = Some f" "future_request f = Ask_autonomous"
    "future_result f = Done (Some True)" "Called (future_id f) Ask_autonomous \<in> set (effects (manager y))"
    by (rule accepted_pending [OF m assms(2)])
  with inv show ?thesis unfolding system_inv_def by blast
qed

end

section \<open>The two vehicle interfaces\<close>

fun rc_request :: "race_request \<Rightarrow> mode_request" where
  "rc_request Ask_autonomous = MR_AUTONOMOUS"
| "rc_request _ = MR_MANUAL"

text \<open>The RC node: its own steps are those of its executor; it offers the service unless it only listens.\<close>

definition rc_moves :: "World \<Rightarrow> RcNode \<Rightarrow> RcNode \<Rightarrow> bool" where
  "rc_moves w v v' \<longleftrightarrow> (\<exists>e. rc_step w v e v')"

definition rc_serves :: "World \<Rightarrow> RcNode \<Rightarrow> race_request \<Rightarrow> bool \<Rightarrow> RcNode \<Rightarrow> bool" where
  "rc_serves w v r ok v' \<longleftrightarrow>
     \<not> is_telemetry_only v \<and> on_control_mode_request w (rc_request r) v = Some (ok, v')"

definition rc_starts :: "World \<Rightarrow> NodeParams \<Rightarrow> RcNode \<Rightarrow> bool" where
  "rc_starts w q v \<longleftrightarrow> RcVehicleInterfaceNode_new w q = Inr v"

lemma rc_grant:
  assumes "on_control_mode_request w MR_AUTONOMOUS v = Some (True, v')"
  shows "authorised w v \<and> autonomous_requested v' \<and> \<not> safety_stop_latched v'"
  using assms
  by (auto simp: on_control_mode_request_def Let_def handler_defs authorised_def accept_autonomous_def
      reset_hall_def reset_fault_clear_handshake_def has_live_chassis_fault_def status_has_masks
      split: if_splits)

interpretation rc_modes: mode_server "rc_moves wv" "rc_serves wv" "rc_starts wv q" "rc_reachable wv q"
  "\<lambda>v v'. authorised wv v \<and> autonomous_requested v' \<and> \<not> safety_stop_latched v'" for wv q
proof unfold_locales
  show "rc_reachable wv q v" if "rc_starts wv q v" for v
    using that by (auto simp: rc_starts_def intro: rc_reachable.start)
  show "rc_reachable wv q v'" if "rc_reachable wv q v" "rc_moves wv v v'" for v v'
    using that by (auto simp: rc_moves_def intro: rc_reachable.continue)
  show "rc_reachable wv q v'"
    if "rc_reachable wv q v" "r \<in> {Ask_autonomous, Ask_manual}" "rc_serves wv v r ok v'" for v r ok v'
    using that rc_step.step [of "EvMode (rc_request r)" v wv v']
    by (auto simp: rc_serves_def intro: rc_reachable.continue)
  show "authorised wv v \<and> autonomous_requested v' \<and> \<not> safety_stop_latched v'"
    if "rc_reachable wv q v" "rc_serves wv v Ask_autonomous True v'" for v v'
    using that rc_grant [of wv v v'] by (simp add: rc_serves_def)
qed

text \<open>Hooke2Interface with its thread: every request is accepted and engages.\<close>

fun hooke_request :: "race_request \<Rightarrow> control_mode_request" where
  "hooke_request Ask_autonomous = Mode_AUTONOMOUS"
| "hooke_request _ = Mode_MANUAL"

definition hooke_moves :: "HookeWorld \<Rightarrow> HookeSystem \<Rightarrow> HookeSystem \<Rightarrow> bool" where
  "hooke_moves w y y' \<longleftrightarrow> (\<exists>ev. handle_hooke w ev y = Some y')"

definition hooke_serves :: "HookeSystem \<Rightarrow> race_request \<Rightarrow> bool \<Rightarrow> HookeSystem \<Rightarrow> bool" where
  "hooke_serves y r ok y' \<longleftrightarrow>
     (\<exists>s. onControlModeRequest (hooke_request r) (node y) = (ok, s) \<and> y' = y\<lparr>node := s\<rparr>)"

interpretation hooke_modes: mode_server "hooke_moves wv" hooke_serves
  "\<lambda>y. y = HookeSystem_new wv q" "hooke_reachable wv q" "\<lambda>y y'. engage_cmd (node y')" for wv q
proof unfold_locales
  show "hooke_reachable wv q y" if "y = HookeSystem_new wv q" for y
    using that by (simp add: hooke_start)
  show "hooke_reachable wv q y'" if "hooke_reachable wv q y" "hooke_moves wv y y'" for y y'
    using that by (auto simp: hooke_moves_def intro: hooke_step)
  show "hooke_reachable wv q y'"
    if "hooke_reachable wv q y" "r \<in> {Ask_autonomous, Ask_manual}" "hooke_serves y r ok y'" for y r ok y'
    using that hooke_step [of wv q y "Mode_requested (hooke_request r)" y']
    by (auto simp: hooke_serves_def handle_hooke_def)
  show "engage_cmd (node y')" if "hooke_reachable wv q y" "hooke_serves y Ask_autonomous True y'" for y y'
    using that by (auto simp: hooke_serves_def)
qed

section \<open>Authority in the whole system\<close>

text \<open>
  C3: In every interleaving of the race runtime manager with the RC node: when the manager is arming
  or active, the RC node has accepted a request for autonomous mode that this manager made, in a
  reachable state in which the link was open, feedback had been received, the emergency status was
  fresh and clear and no live fault stood; the acceptance gave the authority and released the safety
  stop. The RC node itself is in one of its reachable states, so all that is proved of those holds.
\<close>

theorem rc_arming_authorised:
  assumes "system_reachable w p (rc_moves wv) (rc_serves wv) (rc_starts wv q) y"
    and "phase (manager y) \<in> {ARMING, ACTIVE}"
  shows "rc_reachable wv q (vehicle y) \<and> (\<exists>n v v'. (n, v, v') \<in> set (grants y) \<and>
     Called n Ask_autonomous \<in> set (effects (manager y)) \<and> rc_reachable wv q v \<and>
     authorised wv v \<and> autonomous_requested v' \<and> \<not> safety_stop_latched v')"
  by (rule rc_modes.arming_granted [OF assms])

lemma system_manager_run:
  "system_reachable w p own serve init y \<Longrightarrow> race_run w es (manager y) = Inr m \<Longrightarrow>
     (\<forall>e\<in>set es. \<forall>k n r. e \<noteq> ReplyEv k n r) \<Longrightarrow> system_reachable w p own serve init (y\<lparr>manager := m\<rparr>)"
proof (induction es arbitrary: y)
  case (Cons e es)
  from Cons.prems(2) obtain m' where m': "handle_race w e (manager y) = Inr m'" "race_run w es m' = Inr m"
    by (auto split: sum.splits)
  have "system_step w own serve y (y\<lparr>manager := m'\<rparr>)"
    by (rule system_step.manager_moves [OF m'(1)]) (use Cons.prems(3) in auto)
  then have "system_reachable w p own serve init (y\<lparr>manager := m'\<rparr>)"
    by (rule system_reachable.continue [OF Cons.prems(1)])
  from Cons.IH [OF this] m'(2) Cons.prems(3) show ?case by simp
next
  case Nil
  then show ?case by (cases y) simp
qed

lemma system_moves:
  "system_reachable w p own serve init y \<Longrightarrow> own (vehicle y) v \<Longrightarrow>
     system_reachable w p own serve init (y\<lparr>vehicle := v\<rparr>)"
  by (rule system_reachable.continue [OF _ system_step.vehicle_moves])

definition demo_system :: "RcNode RaceSystem" where
  "demo_system = \<lparr>manager = manager5, vehicle = demo3, replies = [(0, True)], grants = [(0, demo2, demo3)]\<rparr>"

lemma demo_system_reachable:
  "system_reachable race_world race_demo_params (rc_moves demo_world) (rc_serves demo_world)
     (rc_starts demo_world demo_params) demo_system"
proof -
  let ?reach = "system_reachable race_world race_demo_params (rc_moves demo_world) (rc_serves demo_world)
     (rc_starts demo_world demo_params)"
  have "?reach \<lparr>manager = manager0, vehicle = demo0, replies = [], grants = []\<rparr>"
    by (rule system_reachable.start [OF manager_start]) (simp add: rc_starts_def demo_start)
  from system_manager_run [OF this, of "demo_events @ [TimerEv, TimerEv]" manager3]
  have "?reach \<lparr>manager = manager3, vehicle = demo0, replies = [], grants = []\<rparr>"
    using manager_inputs manager_ready manager_asks
    by (simp add: run_append) (auto simp: demo_events_def)
  from system_moves [OF this, of demo1]
  have "?reach \<lparr>manager = manager3, vehicle = demo1, replies = [], grants = []\<rparr>"
    using demo_step1 by (force simp: rc_moves_def intro: rc_step.step [of EvTimer])
  from system_moves [OF this, of demo2]
  have y2: "?reach \<lparr>manager = manager3, vehicle = demo2, replies = [], grants = []\<rparr>"
    using demo_step2 by (force simp: rc_moves_def demo_tel intro: rc_step.step [of "EvEmergency False"])
  have "rc_serves demo_world demo2 Ask_autonomous True demo3"
    using demo_step3 by (simp add: rc_serves_def demo_tel)
  from system_step.request_served [of 0 Ask_autonomous "\<lparr>manager = manager3, vehicle = demo2, replies = [],
      grants = []\<rparr>" "rc_serves demo_world" True demo3 race_world "rc_moves demo_world"] this
  have y3: "?reach \<lparr>manager = manager3, vehicle = demo3, replies = [(0, True)], grants = [(0, demo2, demo3)]\<rparr>"
    using system_reachable.continue [OF y2] manager_effects(2) by simp
  from system_step.reply_arrives [of 0 True "\<lparr>manager = manager3, vehicle = demo3, replies = [(0, True)],
      grants = [(0, demo2, demo3)]\<rparr>" race_world manager4 "rc_moves demo_world" "rc_serves demo_world"]
  have "?reach \<lparr>manager = manager4, vehicle = demo3, replies = [(0, True)], grants = [(0, demo2, demo3)]\<rparr>"
    using system_reachable.continue [OF y3] manager_replied by simp
  from system_manager_run [OF this, of "[TimerEv]" manager5] manager_arms
  show ?thesis by (simp add: demo_system_def)
qed

theorem rc_arming_authorised_witness:
  "phase (manager demo_system) = ARMING \<and> rc_reachable demo_world demo_params demo3 \<and>
   (\<exists>n v v'. (n, v, v') \<in> set (grants demo_system) \<and> authorised demo_world v \<and> autonomous_requested v')"
  using rc_arming_authorised [OF demo_system_reachable] by (auto simp: demo_system_def)

text \<open>With Hooke2Interface the acceptance says no more than that the node is engaged after it.\<close>

lemma hooke_arming_engaged:
  assumes "system_reachable w p (hooke_moves wv) hooke_serves (\<lambda>y. y = HookeSystem_new wv q) y"
    and "phase (manager y) \<in> {ARMING, ACTIVE}"
  shows "hooke_reachable wv q (vehicle y) \<and> (\<exists>n v v'. (n, v, v') \<in> set (grants y) \<and>
     Called n Ask_autonomous \<in> set (effects (manager y)) \<and> engage_cmd (node v'))"
  using hooke_modes.arming_granted [OF assms] by blast

end
