(* ===== verification/Spec2Isabelle.thy ===== *)
theory Spec2Isabelle
  imports Rc_Serial_Protocol Rc_Vehicle_State Rc_Kinematics Rc_Node_Properties Rc_Pointcloud Rc_Imu
    Hooke2_Wire Hooke2_Monitoring Can_Socket Can_Cards Message_Manager Param_Monitor Race_Properties Race_System
begin

text \<open>
  A verification development for the autoracer stack: its C++ platform layer, the code between
  Autoware's ROS topics and the two vehicles under \<open>src/src/platform\<close>, and the race runtime manager
  above it, \<open>src/src/core/autoracer_safety\<close>, which decides when a vehicle may drive.

  \<^bold>\<open>The program.\<close> Two platforms take the same Autoware commands. The \<^emph>\<open>RC chassis\<close>
  (\<open>rc/autoracer_rc_adapter\<close>) is driven over a serial line: \<open>rc_vehicle_interface_node.cpp\<close> checks authority,
  emergency status, command age and link, turns a Control message into a set point
  (\<open>rc_vehicle_kinematics.cpp\<close>), encodes it (\<open>rc_serial_protocol.cpp\<close>), decodes the telemetry stream and judges it
  (\<open>rc_vehicle_state.cpp\<close>). Two small nodes repair sensor topics: \<open>c32_pointcloud_adapter.cpp\<close> and
  \<open>imu_qos_adapter_node.cpp\<close>. The \<^emph>\<open>Hooke2 chassis\<close> (\<open>hooke2\<close>) is driven over CAN: \<open>hooke2_interface.cpp\<close> turns
  commands into frames \<open>0x100\<close> to \<open>0x105\<close> through the command classes (\<open>src/common\<close>, on \<open>wd_byte\<close>), reads the report
  frames \<open>0x500\<close> to \<open>0x516\<close>, and exchanges frames over topics with the CAN driver node (\<open>can_driver\<close>), which talks
  to one of four cards; \<open>hooke2_diag_publisher.cpp\<close> diagnoses the reports and \<open>param_monitor.hpp\<close> draws them. Above
  either platform the \<^emph>\<open>race runtime manager\<close> (\<open>race_runtime_manager.py\<close>, \<open>race_contract.py\<close>) supervises the
  inputs of the stack, asks the vehicle interface for autonomous mode through its service, asks Autoware's command
  gate for engagement, and publishes operation mode, gear and emergency state.

  \<^bold>\<open>Conventions.\<close> Machine integers are words of their width, or integers where the source cannot wrap;
  \<open>float\<close> and \<open>double\<close> are the values of \<^theory_text>\<open>Binary_Float\<close>, rounded operator by operator. A class is a
  record of its members, an exception is \<open>Inl\<close>, undefined behaviour (a null pointer, an access outside of an
  array, a conversion out of range) is \<open>None\<close>. What the code asks of the kernel, the clocks or a vendor's library is a
  parameter: \<open>World\<close> for the RC node, \<open>HookeWorld\<close> for the Hooke2 node, \<open>SocketOps\<close>, \<open>KvaserOps\<close>,
  \<open>EsdOps\<close> and \<open>EmucOps\<close> for the cards, \<open>RaceWorld\<close> for the runtime manager (Python's \<open>float\<close> is a
  \<open>double\<close>, its \<open>None\<close> an option, a future is known by the number of its request). The executor runs one callback at a time; threads run beside it.
\<close>

text \<open>
  \<^bold>\<open>Theories and what they show.\<close>

  \<^item> \<^theory_text>\<open>Prelude\<close>, \<^theory_text>\<open>Binary_Float\<close>: widths, selection functions of the standard library, IEEE 754 values
    with the laws of rounding.
  \<^item> \<^theory_text>\<open>Rc_Serial_Protocol\<close> (\<open>rc_serial_protocol.cpp\<close>): \<open>encode_command_frame\<close>, \<open>decode_feedback_frame\<close>, and the
    stream decoder \<open>decoder_append\<close>. Round trips, detection of any changed byte, independence of how the stream is
    cut, delivery of every frame between noise.
  \<^item> \<^theory_text>\<open>Rc_Vehicle_State\<close> (\<open>rc_vehicle_state.cpp\<close>): the predicates on the status bits, the emergency monitor, and the
    Hall feedback monitor, which refines a machine of four phases.
  \<^item> \<^theory_text>\<open>Rc_Kinematics\<close> (\<open>rc_vehicle_kinematics.cpp\<close>): \<open>control_to_chassis_motion\<close> against its exact reference.
  \<^item> \<^theory_text>\<open>Rc_Node\<close>, \<^theory_text>\<open>Rc_Node_Run\<close>, \<^theory_text>\<open>Rc_Node_Safety\<close>, \<^theory_text>\<open>Rc_Node_Liveness\<close>, \<^theory_text>\<open>Rc_Node_Properties\<close>
    (\<open>rc_vehicle_interface_node.cpp\<close>): every handler, the step relation of the executor, and over all reachable states and
    worlds what stands on the serial line, how authority is gained and lost, that an emergency and the
    shutdown leave a stop on the line, and that the handlers return.
  \<^item> \<^theory_text>\<open>Rc_Pointcloud\<close> (\<open>c32_pointcloud_adapter.cpp\<close>): sizes and offsets at their widths on a byte memory; the
    conversion equals its reference and never leaves the memory, and the reason of each of its eight exceptions.
  \<^item> \<^theory_text>\<open>Rc_Imu\<close> (\<open>imu_qos_adapter_node.cpp\<close>): the normalised covariance.
  \<^item> \<^theory_text>\<open>Wd_Byte\<close> (\<open>wd_byte/byte.cpp\<close>): bit fields of a byte.
  \<^item> \<^theory_text>\<open>Can_Protocol\<close>, \<^theory_text>\<open>Can_Frames\<close> (\<open>src/common\<close>): the six command classes and every field of their frames.
  \<^item> \<^theory_text>\<open>Can_Reports\<close>, \<^theory_text>\<open>Can_Report_Facts\<close> (the parsers in \<open>hooke2_interface.cpp\<close>): the report messages, signed and
    scaled signals.
  \<^item> \<^theory_text>\<open>Hooke2_State\<close>, \<^theory_text>\<open>Hooke2_Commands\<close>, \<^theory_text>\<open>Hooke2_Can\<close>, \<^theory_text>\<open>Hooke2_Feedback\<close>, \<^theory_text>\<open>Hooke2_Node\<close>
    (\<open>hooke2_interface.cpp\<close>): state, command timer, frames, thread, report callback, events. \<^theory_text>\<open>Hooke2_Invariant\<close>,
    \<^theory_text>\<open>Hooke2_Safety\<close>, \<^theory_text>\<open>Hooke2_Effects\<close>, \<^theory_text>\<open>Hooke2_Properties\<close>, \<^theory_text>\<open>Hooke2_Wire\<close>: the invariant of the
    reachable states under messages with any values, the exact cases of undefined behaviour, when engagement changes, what
    an emergency or a disabled mode puts on the wire.
  \<^item> \<^theory_text>\<open>Hooke2_Diag\<close> (\<open>hooke2_diag_publisher.cpp\<close>): the two diagnoses; \<^theory_text>\<open>Hooke2_Monitoring\<close>: the diagnoses of what
    \<open>Hooke2Interface\<close> publishes in its reachable states.
  \<^item> \<^theory_text>\<open>Can_Client\<close> (\<open>can_driver.cpp\<close>, \<open>can_client.hpp\<close>): the driver over any client; \<^theory_text>\<open>Can_Socket\<close>,
    \<^theory_text>\<open>Can_Cards\<close>: the four clients, every array access checked. Delivery of frames between two drivers over raw
    sockets that block, filter and may fail, and the bounds of the arrays for any number of frames.
  \<^item> \<^theory_text>\<open>Message_Manager\<close> (\<open>message_manager.hpp\<close>): registry and period supervision, which the node does not use.
  \<^item> \<^theory_text>\<open>Param_Monitor\<close> (\<open>param_monitor.hpp\<close>): the interleaving of updates and the refresh thread.
  \<^item> \<^theory_text>\<open>Race_Contract\<close> (\<open>race_contract.py\<close>): the timed inputs, and the age of a fresh one over the reals.
  \<^item> \<^theory_text>\<open>Race_Runtime\<close> (\<open>race_runtime_manager.py\<close>): state, services, supervision, timer, publication, events.
    \<^theory_text>\<open>Race_Facts\<close> states the timer as a list of guarded transitions (\<open>race_tick\<close>) and shows that the code follows
    it without an exception; \<^theory_text>\<open>Race_Invariant\<close>, \<^theory_text>\<open>Race_Steps\<close> and \<^theory_text>\<open>Race_Properties\<close>: the invariant of the
    reachable states, the gate of every request, the latch of a fault, what the loss of an input does, what is
    published, and when requests are lost or blocked. \<^theory_text>\<open>Race_Run\<close> is a computed run.
  \<^item> \<^theory_text>\<open>Race_System\<close>: the manager composed with a vehicle interface over the mode service, in every interleaving;
    with the RC node, arming implies a request that the node accepted in an authorised state.
\<close>

text \<open>
  \<^bold>\<open>Interfaces.\<close> \<open>bit_field\<close>, \<open>disjoint_fields\<close>, \<open>byte_run\<close> and \<open>byte_runs\<close> (\<^theory_text>\<open>Wd_Byte\<close>) state what the frame classes need of a
  field of a byte; \<open>command_frame\<close> (\<^theory_text>\<open>Hooke2_Safety\<close>) what the node needs of a command class; \<open>stream_decoder\<close>
  (\<^theory_text>\<open>Rc_Serial_Protocol\<close>) what a reader needs of a decoder; \<open>can_client\<close> (\<^theory_text>\<open>Can_Client\<close>) what the driver needs of
  a card; \<open>mode_server\<close> (\<^theory_text>\<open>Race_System\<close>) what the runtime manager needs of a vehicle interface, provided by
  the RC node and by Hooke2Interface. Each is interpreted on the definitions of the code that provides it.

  \<^bold>\<open>Loops.\<close> The write and read loops of the RC node are partial functions into \<open>option\<close>, and they are shown to
  return in every fair world: the clock passes every deadline, infinitely often a write is not interrupted by a signal and
  infinitely often a read finds the port drained, while the telemetry may go on for ever (the read loop has no bound of
  its own and does not end on a port that always has data). \<open>check_response_loop\<close> has the bound of the code, 50 tries, and the Innodisk
  \<open>recv\<close> that of its counter, 9999 passes. The receiving thread of the driver consumes the list of the values of
  its condition, so a run of any length is a list. All other loops recurse over their data.

  \<^bold>\<open>Not modelled.\<close> Log output, quality-of-service settings, message headers where no code reads them, the
  message-filter synchronisers (their callbacks take any reports) and the diagnostic updater; the thread \<open>enableAutoMode\<close>
  interleaves in whole passes; the destructor's join in \<open>can_driver.cpp\<close>. The vendored headers of the card makers are
  declarations (their constants are used where the code uses them). The Python nodes for planning and
  sensing, the launch files and the scripts are left out: they compute trajectories and convert messages by libraries, and
  do not command a vehicle. Autoware's command gate, which stands between the manager's engagement request and the vehicle, is not part of the
  repository: its reports arrive as events of any content. The manager's message setters accept every number. The sign of a floating-point zero is not
  kept, and memory is never exhausted.
\<close>

end
